(* ===== verification/Prelude.thy ===== *)
theory Prelude
  imports Main "HOL-Library.Word"
begin

text \<open>
  What every other theory of the development shares: the machine integers of the Rust
  sources, results in the style of Rust's \<open>Result\<close>, checked addition, and the
  collections of facts the component proofs rest on.

  \<^item> \<open>guards\<close>: the definitions of checks (the \<open>require\<close>s of the sources);
  \<^item> \<open>frames\<close>: facts saying what an operation leaves alone.
\<close>

named_theorems guards \<open>definitions of the checks the handlers make\<close>
named_theorems frames \<open>fields and entries an operation leaves alone\<close>

section \<open>Machine integers\<close>

type_synonym u8 = "8 word"
type_synonym u16 = "16 word"
type_synonym u32 = "32 word"
type_synonym u64 = "64 word"

text \<open>Rust's \<open>checked_add\<close>: \<open>None\<close> when the sum does not fit the width.\<close>

definition checked_add :: "'a::len word \<Rightarrow> 'a word \<Rightarrow> 'a word option" where
  "checked_add a b = (if unat a + unat b < 2 ^ LENGTH('a) then Some (a + b) else None)"

lemma checked_add_Some:
  fixes a :: "'a::len word"
  assumes "checked_add a b = Some c"
  shows "unat c = unat a + unat b" and "c = a + b"
  using assms by (auto simp: checked_add_def unat_word_ariths split: if_splits)

lemma checked_add_code [code]:
  fixes a :: "'a::len word"
  shows "checked_add a b = (if uint a + uint b < 2 ^ LENGTH('a) then Some (a + b) else None)"
proof -
  have "unat a + unat b < 2 ^ LENGTH('a) \<longleftrightarrow> int (unat a + unat b) < int (2 ^ LENGTH('a))"
    by (simp only: of_nat_less_iff)
  then show ?thesis by (simp add: checked_add_def)
qed

lemma checked_add_None_iff:
  fixes a :: "'a::len word"
  shows "checked_add a b = None \<longleftrightarrow> 2 ^ LENGTH('a) \<le> unat a + unat b"
  by (auto simp: checked_add_def)

lemma checked_add_one_Some:
  fixes a :: u64
  assumes "unat a + 1 < 2 ^ 64"
  shows "checked_add a 1 = Some (a + 1)"
  using assms by (simp add: checked_add_def)

lemma unat_bound: "unat (a :: 'a::len word) < 2 ^ LENGTH('a)"
  by (rule unsigned_less)

lemma unat_u64_bound: "unat (a :: u64) < 2 ^ 64"
  using unat_bound [of a] by simp

lemma unat_u16_bound: "unat (a :: u16) < 2 ^ 16"
  using unat_bound [of a] by simp

section \<open>Results\<close>

text \<open>
  A fallible Rust function returns \<open>Result<T, E>\<close>; here it is a value of \<open>'e + 'a\<close>, read
  with the constructors' Rust names.
\<close>

type_synonym ('a, 'e) result = "'e + 'a"

abbreviation Ok :: "'a \<Rightarrow> ('a, 'e) result" where
  "Ok \<equiv> Inr"

abbreviation Err :: "'e \<Rightarrow> ('a, 'e) result" where
  "Err \<equiv> Inl"

text \<open>\<open>and_then\<close> is the \<open>?\<close> operator: an error is returned, a value is passed on.\<close>

definition and_then :: "('a, 'e) result \<Rightarrow> ('a \<Rightarrow> ('b, 'e) result) \<Rightarrow> ('b, 'e) result" where
  "and_then m f = (case m of Err e \<Rightarrow> Err e | Ok x \<Rightarrow> f x)"

text \<open>In code, the continuation is a branch: it is evaluated when it is reached.\<close>

declare and_then_def [code_unfold]

definition map_err :: "('e \<Rightarrow> 'f) \<Rightarrow> ('a, 'e) result \<Rightarrow> ('a, 'f) result" where
  "map_err g m = (case m of Err e \<Rightarrow> Err (g e) | Ok x \<Rightarrow> Ok x)"

definition ok_or :: "'a option \<Rightarrow> 'e \<Rightarrow> ('a, 'e) result" where
  "ok_or x e = (case x of None \<Rightarrow> Err e | Some v \<Rightarrow> Ok v)"

definition is_ok :: "('a, 'e) result \<Rightarrow> bool" where
  "is_ok m = (case m of Err _ \<Rightarrow> False | Ok _ \<Rightarrow> True)"

lemma is_ok_simps [simp]: "is_ok (Ok x)" "\<not> is_ok (Err e)"
  by (simp_all add: is_ok_def)

lemma is_ok_iff: "is_ok m \<longleftrightarrow> (\<exists>x. m = Ok x)"
  by (auto simp: is_ok_def split: sum.splits)

lemma and_then_simps [simp]:
  "and_then (Ok x) f = f x"
  "and_then (Err e) f = Err e"
  by (simp_all add: and_then_def)

lemma and_then_eq_Ok: "and_then m f = Ok y \<longleftrightarrow> (\<exists>x. m = Ok x \<and> f x = Ok y)"
  by (auto simp: and_then_def split: sum.splits)

lemma and_then_eq_Err:
  "and_then m f = Err e \<longleftrightarrow> m = Err e \<or> (\<exists>x. m = Ok x \<and> f x = Err e)"
  by (auto simp: and_then_def split: sum.splits)

lemma map_err_simps [simp]:
  "map_err g (Ok x) = Ok x"
  "map_err g (Err e) = Err (g e)"
  by (simp_all add: map_err_def)

lemma map_err_eq_Ok [simp]: "map_err g m = Ok x \<longleftrightarrow> m = Ok x"
  by (auto simp: map_err_def split: sum.splits)

lemma map_err_eq_Err: "map_err g m = Err f \<longleftrightarrow> (\<exists>e. m = Err e \<and> f = g e)"
  by (auto simp: map_err_def split: sum.splits)

lemma ok_or_simps [simp]:
  "ok_or (Some v) e = Ok v"
  "ok_or None e = Err e"
  by (simp_all add: ok_or_def)

lemma ok_or_eq_Ok [simp]: "ok_or x e = Ok v \<longleftrightarrow> x = Some v"
  by (auto simp: ok_or_def split: option.splits)

lemma ok_or_eq_Err [simp]: "ok_or x e = Err f \<longleftrightarrow> x = None \<and> f = e"
  by (auto simp: ok_or_def split: option.splits)

lemmas result_eqs = and_then_eq_Ok and_then_eq_Err map_err_eq_Err

text \<open>
  \<open>require!(c, e)\<close>: go on when the condition holds, return the error when it does not.
\<close>

definition require :: "bool \<Rightarrow> 'e \<Rightarrow> (unit, 'e) result" where
  "require c e = (if c then Ok () else Err e)"

lemma require_eq_Ok [simp]: "require c e = Ok u \<longleftrightarrow> c"
  by (simp add: require_def)

lemma require_eq_Err [simp]: "require c e = Err f \<longleftrightarrow> \<not> c \<and> f = e"
  by (auto simp: require_def)

lemma require_simps [simp]: "require True e = Ok ()" "require False e = Err e"
  by (simp_all add: require_def)

lemma and_then_require: "and_then (require c e) f = (if c then f () else Err e)"
  by (simp add: require_def)

text \<open>
  A run of checks, in order: the first one that fails decides the error.
\<close>

fun require_all :: "(bool \<times> 'e) list \<Rightarrow> (unit, 'e) result" where
  "require_all [] = Ok ()"
| "require_all ((c, e) # cs) = (if c then require_all cs else Err e)"

lemma require_all_eq_Ok [simp]: "require_all cs = Ok u \<longleftrightarrow> (\<forall>(c, e) \<in> set cs. c)"
  by (induction cs rule: require_all.induct) auto

lemma require_all_find:
  "require_all cs = (case find (\<lambda>(c, e). \<not> c) cs of None \<Rightarrow> Ok () | Some (c, e) \<Rightarrow> Err e)"
  by (induction cs rule: require_all.induct) auto

lemma require_all_Err_mem: "require_all cs = Err e \<Longrightarrow> (False, e) \<in> set cs"
  by (induction cs rule: require_all.induct) (auto split: if_splits)

lemma require_all_append:
  "require_all (cs @ ds) = and_then (require_all cs) (\<lambda>_. require_all ds)"
  by (induction cs rule: require_all.induct) auto

end
