(* ===== verification/Bytes.thy ===== *)
theory Bytes
  imports Prelude
begin

text \<open>
  Byte arrays of fixed size (\<open>[u8; N]\<close>, \<open>Pubkey\<close>), little-endian integers, slices, and the
  contracts of fixed-width encodings that the protocol's layouts are built from.
\<close>

section \<open>Arrays of a fixed size\<close>

text \<open>\<open>'n bytes\<close> is \<open>[u8; N]\<close>; \<open>raw\<close> is the slice view \<open>as_ref()\<close> of the array.\<close>

typedef (overloaded) ('n::len) bytes = "{bs :: u8 list. length bs = LENGTH('n)}"
  morphisms raw Abs_bytes
  by (rule exI [of _ "replicate LENGTH('n) 0"]) simp

type_synonym bytes32 = "32 bytes"
type_synonym bytes64 = "64 bytes"
type_synonym pubkey = "32 bytes"

lemma Abs_bytes_raw [simp, code abstype]: "Abs_bytes (raw a) = a"
  by (rule raw_inverse)

lemma length_raw [simp]: "length (raw (a :: ('n::len) bytes)) = LENGTH('n)"
  using raw [of a] by simp

lemma raw_eq_iff [simp]: "raw a = raw b \<longleftrightarrow> a = b"
  by (rule raw_inject)

text \<open>\<open>[b; N]\<close>\<close>

definition fill :: "u8 \<Rightarrow> ('n::len) bytes" where
  "fill b = Abs_bytes (replicate LENGTH('n) b)"

lemma raw_fill [simp, code abstract]: "raw (fill b :: ('n::len) bytes) = replicate LENGTH('n) b"
  unfolding fill_def by (rule Abs_bytes_inverse) simp

text \<open>An array literal: the bytes given, cut or padded with zeros to the size.\<close>

definition mk_bytes :: "u8 list \<Rightarrow> ('n::len) bytes" where
  "mk_bytes bs = Abs_bytes (take LENGTH('n) (bs @ replicate LENGTH('n) 0))"

lemma raw_mk_bytes [code abstract]:
  "raw (mk_bytes bs :: ('n::len) bytes) = take LENGTH('n) (bs @ replicate LENGTH('n) 0)"
  unfolding mk_bytes_def by (rule Abs_bytes_inverse) simp

lemma raw_mk_bytes_exact: "length bs = LENGTH('n) \<Longrightarrow> raw (mk_bytes bs :: ('n::len) bytes) = bs"
  by (simp add: raw_mk_bytes)

lemma mk_bytes_raw [simp]: "mk_bytes (raw a) = a"
  by (rule raw_inject [THEN iffD1]) (simp add: raw_mk_bytes)

text \<open>\<open><[u8; N]>::try_from(slice)\<close>: an array when the slice has exactly \<open>N\<close> bytes.\<close>

definition try_bytes :: "u8 list \<Rightarrow> ('n::len) bytes option" where
  "try_bytes bs = (if length bs = LENGTH('n) then Some (mk_bytes bs) else None)"

lemma try_bytes_raw [simp]: "try_bytes (raw a) = Some a"
  by (simp add: try_bytes_def)

lemma try_bytes_eq_Some: "try_bytes bs = Some (a :: ('n::len) bytes) \<longleftrightarrow> bs = raw a"
  by (auto simp: try_bytes_def raw_mk_bytes_exact)

lemma try_bytes_eq_None: "(try_bytes bs :: ('n::len) bytes option) = None \<longleftrightarrow> length bs \<noteq> LENGTH('n)"
  by (simp add: try_bytes_def)

instantiation bytes :: (len) equal
begin

definition equal_bytes :: "'a bytes \<Rightarrow> 'a bytes \<Rightarrow> bool" where
  "equal_bytes a b \<longleftrightarrow> raw a = raw b"

instance
  by standard (simp add: equal_bytes_def)

end

text \<open>\<open>[0u8; N]\<close>, and \<open>Pubkey::default()\<close>, is the zero of the type.\<close>

instantiation bytes :: (len) zero
begin

definition zero_bytes :: "'a bytes" where
  "zero_bytes = fill 0"

instance ..

end

lemma fill_eq_iff [simp]: "(fill a :: ('n::len) bytes) = fill b \<longleftrightarrow> a = b"
  by (simp flip: raw_inject)

lemma fill_zero [simp]:
  "(fill a :: ('n::len) bytes) = 0 \<longleftrightarrow> a = 0"
  "0 = (fill a :: ('n::len) bytes) \<longleftrightarrow> a = 0"
  by (auto simp: zero_bytes_def)

lemma raw_zero: "raw (0 :: ('n::len) bytes) = replicate LENGTH('n) 0"
  by (simp add: zero_bytes_def)

section \<open>Little-endian integers\<close>

primrec nat_le :: "nat \<Rightarrow> nat \<Rightarrow> u8 list" where
  "nat_le 0 v = []"
| "nat_le (Suc n) v = word_of_nat (v mod 256) # nat_le n (v div 256)"

fun le_nat :: "u8 list \<Rightarrow> nat" where
  "le_nat [] = 0"
| "le_nat (b # bs) = unat b + 256 * le_nat bs"

text \<open>\<open>to_le_bytes\<close> and \<open>from_le_bytes\<close> of the unsigned integers.\<close>

definition le_bytes :: "'a::len word \<Rightarrow> u8 list" where
  "le_bytes w = nat_le (LENGTH('a) div 8) (unat w)"

definition from_le_bytes :: "u8 list \<Rightarrow> 'a::len word" where
  "from_le_bytes bs = word_of_nat (le_nat bs)"

lemma length_nat_le [simp]: "length (nat_le n v) = n"
  by (induction n arbitrary: v) simp_all

lemma le_nat_nat_le: "le_nat (nat_le n v) = v mod 256 ^ n"
proof (induction n arbitrary: v)
  case 0
  show ?case by simp
next
  case (Suc n)
  have "unat (word_of_nat (v mod 256) :: u8) = v mod 256"
    by (simp add: unat_of_nat)
  then show ?case
    using Suc.IH [of "v div 256"] by (simp add: mod_mult2_eq)
qed

lemma from_le_bytes_le_bytes:
  assumes "LENGTH('a::len) mod 8 = 0"
  shows "from_le_bytes (le_bytes (w :: 'a word)) = w"
proof -
  have "(256::nat) ^ (LENGTH('a) div 8) = 2 ^ (8 * (LENGTH('a) div 8))"
    by (simp add: power_mult)
  also have "\<dots> = 2 ^ LENGTH('a)"
    using assms by (simp add: mod_0_imp_dvd)
  finally show ?thesis
    by (simp add: from_le_bytes_def le_bytes_def le_nat_nat_le)
qed

lemma le_nat_bound: "le_nat bs < 256 ^ length bs"
proof (induction bs)
  case Nil
  show ?case by simp
next
  case (Cons b bs)
  have "unat b < 256" using unsigned_less [of b] by simp
  with Cons show ?case by simp
qed

lemma nat_le_le_nat: "nat_le (length bs) (le_nat bs) = bs"
proof (induction bs)
  case Nil
  show ?case by simp
next
  case (Cons b bs)
  have "unat b < 256" using unsigned_less [of b] by simp
  with Cons show ?case by simp
qed

lemma le_bytes_from_le_bytes:
  assumes "LENGTH('a::len) mod 8 = 0" and "length bs = LENGTH('a) div 8"
  shows "le_bytes (from_le_bytes bs :: 'a word) = bs"
proof -
  have "(256::nat) ^ length bs = 2 ^ (8 * (LENGTH('a) div 8))"
    using assms(2) by (simp add: power_mult)
  then have "le_nat bs < 2 ^ LENGTH('a)"
    using le_nat_bound [of bs] assms(1) by (simp add: mod_0_imp_dvd)
  then have "unat (from_le_bytes bs :: 'a word) = le_nat bs"
    by (simp add: from_le_bytes_def unat_of_nat take_bit_nat_eq_self)
  then show ?thesis
    using nat_le_le_nat [of bs] assms(2) by (simp add: le_bytes_def)
qed

section \<open>Fixed-width encodings\<close>

text \<open>
  The canonical encoders of the protocol concatenate fields of known widths. What they need
  of a field's encoding is its width and that it loses nothing; with that, a concatenation
  can be taken apart again from the left.
\<close>

locale fixed_width =
  fixes enc :: "'a \<Rightarrow> u8 list"
    and width :: nat
  assumes enc_length: "length (enc x) = width"
    and enc_inj: "enc x = enc y \<Longrightarrow> x = y"
begin

lemma append_cancel: "enc x @ r = enc y @ s \<longleftrightarrow> x = y \<and> r = s"
  by (auto simp: append_eq_append_conv enc_length dest: enc_inj)

lemma take_enc: "take width (enc x @ r) = enc x"
  by (simp add: enc_length)

lemma drop_enc: "drop width (enc x @ r) = r"
  by (simp add: enc_length)

end

text \<open>A codec also has a decoder of the field's bytes.\<close>

locale fixed_codec =
  fixes enc :: "'a \<Rightarrow> u8 list"
    and width :: nat
    and dec :: "u8 list \<Rightarrow> 'a"
  assumes codec_length: "length (enc x) = width"
    and dec_enc: "dec (enc x) = x"
begin

lemma codec_inj: "enc x = enc y \<Longrightarrow> x = y"
  by (metis dec_enc)

lemma dec_take: "dec (take width (enc x @ r)) = x"
  by (simp add: codec_length dec_enc)

end

sublocale fixed_codec \<subseteq> fixed_width
  by unfold_locales (auto simp: codec_length dest: codec_inj)

interpretation u16_le: fixed_codec "le_bytes :: u16 \<Rightarrow> u8 list" 2 from_le_bytes
  by unfold_locales (simp_all add: from_le_bytes_le_bytes, simp add: le_bytes_def)

interpretation u32_le: fixed_codec "le_bytes :: u32 \<Rightarrow> u8 list" 4 from_le_bytes
  by unfold_locales (simp_all add: from_le_bytes_le_bytes, simp add: le_bytes_def)

interpretation u64_le: fixed_codec "le_bytes :: u64 \<Rightarrow> u8 list" 8 from_le_bytes
  by unfold_locales (simp_all add: from_le_bytes_le_bytes, simp add: le_bytes_def)

interpretation array: fixed_width "raw :: ('n::len) bytes \<Rightarrow> u8 list" "LENGTH('n)"
  by unfold_locales simp_all

lemmas le_bytes_length [simp] = u16_le.codec_length u32_le.codec_length u64_le.codec_length

lemmas field_cancel =
  u16_le.append_cancel u32_le.append_cancel u64_le.append_cancel array.append_cancel

section \<open>Slices\<close>

text \<open>\<open>data.get(a..b)\<close>: \<open>None\<close> when the range does not lie inside the slice.\<close>

definition slice_get :: "nat \<Rightarrow> nat \<Rightarrow> 'a list \<Rightarrow> 'a list option" where
  "slice_get a b xs = (if a \<le> b \<and> b \<le> length xs then Some (take (b - a) (drop a xs)) else None)"

lemma slice_get_Some_length: "slice_get a b xs = Some ys \<Longrightarrow> length ys = b - a"
  by (auto simp: slice_get_def split: if_splits)

lemma slice_get_None_iff: "slice_get a b xs = None \<longleftrightarrow> \<not> (a \<le> b \<and> b \<le> length xs)"
  by (simp add: slice_get_def)

lemma slice_get_append:
  "length xs = a \<Longrightarrow> length ys = b - a \<Longrightarrow> a \<le> b \<Longrightarrow> slice_get a b (xs @ ys @ zs) = Some ys"
  by (simp add: slice_get_def)

end
