(* ===== verification/Protocol.thy ===== *)
theory Protocol
  imports Bytes
begin

text \<open>
  \<open>crates/protocol/src/lib.rs\<close>: the canonical encodings of requests and results that
  digests and operator signatures are computed over, and the header that wraps a stored
  ciphertext. SHA-256 (crate \<open>sha2\<close>) is the argument \<open>sha256\<close> of the definitions that
  hash.
\<close>

section \<open>Constants\<close>

definition ascii :: "string \<Rightarrow> u8 list" where
  "ascii s = map of_char s"

definition PROTOCOL_VERSION :: u16 where "PROTOCOL_VERSION = 1"
definition OPERATION_POLICY_CHECK :: u16 where "OPERATION_POLICY_CHECK = 1"
definition CIRCUIT_POLICY_V1 :: u16 where "CIRCUIT_POLICY_V1 = 1"
definition RESULT_TYPE_FHE_BOOL :: u8 where "RESULT_TYPE_FHE_BOOL = 1"

definition STATUS_PENDING :: u8 where "STATUS_PENDING = 0"
definition STATUS_FINALIZED :: u8 where "STATUS_FINALIZED = 1"
definition STATUS_CANCELLED :: u8 where "STATUS_CANCELLED = 2"
definition STATUS_EXPIRED :: u8 where "STATUS_EXPIRED = 3"

definition CT_KIND_U64 :: u8 where "CT_KIND_U64 = 1"
definition CT_KIND_BOOL :: u8 where "CT_KIND_BOOL = 2"

definition SEED_CONFIG :: "u8 list" where "SEED_CONFIG = ascii ''config''"
definition SEED_ACCOUNT :: "u8 list" where "SEED_ACCOUNT = ascii ''account''"
definition SEED_REQUEST :: "u8 list" where "SEED_REQUEST = ascii ''request''"

definition DOMAIN_REQUEST :: "u8 list" where "DOMAIN_REQUEST = ascii ''SOLFHE-CTL-REQ-V1''"
definition DOMAIN_RESULT :: "u8 list" where "DOMAIN_RESULT = ascii ''SOLFHE-CTL-RES-V1''"

definition BLOB_MAGIC :: "u8 list" where "BLOB_MAGIC = ascii ''CTL1''"

lemmas status_defs =
  STATUS_PENDING_def STATUS_FINALIZED_def STATUS_CANCELLED_def STATUS_EXPIRED_def

lemma status_distinct [simp]:
  "STATUS_PENDING \<noteq> STATUS_FINALIZED" "STATUS_FINALIZED \<noteq> STATUS_PENDING"
  "STATUS_PENDING \<noteq> STATUS_CANCELLED" "STATUS_CANCELLED \<noteq> STATUS_PENDING"
  "STATUS_PENDING \<noteq> STATUS_EXPIRED" "STATUS_EXPIRED \<noteq> STATUS_PENDING"
  "STATUS_FINALIZED \<noteq> STATUS_CANCELLED" "STATUS_CANCELLED \<noteq> STATUS_FINALIZED"
  "STATUS_FINALIZED \<noteq> STATUS_EXPIRED" "STATUS_EXPIRED \<noteq> STATUS_FINALIZED"
  "STATUS_CANCELLED \<noteq> STATUS_EXPIRED" "STATUS_EXPIRED \<noteq> STATUS_CANCELLED"
  by (simp_all add: status_defs)

lemma domain_length [simp]:
  "length DOMAIN_REQUEST = 17" "length DOMAIN_RESULT = 17" "length BLOB_MAGIC = 4"
  by (simp_all add: DOMAIN_REQUEST_def DOMAIN_RESULT_def BLOB_MAGIC_def ascii_def)

lemma domains_differ: "DOMAIN_REQUEST \<noteq> DOMAIN_RESULT"
  by (simp add: DOMAIN_REQUEST_def DOMAIN_RESULT_def ascii_def)

section \<open>Requests and results\<close>

record RequestBinding =
  rb_protocol_version :: u16
  rb_domain_id :: bytes32
  rb_program_id :: bytes32
  rb_config :: bytes32
  rb_mint :: bytes32
  rb_confidential_account :: bytes32
  rb_request_pda :: bytes32
  rb_operation :: u16
  rb_balance_hash :: bytes32
  rb_amount_hash :: bytes32
  rb_limit_hash :: bytes32
  rb_params_hash :: bytes32
  rb_state_version :: u64
  rb_request_nonce :: u64
  rb_key_version :: u32
  rb_operator_epoch :: u64
  rb_expiry_slot :: u64

record ResultBinding =
  rs_request :: RequestBinding
  rs_request_digest :: bytes32
  rs_result_hash :: bytes32
  rs_result_type :: u8
  rs_circuit_id :: u16

definition is_zero_hash :: "bytes32 \<Rightarrow> bool" where
  "is_zero_hash hash \<longleftrightarrow> hash = 0"

text \<open>Appending to the buffer: \<open>extend_from_slice\<close>, \<open>push\<close> and the \<open>put\<close> helpers.\<close>

definition extend :: "u8 list \<Rightarrow> u8 list \<Rightarrow> u8 list" where
  "extend buf bs = buf @ bs"

definition put_u16 :: "u8 list \<Rightarrow> u16 \<Rightarrow> u8 list" where
  "put_u16 buf v = extend buf (le_bytes v)"

definition put_u32 :: "u8 list \<Rightarrow> u32 \<Rightarrow> u8 list" where
  "put_u32 buf v = extend buf (le_bytes v)"

definition put_u64 :: "u8 list \<Rightarrow> u64 \<Rightarrow> u8 list" where
  "put_u64 buf v = extend buf (le_bytes v)"

lemmas buffer_defs = extend_def put_u16_def put_u32_def put_u64_def

definition encode_request :: "RequestBinding \<Rightarrow> u8 list" where
  "encode_request binding =
    (let buf = extend [] DOMAIN_REQUEST;
         buf = put_u16 buf (rb_protocol_version binding);
         buf = extend buf (raw (rb_domain_id binding));
         buf = extend buf (raw (rb_program_id binding));
         buf = extend buf (raw (rb_config binding));
         buf = extend buf (raw (rb_mint binding));
         buf = extend buf (raw (rb_confidential_account binding));
         buf = extend buf (raw (rb_request_pda binding));
         buf = put_u16 buf (rb_operation binding);
         buf = extend buf (raw (rb_balance_hash binding));
         buf = extend buf (raw (rb_amount_hash binding));
         buf = extend buf (raw (rb_limit_hash binding));
         buf = extend buf (raw (rb_params_hash binding));
         buf = put_u64 buf (rb_state_version binding);
         buf = put_u64 buf (rb_request_nonce binding);
         buf = put_u32 buf (rb_key_version binding);
         buf = put_u64 buf (rb_operator_epoch binding);
         buf = put_u64 buf (rb_expiry_slot binding)
     in buf)"

definition request_digest :: "(u8 list \<Rightarrow> bytes32) \<Rightarrow> RequestBinding \<Rightarrow> bytes32" where
  "request_digest sha256 binding = sha256 (encode_request binding)"

text \<open>\<open>splice(0..n, xs)\<close> replaces the first \<open>n\<close> elements of the buffer by \<open>xs\<close>.\<close>

definition splice_prefix :: "nat \<Rightarrow> u8 list \<Rightarrow> u8 list \<Rightarrow> u8 list" where
  "splice_prefix n xs buf = xs @ drop n buf"

definition encode_result :: "ResultBinding \<Rightarrow> u8 list" where
  "encode_result binding =
    (let buf = encode_request (rs_request binding);
         buf = splice_prefix (length DOMAIN_REQUEST) DOMAIN_RESULT buf;
         buf = extend buf (raw (rs_request_digest binding));
         buf = extend buf (raw (rs_result_hash binding));
         buf = extend buf [rs_result_type binding];
         buf = put_u16 buf (rs_circuit_id binding)
     in buf)"

definition result_digest :: "(u8 list \<Rightarrow> bytes32) \<Rightarrow> ResultBinding \<Rightarrow> bytes32" where
  "result_digest sha256 binding = sha256 (encode_result binding)"

definition local_domain_id :: "(u8 list \<Rightarrow> bytes32) \<Rightarrow> bytes32" where
  "local_domain_id sha256 = sha256 (ascii ''solana-fhe-confidential-token-lab/local/v1'')"

section \<open>Layout facts\<close>

text \<open>The body both messages share: the fields after the domain separator.\<close>

definition request_body :: "RequestBinding \<Rightarrow> u8 list" where
  "request_body b =
     le_bytes (rb_protocol_version b) @ raw (rb_domain_id b) @ raw (rb_program_id b) @
     raw (rb_config b) @ raw (rb_mint b) @ raw (rb_confidential_account b) @
     raw (rb_request_pda b) @ le_bytes (rb_operation b) @ raw (rb_balance_hash b) @
     raw (rb_amount_hash b) @ raw (rb_limit_hash b) @ raw (rb_params_hash b) @
     le_bytes (rb_state_version b) @ le_bytes (rb_request_nonce b) @
     le_bytes (rb_key_version b) @ le_bytes (rb_operator_epoch b) @ le_bytes (rb_expiry_slot b)"

lemma encode_request_layout: "encode_request b = DOMAIN_REQUEST @ request_body b"
  by (simp add: encode_request_def request_body_def buffer_defs)

lemma length_request_body [simp]: "length (request_body b) = 360"
  by (simp add: request_body_def)

lemma encode_result_layout:
  "encode_result b =
     DOMAIN_RESULT @ request_body (rs_request b) @ raw (rs_request_digest b) @
     raw (rs_result_hash b) @ [rs_result_type b] @ le_bytes (rs_circuit_id b)"
  by (simp add: encode_result_def encode_request_layout splice_prefix_def buffer_defs)

lemma request_body_inj: "request_body a = request_body b \<Longrightarrow> a = b"
  by (cases a, cases b)
    (auto simp: request_body_def field_cancel dest: u64_le.codec_inj)

interpretation body: fixed_width request_body 360
  by unfold_locales (simp_all add: request_body_inj)

text \<open>The buffer starts with the request domain when \<open>encode_result\<close> splices it away.\<close>

lemma encode_request_starts_with_domain:
  "take (length DOMAIN_REQUEST) (encode_request b) = DOMAIN_REQUEST"
  by (simp add: encode_request_layout)

lemma encoded_lengths:
  "length (encode_request b) = 377"
  "length (encode_result r) = 444"
  by (simp_all add: encode_request_layout encode_result_layout)

section \<open>Domain-separated messages\<close>

text \<open>
  What signatures and digests need of a family of messages: each starts with the family's
  domain separator, and the message determines the value it encodes. Two families with
  different separators of one length never share a message, nor the beginning of one.
\<close>

locale domain_message =
  fixes domain :: "u8 list"
    and enc :: "'a \<Rightarrow> u8 list"
  assumes enc_domain: "take (length domain) (enc x) = domain"
    and message_inj: "enc x = enc y \<Longrightarrow> x = y"
begin

lemma message_eq_iff: "enc x = enc y \<longleftrightarrow> x = y"
  by (auto dest: message_inj)

lemma starts: "take (length domain) (enc x @ xs) = domain"
proof -
  have "length domain \<le> length (enc x)"
    using arg_cong [OF enc_domain, of length x] by simp
  then show ?thesis by (simp add: enc_domain)
qed

lemma digest_binds:
  "inj_on h {enc x, enc y} \<Longrightarrow> h (enc x) = h (enc y) \<Longrightarrow> x = y"
  by (auto dest: inj_onD message_inj)

end

locale separated_messages =
  one: domain_message dom1 enc1 + two: domain_message dom2 enc2
  for dom1 :: "u8 list" and enc1 :: "'a \<Rightarrow> u8 list"
    and dom2 :: "u8 list" and enc2 :: "'b \<Rightarrow> u8 list" +
  assumes same_length: "length dom1 = length dom2"
    and separators_differ: "dom1 \<noteq> dom2"
begin

lemma never_extended: "enc1 x @ xs \<noteq> enc2 y @ ys"
proof
  assume "enc1 x @ xs = enc2 y @ ys"
  then have "take (length dom1) (enc1 x @ xs) = take (length dom2) (enc2 y @ ys)" by (simp add: same_length)
  then show False using one.starts two.starts separators_differ by simp
qed

lemma digests_never_equal: "inj_on h {enc1 x, enc2 y} \<Longrightarrow> h (enc1 x) \<noteq> h (enc2 y)"
  using never_extended [of x "[]" y "[]"] by (auto dest: inj_onD)

end

interpretation messages: separated_messages DOMAIN_REQUEST encode_request DOMAIN_RESULT encode_result
proof
  fix x y :: RequestBinding
  show "take (length DOMAIN_REQUEST) (encode_request x) = DOMAIN_REQUEST"
    by (rule encode_request_starts_with_domain)
  show "encode_request x = encode_request y \<Longrightarrow> x = y"
    by (auto simp: encode_request_layout dest: request_body_inj)
next
  fix x y :: ResultBinding
  show "take (length DOMAIN_RESULT) (encode_result x) = DOMAIN_RESULT"
    by (simp add: encode_result_layout)
  assume "encode_result x = encode_result y"
  then show "x = y"
    by (cases x, cases y)
      (auto simp: encode_result_layout body.append_cancel field_cancel dest: u16_le.codec_inj)
qed (simp_all add: domains_differ)

lemmas request_eq_iff = messages.one.message_eq_iff
lemmas result_eq_iff = messages.two.message_eq_iff

section \<open>Stored ciphertexts\<close>

datatype BlobError = Truncated | Magic | Kind | KeyVersion | Params

definition wrap_blob :: "u8 \<Rightarrow> u32 \<Rightarrow> bytes32 \<Rightarrow> u8 list \<Rightarrow> u8 list" where
  "wrap_blob kind key_version params_hash payload =
    (let out = extend [] BLOB_MAGIC;
         out = extend out [kind];
         out = put_u32 out key_version;
         out = extend out (raw params_hash);
         out = extend out payload
     in out)"

text \<open>
  The ranges \<open>4\<close>, \<open>5..9\<close>, \<open>9..41\<close> and \<open>41..\<close> lie inside the slice once its length has been
  checked, so none of the indexings of the source can panic there.
\<close>

definition unwrap_blob :: "u8 list \<Rightarrow> u8 \<Rightarrow> u32 \<Rightarrow> bytes32 \<Rightarrow> (u8 list, BlobError) result" where
  "unwrap_blob bytes expected_kind expected_key_version expected_params_hash =
    (if length bytes < 4 + 1 + 4 + 32 then Err Truncated
     else if take 4 bytes \<noteq> BLOB_MAGIC then Err Magic
     else if bytes ! 4 \<noteq> expected_kind then Err Kind
     else if from_le_bytes (take 4 (drop 5 bytes)) \<noteq> expected_key_version then Err KeyVersion
     else if take 32 (drop 9 bytes) \<noteq> raw expected_params_hash then Err Params
     else Ok (drop 41 bytes))"

lemma wrap_blob_layout:
  "wrap_blob kind kv ph payload = BLOB_MAGIC @ [kind] @ le_bytes kv @ raw ph @ payload"
  by (simp add: wrap_blob_def buffer_defs)

lemma wrap_blob_fields:
  "length (wrap_blob kind kv ph payload) = 41 + length payload"
  "take 4 (wrap_blob kind kv ph payload) = BLOB_MAGIC"
  "wrap_blob kind kv ph payload ! 4 = kind"
  "take 4 (drop 5 (wrap_blob kind kv ph payload)) = le_bytes kv"
  "take 32 (drop 9 (wrap_blob kind kv ph payload)) = raw ph"
  "drop 41 (wrap_blob kind kv ph payload) = payload"
  by (simp_all add: wrap_blob_layout nth_append)

text \<open>Unwrapping a wrapped payload: the first header field that differs decides the error.\<close>

lemma unwrap_wrap:
  "unwrap_blob (wrap_blob kind kv ph payload) kind' kv' ph' =
    (if kind \<noteq> kind' then Err Kind
     else if kv \<noteq> kv' then Err KeyVersion
     else if ph \<noteq> ph' then Err Params
     else Ok payload)"
  by (simp add: unwrap_blob_def wrap_blob_fields u32_le.dec_enc)

lemma header_recomposed:
  assumes "41 \<le> length bs"
  shows "bs = take 4 bs @ [bs ! 4] @ take 4 (drop 5 bs) @ take 32 (drop 9 bs) @ drop 41 bs"
proof -
  have "bs = take 4 bs @ drop 4 bs" by simp
  also have "drop 4 bs = bs ! 4 # drop 5 bs"
    using assms by (simp add: Cons_nth_drop_Suc [symmetric] numeral_eq_Suc)
  also have "drop 5 bs = take 4 (drop 5 bs) @ drop 9 bs"
    using append_take_drop_id [of 4 "drop 5 bs"] by simp
  also have "drop 9 bs = take 32 (drop 9 bs) @ drop 41 bs"
    using append_take_drop_id [of 32 "drop 9 bs"] by simp
  finally show ?thesis by simp
qed

lemma unwrap_Ok_wrap:
  assumes "unwrap_blob bs kind kv ph = Ok payload"
  shows "bs = wrap_blob kind kv ph payload"
proof -
  have len: "41 \<le> length bs"
    and parts: "take 4 bs = BLOB_MAGIC" "bs ! 4 = kind" "from_le_bytes (take 4 (drop 5 bs)) = kv"
      "take 32 (drop 9 bs) = raw ph" "drop 41 bs = payload"
    using assms by (auto simp: unwrap_blob_def split: if_splits)
  have "take 4 (drop 5 bs) = le_bytes kv"
    using parts(3) len le_bytes_from_le_bytes [where 'a = 32, of "take 4 (drop 5 bs)"] by simp
  then show ?thesis
    using header_recomposed [OF len] parts by (simp add: wrap_blob_layout)
qed

section \<open>Properties\<close>

text \<open>
  The canonical request encoding loses nothing: two request bindings have the same bytes
  exactly when they agree in every field.
\<close>

lemma encode_request_injective: "encode_request a = encode_request b \<longleftrightarrow> a = b"
  by (rule messages.one.message_eq_iff)

text \<open>
  C28: the canonical result encoding loses nothing: the bytes an operator signs determine the
  request, its digest, the result hash, the result type and the circuit.
\<close>

theorem encode_result_injective: "encode_result a = encode_result b \<longleftrightarrow> a = b"
  by (rule messages.two.message_eq_iff)

text \<open>
  C29: domain separation. A request encoding and a result encoding differ within the domain
  separator that each starts with, whatever follows it: neither is the other, nor a beginning of
  it, and no bytes appended to either make them meet. So an operator's signature on a result can
  never be read as one on a request, and a digest of one kind is not that of the other unless
  SHA-256 collides on those two messages.
\<close>

theorem request_result_domains_disjoint:
  "take (length DOMAIN_REQUEST) (encode_request a) = DOMAIN_REQUEST \<and>
   take (length DOMAIN_REQUEST) (encode_result r) = DOMAIN_RESULT \<and>
   encode_request a @ xs \<noteq> encode_result r @ ys \<and>
   (inj_on sha256 {encode_request a, encode_result r} \<longrightarrow> request_digest sha256 a \<noteq> result_digest sha256 r)"
  using messages.one.enc_domain [of a] messages.two.enc_domain [of r] messages.never_extended [of a xs r ys]
    messages.digests_never_equal [of sha256 a r]
  unfolding request_digest_def result_digest_def messages.same_length by blast

definition binding0 :: RequestBinding where
  "binding0 =
    \<lparr>rb_protocol_version = 1, rb_domain_id = fill 1, rb_program_id = fill 2, rb_config = fill 3,
     rb_mint = fill 4, rb_confidential_account = fill 5, rb_request_pda = fill 6, rb_operation = 1,
     rb_balance_hash = fill 7, rb_amount_hash = fill 8, rb_limit_hash = fill 9, rb_params_hash = fill 10,
     rb_state_version = 0, rb_request_nonce = 1, rb_key_version = 1, rb_operator_epoch = 1,
     rb_expiry_slot = 100\<rparr>"

definition result0 :: ResultBinding where
  "result0 = \<lparr>rs_request = binding0, rs_request_digest = fill 11, rs_result_hash = fill 12,
     rs_result_type = 1, rs_circuit_id = 1\<rparr>"

text \<open>A hash that sees nothing of a message but its first 32 bytes tells the two kinds apart.\<close>

definition head_hash :: "u8 list \<Rightarrow> bytes32" where
  "head_hash bs = mk_bytes (take 32 bs)"

theorem request_result_domains_disjoint_witness:
  "request_digest head_hash binding0 \<noteq> result_digest head_hash result0 \<and>
   encode_request binding0 @ replicate 67 0 \<noteq> encode_result result0"
proof -
  have head: "raw (head_hash bs) = take 32 bs" if "32 \<le> length bs" for bs
    unfolding head_hash_def by (rule raw_mk_bytes_exact) (use that in simp)
  have "take 17 (take 32 (encode_request binding0)) \<noteq> take 17 (take 32 (encode_result result0))"
    using request_result_domains_disjoint [of binding0 result0] domains_differ by simp
  then have "take 32 (encode_request binding0) \<noteq> take 32 (encode_result result0)" by metis
  moreover have "raw (head_hash (encode_request binding0)) = take 32 (encode_request binding0)"
    "raw (head_hash (encode_result result0)) = take 32 (encode_result result0)"
    by (simp_all add: head encoded_lengths)
  ultimately have "head_hash (encode_request binding0) \<noteq> head_hash (encode_result result0)" by metis
  then have "inj_on head_hash {encode_request binding0, encode_result result0}"
    by (auto simp: inj_on_def)
  then show ?thesis
    using request_result_domains_disjoint [of binding0 result0 "replicate 67 0" "[]" head_hash] by simp
qed

text \<open>
  The request digest binds every field: requests with one digest are the same request,
  or SHA-256 collides on their two encodings.
\<close>

lemma request_digest_binds_fields:
  assumes "inj_on sha256 {encode_request a, encode_request b}"
    and "request_digest sha256 a = request_digest sha256 b"
  shows "a = b"
  by (rule messages.one.digest_binds [of sha256]) (use assms in \<open>simp_all add: request_digest_def\<close>)

text \<open>
  C30: a stored ciphertext unwraps to a payload exactly when it is that payload wrapped with
  the kind, key version and parameter hash that were asked for.
\<close>

theorem unwrap_blob_exact:
  "unwrap_blob bs kind kv ph = Ok payload \<longleftrightarrow> bs = wrap_blob kind kv ph payload"
  using unwrap_Ok_wrap by (auto simp: unwrap_wrap)

end
