(* ===== verification/CoordinatorState.thy ===== *)
theory CoordinatorState
  imports Protocol
begin

text \<open>
  \<open>programs/confidential-coordinator/src/state.rs\<close> and \<open>error.rs\<close>: the three accounts the
  coordinator program keeps and the errors its handlers return. \<open>framework_error\<close> names the
  errors of the Anchor framework and of the Solana runtime that the account checks of
  \<open>lib.rs\<close> ask for.
\<close>

record Config =
  cfg_authority :: pubkey
  cfg_mint :: pubkey
  cfg_domain_id :: bytes32
  cfg_operator :: pubkey
  cfg_operator_epoch :: u64
  cfg_key_version :: u32
  cfg_params_hash :: bytes32
  cfg_operation :: u16
  cfg_circuit_id :: u16
  cfg_protocol_version :: u16
  cfg_max_request_lifetime_slots :: u64
  cfg_paused :: bool
  cfg_bump :: u8

record ConfidentialAccount =
  acc_config :: pubkey
  acc_mint :: pubkey
  acc_owner :: pubkey
  acc_balance_ref :: bytes32
  acc_limit_ref :: bytes32
  acc_state_version :: u64
  acc_request_nonce :: u64
  acc_pending_request :: pubkey
  acc_key_version :: u32
  acc_bump :: u8

record Request =
  req_requester :: pubkey
  req_config :: pubkey
  req_mint :: pubkey
  req_confidential_account :: pubkey
  req_operation :: u16
  req_balance_hash :: bytes32
  req_amount_hash :: bytes32
  req_limit_hash :: bytes32
  req_params_hash :: bytes32
  req_state_version :: u64
  req_request_nonce :: u64
  req_key_version :: u32
  req_operator_epoch :: u64
  req_created_slot :: u64
  req_expiry_slot :: u64
  req_status :: u8
  req_request_digest :: bytes32
  req_result_hash :: bytes32
  req_result_digest :: bytes32
  req_bump :: u8

definition has_pending :: "ConfidentialAccount \<Rightarrow> bool" where
  "has_pending self \<longleftrightarrow> acc_pending_request self \<noteq> 0"

datatype CoordinatorError =
    Unauthorized
  | Paused
  | InvalidPda
  | ConfigMismatch
  | MintMismatch
  | AccountMismatch
  | RequestMismatch
  | InvalidStatus
  | InvalidNonce
  | InvalidStateVersion
  | InvalidOperation
  | InvalidCiphertextRef
  | InvalidKeyVersion
  | InvalidOperator
  | InvalidOperatorEpoch
  | Expired
  | NotExpired
  | AlreadyFinalized
  | ActiveRequest
  | NoPendingRequest
  | InvalidResult
  | InvalidSignature
  | Overflow

text \<open>
  Failures that come from outside the handlers: account constraints (\<open>AccountNotEnoughKeys\<close>
  to \<open>AccountAlreadyInUse\<close>), the instructions sysvar, the dispatcher, the runtime. \<open>Panic\<close>
  is a Rust panic; the slices of \<open>ed25519.rs\<close> are the only candidates.
\<close>

datatype framework_error =
    AccountNotEnoughKeys
  | AccountNotInitialized
  | AccountOwnedByWrongProgram
  | AccountDiscriminatorMismatch
  | AccountNotSigner
  | InvalidProgramId
  | ConstraintMut
  | ConstraintSeeds
  | ConstraintAddress
  | AccountAlreadyInUse
  | SysvarInvalidArgument
  | InstructionFallbackNotFound
  | MissingSignature
  | PrecompileFailure
  | Panic

datatype program_error = Coord CoordinatorError | Framework framework_error

type_synonym 'a presult = "('a, program_error) result"

end
