(* ===== verification/Ed25519.thy ===== *)
theory Ed25519
  imports CoordinatorState
begin

text \<open>
  \<open>programs/confidential-coordinator/src/ed25519.rs\<close>: how \<open>finalize\<close> ties itself to a
  native Ed25519 verification that stands right before it in the same transaction.

  An instruction is a program, account metas and data (crate \<open>solana_instruction\<close>). The
  instructions sysvar (crate \<open>solana_instructions_sysvar\<close>) is seen through its two checked
  loaders, the index of the running instruction and the instruction at an index; both may
  fail, and what they return is a parameter.
\<close>

section \<open>Instructions and the sysvar\<close>

record AccountMeta =
  am_pubkey :: pubkey
  am_is_signer :: bool
  am_is_writable :: bool

record Instruction =
  ix_program_id :: pubkey
  ix_accounts :: "AccountMeta list"
  ix_data :: "u8 list"

record InstructionsSysvar =
  load_current_index_checked :: "u16 presult"
  load_instruction_at_checked :: "nat \<Rightarrow> Instruction presult"

text \<open>\<open>Ed25519SigVerify111111111111111111111111111\<close> and \<open>Sysvar1nstructions1111111111111111111111111\<close>\<close>

definition ED25519_PROGRAM_ID :: pubkey where
  "ED25519_PROGRAM_ID = mk_bytes
     [3, 125, 70, 214, 124, 147, 251, 190, 18, 249, 66, 143, 131, 141, 64, 255,
      5, 112, 116, 73, 39, 244, 138, 100, 252, 202, 112, 68, 128, 0, 0, 0]"

definition INSTRUCTIONS_ID :: pubkey where
  "INSTRUCTIONS_ID = mk_bytes
     [6, 167, 213, 23, 24, 123, 209, 102, 53, 218, 212, 4, 85, 253, 194, 192,
      193, 36, 198, 143, 33, 86, 117, 165, 219, 186, 203, 95, 8, 0, 0, 0]"

definition PUBKEY_SIZE :: nat where "PUBKEY_SIZE = 32"
definition SIGNATURE_SIZE :: nat where "SIGNATURE_SIZE = 64"

lemma ed25519_sizes [simp]: "PUBKEY_SIZE = 32" "SIGNATURE_SIZE = 64"
  by (simp_all add: PUBKEY_SIZE_def SIGNATURE_SIZE_def)

section \<open>The verifier\<close>

text \<open>\<open>checked_sub\<close> on the index, \<open>checked_add\<close> on \<open>usize\<close> (64 bits), and \<open>&data[a..b]\<close>,
  which panics when the range is not inside the slice.\<close>

definition checked_sub :: "'a::len word \<Rightarrow> 'a word \<Rightarrow> 'a word option" where
  "checked_sub a b = (if unat b \<le> unat a then Some (a - b) else None)"

definition usize_checked_add :: "nat \<Rightarrow> nat \<Rightarrow> nat option" where
  "usize_checked_add a b = (if a + b < 2 ^ 64 then Some (a + b) else None)"

lemma usize_checked_add_code [code]:
  "usize_checked_add a b = (if int a + int b < 2 ^ 64 then Some (a + b) else None)"
proof -
  have "a + b < 2 ^ 64 \<longleftrightarrow> int (a + b) < int (2 ^ 64)"
    by (simp only: of_nat_less_iff)
  then show ?thesis by (simp add: usize_checked_add_def)
qed

definition index_slice :: "nat \<Rightarrow> nat \<Rightarrow> u8 list \<Rightarrow> u8 list presult" where
  "index_slice a b data = ok_or (slice_get a b data) (Framework Panic)"

definition index_is_self :: "u16 \<Rightarrow> u16 \<Rightarrow> bool" where
  "index_is_self stored ed_index \<longleftrightarrow> stored = ed_index \<or> stored = 0xFFFF"

definition u16_at :: "u8 list \<Rightarrow> nat \<Rightarrow> u16 presult" where
  "u16_at data offset =
     and_then (ok_or (slice_get offset (offset + 2) data) (Coord InvalidSignature)) (\<lambda>slice.
     and_then (ok_or (try_bytes slice :: 2 bytes option) (Coord InvalidSignature)) (\<lambda>le.
     Ok (from_le_bytes (raw le))))"

definition require_region :: "nat \<Rightarrow> nat \<Rightarrow> u8 list \<Rightarrow> unit presult" where
  "require_region off len data =
     and_then (ok_or (usize_checked_add off len) (Coord InvalidSignature)) (\<lambda>region_end.
     require (region_end \<le> length data) (Coord InvalidSignature))"

definition verify_operator_message ::
    "InstructionsSysvar \<Rightarrow> pubkey \<Rightarrow> u8 list \<Rightarrow> unit presult" where
  "verify_operator_message ix_sysvar operator message =
     and_then (load_current_index_checked ix_sysvar) (\<lambda>current.
     and_then (require (current > 0) (Coord InvalidSignature)) (\<lambda>_.
     and_then (ok_or (checked_sub current 1) (Coord InvalidSignature)) (\<lambda>ed_index.
     and_then (load_instruction_at_checked ix_sysvar (unat ed_index)) (\<lambda>ed_ix.
     and_then (require (ix_program_id ed_ix = ED25519_PROGRAM_ID) (Coord InvalidSignature)) (\<lambda>_.
     let data = ix_data ed_ix in
     and_then (require (length data \<ge> 16) (Coord InvalidSignature)) (\<lambda>_.
     and_then (require (data ! 0 = 1) (Coord InvalidSignature)) (\<lambda>_.
     and_then (u16_at data 2) (\<lambda>sig_off.
     and_then (u16_at data 4) (\<lambda>sig_ix.
     and_then (u16_at data 6) (\<lambda>pk_off.
     and_then (u16_at data 8) (\<lambda>pk_ix.
     and_then (u16_at data 10) (\<lambda>msg_off.
     and_then (u16_at data 12) (\<lambda>msg_sz.
     and_then (u16_at data 14) (\<lambda>msg_ix.
     and_then (require (index_is_self sig_ix ed_index \<and> index_is_self pk_ix ed_index
                        \<and> index_is_self msg_ix ed_index) (Coord InvalidSignature)) (\<lambda>_.
     let pk_off = unat pk_off; sig_off = unat sig_off;
         msg_off = unat msg_off; msg_sz = unat msg_sz in
     and_then (require_region pk_off PUBKEY_SIZE data) (\<lambda>_.
     and_then (require_region sig_off SIGNATURE_SIZE data) (\<lambda>_.
     and_then (require_region msg_off msg_sz data) (\<lambda>_.
     and_then (require (msg_sz = length message) (Coord InvalidResult)) (\<lambda>_.
     and_then (index_slice pk_off (pk_off + PUBKEY_SIZE) data) (\<lambda>pk_slice.
     and_then (ok_or (try_bytes pk_slice) (Coord InvalidSignature)) (\<lambda>pk.
     and_then (require (pk = operator) (Coord InvalidOperator)) (\<lambda>_.
     and_then (index_slice msg_off (msg_off + msg_sz) data) (\<lambda>msg.
     require (msg = message) (Coord InvalidResult))))))))))))))))))))))))"

section \<open>What acceptance means\<close>

text \<open>The header field at an offset of the verification data.\<close>

definition header_field :: "u8 list \<Rightarrow> nat \<Rightarrow> u16" where
  "header_field data off = from_le_bytes (take 2 (drop off data))"

text \<open>
  The contract of the verifier: the data attests \<open>message\<close> for \<open>operator\<close> when it is one
  signature's verification record whose three indices name this very instruction, and its
  public key and message regions hold exactly the operator and the message.
\<close>

definition attests :: "u16 \<Rightarrow> u8 list \<Rightarrow> pubkey \<Rightarrow> u8 list \<Rightarrow> bool" where
  "attests ed_index data operator message \<longleftrightarrow>
     16 \<le> length data \<and> data ! 0 = 1 \<and>
     index_is_self (header_field data 4) ed_index \<and>
     index_is_self (header_field data 8) ed_index \<and>
     index_is_self (header_field data 14) ed_index \<and>
     unat (header_field data 12) = length message \<and>
     (\<exists>sig. slice_get (unat (header_field data 2)) (unat (header_field data 2) + 64) data = Some sig) \<and>
     slice_get (unat (header_field data 6)) (unat (header_field data 6) + 32) data = Some (raw operator) \<and>
     slice_get (unat (header_field data 10)) (unat (header_field data 10) + length message) data
       = Some message"

lemma u16_at_eq_Ok: "u16_at data off = Ok v \<longleftrightarrow> off + 2 \<le> length data \<and> v = header_field data off"
proof -
  have "try_bytes (take 2 (drop off data)) = Some (mk_bytes (take 2 (drop off data)) :: 2 bytes)"
    if "off + 2 \<le> length data"
    using that by (simp add: try_bytes_def)
  moreover have "raw (mk_bytes (take 2 (drop off data)) :: 2 bytes) = take 2 (drop off data)"
    if "off + 2 \<le> length data"
    using that by (simp add: raw_mk_bytes_exact)
  ultimately show ?thesis
    by (auto simp: u16_at_def header_field_def slice_get_def and_then_eq_Ok)
qed

lemma u16_at_header: "off + 2 \<le> length data \<Longrightarrow> u16_at data off = Ok (header_field data off)"
  by (simp add: u16_at_eq_Ok)

lemma require_region_u16:
  assumes "len < 2 ^ 32"
  shows "require_region (unat (off :: u16)) len data
    = require (unat off + len \<le> length data) (Coord InvalidSignature)"
  using unat_u16_bound [of off] assms
  by (simp add: require_region_def usize_checked_add_def)

lemma require_region_fields:
  "require_region (unat (off :: u16)) 32 data = require (unat off + 32 \<le> length data) (Coord InvalidSignature)"
  "require_region (unat off) 64 data = require (unat off + 64 \<le> length data) (Coord InvalidSignature)"
  "require_region (unat off) (unat (n :: u16)) data
     = require (unat off + unat n \<le> length data) (Coord InvalidSignature)"
proof -
  have "unat n < 2 ^ 32"
    using unat_u16_bound [of n] by simp
  then show "require_region (unat off) (unat n) data
     = require (unat off + unat n \<le> length data) (Coord InvalidSignature)"
    by (rule require_region_u16)
qed (simp_all add: require_region_u16)

lemma index_slice_in_range:
  "a \<le> b \<Longrightarrow> b \<le> length data \<Longrightarrow> index_slice a b data = Ok (take (b - a) (drop a data))"
  by (simp add: index_slice_def slice_get_def)

lemma checked_sub_one: "checked_sub (a :: u16) 1 = Some b \<longleftrightarrow> 0 < a \<and> b = a - 1"
  by (auto simp: checked_sub_def word_less_nat_alt word_le_nat_alt)

text \<open>
  The checks after the header has been read, for data that is long enough: this is where the
  regions are cut out of the data, each after its range has been checked.
\<close>

definition region_checks :: "u16 \<Rightarrow> u8 list \<Rightarrow> pubkey \<Rightarrow> u8 list \<Rightarrow> unit presult" where
  "region_checks ed_index data operator message =
     (let pk_off = unat (header_field data 6); sig_off = unat (header_field data 2);
          msg_off = unat (header_field data 10); msg_sz = unat (header_field data 12) in
      require_all
       [(index_is_self (header_field data 4) ed_index \<and> index_is_self (header_field data 8) ed_index
           \<and> index_is_self (header_field data 14) ed_index, Coord InvalidSignature),
        (pk_off + 32 \<le> length data, Coord InvalidSignature),
        (sig_off + 64 \<le> length data, Coord InvalidSignature),
        (msg_off + msg_sz \<le> length data, Coord InvalidSignature),
        (msg_sz = length message, Coord InvalidResult),
        (take 32 (drop pk_off data) = raw operator, Coord InvalidOperator),
        (take msg_sz (drop msg_off data) = message, Coord InvalidResult)])"

lemma try_bytes_mk: "length bs = LENGTH('n::len) \<Longrightarrow> try_bytes bs = Some (mk_bytes bs :: 'n bytes)"
  by (simp add: try_bytes_def)

lemma mk_bytes_eq_iff:
  "length bs = LENGTH('n::len) \<Longrightarrow> mk_bytes bs = (k :: 'n bytes) \<longleftrightarrow> bs = raw k"
  using raw_mk_bytes_exact [of bs, where 'n = 'n] by (metis mk_bytes_raw)

text \<open>The verifier in the order of its checks, with every read in range.\<close>

lemma verify_operator_message_unfold:
  "verify_operator_message sv operator message =
     and_then (load_current_index_checked sv) (\<lambda>current.
     if current \<noteq> 0 then and_then (load_instruction_at_checked sv (unat (current - 1))) (\<lambda>ed_ix.
       if ix_program_id ed_ix = ED25519_PROGRAM_ID then
         if 16 \<le> length (ix_data ed_ix) then
           if ix_data ed_ix ! 0 = 1 then region_checks (current - 1) (ix_data ed_ix) operator message
           else Err (Coord InvalidSignature)
         else Err (Coord InvalidSignature)
       else Err (Coord InvalidSignature))
     else Err (Coord InvalidSignature))"
proof (cases "load_current_index_checked sv")
  case (Inr current)
  show ?thesis
  proof (cases "current = 0")
    case False
    then have sub: "checked_sub current 1 = Some (current - 1)"
      by (simp add: checked_sub_one word_neq_0_conv)
    show ?thesis
    proof (cases "load_instruction_at_checked sv (unat (current - 1))")
      case (Inr ed_ix)
      show ?thesis
      proof (cases "16 \<le> length (ix_data ed_ix)")
        case True
        then show ?thesis
          using False \<open>load_current_index_checked sv = Ok current\<close> Inr
          by (simp add: verify_operator_message_def sub and_then_require u16_at_header require_region_fields
              Let_def word_gt_0 region_checks_def index_slice_in_range try_bytes_mk mk_bytes_eq_iff
              require_def cong: if_cong)
      qed (use False \<open>load_current_index_checked sv = Ok current\<close> Inr in
          \<open>simp add: verify_operator_message_def sub and_then_require Let_def word_gt_0\<close>)
    qed (use False Inr in \<open>simp add: verify_operator_message_def sub and_then_require word_gt_0\<close>)
  qed (simp add: Inr verify_operator_message_def)
qed (simp add: verify_operator_message_def)

lemma region_checks_attests:
  assumes "16 \<le> length data" and "data ! 0 = 1"
  shows "region_checks ed_index data operator message = Ok () \<longleftrightarrow>
    attests ed_index data operator message"
  using assms by (auto simp: region_checks_def attests_def slice_get_def Let_def)

text \<open>One signature's verification data as the native program's clients lay it out: header,
  public key, signature, message. It attests the message for the key.\<close>

definition ed25519_record :: "pubkey \<Rightarrow> bytes64 \<Rightarrow> u8 list \<Rightarrow> u8 list" where
  "ed25519_record pk sig msg =
     [1, 0] @ le_bytes (48 :: u16) @ [255, 255] @ le_bytes (16 :: u16) @ [255, 255] @
     le_bytes (112 :: u16) @ le_bytes (word_of_nat (length msg) :: u16) @ [255, 255] @
     raw pk @ raw sig @ msg"

lemma max_index: "from_le_bytes [255, 255] = (0xFFFF :: u16)"
  by (simp add: from_le_bytes_def)

lemma ed25519_record_header:
  "header_field (ed25519_record pk sig msg) 2 = 48"
  "header_field (ed25519_record pk sig msg) 4 = 0xFFFF"
  "header_field (ed25519_record pk sig msg) 6 = 16"
  "header_field (ed25519_record pk sig msg) 8 = 0xFFFF"
  "header_field (ed25519_record pk sig msg) 10 = 112"
  "header_field (ed25519_record pk sig msg) 12 = word_of_nat (length msg)"
  "header_field (ed25519_record pk sig msg) 14 = 0xFFFF"
  by (simp_all add: header_field_def ed25519_record_def u16_le.dec_enc max_index)

lemma ed25519_record_attests:
  assumes "length msg < 2 ^ 16"
  shows "attests i (ed25519_record pk sig msg) pk msg"
proof -
  have "unat (word_of_nat (length msg) :: u16) = length msg"
    using assms by (simp add: unat_of_nat take_bit_nat_eq_self)
  then show ?thesis
    unfolding attests_def ed25519_record_header
    by (auto simp: index_is_self_def slice_get_def) (simp_all add: ed25519_record_def)
qed

text \<open>
  C27: the verifier accepts exactly when the instruction right before the running one is a
  native Ed25519 verification that attests the message for the operator, with public key,
  signature and message all inside that instruction's own data.
\<close>

theorem verify_operator_message_exact:
  "verify_operator_message sv operator message = Ok () \<longleftrightarrow>
     (\<exists>current ed_ix. load_current_index_checked sv = Ok current \<and> current \<noteq> 0 \<and>
        load_instruction_at_checked sv (unat (current - 1)) = Ok ed_ix \<and>
        ix_program_id ed_ix = ED25519_PROGRAM_ID \<and>
        attests (current - 1) (ix_data ed_ix) operator message)"
  by (auto simp: verify_operator_message_unfold and_then_eq_Ok region_checks_attests not_less attests_def
      split: if_splits) 

end
