(* ===== verification/Coordinator.thy ===== *)
theory Coordinator
  imports Ed25519
begin

text \<open>
  \<open>programs/confidential-coordinator/src/lib.rs\<close>, the \<open>#[program]\<close> module and its helpers:
  one definition per handler, over the accounts of its context. A handler's record holds what
  \<open>ctx.accounts\<close> holds after the account checks (theory \<open>Instructions\<close>): account values,
  their keys, and the bumps of accounts being created. A handler returns the accounts it
  wrote, or the error that aborts the transaction. \<open>Clock::get()\<close> is the argument \<open>slot\<close>.
\<close>

text \<open>\<open>declare_id!("2xNTgr7PmWSQRqGcMuCVhdTQLRP8bexVHGJ2CjxiJM6X")\<close>\<close>

definition ID :: pubkey where
  "ID = mk_bytes
     [29, 10, 229, 126, 128, 255, 91, 201, 68, 242, 78, 55, 183, 47, 222, 187,
      122, 27, 214, 238, 178, 168, 127, 124, 206, 184, 105, 168, 217, 51, 178, 168]"

section \<open>Arguments and contexts\<close>

record InitializeConfigArgs =
  ica_domain_id :: bytes32
  ica_operator :: pubkey
  ica_key_version :: u32
  ica_params_hash :: bytes32
  ica_max_request_lifetime_slots :: u64

record CreateAccountArgs =
  caa_balance_hash :: bytes32
  caa_limit_hash :: bytes32

record SubmitArgs =
  sba_amount_hash :: bytes32
  sba_expected_state_version :: u64
  sba_expected_nonce :: u64

record FinalizeArgs =
  fna_result_hash :: bytes32
  fna_result_type :: u8
  fna_circuit_id :: u16

record InitializeConfigCtx =
  icx_authority :: pubkey
  icx_mint :: pubkey
  icx_config_key :: pubkey
  icx_config_bump :: u8

record AdminConfigCtx =
  adx_config_key :: pubkey
  adx_config :: Config

record CreateAccountCtx =
  cax_owner :: pubkey
  cax_config_key :: pubkey
  cax_config :: Config
  cax_account_key :: pubkey
  cax_account_bump :: u8

record SubmitCtx =
  sbx_owner :: pubkey
  sbx_config_key :: pubkey
  sbx_config :: Config
  sbx_account_key :: pubkey
  sbx_account :: ConfidentialAccount
  sbx_request_key :: pubkey
  sbx_request_bump :: u8

record ReleaseCtx =
  rlx_signer :: pubkey
  rlx_account_key :: pubkey
  rlx_account :: ConfidentialAccount
  rlx_request_key :: pubkey
  rlx_request :: Request

record FinalizeCtx =
  fnx_config_key :: pubkey
  fnx_config :: Config
  fnx_account_key :: pubkey
  fnx_account :: ConfidentialAccount
  fnx_request_key :: pubkey
  fnx_request :: Request
  fnx_instructions :: InstructionsSysvar

section \<open>Helpers\<close>

definition require_ct_hash :: "bytes32 \<Rightarrow> unit presult" where
  "require_ct_hash hash = require (\<not> is_zero_hash hash) (Coord InvalidCiphertextRef)"

definition require_pending_lock ::
    "ConfidentialAccount \<Rightarrow> pubkey \<Rightarrow> Request \<Rightarrow> pubkey \<Rightarrow> unit presult" where
  "require_pending_lock account account_key request request_key =
     require_all
      [(req_status request = STATUS_PENDING, Coord InvalidStatus),
       (has_pending account, Coord NoPendingRequest),
       (acc_pending_request account = request_key, Coord RequestMismatch),
       (req_confidential_account request = account_key, Coord AccountMismatch)]"

definition release_account_lock :: "ConfidentialAccount \<Rightarrow> ConfidentialAccount presult" where
  "release_account_lock account =
     (let account = account\<lparr>acc_pending_request := 0\<rparr> in
      and_then (ok_or (checked_add (acc_state_version account) 1) (Coord Overflow)) (\<lambda>version.
      Ok (account\<lparr>acc_state_version := version\<rparr>)))"

definition release_lock ::
    "ConfidentialAccount \<Rightarrow> Request \<Rightarrow> u8 \<Rightarrow> (ConfidentialAccount \<times> Request) presult" where
  "release_lock account request status =
     (let request = request\<lparr>req_status := status\<rparr> in
      and_then (release_account_lock account) (\<lambda>account. Ok (account, request)))"

definition request_binding :: "Config \<Rightarrow> Request \<Rightarrow> pubkey \<Rightarrow> RequestBinding" where
  "request_binding config request request_pda =
    \<lparr>rb_protocol_version = cfg_protocol_version config,
     rb_domain_id = cfg_domain_id config,
     rb_program_id = ID,
     rb_config = req_config request,
     rb_mint = req_mint request,
     rb_confidential_account = req_confidential_account request,
     rb_request_pda = request_pda,
     rb_operation = req_operation request,
     rb_balance_hash = req_balance_hash request,
     rb_amount_hash = req_amount_hash request,
     rb_limit_hash = req_limit_hash request,
     rb_params_hash = req_params_hash request,
     rb_state_version = req_state_version request,
     rb_request_nonce = req_request_nonce request,
     rb_key_version = req_key_version request,
     rb_operator_epoch = req_operator_epoch request,
     rb_expiry_slot = req_expiry_slot request\<rparr>"

section \<open>Handlers\<close>

definition initialize_config ::
    "InitializeConfigCtx \<Rightarrow> InitializeConfigArgs \<Rightarrow> Config presult" where
  "initialize_config ctx args =
     and_then (require_all
      [(ica_max_request_lifetime_slots args > 0, Coord InvalidOperation),
       (\<not> is_zero_hash (ica_params_hash args), Coord InvalidCiphertextRef),
       (ica_operator args \<noteq> 0, Coord InvalidOperator)]) (\<lambda>_.
     Ok \<lparr>cfg_authority = icx_authority ctx,
         cfg_mint = icx_mint ctx,
         cfg_domain_id = ica_domain_id args,
         cfg_operator = ica_operator args,
         cfg_operator_epoch = 1,
         cfg_key_version = ica_key_version args,
         cfg_params_hash = ica_params_hash args,
         cfg_operation = OPERATION_POLICY_CHECK,
         cfg_circuit_id = CIRCUIT_POLICY_V1,
         cfg_protocol_version = PROTOCOL_VERSION,
         cfg_max_request_lifetime_slots = ica_max_request_lifetime_slots args,
         cfg_paused = False,
         cfg_bump = icx_config_bump ctx\<rparr>)"

definition set_paused :: "AdminConfigCtx \<Rightarrow> bool \<Rightarrow> Config presult" where
  "set_paused ctx paused = Ok ((adx_config ctx)\<lparr>cfg_paused := paused\<rparr>)"

definition rotate_operator :: "AdminConfigCtx \<Rightarrow> pubkey \<Rightarrow> Config presult" where
  "rotate_operator ctx new_operator =
     and_then (require (new_operator \<noteq> 0) (Coord InvalidOperator)) (\<lambda>_.
     let config = (adx_config ctx)\<lparr>cfg_operator := new_operator\<rparr> in
     and_then (ok_or (checked_add (cfg_operator_epoch config) 1) (Coord Overflow)) (\<lambda>epoch.
     Ok (config\<lparr>cfg_operator_epoch := epoch\<rparr>)))"

definition set_key_version :: "AdminConfigCtx \<Rightarrow> u32 \<Rightarrow> Config presult" where
  "set_key_version ctx key_version = Ok ((adx_config ctx)\<lparr>cfg_key_version := key_version\<rparr>)"

definition create_account ::
    "CreateAccountCtx \<Rightarrow> CreateAccountArgs \<Rightarrow> ConfidentialAccount presult" where
  "create_account ctx args =
     and_then (require_ct_hash (caa_balance_hash args)) (\<lambda>_.
     and_then (require_ct_hash (caa_limit_hash args)) (\<lambda>_.
     and_then (require (\<not> cfg_paused (cax_config ctx)) (Coord Paused)) (\<lambda>_.
     Ok \<lparr>acc_config = cax_config_key ctx,
         acc_mint = cfg_mint (cax_config ctx),
         acc_owner = cax_owner ctx,
         acc_balance_ref = caa_balance_hash args,
         acc_limit_ref = caa_limit_hash args,
         acc_state_version = 0,
         acc_request_nonce = 0,
         acc_pending_request = 0,
         acc_key_version = cfg_key_version (cax_config ctx),
         acc_bump = cax_account_bump ctx\<rparr>)))"

definition submit ::
    "(u8 list \<Rightarrow> bytes32) \<Rightarrow> u64 \<Rightarrow> SubmitCtx \<Rightarrow> SubmitArgs \<Rightarrow> (ConfidentialAccount \<times> Request) presult" where
  "submit sha256 slot ctx args =
    (let request_key = sbx_request_key ctx;
         account_key = sbx_account_key ctx;
         config = sbx_config ctx;
         account = sbx_account ctx in
     and_then (require_all
      [(\<not> cfg_paused config, Coord Paused),
       (\<not> has_pending account, Coord ActiveRequest),
       (acc_config account = sbx_config_key ctx, Coord ConfigMismatch),
       (acc_mint account = cfg_mint config, Coord MintMismatch),
       (acc_owner account = sbx_owner ctx, Coord Unauthorized),
       (acc_key_version account = cfg_key_version config, Coord InvalidKeyVersion),
       (acc_state_version account = sba_expected_state_version args, Coord InvalidStateVersion)]) (\<lambda>_.
     and_then (require_ct_hash (acc_balance_ref account)) (\<lambda>_.
     and_then (require_ct_hash (acc_limit_ref account)) (\<lambda>_.
     and_then (require_ct_hash (sba_amount_hash args)) (\<lambda>_.
     and_then (ok_or (checked_add (acc_request_nonce account) 1) (Coord Overflow)) (\<lambda>nonce.
     and_then (require (nonce = sba_expected_nonce args) (Coord InvalidNonce)) (\<lambda>_.
     and_then (ok_or (checked_add slot (cfg_max_request_lifetime_slots config)) (Coord Overflow)) (\<lambda>expiry_slot.
     let request =
          \<lparr>req_requester = sbx_owner ctx,
           req_config = sbx_config_key ctx,
           req_mint = cfg_mint config,
           req_confidential_account = account_key,
           req_operation = cfg_operation config,
           req_balance_hash = acc_balance_ref account,
           req_amount_hash = sba_amount_hash args,
           req_limit_hash = acc_limit_ref account,
           req_params_hash = cfg_params_hash config,
           req_state_version = acc_state_version account,
           req_request_nonce = nonce,
           req_key_version = cfg_key_version config,
           req_operator_epoch = cfg_operator_epoch config,
           req_created_slot = slot,
           req_expiry_slot = expiry_slot,
           req_status = STATUS_PENDING,
           req_request_digest = 0,
           req_result_hash = 0,
           req_result_digest = 0,
           req_bump = sbx_request_bump ctx\<rparr>;
         request = request\<lparr>req_request_digest :=
           request_digest sha256 (request_binding config request request_key)\<rparr>;
         account = account\<lparr>acc_request_nonce := nonce\<rparr>;
         account = account\<lparr>acc_pending_request := request_key\<rparr>
     in Ok (account, request)))))))))"

definition cancel :: "u64 \<Rightarrow> ReleaseCtx \<Rightarrow> (ConfidentialAccount \<times> Request) presult" where
  "cancel slot ctx =
    (let account = rlx_account ctx; request = rlx_request ctx in
     and_then (require_pending_lock account (rlx_account_key ctx) request (rlx_request_key ctx)) (\<lambda>_.
     and_then (require (acc_owner account = rlx_signer ctx) (Coord Unauthorized)) (\<lambda>_.
     and_then (require (slot < req_expiry_slot request) (Coord Expired)) (\<lambda>_.
     release_lock account request STATUS_CANCELLED))))"

definition expire :: "u64 \<Rightarrow> ReleaseCtx \<Rightarrow> (ConfidentialAccount \<times> Request) presult" where
  "expire slot ctx =
    (let account = rlx_account ctx; request = rlx_request ctx in
     and_then (require_pending_lock account (rlx_account_key ctx) request (rlx_request_key ctx)) (\<lambda>_.
     and_then (require (req_expiry_slot request \<le> slot) (Coord NotExpired)) (\<lambda>_.
     release_lock account request STATUS_EXPIRED)))"

definition result_binding :: "FinalizeCtx \<Rightarrow> FinalizeArgs \<Rightarrow> ResultBinding" where
  "result_binding ctx args =
    \<lparr>rs_request = request_binding (fnx_config ctx) (fnx_request ctx) (fnx_request_key ctx),
     rs_request_digest = req_request_digest (fnx_request ctx),
     rs_result_hash = fna_result_hash args,
     rs_result_type = fna_result_type args,
     rs_circuit_id = fna_circuit_id args\<rparr>"

definition finalize ::
    "(u8 list \<Rightarrow> bytes32) \<Rightarrow> u64 \<Rightarrow> FinalizeCtx \<Rightarrow> FinalizeArgs \<Rightarrow> (ConfidentialAccount \<times> Request) presult" where
  "finalize sha256 slot ctx args =
    (let config = fnx_config ctx; account = fnx_account ctx; request = fnx_request ctx in
     and_then (require (\<not> cfg_paused config) (Coord Paused)) (\<lambda>_.
     and_then (require_pending_lock account (fnx_account_key ctx) request (fnx_request_key ctx)) (\<lambda>_.
     and_then (require_all
      [(req_config request = fnx_config_key ctx, Coord ConfigMismatch),
       (req_mint request = cfg_mint config, Coord MintMismatch),
       (acc_config account = fnx_config_key ctx, Coord ConfigMismatch),
       (acc_mint account = cfg_mint config, Coord MintMismatch),
       (req_operator_epoch request = cfg_operator_epoch config, Coord InvalidOperatorEpoch),
       (req_key_version request = cfg_key_version config, Coord InvalidKeyVersion),
       (acc_state_version account = req_state_version request, Coord InvalidStateVersion),
       (acc_request_nonce account = req_request_nonce request, Coord InvalidNonce),
       (req_operation request = cfg_operation config, Coord InvalidOperation),
       (fna_circuit_id args = cfg_circuit_id config, Coord InvalidOperation),
       (fna_result_type args = RESULT_TYPE_FHE_BOOL, Coord InvalidResult)]) (\<lambda>_.
     and_then (require_ct_hash (fna_result_hash args)) (\<lambda>_.
     and_then (require (slot < req_expiry_slot request) (Coord Expired)) (\<lambda>_.
     let binding = result_binding ctx args in
     and_then (require (request_digest sha256 (rs_request binding) = req_request_digest request)
                 (Coord RequestMismatch)) (\<lambda>_.
     let message = encode_result binding in
     and_then (verify_operator_message (fnx_instructions ctx) (cfg_operator config) message) (\<lambda>_.
     let request = request\<lparr>req_status := STATUS_FINALIZED\<rparr>;
         request = request\<lparr>req_result_hash := fna_result_hash args\<rparr>;
         request = request\<lparr>req_result_digest := result_digest sha256 binding\<rparr> in
     and_then (release_account_lock account) (\<lambda>account.
     Ok (account, request))))))))))"

end
