(* ===== verification/Instructions.thy ===== *)
theory Instructions
  imports Coordinator
begin

text \<open>
  The \<open>#[derive(Accounts)]\<close> structs of \<open>lib.rs\<close>: which accounts each instruction takes, in
  which order, and the constraints they must meet before the handler runs; then the
  instructions themselves, from the checks over the handler to the accounts written back.

  The ledger maps an address to the account there: one of the program's three kinds, or an
  account the program does not own. Program-derived addresses are computed by the Solana SDK,
  and the instruction data is decoded by code the \<open>#[program]\<close> macro generates; these, and
  SHA-256, are the fields of \<open>Runtime\<close>, a parameter of everything here.

  Anchor's checks come in this order: the accounts that are not being created are loaded (type
  and signer checks), then the accounts with \<open>init\<close> are created, then the constraints of the
  loaded accounts are checked (\<open>seeds\<close>, \<open>mut\<close>, \<open>has_one\<close>, \<open>constraint\<close>, \<open>address\<close>). Lamports,
  rent and compute units are left out; an address that holds nothing but lamports counts as
  vacant, since \<open>init\<close> takes it over.
\<close>

datatype ChainAccount =
    ConfigAccount Config
  | BalanceAccount ConfidentialAccount
  | RequestAccount Request
  | ForeignAccount

type_synonym ledger = "pubkey \<rightharpoonup> ChainAccount"

datatype Call =
    InitializeConfigCall InitializeConfigArgs
  | SetPausedCall bool
  | RotateOperatorCall pubkey
  | SetKeyVersionCall u32
  | CreateAccountCall CreateAccountArgs
  | SubmitCall SubmitArgs
  | CancelCall
  | ExpireCall
  | FinalizeCall FinalizeArgs

record Runtime =
  rt_sha256 :: "u8 list \<Rightarrow> bytes32"
  rt_find_program_address :: "u8 list list \<Rightarrow> pubkey \<Rightarrow> pubkey \<times> u8"
  rt_create_program_address :: "u8 list list \<Rightarrow> pubkey \<Rightarrow> pubkey option"
  rt_decode_call :: "u8 list \<Rightarrow> Call option"

record Env =
  env_slot :: u64
  env_instructions :: InstructionsSysvar

section \<open>Account checks\<close>

definition load_config :: "ledger \<Rightarrow> AccountMeta \<Rightarrow> Config presult" where
  "load_config L m = (case L (am_pubkey m) of
      Some (ConfigAccount c) \<Rightarrow> Ok c
    | None \<Rightarrow> Err (Framework AccountNotInitialized)
    | Some ForeignAccount \<Rightarrow> Err (Framework AccountOwnedByWrongProgram)
    | Some _ \<Rightarrow> Err (Framework AccountDiscriminatorMismatch))"

definition load_account :: "ledger \<Rightarrow> AccountMeta \<Rightarrow> ConfidentialAccount presult" where
  "load_account L m = (case L (am_pubkey m) of
      Some (BalanceAccount a) \<Rightarrow> Ok a
    | None \<Rightarrow> Err (Framework AccountNotInitialized)
    | Some ForeignAccount \<Rightarrow> Err (Framework AccountOwnedByWrongProgram)
    | Some _ \<Rightarrow> Err (Framework AccountDiscriminatorMismatch))"

definition load_request :: "ledger \<Rightarrow> AccountMeta \<Rightarrow> Request presult" where
  "load_request L m = (case L (am_pubkey m) of
      Some (RequestAccount r) \<Rightarrow> Ok r
    | None \<Rightarrow> Err (Framework AccountNotInitialized)
    | Some ForeignAccount \<Rightarrow> Err (Framework AccountOwnedByWrongProgram)
    | Some _ \<Rightarrow> Err (Framework AccountDiscriminatorMismatch))"

definition check_signer :: "AccountMeta \<Rightarrow> unit presult" where
  "check_signer m = require (am_is_signer m) (Framework AccountNotSigner)"

definition check_mut :: "AccountMeta \<Rightarrow> unit presult" where
  "check_mut m = require (am_is_writable m) (Framework ConstraintMut)"

text \<open>\<open>Program<'info, System>\<close>: the system program's address is the default key.\<close>

definition check_system_program :: "AccountMeta \<Rightarrow> unit presult" where
  "check_system_program m = require (am_pubkey m = 0) (Framework InvalidProgramId)"

text \<open>\<open>seeds = [...], bump = stored\<close> on an account that exists.\<close>

definition check_seeds :: "Runtime \<Rightarrow> u8 list list \<Rightarrow> u8 \<Rightarrow> AccountMeta \<Rightarrow> unit presult" where
  "check_seeds rt seeds bump m =
     require (rt_create_program_address rt (seeds @ [[bump]]) ID = Some (am_pubkey m))
       (Framework ConstraintSeeds)"

text \<open>\<open>init, seeds = [...], bump\<close>: the account is created at the derived address; its bump is
  handed to the handler.\<close>

definition init_pda :: "Runtime \<Rightarrow> ledger \<Rightarrow> u8 list list \<Rightarrow> AccountMeta \<Rightarrow> u8 presult" where
  "init_pda rt L seeds m =
     (case rt_find_program_address rt seeds ID of (key, bump) \<Rightarrow>
      and_then (require_all
       [(key = am_pubkey m, Framework ConstraintSeeds),
        (am_is_writable m, Framework ConstraintMut),
        (L (am_pubkey m) = None, Framework AccountAlreadyInUse)]) (\<lambda>_.
      Ok bump))"

definition config_seeds :: "pubkey \<Rightarrow> u8 list list" where
  "config_seeds mint = [SEED_CONFIG, raw mint]"

definition account_seeds :: "pubkey \<Rightarrow> pubkey \<Rightarrow> u8 list list" where
  "account_seeds mint owner = [SEED_ACCOUNT, raw mint, raw owner]"

definition request_seeds :: "pubkey \<Rightarrow> u64 \<Rightarrow> u8 list list" where
  "request_seeds account nonce = [SEED_REQUEST, raw account, le_bytes nonce]"

section \<open>The account structs\<close>

definition InitializeConfig_accounts ::
    "Runtime \<Rightarrow> ledger \<Rightarrow> AccountMeta list \<Rightarrow> InitializeConfigCtx presult" where
  "InitializeConfig_accounts rt L metas = (case metas of
      authority # mint # config # system_program # _ \<Rightarrow>
        and_then (check_signer authority) (\<lambda>_.
        and_then (check_system_program system_program) (\<lambda>_.
        and_then (init_pda rt L (config_seeds (am_pubkey mint)) config) (\<lambda>bump.
        and_then (check_mut authority) (\<lambda>_.
        Ok \<lparr>icx_authority = am_pubkey authority, icx_mint = am_pubkey mint,
            icx_config_key = am_pubkey config, icx_config_bump = bump\<rparr>))))
    | _ \<Rightarrow> Err (Framework AccountNotEnoughKeys))"

definition AdminConfig_accounts ::
    "ledger \<Rightarrow> AccountMeta list \<Rightarrow> AdminConfigCtx presult" where
  "AdminConfig_accounts L metas = (case metas of
      authority # config # _ \<Rightarrow>
        and_then (check_signer authority) (\<lambda>_.
        and_then (load_config L config) (\<lambda>cfg.
        and_then (check_mut config) (\<lambda>_.
        and_then (require (cfg_authority cfg = am_pubkey authority) (Coord Unauthorized)) (\<lambda>_.
        Ok \<lparr>adx_config_key = am_pubkey config, adx_config = cfg\<rparr>))))
    | _ \<Rightarrow> Err (Framework AccountNotEnoughKeys))"

definition CreateAccount_accounts ::
    "Runtime \<Rightarrow> ledger \<Rightarrow> AccountMeta list \<Rightarrow> CreateAccountCtx presult" where
  "CreateAccount_accounts rt L metas = (case metas of
      owner # config # account # system_program # _ \<Rightarrow>
        and_then (check_signer owner) (\<lambda>_.
        and_then (load_config L config) (\<lambda>cfg.
        and_then (check_system_program system_program) (\<lambda>_.
        and_then (init_pda rt L (account_seeds (cfg_mint cfg) (am_pubkey owner)) account) (\<lambda>bump.
        and_then (check_mut owner) (\<lambda>_.
        and_then (check_seeds rt (config_seeds (cfg_mint cfg)) (cfg_bump cfg) config) (\<lambda>_.
        Ok \<lparr>cax_owner = am_pubkey owner, cax_config_key = am_pubkey config, cax_config = cfg,
            cax_account_key = am_pubkey account, cax_account_bump = bump\<rparr>))))))
    | _ \<Rightarrow> Err (Framework AccountNotEnoughKeys))"

definition Submit_accounts ::
    "Runtime \<Rightarrow> ledger \<Rightarrow> AccountMeta list \<Rightarrow> SubmitArgs \<Rightarrow> SubmitCtx presult" where
  "Submit_accounts rt L metas args = (case metas of
      owner # config # account # request # system_program # _ \<Rightarrow>
        and_then (check_signer owner) (\<lambda>_.
        and_then (load_config L config) (\<lambda>cfg.
        and_then (load_account L account) (\<lambda>acc.
        and_then (check_system_program system_program) (\<lambda>_.
        and_then (init_pda rt L (request_seeds (am_pubkey account) (sba_expected_nonce args)) request) (\<lambda>bump.
        and_then (check_mut owner) (\<lambda>_.
        and_then (check_seeds rt (config_seeds (cfg_mint cfg)) (cfg_bump cfg) config) (\<lambda>_.
        and_then (check_seeds rt (account_seeds (cfg_mint cfg) (am_pubkey owner)) (acc_bump acc) account) (\<lambda>_.
        and_then (check_mut account) (\<lambda>_.
        and_then (require_all
          [(acc_owner acc = am_pubkey owner, Coord Unauthorized),
           (acc_config acc = am_pubkey config, Coord ConfigMismatch)]) (\<lambda>_.
        Ok \<lparr>sbx_owner = am_pubkey owner, sbx_config_key = am_pubkey config, sbx_config = cfg,
            sbx_account_key = am_pubkey account, sbx_account = acc,
            sbx_request_key = am_pubkey request, sbx_request_bump = bump\<rparr>))))))))))
    | _ \<Rightarrow> Err (Framework AccountNotEnoughKeys))"

definition Cancel_accounts ::
    "Runtime \<Rightarrow> ledger \<Rightarrow> AccountMeta list \<Rightarrow> ReleaseCtx presult" where
  "Cancel_accounts rt L metas = (case metas of
      owner # account # request # _ \<Rightarrow>
        and_then (check_signer owner) (\<lambda>_.
        and_then (load_account L account) (\<lambda>acc.
        and_then (load_request L request) (\<lambda>req.
        and_then (check_seeds rt (account_seeds (acc_mint acc) (am_pubkey owner)) (acc_bump acc) account) (\<lambda>_.
        and_then (check_mut account) (\<lambda>_.
        and_then (require (acc_owner acc = am_pubkey owner) (Coord Unauthorized)) (\<lambda>_.
        and_then (check_seeds rt (request_seeds (am_pubkey account) (req_request_nonce req)) (req_bump req) request) (\<lambda>_.
        and_then (check_mut request) (\<lambda>_.
        and_then (require (req_confidential_account req = am_pubkey account) (Coord AccountMismatch)) (\<lambda>_.
        Ok \<lparr>rlx_signer = am_pubkey owner, rlx_account_key = am_pubkey account, rlx_account = acc,
            rlx_request_key = am_pubkey request, rlx_request = req\<rparr>)))))))))
    | _ \<Rightarrow> Err (Framework AccountNotEnoughKeys))"

definition Expire_accounts ::
    "Runtime \<Rightarrow> ledger \<Rightarrow> AccountMeta list \<Rightarrow> ReleaseCtx presult" where
  "Expire_accounts rt L metas = (case metas of
      payer # account # request # _ \<Rightarrow>
        and_then (check_signer payer) (\<lambda>_.
        and_then (load_account L account) (\<lambda>acc.
        and_then (load_request L request) (\<lambda>req.
        and_then (check_mut payer) (\<lambda>_.
        and_then (check_seeds rt (account_seeds (acc_mint acc) (acc_owner acc)) (acc_bump acc) account) (\<lambda>_.
        and_then (check_mut account) (\<lambda>_.
        and_then (check_seeds rt (request_seeds (am_pubkey account) (req_request_nonce req)) (req_bump req) request) (\<lambda>_.
        and_then (check_mut request) (\<lambda>_.
        and_then (require (req_confidential_account req = am_pubkey account) (Coord AccountMismatch)) (\<lambda>_.
        Ok \<lparr>rlx_signer = am_pubkey payer, rlx_account_key = am_pubkey account, rlx_account = acc,
            rlx_request_key = am_pubkey request, rlx_request = req\<rparr>)))))))))
    | _ \<Rightarrow> Err (Framework AccountNotEnoughKeys))"

definition Finalize_accounts ::
    "Runtime \<Rightarrow> Env \<Rightarrow> ledger \<Rightarrow> AccountMeta list \<Rightarrow> FinalizeCtx presult" where
  "Finalize_accounts rt env L metas = (case metas of
      payer # config # account # request # instructions # _ \<Rightarrow>
        and_then (check_signer payer) (\<lambda>_.
        and_then (load_config L config) (\<lambda>cfg.
        and_then (load_account L account) (\<lambda>acc.
        and_then (load_request L request) (\<lambda>req.
        and_then (check_mut payer) (\<lambda>_.
        and_then (check_seeds rt (config_seeds (cfg_mint cfg)) (cfg_bump cfg) config) (\<lambda>_.
        and_then (check_seeds rt (account_seeds (cfg_mint cfg) (acc_owner acc)) (acc_bump acc) account) (\<lambda>_.
        and_then (check_mut account) (\<lambda>_.
        and_then (require (acc_config acc = am_pubkey config) (Coord ConfigMismatch)) (\<lambda>_.
        and_then (check_seeds rt (request_seeds (am_pubkey account) (req_request_nonce req)) (req_bump req) request) (\<lambda>_.
        and_then (check_mut request) (\<lambda>_.
        and_then (require_all
          [(req_config req = am_pubkey config, Coord ConfigMismatch),
           (req_confidential_account req = am_pubkey account, Coord AccountMismatch),
           (am_pubkey instructions = INSTRUCTIONS_ID, Framework ConstraintAddress)]) (\<lambda>_.
        Ok \<lparr>fnx_config_key = am_pubkey config, fnx_config = cfg,
            fnx_account_key = am_pubkey account, fnx_account = acc,
            fnx_request_key = am_pubkey request, fnx_request = req,
            fnx_instructions = env_instructions env\<rparr>))))))))))))
    | _ \<Rightarrow> Err (Framework AccountNotEnoughKeys))"

section \<open>Running an instruction\<close>

text \<open>What an instruction writes back: the accounts marked \<open>init\<close> or \<open>mut\<close> of its struct.\<close>

definition run_admin ::
    "ledger \<Rightarrow> AccountMeta list \<Rightarrow> (AdminConfigCtx \<Rightarrow> Config presult) \<Rightarrow> ledger presult" where
  "run_admin L metas handler =
     and_then (AdminConfig_accounts L metas) (\<lambda>ctx.
     and_then (handler ctx) (\<lambda>cfg.
     Ok (L(adx_config_key ctx \<mapsto> ConfigAccount cfg))))"

fun run_call :: "Runtime \<Rightarrow> Env \<Rightarrow> ledger \<Rightarrow> AccountMeta list \<Rightarrow> Call \<Rightarrow> ledger presult" where
  "run_call rt env L metas (InitializeConfigCall args) =
     and_then (InitializeConfig_accounts rt L metas) (\<lambda>ctx.
     and_then (initialize_config ctx args) (\<lambda>cfg.
     Ok (L(icx_config_key ctx \<mapsto> ConfigAccount cfg))))"
| "run_call rt env L metas (SetPausedCall paused) =
     run_admin L metas (\<lambda>ctx. set_paused ctx paused)"
| "run_call rt env L metas (RotateOperatorCall new_operator) =
     run_admin L metas (\<lambda>ctx. rotate_operator ctx new_operator)"
| "run_call rt env L metas (SetKeyVersionCall key_version) =
     run_admin L metas (\<lambda>ctx. set_key_version ctx key_version)"
| "run_call rt env L metas (CreateAccountCall args) =
     and_then (CreateAccount_accounts rt L metas) (\<lambda>ctx.
     and_then (create_account ctx args) (\<lambda>acc.
     Ok (L(cax_account_key ctx \<mapsto> BalanceAccount acc))))"
| "run_call rt env L metas (SubmitCall args) =
     and_then (Submit_accounts rt L metas args) (\<lambda>ctx.
     and_then (submit (rt_sha256 rt) (env_slot env) ctx args) (\<lambda>(acc, req).
     Ok (L(sbx_account_key ctx \<mapsto> BalanceAccount acc, sbx_request_key ctx \<mapsto> RequestAccount req))))"
| "run_call rt env L metas CancelCall =
     and_then (Cancel_accounts rt L metas) (\<lambda>ctx.
     and_then (cancel (env_slot env) ctx) (\<lambda>(acc, req).
     Ok (L(rlx_account_key ctx \<mapsto> BalanceAccount acc, rlx_request_key ctx \<mapsto> RequestAccount req))))"
| "run_call rt env L metas ExpireCall =
     and_then (Expire_accounts rt L metas) (\<lambda>ctx.
     and_then (expire (env_slot env) ctx) (\<lambda>(acc, req).
     Ok (L(rlx_account_key ctx \<mapsto> BalanceAccount acc, rlx_request_key ctx \<mapsto> RequestAccount req))))"
| "run_call rt env L metas (FinalizeCall args) =
     and_then (Finalize_accounts rt env L metas) (\<lambda>ctx.
     and_then (finalize (rt_sha256 rt) (env_slot env) ctx args) (\<lambda>(acc, req).
     Ok (L(fnx_account_key ctx \<mapsto> BalanceAccount acc, fnx_request_key ctx \<mapsto> RequestAccount req))))"

text \<open>The program's entry point: decode the data, run the call on the instruction's accounts.\<close>

definition process_instruction :: "Runtime \<Rightarrow> Env \<Rightarrow> ledger \<Rightarrow> Instruction \<Rightarrow> ledger presult" where
  "process_instruction rt env L ix =
     and_then (ok_or (rt_decode_call rt (ix_data ix)) (Framework InstructionFallbackNotFound)) (\<lambda>call.
     run_call rt env L (ix_accounts ix) call)"

end
