(* ===== verification/Lifecycle.thy ===== *)
theory Lifecycle
  imports Instructions
begin

text \<open>
  What the handlers of the coordinator do, as equivalences: a handler succeeds exactly under
  these conditions and then returns exactly these accounts. Over them stands the contract of
  the account's lock: an account holds at most one pending request, every submit takes the
  lock with a fresh nonce, every release gives it back with a new state version.
\<close>

section \<open>Success of each handler\<close>

named_theorems handler_Ok \<open>when a handler succeeds, and with what\<close>

lemma checked_add_one_u64: "checked_add (a :: u64) 1 = Some b \<longleftrightarrow> unat a + 1 < 2 ^ 64 \<and> b = a + 1"
  by (auto simp: checked_add_def)

lemma ok_unit: "(m :: (unit, 'e) result) = Ok u \<longleftrightarrow> m = Ok ()"
  by simp

lemma require_ct_hash_Ok [simp]: "require_ct_hash h = Ok u \<longleftrightarrow> h \<noteq> 0"
  by (simp add: require_ct_hash_def is_zero_hash_def)

definition pending_lock ::
    "ConfidentialAccount \<Rightarrow> pubkey \<Rightarrow> Request \<Rightarrow> pubkey \<Rightarrow> bool" where
  "pending_lock account account_key request request_key \<longleftrightarrow>
     req_status request = STATUS_PENDING \<and> acc_pending_request account = request_key \<and>
     request_key \<noteq> 0 \<and> req_confidential_account request = account_key"

lemma require_pending_lock_Ok [simp]:
  "require_pending_lock a ak r rk = Ok u \<longleftrightarrow> pending_lock a ak r rk"
  by (auto simp: require_pending_lock_def pending_lock_def has_pending_def)

definition unlocked :: "ConfidentialAccount \<Rightarrow> ConfidentialAccount" where
  "unlocked a = a\<lparr>acc_pending_request := 0, acc_state_version := acc_state_version a + 1\<rparr>"

definition version_room :: "ConfidentialAccount \<Rightarrow> bool" where
  "version_room a \<longleftrightarrow> unat (acc_state_version a) + 1 < 2 ^ 64"

lemma release_account_lock_Ok [handler_Ok]:
  "release_account_lock a = Ok a' \<longleftrightarrow> version_room a \<and> a' = unlocked a"
  by (auto simp: release_account_lock_def and_then_eq_Ok checked_add_one_u64 unlocked_def
      version_room_def Let_def)

lemma release_account_lock_Err:
  "release_account_lock a = Err e \<longleftrightarrow> \<not> version_room a \<and> e = Coord Overflow"
  by (auto simp: release_account_lock_def and_then_eq_Err checked_add_def
      version_room_def Let_def)

lemma release_lock_Ok [handler_Ok]:
  "release_lock a r status = Ok (a', r') \<longleftrightarrow>
     version_room a \<and> a' = unlocked a \<and> r' = r\<lparr>req_status := status\<rparr>"
  by (auto simp: release_lock_def and_then_eq_Ok release_account_lock_Ok Let_def)

lemma cancel_Ok [handler_Ok]:
  "cancel slot ctx = Ok (a', r') \<longleftrightarrow>
     pending_lock (rlx_account ctx) (rlx_account_key ctx) (rlx_request ctx) (rlx_request_key ctx) \<and>
     acc_owner (rlx_account ctx) = rlx_signer ctx \<and> slot < req_expiry_slot (rlx_request ctx) \<and>
     version_room (rlx_account ctx) \<and> a' = unlocked (rlx_account ctx) \<and>
     r' = (rlx_request ctx)\<lparr>req_status := STATUS_CANCELLED\<rparr>"
  by (auto simp: cancel_def and_then_eq_Ok release_lock_Ok Let_def)

lemma expire_Ok [handler_Ok]:
  "expire slot ctx = Ok (a', r') \<longleftrightarrow>
     pending_lock (rlx_account ctx) (rlx_account_key ctx) (rlx_request ctx) (rlx_request_key ctx) \<and>
     req_expiry_slot (rlx_request ctx) \<le> slot \<and>
     version_room (rlx_account ctx) \<and> a' = unlocked (rlx_account ctx) \<and>
     r' = (rlx_request ctx)\<lparr>req_status := STATUS_EXPIRED\<rparr>"
  by (auto simp: expire_def and_then_eq_Ok release_lock_Ok Let_def)

text \<open>What finalize demands of the request against the account and the configuration.\<close>

definition finalize_ready :: "FinalizeCtx \<Rightarrow> FinalizeArgs \<Rightarrow> bool" where
  "finalize_ready ctx args \<longleftrightarrow>
    (let config = fnx_config ctx; account = fnx_account ctx; request = fnx_request ctx in
     req_config request = fnx_config_key ctx \<and> req_mint request = cfg_mint config \<and>
     acc_config account = fnx_config_key ctx \<and> acc_mint account = cfg_mint config \<and>
     req_operator_epoch request = cfg_operator_epoch config \<and>
     req_key_version request = cfg_key_version config \<and>
     acc_state_version account = req_state_version request \<and>
     acc_request_nonce account = req_request_nonce request \<and>
     req_operation request = cfg_operation config \<and>
     fna_circuit_id args = cfg_circuit_id config \<and>
     fna_result_type args = RESULT_TYPE_FHE_BOOL \<and> fna_result_hash args \<noteq> 0)"

definition finalized :: "(u8 list \<Rightarrow> bytes32) \<Rightarrow> FinalizeCtx \<Rightarrow> FinalizeArgs \<Rightarrow> Request" where
  "finalized sha256 ctx args = (fnx_request ctx)
     \<lparr>req_status := STATUS_FINALIZED, req_result_hash := fna_result_hash args,
      req_result_digest := result_digest sha256 (result_binding ctx args)\<rparr>"

lemma finalize_Ok [handler_Ok]:
  "finalize sha256 slot ctx args = Ok (a', r') \<longleftrightarrow>
     \<not> cfg_paused (fnx_config ctx) \<and>
     pending_lock (fnx_account ctx) (fnx_account_key ctx) (fnx_request ctx) (fnx_request_key ctx) \<and>
     finalize_ready ctx args \<and> slot < req_expiry_slot (fnx_request ctx) \<and>
     request_digest sha256 (request_binding (fnx_config ctx) (fnx_request ctx) (fnx_request_key ctx))
       = req_request_digest (fnx_request ctx) \<and>
     verify_operator_message (fnx_instructions ctx) (cfg_operator (fnx_config ctx))
       (encode_result (result_binding ctx args)) = Ok () \<and>
     version_room (fnx_account ctx) \<and> a' = unlocked (fnx_account ctx) \<and>
     r' = finalized sha256 ctx args"
  by (auto simp: finalize_def and_then_eq_Ok release_account_lock_Ok finalize_ready_def
      finalized_def Let_def result_binding_def)

definition submit_ready :: "u64 \<Rightarrow> SubmitCtx \<Rightarrow> SubmitArgs \<Rightarrow> bool" where
  "submit_ready slot ctx args \<longleftrightarrow>
    (let config = sbx_config ctx; account = sbx_account ctx in
     \<not> cfg_paused config \<and> acc_pending_request account = 0 \<and>
     acc_config account = sbx_config_key ctx \<and> acc_mint account = cfg_mint config \<and>
     acc_owner account = sbx_owner ctx \<and> acc_key_version account = cfg_key_version config \<and>
     acc_state_version account = sba_expected_state_version args \<and>
     acc_balance_ref account \<noteq> 0 \<and> acc_limit_ref account \<noteq> 0 \<and> sba_amount_hash args \<noteq> 0 \<and>
     unat (acc_request_nonce account) + 1 < 2 ^ 64 \<and>
     acc_request_nonce account + 1 = sba_expected_nonce args \<and>
     unat slot + unat (cfg_max_request_lifetime_slots config) < 2 ^ 64)"

definition submitted ::
    "(u8 list \<Rightarrow> bytes32) \<Rightarrow> u64 \<Rightarrow> SubmitCtx \<Rightarrow> SubmitArgs \<Rightarrow> Request" where
  "submitted sha256 slot ctx args =
    (let request =
          \<lparr>req_requester = sbx_owner ctx,
           req_config = sbx_config_key ctx,
           req_mint = cfg_mint (sbx_config ctx),
           req_confidential_account = sbx_account_key ctx,
           req_operation = cfg_operation (sbx_config ctx),
           req_balance_hash = acc_balance_ref (sbx_account ctx),
           req_amount_hash = sba_amount_hash args,
           req_limit_hash = acc_limit_ref (sbx_account ctx),
           req_params_hash = cfg_params_hash (sbx_config ctx),
           req_state_version = acc_state_version (sbx_account ctx),
           req_request_nonce = acc_request_nonce (sbx_account ctx) + 1,
           req_key_version = cfg_key_version (sbx_config ctx),
           req_operator_epoch = cfg_operator_epoch (sbx_config ctx),
           req_created_slot = slot,
           req_expiry_slot = slot + cfg_max_request_lifetime_slots (sbx_config ctx),
           req_status = STATUS_PENDING,
           req_request_digest = 0, req_result_hash = 0, req_result_digest = 0,
           req_bump = sbx_request_bump ctx\<rparr>
     in request\<lparr>req_request_digest :=
          request_digest sha256 (request_binding (sbx_config ctx) request (sbx_request_key ctx))\<rparr>)"

definition locked :: "ConfidentialAccount \<Rightarrow> pubkey \<Rightarrow> ConfidentialAccount" where
  "locked a key = a\<lparr>acc_request_nonce := acc_request_nonce a + 1, acc_pending_request := key\<rparr>"

lemma submit_Ok [handler_Ok]:
  "submit sha256 slot ctx args = Ok (a', r') \<longleftrightarrow>
     submit_ready slot ctx args \<and> a' = locked (sbx_account ctx) (sbx_request_key ctx) \<and>
     r' = submitted sha256 slot ctx args"
  by (auto simp: submit_def and_then_eq_Ok checked_add_one_u64 submit_ready_def submitted_def
      locked_def Let_def has_pending_def checked_add_def)

lemma create_account_Ok [handler_Ok]:
  "create_account ctx args = Ok a \<longleftrightarrow>
     caa_balance_hash args \<noteq> 0 \<and> caa_limit_hash args \<noteq> 0 \<and> \<not> cfg_paused (cax_config ctx) \<and>
     a = \<lparr>acc_config = cax_config_key ctx, acc_mint = cfg_mint (cax_config ctx),
          acc_owner = cax_owner ctx, acc_balance_ref = caa_balance_hash args,
          acc_limit_ref = caa_limit_hash args, acc_state_version = 0, acc_request_nonce = 0,
          acc_pending_request = 0, acc_key_version = cfg_key_version (cax_config ctx),
          acc_bump = cax_account_bump ctx\<rparr>"
  by (auto simp: create_account_def and_then_eq_Ok)

lemma rotate_operator_Ok [handler_Ok]:
  "rotate_operator ctx new = Ok c \<longleftrightarrow>
     new \<noteq> 0 \<and> unat (cfg_operator_epoch (adx_config ctx)) + 1 < 2 ^ 64 \<and>
     c = (adx_config ctx)\<lparr>cfg_operator := new, cfg_operator_epoch := cfg_operator_epoch (adx_config ctx) + 1\<rparr>"
  by (auto simp: rotate_operator_def and_then_eq_Ok checked_add_one_u64 Let_def)

lemma initialize_config_Ok [handler_Ok]:
  "initialize_config ctx args = Ok c \<longleftrightarrow>
     0 < ica_max_request_lifetime_slots args \<and> ica_params_hash args \<noteq> 0 \<and> ica_operator args \<noteq> 0 \<and>
     c = \<lparr>cfg_authority = icx_authority ctx, cfg_mint = icx_mint ctx,
          cfg_domain_id = ica_domain_id args, cfg_operator = ica_operator args,
          cfg_operator_epoch = 1, cfg_key_version = ica_key_version args,
          cfg_params_hash = ica_params_hash args, cfg_operation = OPERATION_POLICY_CHECK,
          cfg_circuit_id = CIRCUIT_POLICY_V1, cfg_protocol_version = PROTOCOL_VERSION,
          cfg_max_request_lifetime_slots = ica_max_request_lifetime_slots args,
          cfg_paused = False, cfg_bump = icx_config_bump ctx\<rparr>"
  by (auto simp: initialize_config_def and_then_eq_Ok is_zero_hash_def)

section \<open>The lock contract\<close>

text \<open>
  A lock with a nonce and a version: taking it spends a nonce, dropping it makes a version.
  \<open>held\<close>, \<open>nonce\<close> and \<open>version\<close> observe the state; \<open>take\<close> and \<open>drop\<close> are the two operations
  as relations between the states before and after.
\<close>

locale version_lock =
  fixes held :: "'s \<Rightarrow> bool"
    and nonce :: "'s \<Rightarrow> nat"
    and version :: "'s \<Rightarrow> nat"
    and acquire :: "'s \<Rightarrow> 's \<Rightarrow> bool"
    and release :: "'s \<Rightarrow> 's \<Rightarrow> bool"
  assumes acquire_free: "acquire s t \<Longrightarrow> \<not> held s"
    and acquire_holds: "acquire s t \<Longrightarrow> held t"
    and acquire_nonce: "acquire s t \<Longrightarrow> nonce t = nonce s + 1"
    and acquire_version: "acquire s t \<Longrightarrow> version t = version s"
    and release_held: "release s t \<Longrightarrow> held s"
    and release_frees: "release s t \<Longrightarrow> \<not> held t"
    and release_nonce: "release s t \<Longrightarrow> nonce t = nonce s"
    and release_version: "release s t \<Longrightarrow> version t = version s + 1"
begin

definition balanced :: "'s \<Rightarrow> bool" where
  "balanced s \<longleftrightarrow> nonce s = version s + (if held s then 1 else 0)"

definition history :: "'s \<Rightarrow> 's \<Rightarrow> bool" where
  "history = (\<lambda>s t. acquire s t \<or> release s t)\<^sup>*\<^sup>*"

lemma acquire_balanced: "acquire s t \<Longrightarrow> balanced s \<Longrightarrow> balanced t"
  by (simp add: balanced_def acquire_free acquire_holds acquire_nonce acquire_version)

lemma release_balanced: "release s t \<Longrightarrow> balanced s \<Longrightarrow> balanced t"
  by (simp add: balanced_def release_held release_frees release_nonce release_version)

lemma history_balanced: "history s t \<Longrightarrow> balanced s \<Longrightarrow> balanced t"
  unfolding history_def
  by (induction rule: rtranclp_induct) (auto intro: acquire_balanced release_balanced)

lemma history_nonce: "history s t \<Longrightarrow> nonce s \<le> nonce t"
  unfolding history_def
  by (induction rule: rtranclp_induct) (auto dest: acquire_nonce release_nonce)

text \<open>A nonce is spent once: any later acquisition has a larger one.\<close>

lemma nonce_spent_once: "acquire s t \<Longrightarrow> history t u \<Longrightarrow> acquire u v \<Longrightarrow> nonce t < nonce v"
  by (metis history_nonce acquire_nonce le_imp_less_Suc Suc_eq_plus1)

text \<open>Between two acquisitions there is a release, so the version has moved on.\<close>

lemma version_moves:
  assumes "acquire s t" and "history t u" and "acquire u v" and "balanced s"
  shows "version t < version v"
proof -
  have "balanced u" and "\<not> held u" and "balanced t" and "held t"
    using assms history_balanced acquire_balanced acquire_free acquire_holds by blast+
  then have "nonce u = version u" and "nonce t = version t + 1"
    by (simp_all add: balanced_def)
  then show ?thesis
    using history_nonce [OF assms(2)] acquire_version [OF assms(3)] by simp
qed

end

text \<open>The account's lock: \<open>submit\<close> takes it, a release of a pending request drops it.\<close>

definition acquires :: "ConfidentialAccount \<Rightarrow> ConfidentialAccount \<Rightarrow> bool" where
  "acquires a b \<longleftrightarrow> (\<exists>sha256 slot ctx args r. sbx_account ctx = a \<and> sbx_request_key ctx \<noteq> 0 \<and>
     submit sha256 slot ctx args = Ok (b, r))"

definition releases :: "ConfidentialAccount \<Rightarrow> ConfidentialAccount \<Rightarrow> bool" where
  "releases a b \<longleftrightarrow> has_pending a \<and> release_account_lock a = Ok b"

lemma unat_succ: "unat (a :: u64) + 1 < 2 ^ 64 \<Longrightarrow> unat (a + 1) = unat a + 1"
  using checked_add_one_Some checked_add_Some(1) by fastforce

lemma acquires_locked: "acquires a b \<Longrightarrow> \<exists>key. key \<noteq> 0 \<and> acc_pending_request a = 0 \<and>
    unat (acc_request_nonce a) + 1 < 2 ^ 64 \<and> b = locked a key"
  by (auto simp: acquires_def submit_Ok submit_ready_def Let_def)

interpretation account_lock: version_lock has_pending "unat \<circ> acc_request_nonce"
  "unat \<circ> acc_state_version" acquires releases
  by unfold_locales
    (auto simp: releases_def release_account_lock_Ok unlocked_def has_pending_def
      version_room_def locked_def unat_succ simp del: One_nat_def dest!: acquires_locked)

end
