(* ===== verification/Transitions.thy ===== *)
theory Transitions
  imports Lifecycle
begin

text \<open>
  The coordinator as a transition system over the ledger. An abstract step says in one rule
  what each kind of instruction may do; every successful instruction of the model is such a
  step, so that facts about all instructions are proved by cases on six rules.
\<close>

section \<open>What the account checks give the handlers\<close>

named_theorems account_Ok \<open>what successful account checks established\<close>

lemma load_config_Ok [simp]:
  "load_config L m = Ok c \<longleftrightarrow> L (am_pubkey m) = Some (ConfigAccount c)"
  by (auto simp: load_config_def split: option.splits ChainAccount.splits)

lemma load_account_Ok [simp]:
  "load_account L m = Ok a \<longleftrightarrow> L (am_pubkey m) = Some (BalanceAccount a)"
  by (auto simp: load_account_def split: option.splits ChainAccount.splits)

lemma load_request_Ok [simp]:
  "load_request L m = Ok r \<longleftrightarrow> L (am_pubkey m) = Some (RequestAccount r)"
  by (auto simp: load_request_def split: option.splits ChainAccount.splits)

lemma init_pda_Ok:
  "init_pda rt L seeds m = Ok bump \<longleftrightarrow>
     rt_find_program_address rt seeds ID = (am_pubkey m, bump) \<and> am_is_writable m \<and>
     L (am_pubkey m) = None"
  by (auto simp: init_pda_def and_then_eq_Ok split: prod.splits)

lemmas account_check_defs = check_signer_def check_mut_def check_system_program_def
  check_seeds_def

lemma InitializeConfig_accounts_Ok [account_Ok]:
  assumes "InitializeConfig_accounts rt L metas = Ok ctx"
  shows "L (icx_config_key ctx) = None"
    and "rt_find_program_address rt (config_seeds (icx_mint ctx)) ID
           = (icx_config_key ctx, icx_config_bump ctx)"
  using assms by (auto simp: InitializeConfig_accounts_def and_then_eq_Ok init_pda_Ok split: list.splits)

lemma AdminConfig_accounts_Ok [account_Ok]:
  assumes "AdminConfig_accounts L metas = Ok ctx"
  shows "L (adx_config_key ctx) = Some (ConfigAccount (adx_config ctx))"
    and "\<exists>authority config rest. metas = authority # config # rest \<and> am_is_signer authority \<and>
           am_pubkey authority = cfg_authority (adx_config ctx) \<and> am_pubkey config = adx_config_key ctx"
  using assms by (auto simp: AdminConfig_accounts_def and_then_eq_Ok account_check_defs split: list.splits)

lemma CreateAccount_accounts_Ok [account_Ok]:
  assumes "CreateAccount_accounts rt L metas = Ok ctx"
  shows "L (cax_config_key ctx) = Some (ConfigAccount (cax_config ctx))"
    and "L (cax_account_key ctx) = None"
    and "rt_find_program_address rt (account_seeds (cfg_mint (cax_config ctx)) (cax_owner ctx)) ID
           = (cax_account_key ctx, cax_account_bump ctx)"
  using assms by (auto simp: CreateAccount_accounts_def and_then_eq_Ok init_pda_Ok split: list.splits)

lemma Submit_accounts_Ok [account_Ok]:
  assumes "Submit_accounts rt L metas args = Ok ctx"
  shows "L (sbx_config_key ctx) = Some (ConfigAccount (sbx_config ctx))"
    and "L (sbx_account_key ctx) = Some (BalanceAccount (sbx_account ctx))"
    and "L (sbx_request_key ctx) = None"
    and "rt_find_program_address rt (request_seeds (sbx_account_key ctx) (sba_expected_nonce args)) ID
           = (sbx_request_key ctx, sbx_request_bump ctx)"
    and "acc_owner (sbx_account ctx) = sbx_owner ctx"
  using assms by (auto simp: Submit_accounts_def and_then_eq_Ok init_pda_Ok split: list.splits if_splits)

lemma Submit_accounts_signer:
  assumes "Submit_accounts rt L metas args = Ok ctx"
  shows "\<exists>owner rest. metas = owner # rest \<and> am_is_signer owner \<and> am_pubkey owner = sbx_owner ctx"
  using assms
  by (auto simp: Submit_accounts_def and_then_eq_Ok account_check_defs split: list.splits if_splits)

lemma Cancel_accounts_Ok [account_Ok]:
  assumes "Cancel_accounts rt L metas = Ok ctx"
  shows "L (rlx_account_key ctx) = Some (BalanceAccount (rlx_account ctx))"
    and "L (rlx_request_key ctx) = Some (RequestAccount (rlx_request ctx))"
    and "\<exists>owner rest. metas = owner # rest \<and> am_is_signer owner \<and> am_pubkey owner = rlx_signer ctx"
  using assms by (auto simp: Cancel_accounts_def and_then_eq_Ok account_check_defs split: list.splits)

lemma Expire_accounts_Ok [account_Ok]:
  assumes "Expire_accounts rt L metas = Ok ctx"
  shows "L (rlx_account_key ctx) = Some (BalanceAccount (rlx_account ctx))"
    and "L (rlx_request_key ctx) = Some (RequestAccount (rlx_request ctx))"
  using assms by (auto simp: Expire_accounts_def and_then_eq_Ok split: list.splits)

lemma Finalize_accounts_Ok [account_Ok]:
  assumes "Finalize_accounts rt env L metas = Ok ctx"
  shows "L (fnx_config_key ctx) = Some (ConfigAccount (fnx_config ctx))"
    and "L (fnx_account_key ctx) = Some (BalanceAccount (fnx_account ctx))"
    and "L (fnx_request_key ctx) = Some (RequestAccount (fnx_request ctx))"
    and "fnx_instructions ctx = env_instructions env"
  using assms by (auto simp: Finalize_accounts_def and_then_eq_Ok split: list.splits)

text \<open>The kinds of the accounts an instruction writes, in one fact each.\<close>

lemma written_kinds:
  "InitializeConfig_accounts rt L metas = Ok ictx \<Longrightarrow> L (icx_config_key ictx) = None"
  "CreateAccount_accounts rt L metas = Ok cctx \<Longrightarrow> L (cax_account_key cctx) = None"
  "Submit_accounts rt L metas args = Ok sctx \<Longrightarrow>
     L (sbx_account_key sctx) = Some (BalanceAccount (sbx_account sctx)) \<and> L (sbx_request_key sctx) = None"
  "Cancel_accounts rt L metas = Ok rctx \<Longrightarrow>
     L (rlx_account_key rctx) = Some (BalanceAccount (rlx_account rctx)) \<and>
     L (rlx_request_key rctx) = Some (RequestAccount (rlx_request rctx))"
  "Expire_accounts rt L metas = Ok rctx \<Longrightarrow>
     L (rlx_account_key rctx) = Some (BalanceAccount (rlx_account rctx)) \<and>
     L (rlx_request_key rctx) = Some (RequestAccount (rlx_request rctx))"
  "Finalize_accounts rt env L metas = Ok fctx \<Longrightarrow>
     L (fnx_account_key fctx) = Some (BalanceAccount (fnx_account fctx)) \<and>
     L (fnx_request_key fctx) = Some (RequestAccount (fnx_request fctx))"
  by (auto dest: account_Ok)

section \<open>Abstract steps\<close>

text \<open>What may change in a configuration: the operator with its epoch, the key version, the
  pause flag.\<close>

definition reconfigured :: "Config \<Rightarrow> Config \<Rightarrow> bool" where
  "reconfigured c d \<longleftrightarrow>
     (\<exists>p. d = c\<lparr>cfg_paused := p\<rparr>) \<or> (\<exists>v. d = c\<lparr>cfg_key_version := v\<rparr>) \<or>
     (\<exists>new. new \<noteq> 0 \<and> unat (cfg_operator_epoch c) + 1 < 2 ^ 64 \<and>
        d = c\<lparr>cfg_operator := new, cfg_operator_epoch := cfg_operator_epoch c + 1\<rparr>)"

text \<open>How a pending request may end at a slot.\<close>

definition closed_at :: "u64 \<Rightarrow> Request \<Rightarrow> Request \<Rightarrow> bool" where
  "closed_at slot r r' \<longleftrightarrow>
     (slot < req_expiry_slot r \<and> r' = r\<lparr>req_status := STATUS_CANCELLED\<rparr>) \<or>
     (req_expiry_slot r \<le> slot \<and> r' = r\<lparr>req_status := STATUS_EXPIRED\<rparr>) \<or>
     (slot < req_expiry_slot r \<and> (\<exists>h d. h \<noteq> 0 \<and>
        r' = r\<lparr>req_status := STATUS_FINALIZED, req_result_hash := h, req_result_digest := d\<rparr>))"

lemma closed_at_cases:
  "slot < req_expiry_slot r \<Longrightarrow> closed_at slot r (r\<lparr>req_status := STATUS_CANCELLED\<rparr>)"
  "req_expiry_slot r \<le> slot \<Longrightarrow> closed_at slot r (r\<lparr>req_status := STATUS_EXPIRED\<rparr>)"
  "slot < req_expiry_slot r \<Longrightarrow> h \<noteq> 0 \<Longrightarrow>
     closed_at slot r (r\<lparr>req_status := STATUS_FINALIZED, req_result_hash := h, req_result_digest := d\<rparr>)"
  by (auto simp: closed_at_def)

text \<open>
  What a finalization rests on: the request's configuration at that moment, not paused, of the
  operator epoch and key version the request was made for; the stored result digest is that of
  the result under this configuration.
\<close>

definition result_of :: "Config \<Rightarrow> Request \<Rightarrow> pubkey \<Rightarrow> ResultBinding" where
  "result_of c r k =
    \<lparr>rs_request = request_binding c r k, rs_request_digest = req_request_digest r,
     rs_result_hash = req_result_hash r, rs_result_type = RESULT_TYPE_FHE_BOOL,
     rs_circuit_id = cfg_circuit_id c\<rparr>"

definition finalized_under :: "Runtime \<Rightarrow> ledger \<Rightarrow> pubkey \<Rightarrow> Request \<Rightarrow> Request \<Rightarrow> bool" where
  "finalized_under rt L rk r r' \<longleftrightarrow>
     (\<exists>c. L (req_config r) = Some (ConfigAccount c) \<and> \<not> cfg_paused c \<and>
        req_operator_epoch r = cfg_operator_epoch c \<and> req_key_version r = cfg_key_version c \<and>
        req_result_digest r' = result_digest (rt_sha256 rt) (result_of c r' rk))"

inductive transition :: "Runtime \<Rightarrow> u64 \<Rightarrow> ledger \<Rightarrow> ledger \<Rightarrow> bool" for rt slot where
  Configured:
    "L k = None \<Longrightarrow> rt_find_program_address rt (config_seeds (icx_mint ctx)) ID = (k, icx_config_bump ctx) \<Longrightarrow>
     initialize_config ctx args = Ok c \<Longrightarrow>
     transition rt slot L (L(k \<mapsto> ConfigAccount c))"
| Reconfigured:
    "L k = Some (ConfigAccount c) \<Longrightarrow> reconfigured c d \<Longrightarrow>
     transition rt slot L (L(k \<mapsto> ConfigAccount d))"
| Opened:
    "L (cax_config_key ctx) = Some (ConfigAccount (cax_config ctx)) \<Longrightarrow>
     L (cax_account_key ctx) = None \<Longrightarrow>
     rt_find_program_address rt (account_seeds (cfg_mint (cax_config ctx)) (cax_owner ctx)) ID
       = (cax_account_key ctx, cax_account_bump ctx) \<Longrightarrow>
     create_account ctx args = Ok a \<Longrightarrow>
     transition rt slot L (L(cax_account_key ctx \<mapsto> BalanceAccount a))"
| Submitted:
    "L (sbx_config_key ctx) = Some (ConfigAccount (sbx_config ctx)) \<Longrightarrow>
     L (sbx_account_key ctx) = Some (BalanceAccount (sbx_account ctx)) \<Longrightarrow>
     L (sbx_request_key ctx) = None \<Longrightarrow>
     rt_find_program_address rt (request_seeds (sbx_account_key ctx) (sba_expected_nonce sargs)) ID
       = (sbx_request_key ctx, sbx_request_bump ctx) \<Longrightarrow>
     submit_ready slot ctx sargs \<Longrightarrow>
     transition rt slot L (L(sbx_account_key ctx \<mapsto> BalanceAccount (locked (sbx_account ctx) (sbx_request_key ctx)),
       sbx_request_key ctx \<mapsto> RequestAccount (submitted (rt_sha256 rt) slot ctx sargs)))"
| Released:
    "L ak = Some (BalanceAccount a) \<Longrightarrow> L rk = Some (RequestAccount r) \<Longrightarrow>
     pending_lock a ak r rk \<Longrightarrow> version_room a \<Longrightarrow> closed_at slot r r' \<Longrightarrow>
     (req_status r' = STATUS_FINALIZED \<Longrightarrow> finalized_under rt L rk r r') \<Longrightarrow>
     transition rt slot L (L(ak \<mapsto> BalanceAccount (unlocked a), rk \<mapsto> RequestAccount r'))"
| Foreign:
    "L k = None \<or> L k = Some ForeignAccount \<Longrightarrow> k \<noteq> 0 \<Longrightarrow> v = None \<or> v = Some ForeignAccount \<Longrightarrow>
     transition rt slot L (L(k := v))"

lemma finalized_result_of:
  assumes "finalize_ready ctx args"
  shows "result_of (fnx_config ctx) (finalized sha256 ctx args) (fnx_request_key ctx) = result_binding ctx args"
  using assms by (simp add: result_of_def result_binding_def finalized_def finalize_ready_def
      request_binding_def Let_def)

lemma finalize_finalized_under:
  assumes "finalize (rt_sha256 rt) slot ctx args = Ok (a', r')"
    and "L (fnx_config_key ctx) = Some (ConfigAccount (fnx_config ctx))"
  shows "finalized_under rt L (fnx_request_key ctx) (fnx_request ctx) r'"
proof -
  have "\<not> cfg_paused (fnx_config ctx)" and ready: "finalize_ready ctx args"
    and r': "r' = finalized (rt_sha256 rt) ctx args"
    using assms(1) by (simp_all add: finalize_Ok)
  moreover have "req_result_digest r' = result_digest (rt_sha256 rt) (result_binding ctx args)"
    by (simp add: r' finalized_def)
  ultimately show ?thesis
    using assms(2) finalized_result_of [OF ready, of "rt_sha256 rt"]
    by (auto simp: finalized_under_def finalize_ready_def Let_def)
qed

lemma run_admin_transition:
  assumes "run_admin L metas handler = Ok L'"
    and "\<And>ctx c. handler ctx = Ok c \<Longrightarrow> reconfigured (adx_config ctx) c"
  shows "transition rt slot L L'"
  using assms by (auto simp: run_admin_def and_then_eq_Ok intro: transition.Reconfigured dest: account_Ok)

text \<open>Every successful instruction is an abstract step.\<close>

lemma run_call_transition:
  assumes "run_call rt env L metas call = Ok L'"
  shows "transition rt (env_slot env) L L'"
proof (cases call)
  case (InitializeConfigCall args)
  with assms show ?thesis
    by (auto simp: and_then_eq_Ok intro!: transition.Configured dest: account_Ok)
next
  case (SetPausedCall p)
  with assms show ?thesis
    by (auto elim!: run_admin_transition simp: set_paused_def reconfigured_def)
next
  case (RotateOperatorCall new)
  with assms show ?thesis
    by (auto elim!: run_admin_transition simp: rotate_operator_Ok reconfigured_def)
next
  case (SetKeyVersionCall v)
  with assms show ?thesis
    by (auto elim!: run_admin_transition simp: set_key_version_def reconfigured_def)
next
  case (CreateAccountCall args)
  with assms show ?thesis
    by (auto simp: and_then_eq_Ok intro!: transition.Opened dest: account_Ok)
next
  case (SubmitCall args)
  with assms show ?thesis
    by (auto simp: and_then_eq_Ok submit_Ok intro!: transition.Submitted dest: account_Ok)
next
  case CancelCall
  with assms show ?thesis
    by (auto simp: and_then_eq_Ok cancel_Ok intro!: transition.Released closed_at_cases dest: account_Ok)
next
  case ExpireCall
  with assms show ?thesis
    by (auto simp: and_then_eq_Ok expire_Ok intro!: transition.Released closed_at_cases dest: account_Ok)
next
  case (FinalizeCall args)
  then obtain ctx a' r' where ctx: "Finalize_accounts rt env L metas = Ok ctx"
    and fin: "finalize (rt_sha256 rt) (env_slot env) ctx args = Ok (a', r')"
    and L': "L' = L(fnx_account_key ctx \<mapsto> BalanceAccount a', fnx_request_key ctx \<mapsto> RequestAccount r')"
    using assms by (auto simp: and_then_eq_Ok)
  have "finalized_under rt L (fnx_request_key ctx) (fnx_request ctx) r'"
    using fin Finalize_accounts_Ok(1) [OF ctx] by (rule finalize_finalized_under)
  then show ?thesis
    using fin Finalize_accounts_Ok [OF ctx] unfolding L'
    by (auto simp: finalize_Ok finalized_def finalize_ready_def Let_def
        intro!: transition.Released closed_at_cases)
qed

section \<open>The chain\<close>

text \<open>
  A chain is a slot and a ledger. It moves when an instruction of the program succeeds, when
  another program creates or closes an account of its own, and when time passes. At genesis
  only the system program is there, at the default key.
\<close>

record Chain =
  ch_slot :: u64
  ch_ledger :: ledger

inductive chain_step :: "Runtime \<Rightarrow> Chain \<Rightarrow> Chain \<Rightarrow> bool" for rt where
  Instr: "run_call rt env L metas call = Ok L' \<Longrightarrow> env_slot env = s \<Longrightarrow>
    chain_step rt \<lparr>ch_slot = s, ch_ledger = L\<rparr> \<lparr>ch_slot = s, ch_ledger = L'\<rparr>"
| Other_open: "L k = None \<Longrightarrow>
    chain_step rt \<lparr>ch_slot = s, ch_ledger = L\<rparr> \<lparr>ch_slot = s, ch_ledger = L(k \<mapsto> ForeignAccount)\<rparr>"
| Other_close: "L k = Some ForeignAccount \<Longrightarrow> k \<noteq> 0 \<Longrightarrow>
    chain_step rt \<lparr>ch_slot = s, ch_ledger = L\<rparr> \<lparr>ch_slot = s, ch_ledger = L(k := None)\<rparr>"
| Tick: "s \<le> s' \<Longrightarrow>
    chain_step rt \<lparr>ch_slot = s, ch_ledger = L\<rparr> \<lparr>ch_slot = s', ch_ledger = L\<rparr>"

definition genesis :: Chain where
  "genesis = \<lparr>ch_slot = 0, ch_ledger = [0 \<mapsto> ForeignAccount]\<rparr>"

inductive reachable :: "Runtime \<Rightarrow> Chain \<Rightarrow> bool" for rt where
  Genesis: "reachable rt genesis"
| Step: "reachable rt c \<Longrightarrow> chain_step rt c d \<Longrightarrow> reachable rt d"

inductive_cases transition_cases: "transition rt slot L L'"
inductive_cases chain_step_cases: "chain_step rt c d"

text \<open>From a state on, by any number of steps.\<close>

definition leads_to :: "Runtime \<Rightarrow> Chain \<Rightarrow> Chain \<Rightarrow> bool" where
  "leads_to rt = (chain_step rt)\<^sup>*\<^sup>*"

lemma leads_to_refl [simp, intro]: "leads_to rt c c"
  by (simp add: leads_to_def)

lemma leads_to_step: "leads_to rt c d \<Longrightarrow> chain_step rt d e \<Longrightarrow> leads_to rt c e"
  by (simp add: leads_to_def)

lemma leads_to_induct [consumes 1, case_names refl step]:
  assumes "leads_to rt c d" and "P c"
    and "\<And>x y. leads_to rt c x \<Longrightarrow> chain_step rt x y \<Longrightarrow> P x \<Longrightarrow> P y"
  shows "P d"
  using assms unfolding leads_to_def by (induction rule: rtranclp_induct) auto

lemma reachable_leads_to: "leads_to rt c d \<Longrightarrow> reachable rt c \<Longrightarrow> reachable rt d"
  by (induction rule: leads_to_induct) (auto intro: reachable.Step)

lemma reachable_iff: "reachable rt c \<longleftrightarrow> leads_to rt genesis c"
proof
  show "reachable rt c \<Longrightarrow> leads_to rt genesis c"
    by (induction rule: reachable.induct) (auto intro: leads_to_step)
qed (auto intro: reachable_leads_to reachable.Genesis)

text \<open>A chain step is an abstract step or leaves the ledger alone, except at the default key.\<close>

lemma chain_step_transition:
  assumes "chain_step rt c d" and "ch_ledger c 0 = Some ForeignAccount"
  shows "ch_ledger d = ch_ledger c \<or> transition rt (ch_slot c) (ch_ledger c) (ch_ledger d)"
  using assms
proof (cases rule: chain_step.cases)
  case (Instr env L metas call L' s)
  then show ?thesis using run_call_transition by auto
next
  case (Other_open L k s)
  then have "k \<noteq> 0" using assms(2) by auto
  with Other_open show ?thesis by (auto intro: transition.Foreign)
next
  case (Other_close L k s)
  then show ?thesis by (auto intro: transition.Foreign)
qed auto

lemma transition_system_program:
  assumes "transition rt slot L L'" and "L 0 = Some ForeignAccount"
  shows "L' 0 = Some ForeignAccount"
  using assms by (cases rule: transition.cases) auto

lemma reachable_system_program: "reachable rt c \<Longrightarrow> ch_ledger c 0 = Some ForeignAccount"
proof (induction rule: reachable.induct)
  case Genesis
  show ?case by (simp add: genesis_def)
next
  case (Step c d)
  then show ?case using chain_step_transition transition_system_program by metis
qed

text \<open>Rule induction over reachable ledgers, by abstract steps.\<close>

lemma reachable_ledger_induct [consumes 1, case_names genesis step]:
  assumes "reachable rt c"
    and "P [0 \<mapsto> ForeignAccount]"
    and "\<And>slot L L'. P L \<Longrightarrow> L 0 = Some ForeignAccount \<Longrightarrow> transition rt slot L L' \<Longrightarrow> P L'"
  shows "P (ch_ledger c)"
  using assms(1)
proof (induction rule: reachable.induct)
  case Genesis
  show ?case using assms(2) by (simp add: genesis_def del: fun_upd_apply)
next
  case (Step c d)
  then show ?case
    using chain_step_transition reachable_system_program assms(3) by metis
qed

end
