(* ===== verification/Evolution.thy ===== *)
theory Evolution
  imports Transitions
begin

text \<open>
  What time does to the accounts of the program: every account keeps its kind and its
  identity, counters only grow, and a request changes once, from pending to one of its ends.
\<close>

definition config_evolves :: "Config \<Rightarrow> Config \<Rightarrow> bool" where
  "config_evolves c d \<longleftrightarrow>
     cfg_authority d = cfg_authority c \<and> cfg_mint d = cfg_mint c \<and>
     cfg_domain_id d = cfg_domain_id c \<and> cfg_params_hash d = cfg_params_hash c \<and>
     cfg_operation d = cfg_operation c \<and> cfg_circuit_id d = cfg_circuit_id c \<and>
     cfg_protocol_version d = cfg_protocol_version c \<and>
     cfg_max_request_lifetime_slots d = cfg_max_request_lifetime_slots c \<and>
     cfg_bump d = cfg_bump c \<and> cfg_operator_epoch c \<le> cfg_operator_epoch d \<and>
     (cfg_operator_epoch d = cfg_operator_epoch c \<longrightarrow> cfg_operator d = cfg_operator c) \<and>
     (cfg_operator c \<noteq> 0 \<longrightarrow> cfg_operator d \<noteq> 0)"

definition account_evolves :: "ConfidentialAccount \<Rightarrow> ConfidentialAccount \<Rightarrow> bool" where
  "account_evolves a b \<longleftrightarrow>
     acc_config b = acc_config a \<and> acc_mint b = acc_mint a \<and> acc_owner b = acc_owner a \<and>
     acc_balance_ref b = acc_balance_ref a \<and> acc_limit_ref b = acc_limit_ref a \<and>
     acc_key_version b = acc_key_version a \<and> acc_bump b = acc_bump a \<and>
     acc_request_nonce a \<le> acc_request_nonce b \<and> acc_state_version a \<le> acc_state_version b"

definition request_evolves :: "Request \<Rightarrow> Request \<Rightarrow> bool" where
  "request_evolves r r' \<longleftrightarrow>
     r' = r \<or> (req_status r = STATUS_PENDING \<and> (\<exists>slot. closed_at slot r r'))"

definition ledger_evolves :: "ledger \<Rightarrow> ledger \<Rightarrow> bool" where
  "ledger_evolves L L' \<longleftrightarrow>
     (\<forall>k c. L k = Some (ConfigAccount c) \<longrightarrow>
        (\<exists>d. L' k = Some (ConfigAccount d) \<and> config_evolves c d)) \<and>
     (\<forall>k a. L k = Some (BalanceAccount a) \<longrightarrow>
        (\<exists>b. L' k = Some (BalanceAccount b) \<and> account_evolves a b)) \<and>
     (\<forall>k r. L k = Some (RequestAccount r) \<longrightarrow>
        (\<exists>r'. L' k = Some (RequestAccount r') \<and> request_evolves r r'))"

section \<open>Single accounts\<close>

lemma config_evolves_refl [simp]: "config_evolves c c"
  by (simp add: config_evolves_def)

lemma account_evolves_refl [simp]: "account_evolves a a"
  by (simp add: account_evolves_def)

lemma request_evolves_refl [simp]: "request_evolves r r"
  by (simp add: request_evolves_def)

lemma closed_at_not_pending: "closed_at slot r r' \<Longrightarrow> req_status r' \<noteq> STATUS_PENDING"
  by (auto simp: closed_at_def)

lemma config_evolves_trans:
  assumes "config_evolves c d" and "config_evolves d e"
  shows "config_evolves c e"
proof -
  have "cfg_operator_epoch d = cfg_operator_epoch c"
    if "cfg_operator_epoch e = cfg_operator_epoch c"
    using assms that by (auto simp: config_evolves_def intro: antisym)
  then show ?thesis
    using assms by (auto simp: config_evolves_def)
qed

lemma account_evolves_trans: "account_evolves a b \<Longrightarrow> account_evolves b c \<Longrightarrow> account_evolves a c"
  unfolding account_evolves_def by auto

lemma request_evolves_trans: "request_evolves r s \<Longrightarrow> request_evolves s t \<Longrightarrow> request_evolves r t"
  unfolding request_evolves_def by (metis closed_at_not_pending)

lemma less_succ: "unat (a :: u64) + 1 < 2 ^ 64 \<Longrightarrow> a < a + 1"
  by (simp add: word_less_nat_alt unat_succ)

lemma reconfigured_evolves: "reconfigured c d \<Longrightarrow> config_evolves c d"
  using less_succ [of "cfg_operator_epoch c"]
  by (auto simp: reconfigured_def config_evolves_def)

lemma locked_evolves: "unat (acc_request_nonce a) + 1 < 2 ^ 64 \<Longrightarrow> account_evolves a (locked a k)"
  by (auto simp: locked_def account_evolves_def less_succ less_imp_le)

lemma unlocked_evolves: "version_room a \<Longrightarrow> account_evolves a (unlocked a)"
  by (auto simp: unlocked_def account_evolves_def version_room_def less_succ less_imp_le)

lemma closed_evolves: "pending_lock a ak r rk \<Longrightarrow> closed_at slot r r' \<Longrightarrow> request_evolves r r'"
  by (auto simp: pending_lock_def request_evolves_def)

lemma submit_evolves:
  "submit_ready slot ctx args \<Longrightarrow> account_evolves (sbx_account ctx) (locked (sbx_account ctx) k)"
  by (rule locked_evolves) (simp add: submit_ready_def Let_def)

section \<open>Ledgers\<close>

lemma ledger_evolves_refl [simp]: "ledger_evolves L L"
  by (simp add: ledger_evolves_def)

lemma ledger_evolves_trans:
  assumes "ledger_evolves L M" and "ledger_evolves M N"
  shows "ledger_evolves L N"
  unfolding ledger_evolves_def
proof (intro conjI allI impI)
  fix k c assume "L k = Some (ConfigAccount c)"
  then show "\<exists>d. N k = Some (ConfigAccount d) \<and> config_evolves c d"
    using assms unfolding ledger_evolves_def by (meson config_evolves_trans)
next
  fix k a assume "L k = Some (BalanceAccount a)"
  then show "\<exists>b. N k = Some (BalanceAccount b) \<and> account_evolves a b"
    using assms unfolding ledger_evolves_def by (meson account_evolves_trans)
next
  fix k r assume "L k = Some (RequestAccount r)"
  then show "\<exists>r'. N k = Some (RequestAccount r') \<and> request_evolves r r'"
    using assms unfolding ledger_evolves_def by (meson request_evolves_trans)
qed

lemma ledger_evolvesD:
  assumes "ledger_evolves L L'"
  shows "L k = Some (ConfigAccount c) \<Longrightarrow> \<exists>d. L' k = Some (ConfigAccount d) \<and> config_evolves c d"
    and "L k = Some (BalanceAccount a) \<Longrightarrow> \<exists>b. L' k = Some (BalanceAccount b) \<and> account_evolves a b"
    and "L k = Some (RequestAccount r) \<Longrightarrow> \<exists>r'. L' k = Some (RequestAccount r') \<and> request_evolves r r'"
  using assms by (simp_all add: ledger_evolves_def)

lemma transition_evolves: "transition rt slot L L' \<Longrightarrow> ledger_evolves L L'"
proof (induction rule: transition.induct)
  case (Configured L k ctx args c)
  then show ?case by (auto simp: ledger_evolves_def)
next
  case (Reconfigured L k c d)
  then show ?case by (auto simp: ledger_evolves_def reconfigured_evolves)
next
  case (Opened L ctx args a)
  then show ?case by (auto simp: ledger_evolves_def)
next
  case (Submitted L ctx sargs)
  then show ?case by (auto simp: ledger_evolves_def submit_evolves)
next
  case (Released L ak a rk r r')
  then show ?case by (auto simp: ledger_evolves_def unlocked_evolves closed_evolves)
next
  case (Foreign L k v)
  then show ?case by (auto simp: ledger_evolves_def)
qed

lemma leads_to_evolves:
  assumes "leads_to rt c d" and "reachable rt c"
  shows "ledger_evolves (ch_ledger c) (ch_ledger d)"
  using assms(1)
proof (induction rule: leads_to_induct)
  case refl
  show ?case by simp
next
  case (step x y)
  then have "ch_ledger x 0 = Some ForeignAccount"
    using assms(2) reachable_leads_to reachable_system_program by blast
  with step show ?case
    by (metis chain_step_transition transition_evolves ledger_evolves_trans)
qed

section \<open>Where an account comes from\<close>

text \<open>An account of the program after a step was there before, or the step created it.\<close>

lemma config_origin:
  assumes "transition rt slot L L'" and "L' k = Some (ConfigAccount d)"
  obtains (old) c where "L k = Some (ConfigAccount c)" "config_evolves c d"
  | (created) ctx args where "L k = None" "initialize_config ctx args = Ok d"
      "rt_find_program_address rt (config_seeds (icx_mint ctx)) ID = (k, icx_config_bump ctx)"
  using assms
  by (cases rule: transition.cases) (auto split: if_splits simp: reconfigured_evolves)

lemma account_origin:
  assumes "transition rt slot L L'" and "L' k = Some (BalanceAccount b)"
  obtains (old) a where "L k = Some (BalanceAccount a)" "account_evolves a b"
  | (created) ctx args where "L k = None" "create_account ctx args = Ok b"
      "L (cax_config_key ctx) = Some (ConfigAccount (cax_config ctx))"
      "rt_find_program_address rt (account_seeds (cfg_mint (cax_config ctx)) (cax_owner ctx)) ID
         = (k, cax_account_bump ctx)"
  using assms
  by (cases rule: transition.cases)
    (auto split: if_splits simp: locked_evolves submit_evolves unlocked_evolves)

lemma request_origin:
  assumes "transition rt slot L L'" and "L' k = Some (RequestAccount r')"
  obtains (old) r where "L k = Some (RequestAccount r)" "request_evolves r r'"
  | (created) ctx args where "L k = None" "submit_ready slot ctx args"
      "k = sbx_request_key ctx" "r' = submitted (rt_sha256 rt) slot ctx args"
      "L' (sbx_config_key ctx) = Some (ConfigAccount (sbx_config ctx))"
      "L (sbx_account_key ctx) = Some (BalanceAccount (sbx_account ctx))"
      "L' (sbx_account_key ctx) = Some (BalanceAccount (locked (sbx_account ctx) k))"
      "rt_find_program_address rt (request_seeds (sbx_account_key ctx) (sba_expected_nonce args)) ID
         = (k, sbx_request_bump ctx)"
  using assms
proof (cases rule: transition.cases)
  case (Submitted ctx sargs)
  show ?thesis
  proof (cases "k = sbx_request_key ctx")
    case True
    then have "r' = submitted (rt_sha256 rt) slot ctx sargs" and "sbx_account_key ctx \<noteq> k"
      and "sbx_config_key ctx \<noteq> k" and "sbx_config_key ctx \<noteq> sbx_account_key ctx"
      using Submitted assms(2) by auto
    with True Submitted show ?thesis by (intro created) auto
  next
    case False
    then have "L k = Some (RequestAccount r')"
      using Submitted assms(2) by (auto split: if_splits)
    then show ?thesis by (auto intro: old)
  qed
qed (auto split: if_splits intro: old simp: closed_evolves)

end
