(* ===== verification/Invariant.thy ===== *)
theory Invariant
  imports Evolution
begin

text \<open>
  The invariant of the coordinator's accounts. Its static part says what each account's
  identity and references are, in terms of accounts that exist; it is carried by
  \<open>ledger_evolves\<close>. Its lock part ties the account that holds a pending request to that
  request, one to one, and its nonce to its state version.
\<close>

section \<open>Definition\<close>

definition config_ok :: "Runtime \<Rightarrow> pubkey \<Rightarrow> Config \<Rightarrow> bool" where
  "config_ok rt k c \<longleftrightarrow>
     cfg_operator c \<noteq> 0 \<and> 1 \<le> cfg_operator_epoch c \<and> 0 < cfg_max_request_lifetime_slots c \<and>
     cfg_params_hash c \<noteq> 0 \<and> cfg_operation c = OPERATION_POLICY_CHECK \<and>
     cfg_circuit_id c = CIRCUIT_POLICY_V1 \<and> cfg_protocol_version c = PROTOCOL_VERSION \<and>
     rt_find_program_address rt (config_seeds (cfg_mint c)) ID = (k, cfg_bump c)"

definition account_ok :: "Runtime \<Rightarrow> ledger \<Rightarrow> pubkey \<Rightarrow> ConfidentialAccount \<Rightarrow> bool" where
  "account_ok rt L k a \<longleftrightarrow>
     (\<exists>c. L (acc_config a) = Some (ConfigAccount c) \<and> acc_mint a = cfg_mint c) \<and>
     acc_balance_ref a \<noteq> 0 \<and> acc_limit_ref a \<noteq> 0 \<and>
     rt_find_program_address rt (account_seeds (acc_mint a) (acc_owner a)) ID = (k, acc_bump a)"

text \<open>The result fields a request has in each status.\<close>

definition result_fields_ok :: "Request \<Rightarrow> bool" where
  "result_fields_ok r \<longleftrightarrow>
     req_status r \<in> {STATUS_PENDING, STATUS_FINALIZED, STATUS_CANCELLED, STATUS_EXPIRED} \<and>
     (if req_status r = STATUS_FINALIZED then req_result_hash r \<noteq> 0
      else req_result_hash r = 0 \<and> req_result_digest r = 0)"

definition request_of :: "Runtime \<Rightarrow> pubkey \<Rightarrow> Request \<Rightarrow> ConfidentialAccount \<Rightarrow> Config \<Rightarrow> bool" where
  "request_of rt k r a c \<longleftrightarrow>
     acc_config a = req_config r \<and> acc_mint a = req_mint r \<and> cfg_mint c = req_mint r \<and>
     acc_owner a = req_requester r \<and> acc_balance_ref a = req_balance_hash r \<and>
     acc_limit_ref a = req_limit_hash r \<and> cfg_params_hash c = req_params_hash r \<and>
     acc_key_version a = req_key_version r \<and>
     cfg_operation c = req_operation r \<and> req_operator_epoch r \<le> cfg_operator_epoch c \<and>
     req_request_nonce r \<le> acc_request_nonce a \<and> req_state_version r \<le> acc_state_version a \<and>
     req_request_digest r = request_digest (rt_sha256 rt) (request_binding c r k)"

definition request_ok :: "Runtime \<Rightarrow> ledger \<Rightarrow> pubkey \<Rightarrow> Request \<Rightarrow> bool" where
  "request_ok rt L k r \<longleftrightarrow>
     (\<exists>a c. L (req_confidential_account r) = Some (BalanceAccount a) \<and>
        L (req_config r) = Some (ConfigAccount c) \<and> request_of rt k r a c) \<and>
     unat (req_request_nonce r) = unat (req_state_version r) + 1 \<and>
     req_amount_hash r \<noteq> 0 \<and> req_created_slot r \<le> req_expiry_slot r \<and> result_fields_ok r \<and>
     rt_find_program_address rt (request_seeds (req_confidential_account r) (req_request_nonce r)) ID
       = (k, req_bump r)"

definition static_ok :: "Runtime \<Rightarrow> ledger \<Rightarrow> bool" where
  "static_ok rt L \<longleftrightarrow>
     (\<forall>k c. L k = Some (ConfigAccount c) \<longrightarrow> config_ok rt k c) \<and>
     (\<forall>k a. L k = Some (BalanceAccount a) \<longrightarrow> account_ok rt L k a) \<and>
     (\<forall>k r. L k = Some (RequestAccount r) \<longrightarrow> request_ok rt L k r)"

definition locks_ok :: "ledger \<Rightarrow> bool" where
  "locks_ok L \<longleftrightarrow>
     (\<forall>k a. L k = Some (BalanceAccount a) \<longrightarrow> account_lock.balanced a \<and>
        (has_pending a \<longrightarrow> (\<exists>r. L (acc_pending_request a) = Some (RequestAccount r) \<and>
           req_status r = STATUS_PENDING \<and> req_confidential_account r = k))) \<and>
     (\<forall>k r a. L k = Some (RequestAccount r) \<longrightarrow> req_status r = STATUS_PENDING \<longrightarrow>
        L (req_confidential_account r) = Some (BalanceAccount a) \<longrightarrow>
        acc_pending_request a = k \<and> acc_request_nonce a = req_request_nonce r \<and>
        acc_state_version a = req_state_version r)"

definition ledger_ok :: "Runtime \<Rightarrow> ledger \<Rightarrow> bool" where
  "ledger_ok rt L \<longleftrightarrow> L 0 = Some ForeignAccount \<and> static_ok rt L \<and> locks_ok L"

section \<open>The static part\<close>

lemma request_binding_config:
  "config_evolves c d \<Longrightarrow> request_binding d r k = request_binding c r k"
  by (simp add: request_binding_def config_evolves_def)

lemma closed_at_fields:
  assumes "closed_at slot r r'"
  shows "req_requester r' = req_requester r" "req_config r' = req_config r" "req_mint r' = req_mint r"
    "req_confidential_account r' = req_confidential_account r" "req_operation r' = req_operation r"
    "req_balance_hash r' = req_balance_hash r" "req_amount_hash r' = req_amount_hash r"
    "req_limit_hash r' = req_limit_hash r" "req_params_hash r' = req_params_hash r"
    "req_state_version r' = req_state_version r" "req_request_nonce r' = req_request_nonce r"
    "req_key_version r' = req_key_version r" "req_operator_epoch r' = req_operator_epoch r"
    "req_created_slot r' = req_created_slot r" "req_expiry_slot r' = req_expiry_slot r"
    "req_request_digest r' = req_request_digest r" "req_bump r' = req_bump r"
  using assms by (auto simp: closed_at_def)

lemma request_evolves_fields:
  assumes "request_evolves r r'"
  shows "req_requester r' = req_requester r" "req_config r' = req_config r" "req_mint r' = req_mint r"
    "req_confidential_account r' = req_confidential_account r" "req_operation r' = req_operation r"
    "req_balance_hash r' = req_balance_hash r" "req_amount_hash r' = req_amount_hash r"
    "req_limit_hash r' = req_limit_hash r" "req_params_hash r' = req_params_hash r"
    "req_state_version r' = req_state_version r" "req_request_nonce r' = req_request_nonce r"
    "req_key_version r' = req_key_version r" "req_operator_epoch r' = req_operator_epoch r"
    "req_created_slot r' = req_created_slot r" "req_expiry_slot r' = req_expiry_slot r"
    "req_request_digest r' = req_request_digest r" "req_bump r' = req_bump r"
  using assms by (auto simp: request_evolves_def closed_at_fields)

lemma request_evolves_binding:
  "request_evolves r r' \<Longrightarrow> request_binding c r' k = request_binding c r k"
  by (simp add: request_binding_def request_evolves_fields)

lemma closed_result_fields: "closed_at slot r r' \<Longrightarrow> req_status r = STATUS_PENDING \<Longrightarrow>
    result_fields_ok r \<Longrightarrow> result_fields_ok r'"
  by (auto simp: closed_at_def result_fields_ok_def)

lemma result_fields_stable: "request_evolves r r' \<Longrightarrow> result_fields_ok r \<Longrightarrow> result_fields_ok r'"
  by (auto simp: request_evolves_def closed_result_fields)

lemma config_ok_stable: "config_ok rt k c \<Longrightarrow> config_evolves c d \<Longrightarrow> config_ok rt k d"
  unfolding config_ok_def config_evolves_def by (auto intro: order_trans)

lemma account_ok_stable:
  assumes "account_ok rt L k a" and "ledger_evolves L L'" and "account_evolves a b"
  shows "account_ok rt L' k b"
proof -
  obtain c where "L (acc_config a) = Some (ConfigAccount c)" "acc_mint a = cfg_mint c"
    using assms(1) by (auto simp: account_ok_def)
  then obtain d where "L' (acc_config a) = Some (ConfigAccount d)" "acc_mint a = cfg_mint d"
    using ledger_evolvesD(1) [OF assms(2)] by (fastforce simp: config_evolves_def)
  then show ?thesis
    using assms(1,3) by (auto simp: account_ok_def account_evolves_def)
qed

lemma request_of_stable:
  assumes "request_of rt k r a c" "account_evolves a b" "config_evolves c d" "request_evolves r r'"
  shows "request_of rt k r' b d"
  using assms request_binding_config [OF assms(3), of r k] request_evolves_binding [OF assms(4), of d k]
  by (auto simp: request_of_def account_evolves_def config_evolves_def request_evolves_fields)

lemma request_ok_stable:
  assumes "request_ok rt L k r" and "ledger_evolves L L'" and "request_evolves r r'"
  shows "request_ok rt L' k r'"
proof -
  obtain a c where ac: "L (req_confidential_account r) = Some (BalanceAccount a)"
      "L (req_config r) = Some (ConfigAccount c)" "request_of rt k r a c"
    using assms(1) by (auto simp: request_ok_def)
  obtain b d where "L' (req_confidential_account r') = Some (BalanceAccount b)" "account_evolves a b"
      "L' (req_config r') = Some (ConfigAccount d)" "config_evolves c d"
    using ledger_evolvesD [OF assms(2)] ac request_evolves_fields [OF assms(3)] by metis
  moreover have "request_of rt k r' b d"
    using request_of_stable ac(3) calculation assms(3) by blast
  ultimately show ?thesis
    using assms(1) result_fields_stable [OF assms(3)]
    by (auto simp: request_ok_def request_evolves_fields [OF assms(3)])
qed

lemma new_config_ok:
  assumes "initialize_config ctx args = Ok c"
    and "rt_find_program_address rt (config_seeds (icx_mint ctx)) ID = (k, icx_config_bump ctx)"
  shows "config_ok rt k c"
  using assms by (auto simp: initialize_config_Ok config_ok_def)

lemma new_account_ok:
  assumes "create_account ctx args = Ok a"
    and "L (cax_config_key ctx) = Some (ConfigAccount (cax_config ctx))"
    and "rt_find_program_address rt (account_seeds (cfg_mint (cax_config ctx)) (cax_owner ctx)) ID
      = (k, cax_account_bump ctx)"
    and "ledger_evolves L L'"
  shows "account_ok rt L' k a"
proof -
  have "account_ok rt L k a"
    using assms(1-3) by (auto simp: create_account_Ok account_ok_def)
  then show ?thesis
    using assms(4) account_ok_stable by (metis account_evolves_refl)
qed

lemma submitted_fields [simp]:
  "req_requester (submitted h slot ctx args) = sbx_owner ctx"
  "req_config (submitted h slot ctx args) = sbx_config_key ctx"
  "req_mint (submitted h slot ctx args) = cfg_mint (sbx_config ctx)"
  "req_confidential_account (submitted h slot ctx args) = sbx_account_key ctx"
  "req_operation (submitted h slot ctx args) = cfg_operation (sbx_config ctx)"
  "req_balance_hash (submitted h slot ctx args) = acc_balance_ref (sbx_account ctx)"
  "req_amount_hash (submitted h slot ctx args) = sba_amount_hash args"
  "req_limit_hash (submitted h slot ctx args) = acc_limit_ref (sbx_account ctx)"
  "req_params_hash (submitted h slot ctx args) = cfg_params_hash (sbx_config ctx)"
  "req_state_version (submitted h slot ctx args) = acc_state_version (sbx_account ctx)"
  "req_request_nonce (submitted h slot ctx args) = acc_request_nonce (sbx_account ctx) + 1"
  "req_key_version (submitted h slot ctx args) = cfg_key_version (sbx_config ctx)"
  "req_operator_epoch (submitted h slot ctx args) = cfg_operator_epoch (sbx_config ctx)"
  "req_created_slot (submitted h slot ctx args) = slot"
  "req_expiry_slot (submitted h slot ctx args) = slot + cfg_max_request_lifetime_slots (sbx_config ctx)"
  "req_status (submitted h slot ctx args) = STATUS_PENDING"
  "req_result_hash (submitted h slot ctx args) = 0"
  "req_result_digest (submitted h slot ctx args) = 0"
  "req_bump (submitted h slot ctx args) = sbx_request_bump ctx"
  by (simp_all add: submitted_def Let_def)

lemma submitted_digest:
  "req_request_digest (submitted h slot ctx args)
     = request_digest h (request_binding (sbx_config ctx) (submitted h slot ctx args) (sbx_request_key ctx))"
  by (simp add: submitted_def Let_def request_binding_def)

lemma locked_fields [simp]:
  "acc_config (locked a k) = acc_config a" "acc_mint (locked a k) = acc_mint a"
  "acc_owner (locked a k) = acc_owner a" "acc_balance_ref (locked a k) = acc_balance_ref a"
  "acc_limit_ref (locked a k) = acc_limit_ref a" "acc_key_version (locked a k) = acc_key_version a"
  "acc_state_version (locked a k) = acc_state_version a"
  "acc_request_nonce (locked a k) = acc_request_nonce a + 1"
  "acc_pending_request (locked a k) = k" "acc_bump (locked a k) = acc_bump a"
  by (simp_all add: locked_def)

lemma no_wrap_le: "unat (a :: u64) + unat b < 2 ^ 64 \<Longrightarrow> a \<le> a + b"
  using unat_add_lem [of a b] by (simp add: word_le_nat_alt)

text \<open>A request made by a submit fits its account and configuration.\<close>

lemma submitted_request_of:
  assumes "submit_ready slot ctx args"
  shows "request_of rt (sbx_request_key ctx) (submitted (rt_sha256 rt) slot ctx args)
    (locked (sbx_account ctx) k) (sbx_config ctx)"
  using assms by (auto simp: request_of_def submit_ready_def Let_def submitted_digest)

lemma new_request_ok:
  assumes ready: "submit_ready slot ctx args"
    and config: "L' (sbx_config_key ctx) = Some (ConfigAccount (sbx_config ctx))"
    and account: "L' (sbx_account_key ctx) = Some (BalanceAccount (locked (sbx_account ctx) k))"
    and pda: "rt_find_program_address rt (request_seeds (sbx_account_key ctx) (sba_expected_nonce args)) ID
      = (sbx_request_key ctx, sbx_request_bump ctx)"
    and balanced: "account_lock.balanced (sbx_account ctx)"
  shows "request_ok rt L' (sbx_request_key ctx) (submitted (rt_sha256 rt) slot ctx args)"
proof -
  note ready' = ready [unfolded submit_ready_def Let_def]
  have "unat (acc_request_nonce (sbx_account ctx)) = unat (acc_state_version (sbx_account ctx))"
    using balanced ready' by (simp add: account_lock.balanced_def has_pending_def)
  then have "unat (acc_request_nonce (sbx_account ctx) + 1) = unat (acc_state_version (sbx_account ctx)) + 1"
    using ready' unat_succ by metis
  moreover have "slot \<le> slot + cfg_max_request_lifetime_slots (sbx_config ctx)"
    using ready' no_wrap_le by blast
  ultimately show ?thesis
    using config account pda ready' submitted_request_of [OF ready, of rt k]
    by (auto simp: request_ok_def result_fields_ok_def)
qed

lemma static_okD:
  assumes "static_ok rt L"
  shows "L k = Some (ConfigAccount c) \<Longrightarrow> config_ok rt k c"
    and "L k = Some (BalanceAccount a) \<Longrightarrow> account_ok rt L k a"
    and "L k = Some (RequestAccount r) \<Longrightarrow> request_ok rt L k r"
  using assms by (simp_all add: static_ok_def)

lemma static_transition:
  assumes ok: "ledger_ok rt L" and step: "transition rt slot L L'"
  shows "static_ok rt L'"
proof -
  have static: "static_ok rt L" using ok by (simp add: ledger_ok_def)
  have evolves: "ledger_evolves L L'" using step by (rule transition_evolves)
  show ?thesis
    unfolding static_ok_def
  proof (intro conjI allI impI)
    fix k d assume "L' k = Some (ConfigAccount d)"
    with step show "config_ok rt k d"
      by (rule config_origin) (auto intro: new_config_ok config_ok_stable static_okD [OF static])
  next
    fix k b assume "L' k = Some (BalanceAccount b)"
    with step show "account_ok rt L' k b"
      by (rule account_origin)
        (auto intro: new_account_ok account_ok_stable static_okD [OF static] evolves)
  next
    fix k r' assume "L' k = Some (RequestAccount r')"
    with step show "request_ok rt L' k r'"
    proof (rule request_origin)
      fix r assume "L k = Some (RequestAccount r)" "request_evolves r r'"
      then show ?thesis
        using request_ok_stable static_okD(3) [OF static] evolves by blast
    next
      fix ctx args
      assume new: "submit_ready slot ctx args" "k = sbx_request_key ctx"
        "r' = submitted (rt_sha256 rt) slot ctx args"
        "L' (sbx_config_key ctx) = Some (ConfigAccount (sbx_config ctx))"
        "L (sbx_account_key ctx) = Some (BalanceAccount (sbx_account ctx))"
        "L' (sbx_account_key ctx) = Some (BalanceAccount (locked (sbx_account ctx) k))"
        "rt_find_program_address rt (request_seeds (sbx_account_key ctx) (sba_expected_nonce args)) ID
           = (k, sbx_request_bump ctx)"
        "L k = None"
      then have "account_lock.balanced (sbx_account ctx)"
        using ok by (auto simp: ledger_ok_def locks_ok_def)
      then show ?thesis
        using new new_request_ok by blast
    qed
  qed
qed

section \<open>The lock part\<close>

lemma locks_okD:
  assumes "locks_ok L"
  shows "L k = Some (BalanceAccount a) \<Longrightarrow> account_lock.balanced a"
    and "L k = Some (BalanceAccount a) \<Longrightarrow> has_pending a \<Longrightarrow>
      \<exists>r. L (acc_pending_request a) = Some (RequestAccount r) \<and> req_status r = STATUS_PENDING \<and>
        req_confidential_account r = k"
    and "L k = Some (RequestAccount r) \<Longrightarrow> req_status r = STATUS_PENDING \<Longrightarrow>
      L (req_confidential_account r) = Some (BalanceAccount a) \<Longrightarrow>
      acc_pending_request a = k \<and> acc_request_nonce a = req_request_nonce r \<and>
      acc_state_version a = req_state_version r"
  using assms by (simp_all add: locks_ok_def)

lemma locks_okI:
  assumes "\<And>k a. L k = Some (BalanceAccount a) \<Longrightarrow> account_lock.balanced a"
    and "\<And>k a. L k = Some (BalanceAccount a) \<Longrightarrow> has_pending a \<Longrightarrow>
      \<exists>r. L (acc_pending_request a) = Some (RequestAccount r) \<and> req_status r = STATUS_PENDING \<and>
        req_confidential_account r = k"
    and "\<And>k r a. L k = Some (RequestAccount r) \<Longrightarrow> req_status r = STATUS_PENDING \<Longrightarrow>
      L (req_confidential_account r) = Some (BalanceAccount a) \<Longrightarrow>
      acc_pending_request a = k \<and> acc_request_nonce a = req_request_nonce r \<and>
      acc_state_version a = req_state_version r"
  shows "locks_ok L"
  using assms by (simp add: locks_ok_def)

lemma locked_balanced:
  assumes "account_lock.balanced a" and "\<not> has_pending a" and "rk \<noteq> 0" and "unat (acc_request_nonce a) + 1 < 2 ^ 64"
  shows "account_lock.balanced (locked a rk)"
  using assms by (simp add: account_lock.balanced_def unat_succ has_pending_def)

text \<open>No pending request refers to an idle account.\<close>

lemma idle_unreferenced:
  assumes "locks_ok L" and "L 0 = Some ForeignAccount" and "L ak = Some (BalanceAccount a)"
    and "acc_pending_request a = 0" and "L k = Some (RequestAccount s)" and "req_status s = STATUS_PENDING"
  shows "req_confidential_account s \<noteq> ak"
proof
  assume "req_confidential_account s = ak"
  then have "acc_pending_request a = k"
    using locks_okD(3) [OF assms(1,5,6)] assms(3) by blast
  then show False using assms(2,4,5) by simp
qed

lemma locks_submitted:
  assumes locks: "locks_ok L" and sys: "L 0 = Some ForeignAccount"
    and account: "L ak = Some (BalanceAccount a)" and free: "L rk = None"
    and idle: "acc_pending_request a = 0" and room: "unat (acc_request_nonce a) + 1 < 2 ^ 64"
    and request: "req_confidential_account r = ak" "req_request_nonce r = acc_request_nonce a + 1"
      "req_state_version r = acc_state_version a" "req_status r = STATUS_PENDING"
  shows "locks_ok (L(ak \<mapsto> BalanceAccount (locked a rk), rk \<mapsto> RequestAccount r))" (is "locks_ok ?L")
proof (rule locks_okI)
  have key: "rk \<noteq> 0" "ak \<noteq> rk" using sys free account by auto
  have unheld: "\<not> has_pending a" using idle by (simp add: has_pending_def)
  fix k b assume b: "?L k = Some (BalanceAccount b)"
  show "account_lock.balanced b"
  proof (cases "k = ak")
    case True
    then show ?thesis
      using b key locked_balanced [OF locks_okD(1) [OF locks account] unheld key(1) room] by simp
  next
    case False
    then show ?thesis using b locks by (auto dest: locks_okD split: if_splits)
  qed
  assume held: "has_pending b"
  show "\<exists>r. ?L (acc_pending_request b) = Some (RequestAccount r) \<and> req_status r = STATUS_PENDING \<and>
        req_confidential_account r = k"
  proof (cases "k = ak")
    case True
    then show ?thesis using b key request by auto
  next
    case False
    then have "L k = Some (BalanceAccount b)" using b by (auto split: if_splits)
    then obtain s where "L (acc_pending_request b) = Some (RequestAccount s)"
      "req_status s = STATUS_PENDING" "req_confidential_account s = k"
      using locks_okD(2) [OF locks] held by blast
    moreover from this have "acc_pending_request b \<noteq> ak" "acc_pending_request b \<noteq> rk"
      using account free by auto
    ultimately show ?thesis by simp
  qed
next
  have key: "rk \<noteq> 0" "ak \<noteq> rk" using sys free account by auto
  fix k s b
  assume s: "?L k = Some (RequestAccount s)" "req_status s = STATUS_PENDING"
    and b: "?L (req_confidential_account s) = Some (BalanceAccount b)"
  show "acc_pending_request b = k \<and> acc_request_nonce b = req_request_nonce s \<and>
      acc_state_version b = req_state_version s"
  proof (cases "k = rk")
    case True
    then show ?thesis using s b request key by auto
  next
    case False
    then have old: "L k = Some (RequestAccount s)" using s by (auto split: if_splits)
    then show ?thesis
      using locks_okD(3) [OF locks old s(2)] idle_unreferenced [OF locks sys account idle old s(2)] b
      by (auto split: if_splits)
  qed
qed

lemma locks_released:
  assumes locks: "locks_ok L"
    and account: "L ak = Some (BalanceAccount a)" and request: "L rk = Some (RequestAccount r)"
    and lock: "pending_lock a ak r rk" and room: "version_room a" and closed: "closed_at slot r r'"
  shows "locks_ok (L(ak \<mapsto> BalanceAccount (unlocked a), rk \<mapsto> RequestAccount r'))" (is "locks_ok ?L")
proof (rule locks_okI)
  have key: "ak \<noteq> rk" using request account by auto
  have held_a: "has_pending a" using lock by (auto simp: pending_lock_def has_pending_def)
  fix k b assume b: "?L k = Some (BalanceAccount b)"
  show "account_lock.balanced b"
  proof (cases "k = ak")
    case True
    have "releases a (unlocked a)"
      using held_a room by (simp add: releases_def release_account_lock_Ok)
    moreover have "account_lock.balanced a" using locks account by (rule locks_okD)
    ultimately show ?thesis using b True key account_lock.release_balanced by auto
  next
    case False
    then show ?thesis using b locks by (auto dest: locks_okD split: if_splits)
  qed
  assume held: "has_pending b"
  have "k \<noteq> ak" using held b key by (auto simp: unlocked_def has_pending_def split: if_splits)
  then have "L k = Some (BalanceAccount b)" using b by (auto split: if_splits)
  then obtain s where s: "L (acc_pending_request b) = Some (RequestAccount s)"
      "req_status s = STATUS_PENDING" "req_confidential_account s = k"
    using locks_okD(2) [OF locks] held by blast
  then have "acc_pending_request b \<noteq> rk"
    using request lock \<open>k \<noteq> ak\<close> by (auto simp: pending_lock_def)
  moreover have "acc_pending_request b \<noteq> ak" using s account by auto
  ultimately show "\<exists>r. ?L (acc_pending_request b) = Some (RequestAccount r) \<and>
      req_status r = STATUS_PENDING \<and> req_confidential_account r = k"
    using s by simp
next
  fix k s b
  assume s: "?L k = Some (RequestAccount s)" "req_status s = STATUS_PENDING"
    and b: "?L (req_confidential_account s) = Some (BalanceAccount b)"
  have "k \<noteq> rk" using s closed_at_not_pending [OF closed] by auto
  then have old: "L k = Some (RequestAccount s)" using s by (auto split: if_splits)
  have "req_confidential_account s \<noteq> ak"
    using locks_okD(3) [OF locks old s(2)] account lock \<open>k \<noteq> rk\<close> by (auto simp: pending_lock_def)
  then show "acc_pending_request b = k \<and> acc_request_nonce b = req_request_nonce s \<and>
      acc_state_version b = req_state_version s"
    using locks_okD(3) [OF locks old s(2)] b by (auto split: if_splits)
qed

lemma locks_other:
  assumes locks: "locks_ok L" and step: "transition rt slot L L'"
    and same: "\<And>k r. L' k = Some (RequestAccount r) \<longleftrightarrow> L k = Some (RequestAccount r)"
    and accounts: "\<And>k a. L' k = Some (BalanceAccount a) \<Longrightarrow> L k = Some (BalanceAccount a) \<or>
      (L k = None \<and> acc_pending_request a = 0 \<and> acc_request_nonce a = 0 \<and> acc_state_version a = 0)"
    and refs: "\<And>k r. L k = Some (RequestAccount r) \<Longrightarrow>
      \<exists>a. L (req_confidential_account r) = Some (BalanceAccount a)"
  shows "locks_ok L'"
proof (rule locks_okI)
  fix k a assume a: "L' k = Some (BalanceAccount a)"
  show "account_lock.balanced a"
    using accounts [OF a] locks by (auto simp: account_lock.balanced_def has_pending_def dest: locks_okD(1))
  assume "has_pending a"
  then show "\<exists>r. L' (acc_pending_request a) = Some (RequestAccount r) \<and>
      req_status r = STATUS_PENDING \<and> req_confidential_account r = k"
    using accounts [OF a] locks_okD(2) [OF locks] same by (auto simp: has_pending_def)
next
  fix k r a
  assume r: "L' k = Some (RequestAccount r)" "req_status r = STATUS_PENDING"
    and a: "L' (req_confidential_account r) = Some (BalanceAccount a)"
  have "L k = Some (RequestAccount r)" using r same by simp
  moreover from this have "L (req_confidential_account r) = Some (BalanceAccount a)"
    using accounts [OF a] refs by fastforce
  ultimately show "acc_pending_request a = k \<and> acc_request_nonce a = req_request_nonce r \<and>
      acc_state_version a = req_state_version r"
    using locks_okD(3) [OF locks] r(2) by blast
qed

lemma locks_transition:
  assumes ok: "ledger_ok rt L" and step: "transition rt slot L L'"
  shows "locks_ok L'"
proof -
  have locks: "locks_ok L" and sys: "L 0 = Some ForeignAccount" and static: "static_ok rt L"
    using ok by (simp_all add: ledger_ok_def)
  have refs: "\<exists>a. L (req_confidential_account r) = Some (BalanceAccount a)"
    if "L k = Some (RequestAccount r)" for k r
    using static_okD(3) [OF static that] by (auto simp: request_ok_def)
  show ?thesis
    using step
  proof (cases rule: transition.cases)
    case (Submitted ctx sargs)
    then show ?thesis
      using locks_submitted [OF locks sys] by (auto simp: submit_ready_def Let_def)
  next
    case (Released ak a rk r r')
    then show ?thesis
      using locks_released [OF locks] by simp
  next
    case (Opened ctx args a)
    then show ?thesis
      by (intro locks_other [OF locks step _ _ refs]) (auto simp: create_account_Ok split: if_splits)
  qed (intro locks_other [OF locks step _ _ refs]; auto split: if_splits)+
qed

section \<open>Reachable ledgers\<close>

lemma ledger_ok_transition:
  "ledger_ok rt L \<Longrightarrow> transition rt slot L L' \<Longrightarrow> ledger_ok rt L'"
  using static_transition locks_transition transition_system_program
  by (metis ledger_ok_def)

lemma reachable_ok: "reachable rt c \<Longrightarrow> ledger_ok rt (ch_ledger c)"
proof (induction rule: reachable_ledger_induct)
  case genesis
  show ?case by (auto simp: ledger_ok_def static_ok_def locks_ok_def split: if_splits)
qed (blast intro: ledger_ok_transition)

end
