(* ===== verification/Scenario.thy ===== *)
theory Scenario
  imports Invariant
begin

text \<open>
  A concrete run of the program: a runtime whose hash, address derivation and decoder are small
  concrete functions, a configuration, an account, a request and its ends. The run shows that
  the states the properties speak of are reached.
\<close>

section \<open>A concrete runtime\<close>

definition lab_sha256 :: "u8 list \<Rightarrow> bytes32" where
  "lab_sha256 bs = mk_bytes (rev bs)"

definition lab_address :: "u8 list list \<Rightarrow> pubkey" where
  "lab_address seeds = mk_bytes (map hd seeds)"

definition lab_calls :: "Call list" where
  "lab_calls =
    [InitializeConfigCall \<lparr>ica_domain_id = fill 7, ica_operator = fill 3, ica_key_version = 1,
       ica_params_hash = fill 8, ica_max_request_lifetime_slots = 10\<rparr>,
     CreateAccountCall \<lparr>caa_balance_hash = fill 21, caa_limit_hash = fill 22\<rparr>,
     SubmitCall \<lparr>sba_amount_hash = fill 23, sba_expected_state_version = 0, sba_expected_nonce = 1\<rparr>,
     FinalizeCall \<lparr>fna_result_hash = fill 30, fna_result_type = 1, fna_circuit_id = 1\<rparr>,
     CancelCall, ExpireCall, SetPausedCall True, RotateOperatorCall (fill 5), SetKeyVersionCall 2]"

definition lab_decode :: "u8 list \<Rightarrow> Call option" where
  "lab_decode data = (case data of
      [i] \<Rightarrow> if unat i < length lab_calls then Some (lab_calls ! unat i) else None
    | _ \<Rightarrow> None)"

definition lab_runtime :: Runtime where
  "lab_runtime =
    \<lparr>rt_sha256 = lab_sha256,
     rt_find_program_address = (\<lambda>seeds program. (lab_address seeds, 255)),
     rt_create_program_address = (\<lambda>seeds program.
       if last seeds = [255] then Some (lab_address (butlast seeds)) else None),
     rt_decode_call = lab_decode\<rparr>"

definition lab_mint :: pubkey where "lab_mint = fill 1"
definition lab_authority :: pubkey where "lab_authority = fill 2"
definition lab_operator :: pubkey where "lab_operator = fill 3"
definition lab_owner :: pubkey where "lab_owner = fill 4"
definition lab_payer :: pubkey where "lab_payer = fill 6"
definition lab_config :: pubkey where "lab_config = mk_bytes [99, 1]"
definition lab_account :: pubkey where "lab_account = mk_bytes [97, 1, 4]"
definition lab_request :: pubkey where "lab_request = mk_bytes [114, 97, 1]"

definition signer :: "pubkey \<Rightarrow> AccountMeta" where
  "signer k = \<lparr>am_pubkey = k, am_is_signer = True, am_is_writable = True\<rparr>"

definition writable :: "pubkey \<Rightarrow> AccountMeta" where
  "writable k = \<lparr>am_pubkey = k, am_is_signer = False, am_is_writable = True\<rparr>"

definition readonly :: "pubkey \<Rightarrow> AccountMeta" where
  "readonly k = \<lparr>am_pubkey = k, am_is_signer = False, am_is_writable = False\<rparr>"

definition no_sysvar :: InstructionsSysvar where
  "no_sysvar = \<lparr>load_current_index_checked = Ok 0,
     load_instruction_at_checked = (\<lambda>_. Err (Framework SysvarInvalidArgument))\<rparr>"

definition at_slot :: "u64 \<Rightarrow> Env" where
  "at_slot s = \<lparr>env_slot = s, env_instructions = no_sysvar\<rparr>"

definition after_ed25519 :: "u8 list \<Rightarrow> InstructionsSysvar" where
  "after_ed25519 data =
    \<lparr>load_current_index_checked = Ok 1,
     load_instruction_at_checked = (\<lambda>i. if i = 0
       then Ok \<lparr>ix_program_id = ED25519_PROGRAM_ID, ix_accounts = [], ix_data = data\<rparr>
       else Err (Framework SysvarInvalidArgument))\<rparr>"

definition release_metas :: "pubkey \<Rightarrow> AccountMeta list" where
  "release_metas who = [signer who, writable lab_account, writable lab_request]"

definition finalize_metas :: "AccountMeta list" where
  "finalize_metas = [signer lab_payer, readonly lab_config, writable lab_account,
     writable lab_request, readonly INSTRUCTIONS_ID]"

text \<open>The accounts after the submit, written out.\<close>

definition config0 :: Config where
  "config0 =
    \<lparr>cfg_authority = lab_authority, cfg_mint = lab_mint, cfg_domain_id = fill 7,
     cfg_operator = lab_operator, cfg_operator_epoch = 1, cfg_key_version = 1,
     cfg_params_hash = fill 8, cfg_operation = 1, cfg_circuit_id = 1, cfg_protocol_version = 1,
     cfg_max_request_lifetime_slots = 10, cfg_paused = False, cfg_bump = 255\<rparr>"

definition account0 :: ConfidentialAccount where
  "account0 =
    \<lparr>acc_config = lab_config, acc_mint = lab_mint, acc_owner = lab_owner,
     acc_balance_ref = fill 21, acc_limit_ref = fill 22, acc_state_version = 0,
     acc_request_nonce = 0, acc_pending_request = 0, acc_key_version = 1, acc_bump = 255\<rparr>"

definition account1 :: ConfidentialAccount where
  "account1 = account0\<lparr>acc_request_nonce := 1, acc_pending_request := lab_request\<rparr>"

definition request1 :: Request where
  "request1 =
    \<lparr>req_requester = lab_owner, req_config = lab_config, req_mint = lab_mint,
     req_confidential_account = lab_account, req_operation = 1, req_balance_hash = fill 21,
     req_amount_hash = fill 23, req_limit_hash = fill 22, req_params_hash = fill 8,
     req_state_version = 0, req_request_nonce = 1, req_key_version = 1, req_operator_epoch = 1,
     req_created_slot = 6, req_expiry_slot = 16, req_status = 0,
     req_request_digest = mk_bytes
       [0, 0, 0, 0, 0, 0, 0, 16, 0, 0, 0, 0, 0, 0, 0, 1, 0, 0, 0, 1, 0, 0, 0, 0, 0, 0, 0, 1, 0, 0, 0, 0],
     req_result_hash = 0, req_result_digest = 0, req_bump = 255\<rparr>"

definition ready_ledger :: ledger where
  "ready_ledger = [0 \<mapsto> ForeignAccount, lab_config \<mapsto> ConfigAccount config0,
     lab_account \<mapsto> BalanceAccount account0]"

definition pending_ledger :: ledger where
  "pending_ledger = ready_ledger(lab_account \<mapsto> BalanceAccount account1,
     lab_request \<mapsto> RequestAccount request1)"

definition ready_chain :: Chain where
  "ready_chain = \<lparr>ch_slot = 5, ch_ledger = ready_ledger\<rparr>"

definition pending_chain :: Chain where
  "pending_chain = \<lparr>ch_slot = 6, ch_ledger = pending_ledger\<rparr>"

text \<open>The addresses of the run are pairwise different.\<close>

lemma lab_keys [simp]:
  "lab_config \<noteq> 0" "lab_account \<noteq> 0" "lab_request \<noteq> 0" "lab_account \<noteq> lab_config"
  "lab_config \<noteq> lab_account" "lab_request \<noteq> lab_config" "lab_config \<noteq> lab_request"
  "lab_request \<noteq> lab_account" "lab_account \<noteq> lab_request"
  by code_simp+

lemma pending_lookups [simp]:
  "pending_ledger lab_config = Some (ConfigAccount config0)"
  "pending_ledger lab_account = Some (BalanceAccount account1)"
  "pending_ledger lab_request = Some (RequestAccount request1)"
  "ready_ledger lab_config = Some (ConfigAccount config0)"
  "ready_ledger lab_account = Some (BalanceAccount account0)"
  "ready_ledger lab_request = None"
  "ready_ledger 0 = Some ForeignAccount"
  by (simp_all add: pending_ledger_def ready_ledger_def)

text \<open>A transaction that verifies, before the program runs, a key's signature on a result of
  the pending request.\<close>

definition attested :: "u64 \<Rightarrow> pubkey \<Rightarrow> bytes32 \<Rightarrow> Env" where
  "attested slot pk result_hash =
    \<lparr>env_slot = slot, env_instructions = after_ed25519 (ed25519_record pk (fill 9)
       (encode_result (result_of config0 (request1\<lparr>req_result_hash := result_hash\<rparr>) lab_request)))\<rparr>"

section \<open>The run\<close>

lemma lab_addresses [simp]:
  "lab_address (config_seeds lab_mint) = lab_config"
  "lab_address (account_seeds lab_mint lab_owner) = lab_account"
  "lab_address (request_seeds lab_account 1) = lab_request"
  by code_simp+

lemma lab_pda [simp]:
  "rt_find_program_address lab_runtime seeds program = (lab_address seeds, 255)"
  "rt_create_program_address lab_runtime (seeds @ [[255]]) program = Some (lab_address seeds)"
  "rt_sha256 lab_runtime = lab_sha256"
  "rt_decode_call lab_runtime = lab_decode"
  by (simp_all add: lab_runtime_def)

lemma lab_metas [simp]:
  "am_pubkey (signer k) = k" "am_is_signer (signer k)" "am_is_writable (signer k)"
  "am_pubkey (writable k) = k" "am_is_writable (writable k)"
  "am_pubkey (readonly k) = k"
  by (simp_all add: signer_def writable_def readonly_def)

lemma lab_bumps [simp]:
  "acc_bump account0 = 255" "acc_bump account1 = 255" "cfg_bump config0 = 255" "req_bump request1 = 255"
  "cfg_mint config0 = lab_mint" "acc_owner account0 = lab_owner" "acc_owner account1 = lab_owner"
  "acc_mint account0 = lab_mint" "acc_mint account1 = lab_mint"
  "acc_config account0 = lab_config" "acc_config account1 = lab_config"
  "req_config request1 = lab_config" "req_confidential_account request1 = lab_account"
  "req_request_nonce request1 = 1" "req_mint request1 = lab_mint" "cfg_authority config0 = lab_authority"
  "acc_pending_request account1 = lab_request" "req_status request1 = STATUS_PENDING"
  "req_expiry_slot request1 = 16" "acc_state_version account1 = 0" "acc_request_nonce account1 = 1"
  by (simp_all add: account0_def account1_def config0_def request1_def status_defs)

lemmas load_defs = load_config_def load_account_def load_request_def

lemma lab_setup:
  "run_call lab_runtime (at_slot 5) [0 \<mapsto> ForeignAccount]
     [signer lab_authority, readonly lab_mint, writable lab_config, readonly 0] (lab_calls ! 0)
   = Ok ([0 \<mapsto> ForeignAccount](lab_config \<mapsto> ConfigAccount config0))"
  "run_call lab_runtime (at_slot 5) ([0 \<mapsto> ForeignAccount](lab_config \<mapsto> ConfigAccount config0))
     [signer lab_owner, readonly lab_config, writable lab_account, readonly 0] (lab_calls ! 1)
   = Ok ready_ledger"
  by (simp_all add: lab_calls_def InitializeConfig_accounts_def CreateAccount_accounts_def
      account_check_defs load_defs init_pda_def initialize_config_def create_account_def ready_ledger_def
      config0_def account0_def lab_operator_def is_zero_hash_def require_ct_hash_def
      OPERATION_POLICY_CHECK_def CIRCUIT_POLICY_V1_def PROTOCOL_VERSION_def)

definition submit_ctx0 :: SubmitCtx where
  "submit_ctx0 =
    \<lparr>sbx_owner = lab_owner, sbx_config_key = lab_config, sbx_config = config0,
     sbx_account_key = lab_account, sbx_account = account0,
     sbx_request_key = lab_request, sbx_request_bump = 255\<rparr>"

definition submit_args0 :: SubmitArgs where
  "submit_args0 =
    \<lparr>sba_amount_hash = fill 23, sba_expected_state_version = 0, sba_expected_nonce = 1\<rparr>"

definition submit_metas :: "AccountMeta list" where
  "submit_metas = [signer lab_owner, readonly lab_config, writable lab_account,
     writable lab_request, readonly 0]"

lemma lab_submit:
  "run_call lab_runtime (at_slot 6) ready_ledger submit_metas (SubmitCall submit_args0) = Ok pending_ledger"
proof -
  have "Submit_accounts lab_runtime ready_ledger submit_metas submit_args0 = Ok submit_ctx0"
    by (simp add: submit_metas_def Submit_accounts_def account_check_defs load_defs init_pda_def
        submit_args0_def submit_ctx0_def)
  moreover have "submit lab_sha256 6 submit_ctx0 submit_args0 = Ok (account1, request1)"
    by code_simp
  moreover have "env_slot (at_slot 6) = 6" by (simp add: at_slot_def)
  ultimately show ?thesis
    by (simp add: submit_ctx0_def pending_ledger_def)
qed

lemma reachable_call:
  assumes "reachable rt \<lparr>ch_slot = s, ch_ledger = L\<rparr>" and "s \<le> env_slot env"
    and "run_call rt env L metas call = Ok L'"
  shows "reachable rt \<lparr>ch_slot = env_slot env, ch_ledger = L'\<rparr>"
  using assms by (meson chain_step.Instr chain_step.Tick reachable.Step)

lemma at_slot_simps [simp]: "env_slot (at_slot s) = s" "env_slot (attested s pk h) = s"
  by (simp_all add: at_slot_def attested_def)

lemma ready_reachable: "reachable lab_runtime ready_chain"
proof -
  have "reachable lab_runtime \<lparr>ch_slot = 0, ch_ledger = [0 \<mapsto> ForeignAccount]\<rparr>"
    using reachable.Genesis by (simp add: genesis_def del: fun_upd_apply)
  from reachable_call [OF reachable_call [OF this _ lab_setup(1)] _ lab_setup(2)]
  show ?thesis by (simp add: ready_chain_def)
qed

lemma pending_reachable: "reachable lab_runtime pending_chain"
  using reachable_call [OF ready_reachable [unfolded ready_chain_def] _ lab_submit]
  by (simp add: pending_chain_def)

text \<open>Finalizing the pending request with a result the operator attested.\<close>

definition finalize_args0 :: FinalizeArgs where
  "finalize_args0 = \<lparr>fna_result_hash = fill 30, fna_result_type = 1, fna_circuit_id = 1\<rparr>"

definition finalize_ctx0 :: FinalizeCtx where
  "finalize_ctx0 =
    \<lparr>fnx_config_key = lab_config, fnx_config = config0, fnx_account_key = lab_account,
     fnx_account = account1, fnx_request_key = lab_request, fnx_request = request1,
     fnx_instructions = env_instructions (attested 7 lab_operator (fill 30))\<rparr>"

lemma finalize_accounts0:
  "Finalize_accounts lab_runtime (attested 7 lab_operator (fill 30)) pending_ledger finalize_metas
     = Ok finalize_ctx0"
  by (simp add: finalize_metas_def Finalize_accounts_def account_check_defs load_defs finalize_ctx0_def)

lemma finalize_binding0:
  "result_binding finalize_ctx0 finalize_args0
     = result_of config0 (request1\<lparr>req_result_hash := fill 30\<rparr>) lab_request"
  by (simp add: result_binding_def finalize_ctx0_def finalize_args0_def result_of_def
      request_binding_def RESULT_TYPE_FHE_BOOL_def config0_def)

lemma after_ed25519_verifies:
  assumes "length msg < 2 ^ 16"
  shows "verify_operator_message (after_ed25519 (ed25519_record pk sig msg)) pk msg = Ok ()"
  using region_checks_attests ed25519_record_attests [OF assms, of 0 pk sig]
  by (auto simp: verify_operator_message_unfold after_ed25519_def attests_def)

lemma finalize_ready0: "finalize_ready finalize_ctx0 finalize_args0"
  by (simp add: finalize_ready_def finalize_ctx0_def finalize_args0_def config0_def request1_def
      account1_def account0_def RESULT_TYPE_FHE_BOOL_def)

lemma request_digest0:
  "request_digest lab_sha256 (request_binding config0 request1 lab_request) = req_request_digest request1"
  by code_simp

lemma finalize0:
  "finalize lab_sha256 7 finalize_ctx0 finalize_args0
     = Ok (unlocked account1, finalized lab_sha256 finalize_ctx0 finalize_args0)"
proof -
  have "verify_operator_message (fnx_instructions finalize_ctx0) (cfg_operator (fnx_config finalize_ctx0))
      (encode_result (result_binding finalize_ctx0 finalize_args0)) = Ok ()"
    unfolding finalize_binding0
    by (simp add: finalize_ctx0_def attested_def after_ed25519_verifies encoded_lengths config0_def)
  then show ?thesis
    using request_digest0 finalize_ready0
    by (simp add: finalize_Ok finalize_ctx0_def config0_def pending_lock_def version_room_def)
qed

lemma lab_finalize:
  "run_call lab_runtime (attested 7 lab_operator (fill 30)) pending_ledger finalize_metas
     (FinalizeCall finalize_args0) =
   Ok (pending_ledger(lab_account \<mapsto> BalanceAccount (unlocked account1),
     lab_request \<mapsto> RequestAccount (finalized lab_sha256 finalize_ctx0 finalize_args0)))"
  using finalize0 by (simp add: finalize_accounts0) (simp add: finalize_ctx0_def)

end
