(* ===== verification/Safety.thy ===== *)
theory Safety
  imports Scenario
begin

text \<open>
  What holds of the accounts in every reachable state: the invariant itself, at most one
  pending request per account, nonces that identify requests, finished requests that never
  change, requests of an old operator epoch that are never finalized, and stored result digests
  that are the digests of the stored results.
\<close>

lemma reachable_static: "reachable rt c \<Longrightarrow> static_ok rt (ch_ledger c)"
  and reachable_locks: "reachable rt c \<Longrightarrow> locks_ok (ch_ledger c)"
  using reachable_ok by (auto simp: ledger_ok_def)

lemmas reachable_entry = reachable_static [THEN static_okD(1)] reachable_static [THEN static_okD(2)]
  reachable_static [THEN static_okD(3)]

lemma pending_chain_simps [simp]: "ch_ledger pending_chain = pending_ledger" "ch_slot pending_chain = 6"
  by (simp_all add: pending_chain_def)

lemma request_of_account:
  assumes "reachable rt c" and "ch_ledger c k = Some (RequestAccount r)"
  obtains a cf where "ch_ledger c (req_confidential_account r) = Some (BalanceAccount a)"
    "ch_ledger c (req_config r) = Some (ConfigAccount cf)" "request_of rt k r a cf"
  using reachable_entry(3) [OF assms] by (auto simp: request_ok_def)

section \<open>The invariant\<close>

text \<open>
  C1: in every reachable state the accounts are consistent: configurations are valid and stand
  at their address, every account and request refers to accounts that exist and agrees with
  them, every request carries the digest of its own fields, and locks and pending requests
  correspond one to one.
\<close>

theorem reachable_ledger_consistent:
  assumes "reachable rt c"
  shows "ledger_ok rt (ch_ledger c)"
  using assms by (rule reachable_ok)

theorem reachable_ledger_consistent_witness: "ledger_ok lab_runtime pending_ledger"
  using reachable_ledger_consistent [OF pending_reachable] by simp

text \<open>
  An account has at most one pending request at any time, and it is the one the account's lock
  names.
\<close>

lemma one_pending_request:
  assumes "reachable rt c"
    and "ch_ledger c k = Some (RequestAccount r)" "req_status r = STATUS_PENDING"
    and "ch_ledger c k' = Some (RequestAccount r')" "req_status r' = STATUS_PENDING"
    and "req_confidential_account r' = req_confidential_account r"
  shows "k' = k \<and> (\<exists>a. ch_ledger c (req_confidential_account r) = Some (BalanceAccount a) \<and>
    acc_pending_request a = k)"
proof -
  obtain a where "ch_ledger c (req_confidential_account r) = Some (BalanceAccount a)"
    using request_of_account assms(1,2) by metis
  then show ?thesis
    using locks_okD(3) [OF reachable_locks [OF assms(1)]] assms(2-6) by metis
qed

text \<open>
  C23: an account and a nonce identify a request: no nonce is used for two requests of one
  account, whatever their statuses.
\<close>

theorem nonce_identifies_request:
  assumes "reachable rt c"
    and "ch_ledger c k = Some (RequestAccount r)" "ch_ledger c k' = Some (RequestAccount r')"
    and "req_confidential_account r' = req_confidential_account r"
    and "req_request_nonce r' = req_request_nonce r"
  shows "k' = k \<and> r' = r"
proof -
  have "request_ok rt (ch_ledger c) k r" and "request_ok rt (ch_ledger c) k' r'"
    using reachable_entry(3) [OF assms(1)] assms(2,3) by blast+
  then have "k' = k"
    using assms(4,5) by (simp add: request_ok_def)
  then show ?thesis using assms(2,3) by simp
qed

text \<open>While the request of the run is pending, it is the only one of its account with the nonce 1.\<close>

theorem nonce_identifies_request_witness:
  "{(k, r). ch_ledger pending_chain k = Some (RequestAccount r) \<and> req_confidential_account r = lab_account \<and>
      req_request_nonce r = 1} = {(lab_request, request1)}"
  using nonce_identifies_request [OF pending_reachable, of lab_request request1] by fastforce

text \<open>
  The request nonce counts the submits and the state version the releases, so in every
  reachable state they differ by the one pending request, if there is one.
\<close>

lemma nonce_is_version_plus_pending:
  assumes "reachable rt c" and "ch_ledger c k = Some (BalanceAccount a)"
  shows "unat (acc_request_nonce a) = unat (acc_state_version a) + (if has_pending a then 1 else 0)"
  using locks_okD(1) [OF reachable_locks [OF assms(1)] assms(2)]
  by (simp add: account_lock.balanced_def)

lemma pending_version_room:
  assumes "reachable rt c" and "ch_ledger c k = Some (BalanceAccount a)" and "has_pending a"
  shows "version_room a"
  using locks_okD(1) [OF reachable_locks [OF assms(1)] assms(2)] assms(3)
    unat_u64_bound [of "acc_request_nonce a"]
  by (simp add: account_lock.balanced_def version_room_def)

text \<open>
  C33: giving back a lock that is held never overflows: the \<open>Overflow\<close> branch of
  \<open>release_account_lock\<close> is dead in every reachable state, so no counter can strand a request.
\<close>

theorem release_never_overflows:
  assumes "reachable rt c" and "ch_ledger c k = Some (BalanceAccount a)" and "has_pending a"
  shows "release_account_lock a \<noteq> Err (Coord Overflow)"
  using pending_version_room [OF assms] by (simp add: release_account_lock_Err)

theorem release_never_overflows_witness: "release_account_lock account1 \<noteq> Err (Coord Overflow)"
  using release_never_overflows [OF pending_reachable, of lab_account account1]
  by (simp add: has_pending_def)

section \<open>History\<close>

text \<open>
  C26: nothing the program keeps is lost or taken over: along any run a configuration, an
  account and a request stay what they are, with the identity and the references they were
  made with; epochs, nonces and versions only grow, the operator changes only with its epoch,
  and a request changes at most once, from pending to an end.
\<close>

theorem history_preserved:
  assumes "reachable rt c" and "leads_to rt c d"
  shows "ledger_evolves (ch_ledger c) (ch_ledger d)"
  using leads_to_evolves assms by blast

definition finalized_chain :: Chain where
  "finalized_chain = \<lparr>ch_slot = 7, ch_ledger = pending_ledger
     (lab_account \<mapsto> BalanceAccount (unlocked account1),
      lab_request \<mapsto> RequestAccount (finalized lab_sha256 finalize_ctx0 finalize_args0))\<rparr>"

lemma leads_to_call:
  assumes "run_call rt env L metas call = Ok L'" and "s \<le> env_slot env"
  shows "leads_to rt \<lparr>ch_slot = s, ch_ledger = L\<rparr> \<lparr>ch_slot = env_slot env, ch_ledger = L'\<rparr>"
  using assms by (meson chain_step.Instr chain_step.Tick leads_to_refl leads_to_step)

lemma pending_leads_to_finalized: "leads_to lab_runtime pending_chain finalized_chain"
  using leads_to_call [OF lab_finalize, of 6] by (simp add: pending_chain_def finalized_chain_def)

lemma finalized_reachable: "reachable lab_runtime finalized_chain"
  using reachable_leads_to [OF pending_leads_to_finalized pending_reachable] .

theorem history_preserved_witness:
  "ledger_evolves pending_ledger (ch_ledger finalized_chain)"
  using history_preserved [OF pending_reachable pending_leads_to_finalized] by simp

text \<open>
  C20: a request that is no longer pending is final: no later instruction, of anybody, changes
  any of its fields, so a result cannot be replaced and a cancelled or expired request cannot
  be revived or finalized.
\<close>

theorem terminal_request_frozen:
  assumes "reachable rt c" and "leads_to rt c d"
    and "ch_ledger c k = Some (RequestAccount r)" and "req_status r \<noteq> STATUS_PENDING"
  shows "ch_ledger d k = Some (RequestAccount r)"
  using ledger_evolvesD(3) [OF leads_to_evolves [OF assms(2,1)] assms(3)] assms(4)
  by (auto simp: request_evolves_def)

definition request_done :: Request where
  "request_done = finalized lab_sha256 finalize_ctx0 finalize_args0"

lemma request_done_status [simp]: "req_status request_done = STATUS_FINALIZED"
  by (simp add: request_done_def finalized_def)

lemma finalized_chain_request [simp]:
  "ch_ledger finalized_chain lab_request = Some (RequestAccount request_done)"
  by (simp add: finalized_chain_def request_done_def)

text \<open>Rotating the operator, in any ledger that holds the configuration of the run.\<close>

definition config_rotated :: Config where
  "config_rotated = config0\<lparr>cfg_operator := fill 5, cfg_operator_epoch := 2\<rparr>"

lemma lab_rotate:
  assumes "L lab_config = Some (ConfigAccount config0)"
  shows "run_call lab_runtime (at_slot 7) L [signer lab_authority, writable lab_config]
     (RotateOperatorCall (fill 5)) = Ok (L(lab_config \<mapsto> ConfigAccount config_rotated))"
proof -
  have "checked_add (1 :: u64) 1 = Some 2" by code_simp
  then show ?thesis
    using assms
    by (simp add: run_admin_def AdminConfig_accounts_def account_check_defs load_defs
        rotate_operator_def config_rotated_def)
      (simp add: config0_def)
qed

theorem terminal_request_frozen_witness:
  "\<exists>d. leads_to lab_runtime finalized_chain d \<and> ch_ledger d lab_config = Some (ConfigAccount config_rotated) \<and>
     ch_ledger d lab_request = Some (RequestAccount request_done)"
proof -
  let ?d = "\<lparr>ch_slot = 7, ch_ledger = (ch_ledger finalized_chain)(lab_config \<mapsto> ConfigAccount config_rotated)\<rparr>"
  have later: "leads_to lab_runtime finalized_chain ?d"
    using leads_to_call [OF lab_rotate, of "ch_ledger finalized_chain" 7] by (simp add: finalized_chain_def)
  have "ch_ledger ?d lab_request = Some (RequestAccount request_done)"
    by (rule terminal_request_frozen [OF finalized_reachable later]) simp_all
  then show ?thesis using later by (intro exI [of _ ?d]) simp
qed

section \<open>Finalization\<close>

text \<open>The step that finalizes a request rests on its configuration at that moment.\<close>

lemma finalizing_step:
  assumes "transition rt slot L L'" and "L k = Some (RequestAccount r)"
    and "L' k = Some (RequestAccount r')"
    and "req_status r \<noteq> STATUS_FINALIZED" and "req_status r' = STATUS_FINALIZED"
  shows "finalized_under rt L k r r'"
  using assms by (cases rule: transition.cases) (auto split: if_splits)

lemma stale_step:
  assumes step: "transition rt slot L L'" and stale: "req_operator_epoch r < cfg_operator_epoch cf"
    and k: "L k = Some (RequestAccount r)" and cf: "L (req_config r) = Some (ConfigAccount cf)"
    and status: "req_status r \<noteq> STATUS_FINALIZED" and k': "L' k = Some (RequestAccount r')"
  shows "req_status r' \<noteq> STATUS_FINALIZED"
  using finalizing_step [OF step k k' status] cf stale by (auto simp: finalized_under_def)

text \<open>
  C21: rotating the operator closes the door on what was requested before: once a request's
  configuration has moved to a later operator epoch, the request is never finalized.
\<close>

theorem stale_epoch_never_finalizes:
  assumes "reachable rt c" and "leads_to rt c d"
    and "ch_ledger c k = Some (RequestAccount r)" and "req_status r \<noteq> STATUS_FINALIZED"
    and "ch_ledger c (req_config r) = Some (ConfigAccount cf)"
    and "req_operator_epoch r < cfg_operator_epoch cf"
  shows "\<exists>r'. ch_ledger d k = Some (RequestAccount r') \<and> req_status r' \<noteq> STATUS_FINALIZED"
  using assms(2)
proof (induction rule: leads_to_induct)
  case refl
  show ?case using assms(3,4) by blast
next
  case (step x y)
  have x: "reachable rt x" using step.hyps(1) assms(1) by (rule reachable_leads_to)
  have evolves: "ledger_evolves (ch_ledger c) (ch_ledger x)"
    using step.hyps(1) assms(1) by (rule leads_to_evolves)
  obtain r1 where r1: "ch_ledger x k = Some (RequestAccount r1)" "req_status r1 \<noteq> STATUS_FINALIZED"
    using step.IH by blast
  have "request_evolves r r1"
    using ledger_evolvesD(3) [OF evolves assms(3)] r1(1) by auto
  moreover obtain cx where "ch_ledger x (req_config r) = Some (ConfigAccount cx)"
      "cfg_operator_epoch cf \<le> cfg_operator_epoch cx"
    using ledger_evolvesD(1) [OF evolves assms(5)] by (auto simp: config_evolves_def)
  ultimately have cx: "ch_ledger x (req_config r1) = Some (ConfigAccount cx)"
      "req_operator_epoch r1 < cfg_operator_epoch cx"
    using assms(6) by (auto simp: request_evolves_fields)
  have "ledger_evolves (ch_ledger x) (ch_ledger y)"
    using leads_to_evolves leads_to_step step.hyps(2) x by blast
  then obtain r2 where r2: "ch_ledger y k = Some (RequestAccount r2)"
    using ledger_evolvesD(3) r1(1) by blast
  have "ch_ledger y = ch_ledger x \<or> transition rt (ch_slot x) (ch_ledger x) (ch_ledger y)"
    using chain_step_transition step.hyps(2) reachable_system_program x by blast
  then have "req_status r2 \<noteq> STATUS_FINALIZED"
    using stale_step cx r1 r2 by auto
  then show ?case using r2 by blast
qed

definition rotated_chain :: Chain where
  "rotated_chain = \<lparr>ch_slot = 7, ch_ledger = pending_ledger(lab_config \<mapsto> ConfigAccount config_rotated)\<rparr>"

lemma rotated_reachable: "reachable lab_runtime rotated_chain"
  using reachable_leads_to [OF leads_to_call [OF lab_rotate, of pending_ledger 6] pending_reachable [unfolded pending_chain_def]]
  by (simp add: rotated_chain_def)

theorem stale_epoch_never_finalizes_witness:
  "\<exists>r'. ch_ledger rotated_chain lab_request = Some (RequestAccount r') \<and> req_status r' \<noteq> STATUS_FINALIZED"
proof (rule stale_epoch_never_finalizes [OF rotated_reachable leads_to_refl])
  show "ch_ledger rotated_chain lab_request = Some (RequestAccount request1)"
    by (simp add: rotated_chain_def)
  show "ch_ledger rotated_chain (req_config request1) = Some (ConfigAccount config_rotated)"
    by (simp add: rotated_chain_def)
  show "req_operator_epoch request1 < cfg_operator_epoch config_rotated"
    by (simp add: config_rotated_def request1_def)
qed simp

text \<open>Finalized requests hold the digest of their result.\<close>

definition digests_ok :: "Runtime \<Rightarrow> ledger \<Rightarrow> bool" where
  "digests_ok rt L \<longleftrightarrow> (\<forall>k r c. L k = Some (RequestAccount r) \<longrightarrow> req_status r = STATUS_FINALIZED \<longrightarrow>
     L (req_config r) = Some (ConfigAccount c) \<longrightarrow>
     req_result_digest r = result_digest (rt_sha256 rt) (result_of c r k))"

lemma result_of_config: "config_evolves c d \<Longrightarrow> result_of d r k = result_of c r k"
  by (simp add: result_of_def request_binding_config) (simp add: config_evolves_def)

lemma digests_transition:
  assumes ok: "ledger_ok rt L" and digests: "digests_ok rt L" and step: "transition rt slot L L'"
  shows "digests_ok rt L'"
  unfolding digests_ok_def
proof (intro allI impI)
  fix k r' d
  assume r': "L' k = Some (RequestAccount r')" "req_status r' = STATUS_FINALIZED"
    and d: "L' (req_config r') = Some (ConfigAccount d)"
  have evolves: "ledger_evolves L L'" using step by (rule transition_evolves)
  from step r'(1) show "req_result_digest r' = result_digest (rt_sha256 rt) (result_of d r' k)"
  proof (rule request_origin)
    fix r assume r: "L k = Some (RequestAccount r)" "request_evolves r r'"
    have "request_ok rt L k r"
      using ok r(1) by (auto simp: ledger_ok_def dest: static_okD(3))
    then obtain c where c: "L (req_config r) = Some (ConfigAccount c)"
      by (auto simp: request_ok_def)
    then have "config_evolves c d"
      using ledger_evolvesD(1) [OF evolves c] d r(2) by (simp add: request_evolves_fields)
    then have same: "result_of d r' k = result_of c r' k" by (rule result_of_config)
    show ?thesis
    proof (cases "req_status r = STATUS_FINALIZED")
      case True
      then have "r' = r" using r(2) by (auto simp: request_evolves_def)
      then show ?thesis using digests r(1) r'(2) c same by (simp add: digests_ok_def)
    next
      case False
      then have "finalized_under rt L k r r'"
        using finalizing_step step r(1) r' by blast
      then show ?thesis using c same by (auto simp: finalized_under_def)
    qed
  qed (use r'(2) in simp)
qed

lemma reachable_digests: "reachable rt c \<Longrightarrow> digests_ok rt (ch_ledger c)"
proof -
  assume "reachable rt c"
  then have "ledger_ok rt (ch_ledger c) \<and> digests_ok rt (ch_ledger c)"
  proof (induction rule: reachable_ledger_induct)
    case genesis
    show ?case
      by (auto simp: ledger_ok_def static_ok_def locks_ok_def digests_ok_def split: if_splits)
  qed (blast intro: ledger_ok_transition digests_transition)
  then show ?thesis by blast
qed

text \<open>
  C25: the result digest stored in a finalized request is the digest of the result message over
  the request's own fields, its stored request digest and its stored result hash, under the
  configuration it belongs to, at any later time.
\<close>

theorem finalized_digest_matches:
  assumes "reachable rt c"
    and "ch_ledger c k = Some (RequestAccount r)" and "req_status r = STATUS_FINALIZED"
  shows "\<exists>cf. ch_ledger c (req_config r) = Some (ConfigAccount cf) \<and>
    req_request_digest r = request_digest (rt_sha256 rt) (request_binding cf r k) \<and>
    req_result_digest r = result_digest (rt_sha256 rt) (result_of cf r k)"
proof -
  obtain a cf where "ch_ledger c (req_config r) = Some (ConfigAccount cf)" "request_of rt k r a cf"
    using request_of_account [OF assms(1,2)] by blast
  then show ?thesis
    using reachable_digests [OF assms(1)] assms(2,3) by (auto simp: digests_ok_def request_of_def)
qed

theorem finalized_digest_matches_witness:
  "\<exists>cf. ch_ledger finalized_chain (req_config request_done) = Some (ConfigAccount cf) \<and>
    req_request_digest request_done = request_digest lab_sha256 (request_binding cf request_done lab_request) \<and>
    req_result_digest request_done = result_digest lab_sha256 (result_of cf request_done lab_request)"
  using finalized_digest_matches [OF finalized_reachable, of lab_request request_done] by simp

end
