(* ===== verification/Progress.thy ===== *)
theory Progress
  imports Safety
begin

text \<open>
  Who may do what, and what can always be done: a finalization rests on the operator's
  signature, configurations answer to their authority only, accounts to their owners, paused
  configurations stop work but not releases, and a pending request can be released by its owner
  before it expires and by anyone afterwards.
\<close>

section \<open>Signatures\<close>

text \<open>
  The native Ed25519 program, a part of the Solana runtime: a transaction only runs when every
  such instruction in it has verified. For a record of one signature whose indices name its own
  instruction this is what has been verified.
\<close>

definition precompile_checked ::
    "(u8 list \<Rightarrow> u8 list \<Rightarrow> u8 list \<Rightarrow> bool) \<Rightarrow> InstructionsSysvar \<Rightarrow> bool" where
  "precompile_checked ed_verify sv \<longleftrightarrow>
     (\<forall>i ix sig pk msg. load_instruction_at_checked sv (unat i) = Ok ix \<longrightarrow>
        ix_program_id ix = ED25519_PROGRAM_ID \<longrightarrow> ix_data ix ! 0 = 1 \<longrightarrow>
        index_is_self (header_field (ix_data ix) 4) i \<longrightarrow>
        index_is_self (header_field (ix_data ix) 8) i \<longrightarrow>
        index_is_self (header_field (ix_data ix) 14) i \<longrightarrow>
        slice_get (unat (header_field (ix_data ix) 2)) (unat (header_field (ix_data ix) 2) + 64) (ix_data ix) = Some sig \<longrightarrow>
        slice_get (unat (header_field (ix_data ix) 6)) (unat (header_field (ix_data ix) 6) + 32) (ix_data ix) = Some pk \<longrightarrow>
        slice_get (unat (header_field (ix_data ix) 10))
          (unat (header_field (ix_data ix) 10) + unat (header_field (ix_data ix) 12)) (ix_data ix) = Some msg \<longrightarrow>
        ed_verify pk msg sig)"

lemma verified_message_signed:
  assumes "verify_operator_message sv operator message = Ok ()"
    and "precompile_checked ed_verify sv"
  obtains sig where "ed_verify (raw operator) message sig"
proof -
  obtain current ed_ix where ix: "load_instruction_at_checked sv (unat (current - 1)) = Ok ed_ix"
      "ix_program_id ed_ix = ED25519_PROGRAM_ID" "attests (current - 1) (ix_data ed_ix) operator message"
    using assms(1) by (auto simp: verify_operator_message_unfold and_then_eq_Ok region_checks_attests
        split: if_splits)
  obtain sig where "slice_get (unat (header_field (ix_data ed_ix) 2))
      (unat (header_field (ix_data ed_ix) 2) + 64) (ix_data ed_ix) = Some sig"
    using ix(3) by (auto simp: attests_def)
  then have "ed_verify (raw operator) message sig"
    using assms(2) [unfolded precompile_checked_def, rule_format, OF ix(1,2)] ix(3)
    by (simp add: attests_def)
  then show thesis by (rule that)
qed

text \<open>
  C2: a request is finalized only with the operator's signature on exactly the stored result.
  When the finalize instruction succeeds, the request was pending and not expired, its
  configuration not paused and still of the request's operator epoch and key version, and the
  current operator's key verifies a signature on the result message that binds the request's
  fields, its address, its digest and the result hash; these are then stored.
\<close>

theorem finalize_is_signed:
  assumes "run_call rt env L metas (FinalizeCall args) = Ok L'"
    and "precompile_checked ed_verify (env_instructions env)"
  shows "\<exists>ck cf ak a rk r sig.
    L ck = Some (ConfigAccount cf) \<and> L ak = Some (BalanceAccount a) \<and> L rk = Some (RequestAccount r) \<and>
    \<not> cfg_paused cf \<and> req_config r = ck \<and> pending_lock a ak r rk \<and>
    env_slot env < req_expiry_slot r \<and>
    req_operator_epoch r = cfg_operator_epoch cf \<and> req_key_version r = cfg_key_version cf \<and>
    (let r' = r\<lparr>req_status := STATUS_FINALIZED, req_result_hash := fna_result_hash args,
                req_result_digest := result_digest (rt_sha256 rt)
                  (result_of cf (r\<lparr>req_result_hash := fna_result_hash args\<rparr>) rk)\<rparr> in
     ed_verify (raw (cfg_operator cf)) (encode_result (result_of cf r' rk)) sig \<and>
     L' = L(ak \<mapsto> BalanceAccount (unlocked a), rk \<mapsto> RequestAccount r'))"
proof -
  obtain ctx a' r' where ctx: "Finalize_accounts rt env L metas = Ok ctx"
    and fin: "finalize (rt_sha256 rt) (env_slot env) ctx args = Ok (a', r')"
    and L': "L' = L(fnx_account_key ctx \<mapsto> BalanceAccount a', fnx_request_key ctx \<mapsto> RequestAccount r')"
    using assms(1) by (auto simp: and_then_eq_Ok)
  note fin' = fin [unfolded finalize_Ok]
  have ready: "finalize_ready ctx args" using fin' by blast
  have "verify_operator_message (env_instructions env) (cfg_operator (fnx_config ctx))
      (encode_result (result_binding ctx args)) = Ok ()"
    using fin' Finalize_accounts_Ok(4) [OF ctx] by simp
  then obtain sig where sig:
    "ed_verify (raw (cfg_operator (fnx_config ctx))) (encode_result (result_binding ctx args)) sig"
    using assms(2) verified_message_signed by metis
  have same: "result_of (fnx_config ctx) ((fnx_request ctx)\<lparr>req_result_hash := fna_result_hash args\<rparr>)
      (fnx_request_key ctx) = result_binding ctx args"
    "r' = (fnx_request ctx)\<lparr>req_status := STATUS_FINALIZED, req_result_hash := fna_result_hash args,
      req_result_digest := result_digest (rt_sha256 rt) (result_binding ctx args)\<rparr>"
    using ready fin' by (simp_all add: result_of_def result_binding_def finalize_ready_def
        request_binding_def finalized_def Let_def)
  have "result_of (fnx_config ctx) r' (fnx_request_key ctx) = result_binding ctx args"
    using finalized_result_of [OF ready] fin' by metis
  then show ?thesis
    using fin' Finalize_accounts_Ok(1,2,3) [OF ctx] ready sig L' same
    by (intro exI [of _ "fnx_config_key ctx"] exI [of _ "fnx_config ctx"] exI [of _ "fnx_account_key ctx"]
        exI [of _ "fnx_account ctx"] exI [of _ "fnx_request_key ctx"] exI [of _ "fnx_request ctx"]
        exI [of _ sig]) (simp add: finalize_ready_def Let_def)
qed

lemma lab_precompile: "precompile_checked (\<lambda>pk msg sig. sig = replicate 64 9)
  (env_instructions (attested 7 lab_operator (fill 30)))"
  by (auto simp: precompile_checked_def attested_def after_ed25519_def ed25519_record_header
      slice_get_def split: if_splits) (simp_all add: ed25519_record_def)

theorem finalize_is_signed_witness:
  "\<exists>ck cf ak a rk r sig.
    pending_ledger ck = Some (ConfigAccount cf) \<and> pending_ledger ak = Some (BalanceAccount a) \<and>
    pending_ledger rk = Some (RequestAccount r) \<and> pending_lock a ak r rk \<and> sig = replicate 64 (9 :: u8)"
  using finalize_is_signed [OF lab_finalize lab_precompile] by (auto simp: Let_def)

section \<open>Authority\<close>

text \<open>
  C31: a configuration changes only by an administrative instruction that its recorded authority
  signed: no one else can pause it, rotate its operator or move its key version.
\<close>

theorem config_changes_only_by_authority:
  assumes "run_call rt env L metas call = Ok L'"
    and "L k = Some (ConfigAccount cf)" and "L' k \<noteq> L k"
  shows "\<exists>m1 m2 rest. metas = m1 # m2 # rest \<and> am_is_signer m1 \<and>
    am_pubkey m1 = cfg_authority cf \<and> am_pubkey m2 = k \<and>
    ((\<exists>p. call = SetPausedCall p) \<or> (\<exists>new. call = RotateOperatorCall new) \<or>
     (\<exists>v. call = SetKeyVersionCall v))"
proof -
  have admin: ?thesis if run: "run_admin L metas handler = Ok L'"
    and kind: "(\<exists>p. call = SetPausedCall p) \<or> (\<exists>new. call = RotateOperatorCall new) \<or>
     (\<exists>v. call = SetKeyVersionCall v)" for handler
  proof -
    obtain ctx c where ctx: "AdminConfig_accounts L metas = Ok ctx"
      and "L' = L(adx_config_key ctx \<mapsto> ConfigAccount c)"
      using run by (auto simp: run_admin_def and_then_eq_Ok)
    then have "k = adx_config_key ctx" using assms(3) by (auto split: if_splits)
    then show ?thesis
      using AdminConfig_accounts_Ok [OF ctx] assms(2) kind by auto
  qed
  show ?thesis
  proof (cases call)
    case (CreateAccountCall args)
    then show ?thesis using assms
      by (auto simp: and_then_eq_Ok dest!: written_kinds split: if_splits)
  next
    case (InitializeConfigCall args)
    then show ?thesis using assms
      by (auto simp: and_then_eq_Ok dest!: written_kinds split: if_splits)
  next
    case (SubmitCall args)
    then show ?thesis using assms
      by (auto simp: and_then_eq_Ok dest!: written_kinds split: if_splits)
  next
    case CancelCall
    then show ?thesis using assms
      by (auto simp: and_then_eq_Ok dest!: written_kinds split: if_splits)
  next
    case ExpireCall
    then show ?thesis using assms
      by (auto simp: and_then_eq_Ok dest!: written_kinds split: if_splits)
  next
    case (FinalizeCall args)
    then show ?thesis using assms
      by (auto simp: and_then_eq_Ok dest!: written_kinds split: if_splits)
  qed (use assms(1) admin in auto)
qed

theorem config_changes_only_by_authority_witness:
  "\<exists>m1 m2 rest. [signer lab_authority, writable lab_config] = m1 # m2 # rest \<and> am_is_signer m1 \<and>
    am_pubkey m1 = cfg_authority config0"
  using config_changes_only_by_authority [OF lab_rotate [of pending_ledger, OF pending_lookups(1)], of lab_config config0]
  by (simp add: config_rotated_def config0_def)

text \<open>
  C32: an account's request nonce moves only by a submit that the account's owner signed.
\<close>

theorem nonce_spent_only_by_owner:
  assumes "run_call rt env L metas call = Ok L'"
    and "L k = Some (BalanceAccount a)" and "L' k = Some (BalanceAccount b)"
    and "acc_request_nonce b \<noteq> acc_request_nonce a"
  shows "\<exists>m rest args. metas = m # rest \<and> am_is_signer m \<and> am_pubkey m = acc_owner a \<and>
    call = SubmitCall args \<and> sba_expected_nonce args = acc_request_nonce b \<and>
    acc_request_nonce b = acc_request_nonce a + 1"
proof (cases call)
  case (SubmitCall args)
  then obtain ctx r where ctx: "Submit_accounts rt L metas args = Ok ctx"
    and ready: "submit_ready (env_slot env) ctx args"
    and L': "L' = L(sbx_account_key ctx \<mapsto> BalanceAccount (locked (sbx_account ctx) (sbx_request_key ctx)),
      sbx_request_key ctx \<mapsto> RequestAccount r)"
    using assms(1) by (auto simp: and_then_eq_Ok submit_Ok)
  have "k = sbx_account_key ctx" and "b = locked a (sbx_request_key ctx)" and "a = sbx_account ctx"
    using assms(2-4) Submit_accounts_Ok(2,3) [OF ctx] unfolding L' by (auto split: if_splits)
  then show ?thesis
    using SubmitCall ready Submit_accounts_signer [OF ctx] by (auto simp: submit_ready_def Let_def)
next
  case (SetPausedCall p)
  then show ?thesis using assms by (auto simp: run_admin_def and_then_eq_Ok split: if_splits)
next
  case (RotateOperatorCall new)
  then show ?thesis using assms by (auto simp: run_admin_def and_then_eq_Ok split: if_splits)
next
  case (SetKeyVersionCall v)
  then show ?thesis using assms by (auto simp: run_admin_def and_then_eq_Ok split: if_splits)
next
  case (InitializeConfigCall args)
  then show ?thesis using assms by (auto simp: and_then_eq_Ok split: if_splits)
next
  case (CreateAccountCall args)
  then show ?thesis using assms
    by (auto simp: and_then_eq_Ok dest!: written_kinds split: if_splits)
next
  case CancelCall
  then show ?thesis using assms
    by (auto simp: and_then_eq_Ok cancel_Ok unlocked_def dest!: written_kinds split: if_splits)
next
  case ExpireCall
  then show ?thesis using assms
    by (auto simp: and_then_eq_Ok expire_Ok unlocked_def dest!: written_kinds split: if_splits)
next
  case (FinalizeCall args)
  then show ?thesis using assms
    by (auto simp: and_then_eq_Ok finalize_Ok unlocked_def dest!: written_kinds split: if_splits)
qed

theorem nonce_spent_only_by_owner_witness:
  "\<exists>m rest args. submit_metas = m # rest \<and> am_is_signer m \<and> am_pubkey m = lab_owner \<and>
    SubmitCall submit_args0 = SubmitCall args"
  using nonce_spent_only_by_owner [OF lab_submit, of lab_account account0 account1]
  by (auto simp: account0_def)

section \<open>Pausing\<close>

text \<open>
  A paused configuration takes no new work: no account is created, no request is submitted
  and none is finalized under it.
\<close>

lemma paused_config_takes_no_work:
  assumes "L k = Some (ConfigAccount cf)" and "cfg_paused cf" and "am_pubkey (metas ! 1) = k"
    and "call = CreateAccountCall cargs \<or> call = SubmitCall sargs \<or> call = FinalizeCall fargs"
  shows "\<not> is_ok (run_call rt env L metas call)"
  using assms
  by (auto simp: is_ok_iff and_then_eq_Ok create_account_Ok submit_Ok finalize_Ok submit_ready_def
      CreateAccount_accounts_def Submit_accounts_def Finalize_accounts_def Let_def
      split: list.splits if_splits)

section \<open>Progress\<close>

text \<open>
  The Solana SDK: the address found for seeds, with its bump, is the address created from the
  seeds with the bump appended.
\<close>

definition pda_consistent :: "Runtime \<Rightarrow> bool" where
  "pda_consistent rt \<longleftrightarrow> (\<forall>seeds k b. rt_find_program_address rt seeds ID = (k, b) \<longrightarrow>
     rt_create_program_address rt (seeds @ [[b]]) ID = Some k)"

lemma lab_pda_consistent: "pda_consistent lab_runtime"
  by (simp add: pda_consistent_def)

lemma check_seeds_found:
  assumes "pda_consistent rt" and "rt_find_program_address rt seeds ID = (am_pubkey m, b)"
  shows "check_seeds rt seeds b m = Ok ()"
  using assms by (simp add: check_seeds_def pda_consistent_def)

text \<open>The accounts of a pending request, as the checks of the release instructions want them.\<close>

lemma pending_accounts:
  assumes "reachable rt c" and "ch_ledger c ak = Some (BalanceAccount a)" and "has_pending a"
  obtains r where "ch_ledger c (acc_pending_request a) = Some (RequestAccount r)"
    "pending_lock a ak r (acc_pending_request a)"
    "rt_find_program_address rt (account_seeds (acc_mint a) (acc_owner a)) ID = (ak, acc_bump a)"
    "rt_find_program_address rt (request_seeds ak (req_request_nonce r)) ID
       = (acc_pending_request a, req_bump r)"
proof -
  obtain r where r: "ch_ledger c (acc_pending_request a) = Some (RequestAccount r)"
      "req_status r = STATUS_PENDING" "req_confidential_account r = ak"
    using locks_okD(2) [OF reachable_locks [OF assms(1)] assms(2,3)] by blast
  moreover have "request_ok rt (ch_ledger c) (acc_pending_request a) r" "account_ok rt (ch_ledger c) ak a"
    using reachable_entry(2,3) assms(1,2) r(1) by blast+
  ultimately show thesis
    using assms(3) by (intro that [of r]) (auto simp: request_ok_def account_ok_def pending_lock_def has_pending_def)
qed

text \<open>
  C3: a pending request can always be released. In every reachable state, paused or not,
  whatever happened to its configuration, the owner's cancel succeeds while the request has not
  expired and anyone's expire succeeds from then on; the two never apply at the same slot, and
  each frees the account.
\<close>

theorem pending_request_can_be_released:
  assumes "reachable rt c" and "pda_consistent rt"
    and "ch_ledger c ak = Some (BalanceAccount a)" and "has_pending a"
  shows "\<exists>r. ch_ledger c (acc_pending_request a) = Some (RequestAccount r) \<and>
    (let rk = acc_pending_request a; L = ch_ledger c in
     (\<forall>env. run_call rt env L [signer (acc_owner a), writable ak, writable rk] CancelCall =
        (if env_slot env < req_expiry_slot r
         then Ok (L(ak \<mapsto> BalanceAccount (unlocked a),
                  rk \<mapsto> RequestAccount (r\<lparr>req_status := STATUS_CANCELLED\<rparr>)))
         else Err (Coord Expired))) \<and>
     (\<forall>env who. run_call rt env L [signer who, writable ak, writable rk] ExpireCall =
        (if req_expiry_slot r \<le> env_slot env
         then Ok (L(ak \<mapsto> BalanceAccount (unlocked a),
                  rk \<mapsto> RequestAccount (r\<lparr>req_status := STATUS_EXPIRED\<rparr>)))
         else Err (Coord NotExpired))))"
proof -
  obtain r where r: "ch_ledger c (acc_pending_request a) = Some (RequestAccount r)"
    and lock: "pending_lock a ak r (acc_pending_request a)"
    and pdas: "rt_find_program_address rt (account_seeds (acc_mint a) (acc_owner a)) ID = (ak, acc_bump a)"
      "rt_find_program_address rt (request_seeds ak (req_request_nonce r)) ID
         = (acc_pending_request a, req_bump r)"
    using pending_accounts [OF assms(1,3,4)] by blast
  have room: "version_room a" using pending_version_room assms(1,3,4) by blast
  have checks: "check_seeds rt (account_seeds (acc_mint a) (acc_owner a)) (acc_bump a) (writable ak) = Ok ()"
    "check_seeds rt (request_seeds ak (req_request_nonce r)) (req_bump r)
       (writable (acc_pending_request a)) = Ok ()"
    using check_seeds_found [OF assms(2)] pdas by auto
  have released: "release_lock a r status = Ok (unlocked a, r\<lparr>req_status := status\<rparr>)" for status
    using room by (simp add: release_lock_Ok)
  have locked: "require_pending_lock a ak r (acc_pending_request a) = Ok ()"
    using lock by simp
  have account_key: "req_confidential_account r = ak" using lock by (simp add: pending_lock_def)
  show ?thesis
    using assms(3) r account_key checks
    by (simp add: locked released Let_def Cancel_accounts_def Expire_accounts_def load_defs check_signer_def
        check_mut_def cancel_def expire_def require_def)
qed

theorem pending_request_can_be_released_witness:
  "is_ok (run_call lab_runtime (at_slot 8) pending_ledger
     [signer lab_owner, writable lab_account, writable lab_request] CancelCall) \<and>
   is_ok (run_call lab_runtime (at_slot 16) pending_ledger
     [signer lab_payer, writable lab_account, writable lab_request] ExpireCall)"
  using pending_request_can_be_released [OF pending_reachable lab_pda_consistent, of lab_account account1]
  by (simp add: Let_def has_pending_def is_ok_iff del: run_call.simps)

end
