(* ===== verification/BlobStore.thy ===== *)
theory BlobStore
  imports Protocol
begin

text \<open>
  \<open>crates/fhe-worker/src/lib.rs\<close>, the content-addressed store of ciphertexts: \<open>BlobStore\<close> with
  \<open>new\<close>, \<open>put\<close>, \<open>get\<close> and \<open>path_for\<close>, over a model of \<open>std::fs\<close>.

  The disk maps paths to contents. Every operation on it may fail: \<open>dk_faults\<close> says, operation
  by operation, whether it does (\<open>None\<close>: it does not) and, for a write, how many bytes are
  written before it fails; when the list is used up nothing fails any more. A process that is
  killed is a run whose last operation failed. Texts of I/O errors are stand-ins for the
  operating system's. \<open>hex::encode\<close> and SHA-256 are parameters (record \<open>Crates\<close>).
\<close>

section \<open>Errors and the disk\<close>

datatype WorkerError =
    Io string
  | HashMismatch
  | Blob BlobError
  | Deserialize
  | Serialize
  | Params
  | Unsupported
  | StorePath

record Disk =
  dk_files :: "string \<rightharpoonup> u8 list"
  dk_faults :: "nat option list"

text \<open>A computation on the disk that may fail: \<open>wbind\<close> is the \<open>?\<close> operator.\<close>

type_synonym ('a, 'e) dio = "Disk \<Rightarrow> ('a, 'e) result \<times> Disk"
type_synonym 'a wio = "('a, WorkerError) dio"

definition wbind :: "('a, 'e) dio \<Rightarrow> ('a \<Rightarrow> ('b, 'e) dio) \<Rightarrow> ('b, 'e) dio" where
  "wbind m f = (\<lambda>d. case m d of (Ok x, d') \<Rightarrow> f x d' | (Err e, d') \<Rightarrow> (Err e, d'))"

definition wlift :: "('a, 'e) result \<Rightarrow> ('a, 'e) dio" where
  "wlift r = (\<lambda>d. (r, d))"

definition wmap_err :: "('e \<Rightarrow> 'f) \<Rightarrow> ('a, 'e) dio \<Rightarrow> ('a, 'f) dio" where
  "wmap_err g m = (\<lambda>d. case m d of (r, d') \<Rightarrow> (map_err g r, d'))"

definition fs_op :: "(nat \<Rightarrow> (string \<rightharpoonup> u8 list) \<Rightarrow> (string \<rightharpoonup> u8 list)) \<Rightarrow>
    ((string \<rightharpoonup> u8 list) \<Rightarrow> ('a, WorkerError) result \<times> (string \<rightharpoonup> u8 list)) \<Rightarrow> 'a wio" where
  "fs_op broken done d =
    (case dk_faults d of
       Some n # rest \<Rightarrow> (Err (Io ''fault''), \<lparr>dk_files = broken n (dk_files d), dk_faults = rest\<rparr>)
     | _ \<Rightarrow> (case done (dk_files d) of (r, files) \<Rightarrow>
         (r, \<lparr>dk_files = files, dk_faults = tl (dk_faults d)\<rparr>)))"

definition fs_read :: "string \<Rightarrow> u8 list wio" where
  "fs_read path = fs_op (\<lambda>_ files. files)
     (\<lambda>files. (ok_or (files path) (Io ''not found''), files))"

definition fs_write :: "string \<Rightarrow> u8 list \<Rightarrow> unit wio" where
  "fs_write path bytes = fs_op (\<lambda>n files. files(path \<mapsto> take n bytes))
     (\<lambda>files. (Ok (), files(path \<mapsto> bytes)))"

definition fs_rename :: "string \<Rightarrow> string \<Rightarrow> unit wio" where
  "fs_rename old new = fs_op (\<lambda>_ files. files)
     (\<lambda>files. case files old of
        None \<Rightarrow> (Err (Io ''not found''), files)
      | Some bytes \<Rightarrow> (Ok (), (files(old := None))(new \<mapsto> bytes)))"

definition fs_create_dir_all :: "string \<Rightarrow> unit wio" where
  "fs_create_dir_all dir = fs_op (\<lambda>_ files. files) (\<lambda>files. (Ok (), files))"

text \<open>\<open>path.exists()\<close> does not fail.\<close>

definition fs_exists :: "string \<Rightarrow> bool wio" where
  "fs_exists path d = (Ok (dk_files d path \<noteq> None), d)"

section \<open>The store\<close>

record Crates =
  cr_sha256 :: "u8 list \<Rightarrow> bytes32"
  cr_hex_encode :: "u8 list \<Rightarrow> string"
  cr_hex_decode :: "string \<Rightarrow> u8 list option"

record BlobStore =
  bs_root :: string

definition is_ascii_hexdigit :: "char \<Rightarrow> bool" where
  "is_ascii_hexdigit c \<longleftrightarrow> c \<in> set ''0123456789abcdefABCDEF''"

text \<open>\<open>root.join(name)\<close>: an absolute name replaces the root, an empty root or one with a final
  slash gets no other; and, for a name without a dot, \<open>with_extension("tmp")\<close>.\<close>

definition path_base :: "string \<Rightarrow> string" where
  "path_base root = (if root = [] \<or> last root = CHR ''/'' then root else root @ ''/'')"

definition path_join :: "string \<Rightarrow> string \<Rightarrow> string" where
  "path_join root name = (if take 1 name = ''/'' then name else path_base root @ name)"

definition tmp_of :: "string \<Rightarrow> string" where
  "tmp_of path = path @ ''.tmp''"

definition new_store :: "string \<Rightarrow> BlobStore wio" where
  "new_store root =
     wbind (fs_create_dir_all root) (\<lambda>_.
     wlift (Ok \<lparr>bs_root = root\<rparr>))"

definition path_for :: "Crates \<Rightarrow> BlobStore \<Rightarrow> bytes32 \<Rightarrow> (string, WorkerError) result" where
  "path_for cr self hash =
    (let name = cr_hex_encode cr (raw hash) in
     if length name \<noteq> 64 \<or> \<not> list_all is_ascii_hexdigit name then Err StorePath
     else Ok (path_join (bs_root self) name))"

definition put :: "Crates \<Rightarrow> BlobStore \<Rightarrow> u8 list \<Rightarrow> bytes32 wio" where
  "put cr self bytes =
    (let hash = cr_sha256 cr bytes in
     wbind (wlift (path_for cr self hash)) (\<lambda>path.
     wbind (fs_exists path) (\<lambda>there.
     wbind (if \<not> there
            then (let tmp = tmp_of path in
                  wbind (fs_write tmp bytes) (\<lambda>_. fs_rename tmp path))
            else wlift (Ok ())) (\<lambda>_.
     wlift (Ok hash)))))"

definition get :: "Crates \<Rightarrow> BlobStore \<Rightarrow> bytes32 \<Rightarrow> u8 list wio" where
  "get cr self expected =
     wbind (wlift (path_for cr self expected)) (\<lambda>path.
     wbind (fs_read path) (\<lambda>bytes.
     if cr_sha256 cr bytes \<noteq> expected then wlift (Err HashMismatch)
     else wlift (Ok bytes)))"

section \<open>Rules for disk computations\<close>

lemma wlift_simp [simp]: "wlift r d = (r, d)"
  by (simp add: wlift_def)

lemma wbind_simp: "wbind m f d = (case m d of (Ok x, d') \<Rightarrow> f x d' | (Err e, d') \<Rightarrow> (Err e, d'))"
  by (simp add: wbind_def)

lemma wbind_lift [simp]:
  "wbind (wlift (Ok x)) f = f x" "wbind (wlift (Err e)) f = wlift (Err e)"
  by (auto simp: wbind_def wlift_def)

lemma wbind_Ok_iff: "wbind m f d = (Ok y, d'') \<longleftrightarrow> (\<exists>x d'. m d = (Ok x, d') \<and> f x d' = (Ok y, d''))"
  by (auto simp: wbind_def split: prod.splits sum.splits)

text \<open>What a computation never does to the files, whether it succeeds or not.\<close>

definition preserves :: "((string \<rightharpoonup> u8 list) \<Rightarrow> (string \<rightharpoonup> u8 list) \<Rightarrow> bool) \<Rightarrow> ('a, 'e) dio \<Rightarrow> bool" where
  "preserves R m \<longleftrightarrow> (\<forall>d r d'. m d = (r, d') \<longrightarrow> R (dk_files d) (dk_files d'))"

lemma preserves_wlift: "reflp R \<Longrightarrow> preserves R (wlift r)"
  by (simp add: preserves_def reflpD)

lemma preserves_wbind:
  assumes "transp R" and "preserves R m" and "\<And>x. preserves R (f x)"
  shows "preserves R (wbind m f)"
  using assms unfolding preserves_def wbind_def
  by (fastforce split: prod.splits sum.splits dest: transpD)

lemma preserves_fs_op:
  assumes "\<And>n files. R files (broken n files)" and "\<And>files. R files (snd (done files))"
  shows "preserves R (fs_op broken done)"
  using assms unfolding preserves_def fs_op_def
  by (auto split: list.splits option.splits prod.splits) (metis snd_conv)+

lemma fs_read_Ok: "fs_read p d = (Ok b, d') \<Longrightarrow> dk_files d p = Some b \<and> dk_files d' = dk_files d"
  by (auto simp: fs_read_def fs_op_def split: list.splits option.splits)

lemma fs_read_files: "fs_read p d = (r, d') \<Longrightarrow> dk_files d' = dk_files d"
  by (auto simp: fs_read_def fs_op_def split: list.splits option.splits)

lemma fs_write_Ok: "fs_write p b d = (Ok u, d') \<Longrightarrow> dk_files d' = (dk_files d)(p \<mapsto> b)"
  by (auto simp: fs_write_def fs_op_def split: list.splits option.splits)

lemma fs_write_files: "fs_write p b d = (r, d') \<Longrightarrow> q \<noteq> p \<Longrightarrow> dk_files d' q = dk_files d q"
  by (auto simp: fs_write_def fs_op_def split: list.splits option.splits)

lemma fs_rename_Ok: "fs_rename p q d = (Ok u, d') \<Longrightarrow>
    \<exists>b. dk_files d p = Some b \<and> dk_files d' = (dk_files d)(p := None, q \<mapsto> b)"
  by (auto simp: fs_rename_def fs_op_def split: list.splits option.splits)

lemma fs_rename_Err: "fs_rename p q d = (Err e, d') \<Longrightarrow> dk_files d' = dk_files d"
  by (auto simp: fs_rename_def fs_op_def split: list.splits option.splits)

section \<open>Paths\<close>

lemma path_join_hex:
  assumes "list_all is_ascii_hexdigit name"
  shows "path_join root name = path_base root @ name"
proof -
  have "\<not> is_ascii_hexdigit (CHR ''/'')" by code_simp
  then have "take 1 name \<noteq> ''/''"
    using assms by (cases name) auto
  then show ?thesis by (simp add: path_join_def)
qed

lemma path_for_Ok: "path_for cr self h = Ok p \<Longrightarrow>
    p = path_base (bs_root self) @ cr_hex_encode cr (raw h) \<and> length (cr_hex_encode cr (raw h)) = 64"
  by (auto simp: path_for_def Let_def path_join_hex split: if_splits)

text \<open>Names have 64 characters, so a temporary file is never in the way of a stored blob.\<close>

lemma tmp_not_stored:
  assumes "path_for cr self h = Ok p" and "path_for cr self h' = Ok q"
  shows "tmp_of p \<noteq> q"
proof
  assume "tmp_of p = q"
  then have "length (tmp_of p) = length q" by simp
  then show False
    using path_for_Ok [OF assms(1)] path_for_Ok [OF assms(2)] by (simp add: tmp_of_def)
qed

section \<open>Content-addressed stores\<close>

text \<open>
  What users of the store rely on: a value read under a hash has that hash, reading changes
  nothing, storing never takes away or changes what can be read, even when it fails, and after a
  successful store the stored value can be read, unless another one was there before under the
  same hash or the entry was damaged. \<open>view\<close> is what can be read of a state, \<open>damaged\<close> says that an entry's content does
  not have its hash.
\<close>

locale content_store =
  fixes digest :: "'b \<Rightarrow> 'h"
    and view :: "'s \<Rightarrow> 'h \<Rightarrow> 'b option"
    and damaged :: "'s \<Rightarrow> 'h \<Rightarrow> bool"
    and insert_op :: "'b \<Rightarrow> 's \<Rightarrow> ('h, 'e) result \<times> 's"
    and lookup_op :: "'h \<Rightarrow> 's \<Rightarrow> ('b, 'e) result \<times> 's"
  assumes view_digest: "view s h = Some b \<Longrightarrow> digest b = h"
    and lookup_view: "lookup_op h s = (Ok b, s') \<Longrightarrow> view s h = Some b"
    and lookup_keeps: "lookup_op h s = (q, s') \<Longrightarrow> view s' = view s"
    and insert_digest: "insert_op b s = (Ok h, s') \<Longrightarrow> h = digest b"
    and insert_keeps: "insert_op b s = (r, s') \<Longrightarrow> view s h = Some x \<Longrightarrow> view s' h = Some x"
    and insert_adds: "insert_op b s = (Ok h, s') \<Longrightarrow> \<not> damaged s h \<Longrightarrow>
      view s' h = (case view s h of None \<Rightarrow> Some b | Some x \<Rightarrow> Some x)"
begin

lemma lookup_digest: "lookup_op h s = (Ok b, s') \<Longrightarrow> digest b = h"
  by (blast dest: lookup_view view_digest)

text \<open>A value that was stored is what is read, unless a different one with its digest was there.\<close>

lemma insert_view:
  assumes "insert_op b s = (Ok h, s')" and "\<not> damaged s h"
    and "\<And>x. view s h = Some x \<Longrightarrow> x = b"
  shows "view s' h = Some b"
  using insert_adds [OF assms(1,2)] assms(3) by (cases "view s h") auto

lemma lookup_stable:
  assumes "lookup_op h s = (Ok b, s1)" and "insert_op c s1 = (r, s2)" and "lookup_op h s2 = (Ok x, s3)"
  shows "x = b"
  using assms lookup_view lookup_keeps insert_keeps by (metis option.inject)

end

definition stored :: "Crates \<Rightarrow> BlobStore \<Rightarrow> Disk \<Rightarrow> bytes32 \<Rightarrow> u8 list option" where
  "stored cr self d h =
    (case path_for cr self h of
       Err _ \<Rightarrow> None
     | Ok p \<Rightarrow> (case dk_files d p of
           None \<Rightarrow> None
         | Some b \<Rightarrow> if cr_sha256 cr b = h then Some b else None))"

definition corrupted :: "Crates \<Rightarrow> BlobStore \<Rightarrow> Disk \<Rightarrow> bytes32 \<Rightarrow> bool" where
  "corrupted cr self d h \<longleftrightarrow>
     (\<exists>p b. path_for cr self h = Ok p \<and> dk_files d p = Some b \<and> cr_sha256 cr b \<noteq> h)"

lemma stored_Some:
  "stored cr self d h = Some b \<longleftrightarrow>
     (\<exists>p. path_for cr self h = Ok p \<and> dk_files d p = Some b \<and> cr_sha256 cr b = h)"
  by (auto simp: stored_def split: sum.splits option.splits)

lemma stored_cong: "dk_files d' = dk_files d \<Longrightarrow> stored cr self d' = stored cr self d"
  by (rule ext) (simp add: stored_def split: sum.splits)

text \<open>The two ways a put goes: the entry is there, or it is written beside and moved.\<close>

lemma put_cases:
  assumes "put cr self b d = (r, d')"
  obtains (bad_path) e where "path_for cr self (cr_sha256 cr b) = Err e" "d' = d" "r = Err e"
  | (there) p where "path_for cr self (cr_sha256 cr b) = Ok p" "dk_files d p \<noteq> None" "d' = d"
      "r = Ok (cr_sha256 cr b)"
  | (failed) p e where "path_for cr self (cr_sha256 cr b) = Ok p" "dk_files d p = None" "r = Err e"
      "\<forall>q. q \<noteq> tmp_of p \<longrightarrow> dk_files d' q = dk_files d q"
  | (written) p where "path_for cr self (cr_sha256 cr b) = Ok p" "dk_files d p = None"
      "r = Ok (cr_sha256 cr b)" "dk_files d' = (dk_files d)(tmp_of p := None, p \<mapsto> b)"
proof (cases "path_for cr self (cr_sha256 cr b)")
  case (Inl e)
  then have "r = Err e" and "d' = d"
    using assms by (simp_all add: put_def Let_def)
  then show ?thesis by (intro bad_path [OF Inl])
next
  case (Inr p)
  show ?thesis
  proof (cases "dk_files d p")
    case (Some x)
    then have "r = Ok (cr_sha256 cr b)" and "d' = d"
      using assms Inr by (simp_all add: put_def Let_def wbind_simp fs_exists_def)
    then show ?thesis using Some by (intro there [OF Inr]) auto
  next
    case None
    obtain w d1 where w: "fs_write (tmp_of p) b d = (w, d1)" by (rule prod.exhaust)
    obtain m d2 where m: "fs_rename (tmp_of p) p d1 = (m, d2)" by (rule prod.exhaust)
    have keep: "\<forall>q. q \<noteq> tmp_of p \<longrightarrow> dk_files d1 q = dk_files d q"
      using fs_write_files [OF w] by blast
    note steps = put_def Let_def wbind_simp fs_exists_def
    show ?thesis
    proof (cases w)
      case (Inl e)
      then have "r = Err e" and "d' = d1"
        using assms Inr None w by (simp_all add: steps)
      with keep show ?thesis by (intro failed [OF Inr None]) auto
    next
      case w_ok: (Inr u)
      have d1: "dk_files d1 = (dk_files d)(tmp_of p \<mapsto> b)" using w w_ok fs_write_Ok by blast
      show ?thesis
      proof (cases m)
        case (Inl e)
        then have "dk_files d2 = dk_files d1" using m fs_rename_Err by blast
        moreover have "r = Err e" and "d' = d2"
          using assms Inr None w w_ok m Inl by (simp_all add: steps)
        ultimately show ?thesis using keep by (intro failed [OF Inr None]) auto
      next
        case m_ok: (Inr v)
        have "dk_files d2 = (dk_files d)(tmp_of p := None, p \<mapsto> b)"
          using m m_ok d1 fs_rename_Ok by fastforce
        moreover have "r = Ok (cr_sha256 cr b)" and "d' = d2"
          using assms Inr None w w_ok m m_ok by (simp_all add: steps)
        ultimately show ?thesis by (intro written [OF Inr None]) auto
      qed
    qed
  qed
qed

text \<open>An entry that exists is never touched by a put.\<close>

lemma put_keeps_files:
  assumes "put cr self b d = (r, d')" and "path_for cr self h = Ok q" and "dk_files d q = Some x"
  shows "dk_files d' q = Some x"
  using assms(1)
proof (cases rule: put_cases)
  case (failed p e)
  then show ?thesis using tmp_not_stored assms(2,3) by metis
next
  case (written p)
  then have "q \<noteq> tmp_of p" "q \<noteq> p" using tmp_not_stored assms(2,3) by fastforce+
  then show ?thesis using written assms(3) by simp
qed (use assms(3) in auto)

lemma get_Ok: "get cr self h d = (Ok b, d') \<Longrightarrow> stored cr self d h = Some b \<and> dk_files d' = dk_files d"
  by (auto simp: get_def wbind_Ok_iff stored_Some dest!: fs_read_Ok split: if_splits)

lemma get_files: "get cr self h d = (r, d') \<Longrightarrow> dk_files d' = dk_files d"
  by (auto simp: get_def wbind_def dest!: fs_read_files split: prod.splits sum.splits if_splits)

interpretation blob_store: content_store "cr_sha256 cr" "stored cr self" "corrupted cr self"
  "put cr self" "get cr self" for cr self
proof
  fix s h b assume "stored cr self s h = Some b"
  then show "cr_sha256 cr b = h" by (auto simp: stored_Some)
next
  fix h s b s' assume "get cr self h s = (Ok b, s')"
  then show "stored cr self s h = Some b" by (blast dest: get_Ok)
next
  fix h s r s' assume "get cr self h s = (r, s')"
  then show "stored cr self s' = stored cr self s" by (intro stored_cong get_files)
next
  fix b s h s' assume "put cr self b s = (Ok h, s')"
  then show "h = cr_sha256 cr b" by (cases rule: put_cases) auto
next
  fix b s r s' h x assume "put cr self b s = (r, s')" "stored cr self s h = Some x"
  then show "stored cr self s' h = Some x"
    using put_keeps_files [of cr self b s r s' h] by (auto simp: stored_Some)
next
  fix b s h s' assume put: "put cr self b s = (Ok h, s')" and fine: "\<not> corrupted cr self s h"
  show "stored cr self s' h = (case stored cr self s h of None \<Rightarrow> Some b | Some x \<Rightarrow> Some x)"
    using put
  proof (cases rule: put_cases)
    case (there p)
    then show ?thesis using fine by (auto simp: stored_def corrupted_def)
  next
    case (written p)
    then show ?thesis by (auto simp: stored_def)
  qed auto
qed

section \<open>A concrete hexadecimal codec\<close>

definition hex_chars :: string where
  "hex_chars = ''0123456789abcdef''"

definition hex_byte :: "u8 \<Rightarrow> string" where
  "hex_byte b = [hex_chars ! (unat b div 16), hex_chars ! (unat b mod 16)]"

definition hex_text :: "u8 list \<Rightarrow> string" where
  "hex_text bs = concat (map hex_byte bs)"

fun hex_value :: "char \<Rightarrow> string \<Rightarrow> nat option" where
  "hex_value c [] = None"
| "hex_value c (d # ds) = (if c = d then Some 0 else map_option Suc (hex_value c ds))"

fun hex_untext :: "string \<Rightarrow> u8 list option" where
  "hex_untext [] = Some []"
| "hex_untext [c] = None"
| "hex_untext (c # d # cs) =
    (case (hex_value c hex_chars, hex_value d hex_chars, hex_untext cs) of
       (Some h, Some l, Some bs) \<Rightarrow> Some (word_of_nat (16 * h + l) # bs)
     | _ \<Rightarrow> None)"

lemma hex_value_nth: "distinct ds \<Longrightarrow> i < length ds \<Longrightarrow> hex_value (ds ! i) ds = Some i"
  by (induction ds arbitrary: i) (auto simp: nth_Cons' split: if_splits)

lemma hex_chars_facts: "distinct hex_chars" "length hex_chars = 16" "list_all is_ascii_hexdigit hex_chars"
  by code_simp+

lemma hex_untext_text: "hex_untext (hex_text bs) = Some bs"
proof (induction bs)
  case Nil
  show ?case by (simp add: hex_text_def)
next
  case (Cons b bs)
  have "unat b < 256" using unsigned_less [of b] by simp
  then have "unat b div 16 < 16" and "unat b mod 16 < 16" by auto
  then have "hex_value (hex_chars ! (unat b div 16)) hex_chars = Some (unat b div 16)"
    and "hex_value (hex_chars ! (unat b mod 16)) hex_chars = Some (unat b mod 16)"
    using hex_value_nth hex_chars_facts by metis+
  then show ?case using Cons.IH by (simp add: hex_text_def hex_byte_def)
qed

lemma length_hex_text [simp]: "length (hex_text bs) = 2 * length bs"
  by (induction bs) (simp_all add: hex_text_def hex_byte_def)

lemma hex_text_digits: "list_all is_ascii_hexdigit (hex_text bs)"
proof (induction bs)
  case Nil
  show ?case by (simp add: hex_text_def)
next
  case (Cons b bs)
  have "unat b < 256" using unsigned_less [of b] by simp
  then have "unat b div 16 < length hex_chars" and "unat b mod 16 < length hex_chars"
    by (auto simp: hex_chars_facts)
  then have "is_ascii_hexdigit (hex_chars ! (unat b div 16))" "is_ascii_hexdigit (hex_chars ! (unat b mod 16))"
    using hex_chars_facts(3) by (auto simp: list_all_length)
  then show ?case using Cons.IH by (simp add: hex_text_def hex_byte_def)
qed

text \<open>What the documentation of the hex crate promises of \<open>encode\<close> and \<open>decode\<close>.\<close>

definition hex_law :: "Crates \<Rightarrow> bool" where
  "hex_law cr \<longleftrightarrow> (\<forall>bs. cr_hex_decode cr (cr_hex_encode cr bs) = Some bs \<and>
     length (cr_hex_encode cr bs) = 2 * length bs \<and> list_all is_ascii_hexdigit (cr_hex_encode cr bs))"

lemma hex_law_inj: "hex_law cr \<Longrightarrow> cr_hex_encode cr a = cr_hex_encode cr b \<longleftrightarrow> a = b"
  unfolding hex_law_def by (metis option.inject)

lemma path_for_hex: "hex_law cr \<Longrightarrow> path_for cr self h = Ok (path_base (bs_root self) @ cr_hex_encode cr (raw h))"
  by (simp add: path_for_def hex_law_def path_join_hex)

lemma path_base_blobs [simp]: "path_base ''blobs'' = ''blobs/''"
  by (simp add: path_base_def)

definition lab_blob :: "u8 list" where "lab_blob = [1, 2, 3]"

definition lab_crates :: Crates where
  "lab_crates = \<lparr>cr_sha256 = (\<lambda>bs. if bs = lab_blob then fill 1 else fill 2),
     cr_hex_encode = hex_text, cr_hex_decode = hex_untext\<rparr>"

lemma lab_hex_law: "hex_law lab_crates"
  by (simp add: hex_law_def lab_crates_def hex_untext_text hex_text_digits)

definition empty_disk :: Disk where
  "empty_disk = \<lparr>dk_files = (\<lambda>_. None), dk_faults = []\<rparr>"

definition lab_store :: BlobStore where
  "lab_store = \<lparr>bs_root = ''blobs''\<rparr>"

section \<open>Properties\<close>

text \<open>What stands under the hash of a blob after a put that succeeded: the blob, unless there was
  an entry, which put does not touch.\<close>

lemma put_entry:
  assumes "put cr self b d = (Ok h, d')"
  shows "h = cr_sha256 cr b"
    and "\<exists>p. path_for cr self h = Ok p \<and> dk_files d' p = Some (case dk_files d p of None \<Rightarrow> b | Some x \<Rightarrow> x)"
  using assms by (auto elim!: put_cases)

text \<open>
  C37: what is read back after a put that succeeded, provided the disk does not fail then, in every
  case. A get of the returned hash fails with \<open>HashMismatch\<close> if the entry was damaged before the put;
  it returns what was stored under that hash if there was anything, which is another blob only when
  the hash collides; and it returns exactly the blob otherwise, in particular whenever there was no
  entry.
\<close>

theorem stored_blob_is_read_back:
  assumes "put cr self b d = (Ok h, d')" and "dk_faults d' = []"
  shows "h = cr_sha256 cr b \<and> fst (get cr self h d') =
    (if corrupted cr self d h then Err HashMismatch
     else case stored cr self d h of None \<Rightarrow> Ok b | Some x \<Rightarrow> Ok x)"
proof -
  obtain p where p: "path_for cr self h = Ok p" "dk_files d' p = Some (case dk_files d p of None \<Rightarrow> b | Some x \<Rightarrow> x)"
    using put_entry(2) [OF assms(1)] by blast
  have "fst (get cr self h d') = (if cr_sha256 cr (the (dk_files d' p)) \<noteq> h then Err HashMismatch else Ok (the (dk_files d' p)))"
    using p assms(2) by (simp add: get_def wbind_simp fs_read_def fs_op_def)
  then show ?thesis
    using p put_entry(1) [OF assms(1)] by (auto simp: corrupted_def stored_def split: option.splits)
qed

lemma lab_put: "put lab_crates lab_store lab_blob empty_disk = (Ok (fill 1),
   \<lparr>dk_files = (\<lambda>_. None)(''blobs/'' @ hex_text (replicate 32 1) \<mapsto> lab_blob), dk_faults = []\<rparr>)"
  by (simp add: put_def Let_def wbind_simp path_for_hex lab_hex_law fs_exists_def fs_write_def
      fs_rename_def fs_op_def empty_disk_def)
    (auto simp: lab_crates_def lab_store_def tmp_of_def fun_eq_iff)

text \<open>
  What can be read stays readable and unchanged whatever is stored later, also when the later put
  fails or the process dies in the middle of it.
\<close>

lemma stored_blob_survives:
  assumes "stored cr self d h = Some x" and "put cr self b d = (r, d')"
  shows "stored cr self d' h = Some x"
  using blob_store.insert_keeps assms by blast

text \<open>A put damages no entry, however it ends.\<close>

lemma put_undamaged:
  assumes "hex_law cr" and "put cr self b d = (r, d')" and "corrupted cr self d' h"
  shows "corrupted cr self d h"
  using assms(2)
proof (cases rule: put_cases)
  case (failed p e)
  then show ?thesis using assms(3) tmp_not_stored unfolding corrupted_def by metis
next
  case (written p)
  obtain q x where q: "path_for cr self h = Ok q" "dk_files d' q = Some x" "cr_sha256 cr x \<noteq> h"
    using assms(3) by (auto simp: corrupted_def)
  have "q \<noteq> p"
  proof
    assume "q = p"
    then have "cr_hex_encode cr (raw h) = cr_hex_encode cr (raw (cr_sha256 cr b))"
      using q(1) written(1) assms(1) by (auto simp: path_for_hex)
    then have "h = cr_sha256 cr b"
      using hex_law_inj [OF assms(1)] by simp
    then show False using q written(4) \<open>q = p\<close> by simp
  qed
  then show ?thesis
    using q written tmp_not_stored [OF written(1) q(1)] by (auto simp: corrupted_def split: if_splits)
qed (use assms(3) in auto)

text \<open>
  C38: a put is atomic: however it ends, at whichever operation and after however many bytes, no
  entry of the store holds content that does not have its hash unless it did so before. The
  partial write stays in the temporary file.
\<close>

theorem put_is_crash_atomic:
  assumes "hex_law cr" and "put cr self b d = (r, d')" and "corrupted cr self d' h"
  shows "corrupted cr self d h"
  using put_undamaged assms by blast

definition damaged_disk :: Disk where
  "damaged_disk = \<lparr>dk_files = [''blobs/'' @ hex_text (replicate 32 1) \<mapsto> [7]], dk_faults = [Some 2]\<rparr>"

lemma damaged_entry: "corrupted lab_crates lab_store damaged_disk (fill 1)"
  unfolding corrupted_def path_for_hex [OF lab_hex_law]
  by (simp add: lab_crates_def lab_store_def damaged_disk_def lab_blob_def)

lemma put_damaged: "put lab_crates lab_store lab_blob damaged_disk = (Ok (fill 1), damaged_disk)"
  by (simp add: put_def Let_def wbind_simp path_for_hex lab_hex_law fs_exists_def damaged_disk_def)
    (simp add: lab_crates_def lab_store_def)

text \<open>A put over the damaged entry, and one over an empty store: the two outcomes of reading back.\<close>

theorem stored_blob_is_read_back_witness:
  "fst (get lab_crates lab_store (fill 1) (snd (put lab_crates lab_store lab_blob empty_disk))) = Ok lab_blob \<and>
   fst (get lab_crates lab_store (fill 1) (snd (put lab_crates lab_store lab_blob (damaged_disk\<lparr>dk_faults := []\<rparr>))))
     = Err HashMismatch"
proof
  have "\<not> corrupted lab_crates lab_store empty_disk (fill 1)" "stored lab_crates lab_store empty_disk (fill 1) = None"
    by (auto simp: corrupted_def stored_def empty_disk_def split: sum.splits)
  moreover have "snd (put lab_crates lab_store lab_blob empty_disk)
      = \<lparr>dk_files = (\<lambda>_. None)(''blobs/'' @ hex_text (replicate 32 1) \<mapsto> lab_blob), dk_faults = []\<rparr>" by (simp only: lab_put snd_conv)
  ultimately show "fst (get lab_crates lab_store (fill 1) (snd (put lab_crates lab_store lab_blob empty_disk))) = Ok lab_blob"
    using conjunct2 [OF stored_blob_is_read_back [OF lab_put]] by simp
  have put: "put lab_crates lab_store lab_blob (damaged_disk\<lparr>dk_faults := []\<rparr>) = (Ok (fill 1), damaged_disk\<lparr>dk_faults := []\<rparr>)"
    by (simp add: put_def Let_def wbind_simp path_for_hex lab_hex_law fs_exists_def damaged_disk_def)
      (simp add: lab_crates_def lab_store_def)
  have "corrupted lab_crates lab_store (damaged_disk\<lparr>dk_faults := []\<rparr>) (fill 1)"
    using damaged_entry by (simp add: corrupted_def)
  then show "fst (get lab_crates lab_store (fill 1) (snd (put lab_crates lab_store lab_blob (damaged_disk\<lparr>dk_faults := []\<rparr>))))
     = Err HashMismatch"
    using conjunct2 [OF stored_blob_is_read_back [OF put]] put by simp
qed

text \<open>A write that stops after two bytes, in a store with a damaged entry: the put of another blob
  fails, two bytes stand in the temporary file, and the damaged entry is still the only one.\<close>

theorem put_is_crash_atomic_witness:
  "\<exists>d'. put lab_crates lab_store [9, 9, 9] damaged_disk = (Err (Io ''fault''), d') \<and>
     dk_files d' (tmp_of (''blobs/'' @ hex_text (replicate 32 2))) = Some [9, 9] \<and>
     {h. corrupted lab_crates lab_store d' h} = {fill 1}"
proof -
  let ?tmp = "tmp_of (''blobs/'' @ hex_text (replicate 32 2))"
  let ?d = "\<lparr>dk_files = (dk_files damaged_disk)(?tmp \<mapsto> [9, 9]), dk_faults = []\<rparr>"
  have other: "hex_text bs = hex_text cs \<longleftrightarrow> bs = cs" for bs cs
    by (metis hex_untext_text option.inject)
  have put: "put lab_crates lab_store [9, 9, 9] damaged_disk = (Err (Io ''fault''), ?d)"
    by (simp add: put_def Let_def wbind_simp path_for_hex lab_hex_law fs_exists_def fs_write_def fs_op_def damaged_disk_def)
      (simp add: lab_crates_def lab_store_def lab_blob_def other)
  have "h = fill 1" if "corrupted lab_crates lab_store damaged_disk h" for h
  proof -
    have "hex_text (raw h) = hex_text (replicate 32 1)"
      using that unfolding corrupted_def path_for_hex [OF lab_hex_law]
      by (auto simp: lab_crates_def lab_store_def damaged_disk_def split: if_splits)
    then have "raw h = raw (fill 1 :: bytes32)" by (simp add: other)
    then show ?thesis by (metis mk_bytes_raw)
  qed
  moreover have "corrupted lab_crates lab_store ?d (fill 1)"
    using damaged_entry unfolding corrupted_def path_for_hex [OF lab_hex_law]
    by (simp add: lab_crates_def lab_store_def tmp_of_def lab_blob_def)
  ultimately show ?thesis
    using put put_is_crash_atomic [OF lab_hex_law put] by (intro exI [of _ ?d]) auto
qed

text \<open>
  Reading is checked: what get returns has the hash that was asked for, and reading leaves
  the disk's files alone.
\<close>

lemma read_blob_has_its_hash:
  assumes "get cr self h d = (Ok b, d')"
  shows "cr_sha256 cr b = h \<and> dk_files d' = dk_files d"
  using blob_store.lookup_digest [OF assms] get_files [OF assms] by simp

end
