(* ===== verification/Worker.thy ===== *)
theory Worker
  imports BlobStore
begin

text \<open>
  \<open>crates/fhe-worker\<close>: the off-chain evaluation of a policy request on encrypted operands, the
  storing and loading of ciphertexts and keys, and the \<open>fhe-worker\<close> command.

  The TFHE library is a parameter (record \<open>Tfhe\<close>): key generation and encryption take their
  randomness as an argument, homomorphic operations take the server key that
  \<open>set_server_key\<close> made the thread's current one. \<open>safe_serialize\<close> and \<open>safe_deserialize\<close>
  fail when the size limit is exceeded or the bytes do not fit. Keypairs and JSON are the
  parameter \<open>Host\<close>.
\<close>

section \<open>Library parameters\<close>

record ('ck, 'sk, 'csk, 'ct, 'cb) Tfhe =
  tf_generate_keys :: "nat \<Rightarrow> 'ck \<times> 'sk"
  tf_compressed_key :: "nat \<Rightarrow> 'ck \<Rightarrow> 'csk"
  tf_decompress :: "'csk \<Rightarrow> 'sk"
  tf_encrypt :: "nat \<Rightarrow> u64 \<Rightarrow> 'ck \<Rightarrow> 'ct"
  tf_decrypt :: "'ct \<Rightarrow> 'ck \<Rightarrow> u64"
  tf_decrypt_bool :: "'cb \<Rightarrow> 'ck \<Rightarrow> bool"
  tf_ge :: "'sk \<Rightarrow> 'ct \<Rightarrow> 'ct \<Rightarrow> 'cb"
  tf_le :: "'sk \<Rightarrow> 'ct \<Rightarrow> 'ct \<Rightarrow> 'cb"
  tf_and :: "'sk \<Rightarrow> 'cb \<Rightarrow> 'cb \<Rightarrow> 'cb"
  tf_serialize_client_key :: "'ck \<Rightarrow> u64 \<Rightarrow> u8 list option"
  tf_deserialize_client_key :: "u8 list \<Rightarrow> u64 \<Rightarrow> 'ck option"
  tf_serialize_server_key :: "'sk \<Rightarrow> u64 \<Rightarrow> u8 list option"
  tf_serialize_compressed :: "'csk \<Rightarrow> u64 \<Rightarrow> u8 list option"
  tf_deserialize_compressed :: "u8 list \<Rightarrow> u64 \<Rightarrow> 'csk option"
  tf_serialize_u64 :: "'ct \<Rightarrow> u64 \<Rightarrow> u8 list option"
  tf_deserialize_u64 :: "u8 list \<Rightarrow> u64 \<Rightarrow> 'ct option"
  tf_serialize_bool :: "'cb \<Rightarrow> u64 \<Rightarrow> u8 list option"
  tf_deserialize_bool :: "u8 list \<Rightarrow> u64 \<Rightarrow> 'cb option"

definition CLIENT_KEY_LIMIT :: u64 where "CLIENT_KEY_LIMIT = push_bit 26 1"
definition SERVER_KEY_LIMIT :: u64 where "SERVER_KEY_LIMIT = push_bit 30 1"
definition CIPHERTEXT_LIMIT :: u64 where "CIPHERTEXT_LIMIT = push_bit 22 1"
definition BOOL_LIMIT :: u64 where "BOOL_LIMIT = push_bit 20 1"

section \<open>Keys and ciphertexts\<close>

record ('ck, 'sk, 'csk) FheMaterial =
  fm_client_key :: 'ck
  fm_server_key :: 'sk
  fm_compressed_server_key :: 'csk
  fm_params_hash :: bytes32

record 'csk ServerMaterial =
  sm_compressed_server_key :: 'csk
  sm_params_hash :: bytes32

definition hash_compressed_server_key ::
    "Crates \<Rightarrow> ('ck, 'sk, 'csk, 'ct, 'cb) Tfhe \<Rightarrow> 'csk \<Rightarrow> (bytes32, WorkerError) result" where
  "hash_compressed_server_key cr tf key =
     and_then (ok_or (tf_serialize_compressed tf key SERVER_KEY_LIMIT) Serialize) (\<lambda>buf.
     Ok (cr_sha256 cr buf))"

definition generate_material ::
    "Crates \<Rightarrow> ('ck, 'sk, 'csk, 'ct, 'cb) Tfhe \<Rightarrow> nat \<Rightarrow> nat \<Rightarrow>
     (('ck, 'sk, 'csk) FheMaterial, WorkerError) result" where
  "generate_material cr tf entropy entropy' =
    (case tf_generate_keys tf entropy of (client_key, server_key) \<Rightarrow>
     let compressed_server_key = tf_compressed_key tf entropy' client_key in
     and_then (hash_compressed_server_key cr tf compressed_server_key) (\<lambda>params_hash.
     Ok \<lparr>fm_client_key = client_key, fm_server_key = server_key,
         fm_compressed_server_key = compressed_server_key, fm_params_hash = params_hash\<rparr>))"

definition require_server_key_commitment ::
    "Crates \<Rightarrow> ('ck, 'sk, 'csk, 'ct, 'cb) Tfhe \<Rightarrow> 'csk \<Rightarrow> bytes32 \<Rightarrow> (unit, WorkerError) result" where
  "require_server_key_commitment cr tf key expected =
     and_then (hash_compressed_server_key cr tf key) (\<lambda>actual.
     if actual \<noteq> expected then Err Params else Ok ())"

text \<open>\<open>set_server_key\<close>: the key becomes the one later operations of the thread use.\<close>

definition activate_server_key :: "'sk \<Rightarrow> 'sk" where
  "activate_server_key server_key = server_key"

definition encrypt_u64 ::
    "('ck, 'sk, 'csk, 'ct, 'cb) Tfhe \<Rightarrow> nat \<Rightarrow> u64 \<Rightarrow> 'ck \<Rightarrow> 'ct" where
  "encrypt_u64 tf entropy v client_key = tf_encrypt tf entropy v client_key"

definition decrypt_u64 :: "('ck, 'sk, 'csk, 'ct, 'cb) Tfhe \<Rightarrow> 'ct \<Rightarrow> 'ck \<Rightarrow> u64" where
  "decrypt_u64 tf ct client_key = tf_decrypt tf ct client_key"

definition decrypt_bool :: "('ck, 'sk, 'csk, 'ct, 'cb) Tfhe \<Rightarrow> 'cb \<Rightarrow> 'ck \<Rightarrow> bool" where
  "decrypt_bool tf ct client_key = tf_decrypt_bool tf ct client_key"

definition evaluate_policy ::
    "('ck, 'sk, 'csk, 'ct, 'cb) Tfhe \<Rightarrow> 'sk \<Rightarrow> 'ct \<Rightarrow> 'ct \<Rightarrow> 'ct \<Rightarrow> 'cb" where
  "evaluate_policy tf active balance amount limit =
    (let balance_ok = tf_ge tf active balance amount;
         limit_ok = tf_le tf active amount limit
     in tf_and tf active balance_ok limit_ok)"

definition serialize_u64 ::
    "('ck, 'sk, 'csk, 'ct, 'cb) Tfhe \<Rightarrow> 'ct \<Rightarrow> (u8 list, WorkerError) result" where
  "serialize_u64 tf ct = ok_or (tf_serialize_u64 tf ct CIPHERTEXT_LIMIT) Serialize"

definition serialize_bool ::
    "('ck, 'sk, 'csk, 'ct, 'cb) Tfhe \<Rightarrow> 'cb \<Rightarrow> (u8 list, WorkerError) result" where
  "serialize_bool tf ct = ok_or (tf_serialize_bool tf ct BOOL_LIMIT) Serialize"

definition deserialize_u64 ::
    "('ck, 'sk, 'csk, 'ct, 'cb) Tfhe \<Rightarrow> u8 list \<Rightarrow> ('ct, WorkerError) result" where
  "deserialize_u64 tf bytes = ok_or (tf_deserialize_u64 tf bytes CIPHERTEXT_LIMIT) Deserialize"

definition deserialize_bool ::
    "('ck, 'sk, 'csk, 'ct, 'cb) Tfhe \<Rightarrow> u8 list \<Rightarrow> ('cb, WorkerError) result" where
  "deserialize_bool tf bytes = ok_or (tf_deserialize_bool tf bytes BOOL_LIMIT) Deserialize"

definition store_u64 ::
    "Crates \<Rightarrow> ('ck, 'sk, 'csk, 'ct, 'cb) Tfhe \<Rightarrow> BlobStore \<Rightarrow> 'ct \<Rightarrow> u32 \<Rightarrow> bytes32 \<Rightarrow> bytes32 wio" where
  "store_u64 cr tf store ct key_version params_hash =
     wbind (wlift (serialize_u64 tf ct)) (\<lambda>payload.
     put cr store (wrap_blob CT_KIND_U64 key_version params_hash payload))"

definition store_bool ::
    "Crates \<Rightarrow> ('ck, 'sk, 'csk, 'ct, 'cb) Tfhe \<Rightarrow> BlobStore \<Rightarrow> 'cb \<Rightarrow> u32 \<Rightarrow> bytes32 \<Rightarrow> bytes32 wio" where
  "store_bool cr tf store ct key_version params_hash =
     wbind (wlift (serialize_bool tf ct)) (\<lambda>payload.
     put cr store (wrap_blob CT_KIND_BOOL key_version params_hash payload))"

definition load_u64 ::
    "Crates \<Rightarrow> ('ck, 'sk, 'csk, 'ct, 'cb) Tfhe \<Rightarrow> BlobStore \<Rightarrow> bytes32 \<Rightarrow> u32 \<Rightarrow> bytes32 \<Rightarrow> 'ct wio" where
  "load_u64 cr tf store hash key_version params_hash =
     wbind (get cr store hash) (\<lambda>blob.
     wbind (wlift (map_err Blob (unwrap_blob blob CT_KIND_U64 key_version params_hash))) (\<lambda>payload.
     wlift (deserialize_u64 tf payload)))"

definition load_bool ::
    "Crates \<Rightarrow> ('ck, 'sk, 'csk, 'ct, 'cb) Tfhe \<Rightarrow> BlobStore \<Rightarrow> bytes32 \<Rightarrow> u32 \<Rightarrow> bytes32 \<Rightarrow> 'cb wio" where
  "load_bool cr tf store hash key_version params_hash =
     wbind (get cr store hash) (\<lambda>blob.
     wbind (wlift (map_err Blob (unwrap_blob blob CT_KIND_BOOL key_version params_hash))) (\<lambda>payload.
     wlift (deserialize_bool tf payload)))"

section \<open>Evaluating a request\<close>

record 'kp Host =
  ho_sign_message :: "'kp \<Rightarrow> u8 list \<Rightarrow> u8 list"
  ho_pubkey :: "'kp \<Rightarrow> pubkey"
  ho_keypair_try_from :: "u8 list \<Rightarrow> ('kp, string) result"
  ho_json_bytes :: "u8 list \<Rightarrow> u8 list option"

definition process_request ::
    "Crates \<Rightarrow> ('ck, 'sk, 'csk, 'ct, 'cb) Tfhe \<Rightarrow> 'kp Host \<Rightarrow> BlobStore \<Rightarrow> RequestBinding \<Rightarrow> 'csk \<Rightarrow> 'kp \<Rightarrow>
     (ResultBinding \<times> bytes64) wio" where
  "process_request cr tf ho store request compressed_server_key operator =
    (if rb_operation request \<noteq> OPERATION_POLICY_CHECK then wlift (Err Unsupported)
     else if rb_protocol_version request \<noteq> PROTOCOL_VERSION then wlift (Err Unsupported)
     else
       wbind (wlift (require_server_key_commitment cr tf compressed_server_key (rb_params_hash request))) (\<lambda>_.
       let active = activate_server_key (tf_decompress tf compressed_server_key) in
       wbind (load_u64 cr tf store (rb_balance_hash request) (rb_key_version request) (rb_params_hash request)) (\<lambda>balance.
       wbind (load_u64 cr tf store (rb_amount_hash request) (rb_key_version request) (rb_params_hash request)) (\<lambda>amount.
       wbind (load_u64 cr tf store (rb_limit_hash request) (rb_key_version request) (rb_params_hash request)) (\<lambda>limit.
       let allowed = evaluate_policy tf active balance amount limit in
       wbind (store_bool cr tf store allowed (rb_key_version request) (rb_params_hash request)) (\<lambda>result_hash.
       let binding =
             \<lparr>rs_request = request,
              rs_request_digest = request_digest (cr_sha256 cr) request,
              rs_result_hash = result_hash,
              rs_result_type = RESULT_TYPE_FHE_BOOL,
              rs_circuit_id = CIRCUIT_POLICY_V1\<rparr>;
           message = encode_result binding;
           signature = ho_sign_message ho operator message in
       wbind (wlift (ok_or (try_bytes signature) Serialize)) (\<lambda>sig_bytes.
       wlift (Ok (binding, sig_bytes)))))))))"

section \<open>Key files\<close>

text \<open>\<open>path.parent()\<close> of a path with no trailing slash: none for the root and the empty path.\<close>

definition path_parent :: "string \<Rightarrow> string option" where
  "path_parent p =
    (if list_all (\<lambda>c. c = CHR ''/'') p then None
     else Some (case dropWhile (\<lambda>c. c \<noteq> CHR ''/'') (rev p) of
         [] \<Rightarrow> ''''
       | _ # rest \<Rightarrow> if rest = [] then ''/'' else rev rest))"

definition create_parent :: "string \<Rightarrow> unit wio" where
  "create_parent path =
    (case path_parent path of None \<Rightarrow> wlift (Ok ()) | Some parent \<Rightarrow> fs_create_dir_all parent)"

definition write_client_key ::
    "('ck, 'sk, 'csk, 'ct, 'cb) Tfhe \<Rightarrow> string \<Rightarrow> 'ck \<Rightarrow> unit wio" where
  "write_client_key tf path key =
     wbind (create_parent path) (\<lambda>_.
     wbind (wlift (ok_or (tf_serialize_client_key tf key CLIENT_KEY_LIMIT) Serialize)) (\<lambda>buf.
     fs_write path buf))"

definition read_client_key ::
    "('ck, 'sk, 'csk, 'ct, 'cb) Tfhe \<Rightarrow> string \<Rightarrow> 'ck wio" where
  "read_client_key tf path =
     wbind (fs_read path) (\<lambda>bytes.
     wlift (ok_or (tf_deserialize_client_key tf bytes CLIENT_KEY_LIMIT) Deserialize))"

definition serialized_server_key_len ::
    "('ck, 'sk, 'csk, 'ct, 'cb) Tfhe \<Rightarrow> 'sk \<Rightarrow> (nat, WorkerError) result" where
  "serialized_server_key_len tf key =
     and_then (ok_or (tf_serialize_server_key tf key SERVER_KEY_LIMIT) Serialize) (\<lambda>buf. Ok (length buf))"

definition write_server_key ::
    "('ck, 'sk, 'csk, 'ct, 'cb) Tfhe \<Rightarrow> string \<Rightarrow> 'csk \<Rightarrow> unit wio" where
  "write_server_key tf path key =
     wbind (create_parent path) (\<lambda>_.
     wbind (wlift (ok_or (tf_serialize_compressed tf key SERVER_KEY_LIMIT) Serialize)) (\<lambda>buf.
     fs_write path buf))"

definition read_compressed_server_key ::
    "('ck, 'sk, 'csk, 'ct, 'cb) Tfhe \<Rightarrow> string \<Rightarrow> 'csk wio" where
  "read_compressed_server_key tf path =
     wbind (fs_read path) (\<lambda>bytes.
     wlift (ok_or (tf_deserialize_compressed tf bytes SERVER_KEY_LIMIT) Deserialize))"

definition read_server_key ::
    "('ck, 'sk, 'csk, 'ct, 'cb) Tfhe \<Rightarrow> string \<Rightarrow> 'sk wio" where
  "read_server_key tf path =
     wbind (read_compressed_server_key tf path) (\<lambda>key. wlift (Ok (tf_decompress tf key)))"

definition load_material ::
    "Crates \<Rightarrow> ('ck, 'sk, 'csk, 'ct, 'cb) Tfhe \<Rightarrow> string \<Rightarrow> string \<Rightarrow> bytes32 \<Rightarrow> ('ck, 'sk, 'csk) FheMaterial wio" where
  "load_material cr tf client_key_path server_key_path params_hash =
     wbind (read_client_key tf client_key_path) (\<lambda>client_key.
     wbind (read_compressed_server_key tf server_key_path) (\<lambda>compressed_server_key.
     wbind (wlift (require_server_key_commitment cr tf compressed_server_key params_hash)) (\<lambda>_.
     wlift (Ok \<lparr>fm_client_key = client_key,
                fm_server_key = tf_decompress tf compressed_server_key,
                fm_compressed_server_key = compressed_server_key,
                fm_params_hash = params_hash\<rparr>))))"

definition load_server_material ::
    "Crates \<Rightarrow> ('ck, 'sk, 'csk, 'ct, 'cb) Tfhe \<Rightarrow> string \<Rightarrow> bytes32 \<Rightarrow> 'csk ServerMaterial wio" where
  "load_server_material cr tf server_key_path params_hash =
     wbind (read_compressed_server_key tf server_key_path) (\<lambda>compressed_server_key.
     wbind (wlift (require_server_key_commitment cr tf compressed_server_key params_hash)) (\<lambda>_.
     wlift (Ok \<lparr>sm_compressed_server_key = compressed_server_key, sm_params_hash = params_hash\<rparr>)))"

section \<open>What the library promises\<close>

text \<open>
  The documentation of the TFHE library, for a client key and the evaluation key made from it:
  decryption inverts encryption, comparisons of fresh ciphertexts decrypt to the comparison of
  the plaintexts, and the conjunction of two comparisons to the conjunction.
\<close>

definition comparisons :: "('ck, 'sk, 'csk, 'ct, 'cb) Tfhe \<Rightarrow> 'ck \<Rightarrow> 'sk \<Rightarrow> 'cb set" where
  "comparisons tf ck sk =
     {p. \<exists>e x e' y. p = tf_ge tf sk (tf_encrypt tf e x ck) (tf_encrypt tf e' y ck) \<or>
                    p = tf_le tf sk (tf_encrypt tf e x ck) (tf_encrypt tf e' y ck)}"

definition tfhe_law :: "('ck, 'sk, 'csk, 'ct, 'cb) Tfhe \<Rightarrow> 'ck \<Rightarrow> 'csk \<Rightarrow> bool" where
  "tfhe_law tf ck csk \<longleftrightarrow>
    (let sk = tf_decompress tf csk in
     (\<forall>e x. tf_decrypt tf (tf_encrypt tf e x ck) ck = x) \<and>
     (\<forall>e x e' y. tf_decrypt_bool tf (tf_ge tf sk (tf_encrypt tf e x ck) (tf_encrypt tf e' y ck)) ck = (y \<le> x)) \<and>
     (\<forall>e x e' y. tf_decrypt_bool tf (tf_le tf sk (tf_encrypt tf e x ck) (tf_encrypt tf e' y ck)) ck = (x \<le> y)) \<and>
     (\<forall>p \<in> comparisons tf ck sk. \<forall>q \<in> comparisons tf ck sk.
        tf_decrypt_bool tf (tf_and tf sk p q) ck = (tf_decrypt_bool tf p ck \<and> tf_decrypt_bool tf q ck)))"

definition serial_law :: "('ck, 'sk, 'csk, 'ct, 'cb) Tfhe \<Rightarrow> bool" where
  "serial_law tf \<longleftrightarrow>
     (\<forall>ct n bs. tf_serialize_u64 tf ct n = Some bs \<longrightarrow> tf_deserialize_u64 tf bs n = Some ct) \<and>
     (\<forall>ct n bs. tf_serialize_bool tf ct n = Some bs \<longrightarrow> tf_deserialize_bool tf bs n = Some ct)"

lemma evaluate_policy_correct:
  assumes "tfhe_law tf ck csk"
  shows "tf_decrypt_bool tf (evaluate_policy tf (tf_decompress tf csk) (tf_encrypt tf e1 b ck)
     (tf_encrypt tf e2 a ck) (tf_encrypt tf e3 l ck)) ck = (a \<le> b \<and> a \<le> l)"
proof -
  let ?sk = "tf_decompress tf csk"
  have "tf_ge tf ?sk (tf_encrypt tf e1 b ck) (tf_encrypt tf e2 a ck) \<in> comparisons tf ck ?sk"
    "tf_le tf ?sk (tf_encrypt tf e2 a ck) (tf_encrypt tf e3 l ck) \<in> comparisons tf ck ?sk"
    unfolding comparisons_def by blast+
  then show ?thesis
    using assms by (simp add: evaluate_policy_def tfhe_law_def Let_def)
qed

section \<open>How a request is processed\<close>

text \<open>A ciphertext of a value that stands in the store under a hash, with the given header.\<close>

definition operand ::
    "Crates \<Rightarrow> ('ck, 'sk, 'csk, 'ct, 'cb) Tfhe \<Rightarrow> BlobStore \<Rightarrow> Disk \<Rightarrow> 'ck \<Rightarrow> u32 \<Rightarrow> bytes32 \<Rightarrow> bytes32 \<Rightarrow> u64 \<Rightarrow> bool" where
  "operand cr tf store d ck kv ph h v \<longleftrightarrow>
     (\<exists>e payload. tf_serialize_u64 tf (tf_encrypt tf e v ck) CIPHERTEXT_LIMIT = Some payload \<and>
        stored cr store d h = Some (wrap_blob CT_KIND_U64 kv ph payload))"

lemma load_u64_Ok:
  assumes "load_u64 cr tf store h kv ph d = (Ok ct, d')"
  shows "\<exists>payload. stored cr store d h = Some (wrap_blob CT_KIND_U64 kv ph payload) \<and>
    tf_deserialize_u64 tf payload CIPHERTEXT_LIMIT = Some ct \<and> dk_files d' = dk_files d"
  using assms
  by (auto simp: load_u64_def wbind_Ok_iff deserialize_u64_def dest!: get_Ok unwrap_Ok_wrap)

lemma wrap_payload: "wrap_blob kind kv ph p = wrap_blob kind kv ph q \<longleftrightarrow> p = q"
proof
  assume "wrap_blob kind kv ph p = wrap_blob kind kv ph q"
  then have "unwrap_blob (wrap_blob kind kv ph p) kind kv ph = unwrap_blob (wrap_blob kind kv ph q) kind kv ph"
    by (rule arg_cong)
  then show "p = q" by (simp add: unwrap_wrap)
qed (rule arg_cong)

lemma load_operand:
  assumes "load_u64 cr tf store h kv ph d = (Ok ct, d')"
    and "operand cr tf store d ck kv ph h v" and "serial_law tf"
  shows "\<exists>e. ct = tf_encrypt tf e v ck"
proof -
  obtain payload where p: "stored cr store d h = Some (wrap_blob CT_KIND_U64 kv ph payload)"
      "tf_deserialize_u64 tf payload CIPHERTEXT_LIMIT = Some ct"
    using load_u64_Ok [OF assms(1)] by blast
  obtain e payload' where e: "tf_serialize_u64 tf (tf_encrypt tf e v ck) CIPHERTEXT_LIMIT = Some payload'"
      "stored cr store d h = Some (wrap_blob CT_KIND_U64 kv ph payload')"
    using assms(2) by (auto simp: operand_def)
  have "payload' = payload"
    using p(1) e(2) by (simp add: wrap_payload)
  then show ?thesis using p(2) e(1) assms(3) unfolding serial_law_def by fastforce
qed

lemma operand_cong: "dk_files d' = dk_files d \<Longrightarrow> operand cr tf store d' = operand cr tf store d"
  by (intro ext) (simp add: operand_def stored_cong [of d' d])

lemma store_bool_Ok:
  "store_bool cr tf store ct kv ph d = (Ok h, d') \<Longrightarrow>
    \<exists>payload. tf_serialize_bool tf ct BOOL_LIMIT = Some payload \<and>
      put cr store (wrap_blob CT_KIND_BOOL kv ph payload) d = (Ok h, d') \<and>
      h = cr_sha256 cr (wrap_blob CT_KIND_BOOL kv ph payload)"
  by (auto simp: store_bool_def wbind_Ok_iff serialize_bool_def dest: blob_store.insert_digest)

lemma process_request_Ok:
  assumes "process_request cr tf ho store request csk operator d = (Ok (binding, sig), d')"
  obtains balance amount limit payload d1 d2 d3 where
    "rb_operation request = OPERATION_POLICY_CHECK" "rb_protocol_version request = PROTOCOL_VERSION"
    "hash_compressed_server_key cr tf csk = Ok (rb_params_hash request)"
    "load_u64 cr tf store (rb_balance_hash request) (rb_key_version request) (rb_params_hash request) d = (Ok balance, d1)"
    "load_u64 cr tf store (rb_amount_hash request) (rb_key_version request) (rb_params_hash request) d1 = (Ok amount, d2)"
    "load_u64 cr tf store (rb_limit_hash request) (rb_key_version request) (rb_params_hash request) d2 = (Ok limit, d3)"
    "tf_serialize_bool tf (evaluate_policy tf (tf_decompress tf csk) balance amount limit) BOOL_LIMIT = Some payload"
    "binding = \<lparr>rs_request = request, rs_request_digest = request_digest (cr_sha256 cr) request,
       rs_result_hash = cr_sha256 cr (wrap_blob CT_KIND_BOOL (rb_key_version request) (rb_params_hash request) payload),
       rs_result_type = RESULT_TYPE_FHE_BOOL, rs_circuit_id = CIRCUIT_POLICY_V1\<rparr>"
    "raw sig = ho_sign_message ho operator (encode_result binding)"
    "put cr store (wrap_blob CT_KIND_BOOL (rb_key_version request) (rb_params_hash request) payload) d3
       = (Ok (rs_result_hash binding), d')"
  using assms
  by (auto simp: process_request_def Let_def wbind_Ok_iff activate_server_key_def
      require_server_key_commitment_def and_then_eq_Ok try_bytes_eq_Some
      dest!: store_bool_Ok split: if_splits)

section \<open>Properties\<close>

lemma worker_evaluates:
  assumes "process_request cr tf ho store request csk operator d = (Ok (binding, sig), d')"
    and "tfhe_law tf ck csk" and "serial_law tf"
    and "operand cr tf store d ck (rb_key_version request) (rb_params_hash request) (rb_balance_hash request) balance"
    and "operand cr tf store d ck (rb_key_version request) (rb_params_hash request) (rb_amount_hash request) amount"
    and "operand cr tf store d ck (rb_key_version request) (rb_params_hash request) (rb_limit_hash request) limit"
  shows "\<exists>ct payload. tf_decrypt_bool tf ct ck = (amount \<le> balance \<and> amount \<le> limit) \<and>
    tf_serialize_bool tf ct BOOL_LIMIT = Some payload \<and>
    binding = \<lparr>rs_request = request, rs_request_digest = request_digest (cr_sha256 cr) request,
      rs_result_hash = cr_sha256 cr (wrap_blob CT_KIND_BOOL (rb_key_version request) (rb_params_hash request) payload),
      rs_result_type = RESULT_TYPE_FHE_BOOL, rs_circuit_id = CIRCUIT_POLICY_V1\<rparr> \<and>
    raw sig = ho_sign_message ho operator (encode_result binding) \<and>
    (\<exists>d3. dk_files d3 = dk_files d \<and>
       put cr store (wrap_blob CT_KIND_BOOL (rb_key_version request) (rb_params_hash request) payload) d3
         = (Ok (rs_result_hash binding), d'))"
  using assms(1)
proof (rule process_request_Ok)
  fix b a l payload d1 d2 d3
  assume b: "load_u64 cr tf store (rb_balance_hash request) (rb_key_version request) (rb_params_hash request) d = (Ok b, d1)"
    and a: "load_u64 cr tf store (rb_amount_hash request) (rb_key_version request) (rb_params_hash request) d1 = (Ok a, d2)"
    and l: "load_u64 cr tf store (rb_limit_hash request) (rb_key_version request) (rb_params_hash request) d2 = (Ok l, d3)"
    and payload: "tf_serialize_bool tf (evaluate_policy tf (tf_decompress tf csk) b a l) BOOL_LIMIT = Some payload"
    and binding: "binding = \<lparr>rs_request = request, rs_request_digest = request_digest (cr_sha256 cr) request,
       rs_result_hash = cr_sha256 cr (wrap_blob CT_KIND_BOOL (rb_key_version request) (rb_params_hash request) payload),
       rs_result_type = RESULT_TYPE_FHE_BOOL, rs_circuit_id = CIRCUIT_POLICY_V1\<rparr>"
    and sig: "raw sig = ho_sign_message ho operator (encode_result binding)"
    and stored: "put cr store (wrap_blob CT_KIND_BOOL (rb_key_version request) (rb_params_hash request) payload) d3
       = (Ok (rs_result_hash binding), d')"
  have files: "dk_files d1 = dk_files d" "dk_files d2 = dk_files d" "dk_files d3 = dk_files d"
    using load_u64_Ok [OF b] load_u64_Ok [OF a] load_u64_Ok [OF l] by auto
  then obtain e1 e2 e3 where "b = tf_encrypt tf e1 balance ck" "a = tf_encrypt tf e2 amount ck"
      "l = tf_encrypt tf e3 limit ck"
    using load_operand [OF b assms(4,3)] load_operand [OF a _ assms(3)] load_operand [OF l _ assms(3)]
      assms(5,6) by (metis operand_cong)
  then have "tf_decrypt_bool tf (evaluate_policy tf (tf_decompress tf csk) b a l) ck
      = (amount \<le> balance \<and> amount \<le> limit)"
    using evaluate_policy_correct [OF assms(2)] by blast
  then show ?thesis using payload binding sig stored files(3) by blast
qed

text \<open>
  C6: the worker computes the policy without seeing it: from stored encryptions of balance,
  amount and limit it makes a result ciphertext that decrypts to "the amount is at most the
  balance and at most the limit", names it by the hash of its stored form, signs the result
  message that binds the request, its digest and this hash, and leaves the stored form in the store
  under this hash. An entry that was there already is kept as it is; where there was none, the
  store holds the result.
\<close>

theorem worker_computes_policy:
  assumes "process_request cr tf ho store request csk operator d = (Ok (binding, sig), d')"
    and "tfhe_law tf ck csk" and "serial_law tf"
    and "operand cr tf store d ck (rb_key_version request) (rb_params_hash request) (rb_balance_hash request) balance"
    and "operand cr tf store d ck (rb_key_version request) (rb_params_hash request) (rb_amount_hash request) amount"
    and "operand cr tf store d ck (rb_key_version request) (rb_params_hash request) (rb_limit_hash request) limit"
  shows "\<exists>ct payload. tf_decrypt_bool tf ct ck = (amount \<le> balance \<and> amount \<le> limit) \<and>
    tf_serialize_bool tf ct BOOL_LIMIT = Some payload \<and>
    binding = \<lparr>rs_request = request, rs_request_digest = request_digest (cr_sha256 cr) request,
      rs_result_hash = cr_sha256 cr (wrap_blob CT_KIND_BOOL (rb_key_version request) (rb_params_hash request) payload),
      rs_result_type = RESULT_TYPE_FHE_BOOL, rs_circuit_id = CIRCUIT_POLICY_V1\<rparr> \<and>
    raw sig = ho_sign_message ho operator (encode_result binding) \<and>
    (\<exists>p. path_for cr store (rs_result_hash binding) = Ok p \<and> dk_files d' p = Some (case dk_files d p of
       None \<Rightarrow> wrap_blob CT_KIND_BOOL (rb_key_version request) (rb_params_hash request) payload | Some x \<Rightarrow> x))"
proof -
  have entry: "\<exists>p. path_for cr store h = Ok p \<and> dk_files d' p = Some (case dk_files d p of None \<Rightarrow> b | Some x \<Rightarrow> x)"
    if "dk_files d3 = dk_files d" "put cr store b d3 = (Ok h, d')" for d3 h b
    using put_entry(2) [OF that(2)] that(1) by simp
  show ?thesis using worker_evaluates [OF assms] entry by metis
qed

text \<open>Loading an operand, and with it the whole request, succeeds on a disk that does not fail.\<close>

lemma get_stored:
  assumes "stored cr store d h = Some b" and "dk_faults d = []"
  shows "get cr store h d = (Ok b, d)"
  using assms by (auto simp: stored_Some get_def wbind_simp fs_read_def fs_op_def)

lemma load_u64_operand:
  assumes "operand cr tf store d ck kv ph h v" and "serial_law tf" and "dk_faults d = []"
  obtains e where "load_u64 cr tf store h kv ph d = (Ok (tf_encrypt tf e v ck), d)"
proof -
  obtain e payload where e: "tf_serialize_u64 tf (tf_encrypt tf e v ck) CIPHERTEXT_LIMIT = Some payload"
      "stored cr store d h = Some (wrap_blob CT_KIND_U64 kv ph payload)"
    using assms(1) by (auto simp: operand_def)
  have "tf_deserialize_u64 tf payload CIPHERTEXT_LIMIT = Some (tf_encrypt tf e v ck)"
    using e(1) assms(2) by (simp add: serial_law_def)
  then have "load_u64 cr tf store h kv ph d = (Ok (tf_encrypt tf e v ck), d)"
    using e get_stored [OF e(2) assms(3)]
    by (simp add: load_u64_def wbind_simp unwrap_wrap deserialize_u64_def)
  then show thesis by (rule that)
qed

lemma put_without_faults:
  assumes "hex_law cr" and "dk_faults d = []"
  obtains d' where "put cr store b d = (Ok (cr_sha256 cr b), d')"
  using assms
  by (cases "dk_files d (path_base (bs_root store) @ cr_hex_encode cr (raw (cr_sha256 cr b)))")
    (auto simp: put_def Let_def wbind_simp path_for_hex fs_exists_def fs_write_def fs_rename_def
      fs_op_def tmp_of_def)

definition serializable :: "('ck, 'sk, 'csk, 'ct, 'cb) Tfhe \<Rightarrow> bool" where
  "serializable tf \<longleftrightarrow> (\<forall>p. tf_serialize_bool tf p BOOL_LIMIT \<noteq> None)"

lemma process_request_runs:
  assumes "rb_operation request = OPERATION_POLICY_CHECK" "rb_protocol_version request = PROTOCOL_VERSION"
    and "hash_compressed_server_key cr tf csk = Ok (rb_params_hash request)"
    and "serial_law tf" "serializable tf" "hex_law cr" "dk_faults d = []"
    and "\<forall>m. length (ho_sign_message ho operator m) = 64"
    and "operand cr tf store d ck (rb_key_version request) (rb_params_hash request) (rb_balance_hash request) balance"
    and "operand cr tf store d ck (rb_key_version request) (rb_params_hash request) (rb_amount_hash request) amount"
    and "operand cr tf store d ck (rb_key_version request) (rb_params_hash request) (rb_limit_hash request) limit"
  shows "\<exists>binding sig d'. process_request cr tf ho store request csk operator d = (Ok (binding, sig), d')"
proof -
  obtain e1 where e1: "load_u64 cr tf store (rb_balance_hash request) (rb_key_version request)
      (rb_params_hash request) d = (Ok (tf_encrypt tf e1 balance ck), d)"
    using load_u64_operand [OF assms(9,4,7)] by blast
  obtain e2 where e2: "load_u64 cr tf store (rb_amount_hash request) (rb_key_version request)
      (rb_params_hash request) d = (Ok (tf_encrypt tf e2 amount ck), d)"
    using load_u64_operand [OF assms(10,4,7)] by blast
  obtain e3 where e3: "load_u64 cr tf store (rb_limit_hash request) (rb_key_version request)
      (rb_params_hash request) d = (Ok (tf_encrypt tf e3 limit ck), d)"
    using load_u64_operand [OF assms(11,4,7)] by blast
  let ?flag = "evaluate_policy tf (tf_decompress tf csk) (tf_encrypt tf e1 balance ck)
      (tf_encrypt tf e2 amount ck) (tf_encrypt tf e3 limit ck)"
  obtain payload where payload: "tf_serialize_bool tf ?flag BOOL_LIMIT = Some payload"
    using assms(5) by (auto simp: serializable_def)
  obtain d' where "put cr store (wrap_blob CT_KIND_BOOL (rb_key_version request) (rb_params_hash request) payload) d
      = (Ok (cr_sha256 cr (wrap_blob CT_KIND_BOOL (rb_key_version request) (rb_params_hash request) payload)), d')"
    using put_without_faults [OF assms(6,7)] by blast
  moreover have "try_bytes (ho_sign_message ho operator m) = Some (mk_bytes (ho_sign_message ho operator m) :: bytes64)" for m
    using assms(8) by (simp add: try_bytes_def)
  ultimately show ?thesis
    using assms(1-3) e1 e2 e3 payload
    by (simp add: process_request_def wbind_simp require_server_key_commitment_def
        activate_server_key_def Let_def store_bool_def serialize_bool_def)
qed

section \<open>A concrete evaluation\<close>

definition clear_tfhe :: "(unit, unit, unit, u64, bool) Tfhe" where
  "clear_tfhe =
    \<lparr>tf_generate_keys = (\<lambda>_. ((), ())), tf_compressed_key = (\<lambda>_ _. ()), tf_decompress = (\<lambda>_. ()),
     tf_encrypt = (\<lambda>_ v _. v), tf_decrypt = (\<lambda>ct _. ct), tf_decrypt_bool = (\<lambda>p _. p),
     tf_ge = (\<lambda>_ x y. y \<le> x), tf_le = (\<lambda>_ x y. x \<le> y), tf_and = (\<lambda>_ p q. p \<and> q),
     tf_serialize_client_key = (\<lambda>_ _. Some [0]), tf_deserialize_client_key = (\<lambda>_ _. Some ()),
     tf_serialize_server_key = (\<lambda>_ _. Some [0]), tf_serialize_compressed = (\<lambda>_ _. Some [8]),
     tf_deserialize_compressed = (\<lambda>_ _. Some ()),
     tf_serialize_u64 = (\<lambda>v _. Some (le_bytes v)), tf_deserialize_u64 = (\<lambda>bs _. Some (from_le_bytes bs)),
     tf_serialize_bool = (\<lambda>p _. Some [if p then 1 else 0]), tf_deserialize_bool = (\<lambda>bs _. Some (bs = [1]))\<rparr>"

lemma clear_laws: "tfhe_law clear_tfhe () ()" "serial_law clear_tfhe" "serializable clear_tfhe"
  by (auto simp: tfhe_law_def serial_law_def serializable_def clear_tfhe_def u64_le.dec_enc)

definition tail_crates :: Crates where
  "tail_crates = \<lparr>cr_sha256 = (\<lambda>bs. mk_bytes (rev bs)), cr_hex_encode = hex_text, cr_hex_decode = hex_untext\<rparr>"

lemma tail_hex_law: "hex_law tail_crates"
  by (simp add: hex_law_def tail_crates_def hex_untext_text hex_text_digits)

definition lab_host :: "pubkey Host" where
  "lab_host = \<lparr>ho_sign_message = (\<lambda>kp m. replicate 64 9), ho_pubkey = (\<lambda>kp. kp),
     ho_keypair_try_from = (\<lambda>bs. Ok (mk_bytes bs)), ho_json_bytes = (\<lambda>bs. None)\<rparr>"

definition clear_blob :: "u64 \<Rightarrow> u8 list" where
  "clear_blob v = wrap_blob CT_KIND_U64 1 (mk_bytes [8]) (le_bytes v)"

definition clear_hash :: "u64 \<Rightarrow> bytes32" where
  "clear_hash v = cr_sha256 tail_crates (clear_blob v)"

definition worker_binding :: RequestBinding where
  "worker_binding = binding0\<lparr>rb_balance_hash := clear_hash 100, rb_amount_hash := clear_hash 25,
     rb_limit_hash := clear_hash 50, rb_params_hash := mk_bytes [8]\<rparr>"

definition worker_disk :: Disk where
  "worker_disk = \<lparr>dk_files =
     [''blobs/'' @ hex_text (raw (clear_hash 100)) \<mapsto> clear_blob 100,
      ''blobs/'' @ hex_text (raw (clear_hash 25)) \<mapsto> clear_blob 25,
      ''blobs/'' @ hex_text (raw (clear_hash 50)) \<mapsto> clear_blob 50], dk_faults = []\<rparr>"

lemma hex_text_inj: "hex_text a = hex_text b \<longleftrightarrow> a = b"
  by (metis hex_untext_text option.inject)

lemma clear_hashes: "clear_hash 100 \<noteq> clear_hash 25" "clear_hash 100 \<noteq> clear_hash 50" "clear_hash 25 \<noteq> clear_hash 50"
  by code_simp+

lemma worker_path: "path_for tail_crates lab_store h = Ok (''blobs/'' @ hex_text (raw h))"
  by (simp add: path_for_hex tail_hex_law) (simp add: lab_store_def tail_crates_def)

lemma worker_operand:
  assumes "v \<in> {100, 25, 50}"
  shows "operand tail_crates clear_tfhe lab_store worker_disk () 1 (mk_bytes [8]) (clear_hash v) v"
proof -
  have "dk_files worker_disk (''blobs/'' @ hex_text (raw (clear_hash v))) = Some (clear_blob v)"
    using assms clear_hashes by (auto simp: worker_disk_def hex_text_inj)
  then have "stored tail_crates lab_store worker_disk (clear_hash v) = Some (clear_blob v)"
    by (simp add: stored_Some worker_path clear_hash_def)
  then show ?thesis
    unfolding operand_def by (intro exI [of _ 0] exI [of _ "le_bytes v"]) (simp add: clear_tfhe_def clear_blob_def)
qed

lemma worker_key: "hash_compressed_server_key tail_crates clear_tfhe () = Ok (mk_bytes [8])"
  by (simp add: hash_compressed_server_key_def clear_tfhe_def tail_crates_def)

lemma worker_binding_simps [simp]:
  "rb_operation worker_binding = OPERATION_POLICY_CHECK" "rb_protocol_version worker_binding = PROTOCOL_VERSION"
  "rb_params_hash worker_binding = mk_bytes [8]" "rb_key_version worker_binding = 1"
  "rb_balance_hash worker_binding = clear_hash 100" "rb_amount_hash worker_binding = clear_hash 25"
  "rb_limit_hash worker_binding = clear_hash 50"
  by (simp_all add: worker_binding_def binding0_def OPERATION_POLICY_CHECK_def PROTOCOL_VERSION_def)

text \<open>An amount of 25 against a balance of 100 and a limit of 50: the worker stores an encrypted yes.\<close>

theorem worker_computes_policy_witness:
  "\<exists>binding sig d'. process_request tail_crates clear_tfhe lab_host lab_store worker_binding () (fill 3) worker_disk
       = (Ok (binding, sig), d') \<and>
     stored tail_crates lab_store d' (rs_result_hash binding) = Some (wrap_blob CT_KIND_BOOL 1 (mk_bytes [8]) [1])"
proof -
  let ?blob = "wrap_blob CT_KIND_BOOL 1 (mk_bytes [8]) [1]"
  have ops: "operand tail_crates clear_tfhe lab_store worker_disk () 1 (mk_bytes [8]) (clear_hash 100) 100"
    "operand tail_crates clear_tfhe lab_store worker_disk () 1 (mk_bytes [8]) (clear_hash 25) 25"
    "operand tail_crates clear_tfhe lab_store worker_disk () 1 (mk_bytes [8]) (clear_hash 50) 50"
    by (simp_all add: worker_operand)
  have host: "dk_faults worker_disk = []" "length (ho_sign_message lab_host key m) = 64" for key m
    by (simp_all add: worker_disk_def lab_host_def)
  have "\<exists>binding sig d'. process_request tail_crates clear_tfhe lab_host lab_store worker_binding ()
      (fill 3) worker_disk = (Ok (binding, sig), d')"
    by (rule process_request_runs [where ck = "()" and balance = 100 and amount = 25 and limit = 50])
      (use worker_key clear_laws tail_hex_law ops host in simp_all)
  then obtain binding sig d' where run: "process_request tail_crates clear_tfhe lab_host lab_store
      worker_binding () (fill 3) worker_disk = (Ok (binding, sig), d')"
    by blast
  obtain ct payload p where result: "tf_decrypt_bool clear_tfhe ct () = ((25 :: u64) \<le> 100 \<and> (25 :: u64) \<le> 50)"
      "tf_serialize_bool clear_tfhe ct BOOL_LIMIT = Some payload"
      "rs_result_hash binding = cr_sha256 tail_crates (wrap_blob CT_KIND_BOOL 1 (mk_bytes [8]) payload)"
      "path_for tail_crates lab_store (rs_result_hash binding) = Ok p"
      "dk_files d' p = Some (case dk_files worker_disk p of
         None \<Rightarrow> wrap_blob CT_KIND_BOOL 1 (mk_bytes [8]) payload | Some x \<Rightarrow> x)"
    using worker_computes_policy [OF run clear_laws(1,2), of 100 25 50, unfolded worker_binding_simps, OF ops] by auto
  have payload: "payload = [1]" using result(1,2) by (simp add: clear_tfhe_def)
  have "cr_sha256 tail_crates ?blob \<noteq> clear_hash 100" "cr_sha256 tail_crates ?blob \<noteq> clear_hash 25"
    "cr_sha256 tail_crates ?blob \<noteq> clear_hash 50"
    by code_simp+
  then have "dk_files worker_disk p = None"
    using result(3,4) payload by (auto simp: worker_path worker_disk_def hex_text_inj)
  then have "stored tail_crates lab_store d' (rs_result_hash binding) = Some ?blob"
    using result(3-5) payload by (simp add: stored_Some)
  then show ?thesis using run by blast
qed

text \<open>
  The worker evaluates only with the committed key: given another evaluation key than the
  one whose hash the request carries, it returns the parameter error and touches nothing.
\<close>

lemma foreign_key_rejected:
  assumes "rb_operation request = OPERATION_POLICY_CHECK" and "rb_protocol_version request = PROTOCOL_VERSION"
    and "hash_compressed_server_key cr tf csk = Ok h" and "h \<noteq> rb_params_hash request"
  shows "process_request cr tf ho store request csk operator d = (Err Params, d)"
  using assms by (simp add: process_request_def require_server_key_commitment_def)

text \<open>The store as the computations of the worker see it: what is there stays.\<close>

definition entries_stay :: "Crates \<Rightarrow> BlobStore \<Rightarrow> (string \<rightharpoonup> u8 list) \<Rightarrow> (string \<rightharpoonup> u8 list) \<Rightarrow> bool" where
  "entries_stay cr store f f' \<longleftrightarrow>
     (\<forall>h p x. path_for cr store h = Ok p \<longrightarrow> f p = Some x \<longrightarrow> f' p = Some x)"

lemma entries_stay_order: "reflp (entries_stay cr store)" "transp (entries_stay cr store)"
  by (auto simp: entries_stay_def reflp_def transp_def)

lemma put_stays: "preserves (entries_stay cr store) (put cr store b)"
  unfolding preserves_def entries_stay_def by (blast dest: put_keeps_files)

lemma get_stays: "preserves (entries_stay cr store) (get cr store h)"
  unfolding preserves_def entries_stay_def by (metis get_files)

lemmas stays_intros = preserves_wbind [OF entries_stay_order(2)] preserves_wlift [OF entries_stay_order(1)]
  put_stays get_stays

lemma load_u64_stays: "preserves (entries_stay cr store) (load_u64 cr tf store h kv ph)"
  unfolding load_u64_def by (intro stays_intros)

lemma process_request_stays:
  "preserves (entries_stay cr store) (process_request cr tf ho store request csk operator)"
  unfolding process_request_def Let_def store_bool_def
  by (auto intro!: stays_intros load_u64_stays split: if_splits)

text \<open>
  C36: processing a request, whatever its outcome and wherever the disk fails, takes nothing away
  from the store: every blob that could be read before can be read, unchanged, afterwards.
\<close>

theorem processing_preserves_store:
  assumes "process_request cr tf ho store request csk operator d = (r, d')"
    and "stored cr store d h = Some x"
  shows "stored cr store d' h = Some x"
  using process_request_stays [of cr store tf ho request csk operator] assms
  by (auto simp: preserves_def entries_stay_def stored_Some)

theorem processing_preserves_store_witness:
  "stored tail_crates lab_store (snd (process_request tail_crates clear_tfhe lab_host lab_store
     worker_binding () (fill 3) worker_disk)) (clear_hash 25) = Some (clear_blob 25)"
proof (rule processing_preserves_store [OF prod.collapse [symmetric]])
  show "stored tail_crates lab_store worker_disk (clear_hash 25) = Some (clear_blob 25)"
    using worker_operand [of 25] by (auto simp: operand_def clear_tfhe_def clear_blob_def)
qed

text \<open>
  C35: the worker answers: with the committed key, the operands in the store, a disk that does
  not fail and a signer that makes 64-byte signatures, processing the request succeeds.
\<close>

theorem worker_answers:
  assumes "rb_operation request = OPERATION_POLICY_CHECK" "rb_protocol_version request = PROTOCOL_VERSION"
    and "hash_compressed_server_key cr tf csk = Ok (rb_params_hash request)"
    and "serial_law tf" "serializable tf" "hex_law cr" "dk_faults d = []"
    and "\<forall>m. length (ho_sign_message ho operator m) = 64"
    and "operand cr tf store d ck (rb_key_version request) (rb_params_hash request) (rb_balance_hash request) balance"
    and "operand cr tf store d ck (rb_key_version request) (rb_params_hash request) (rb_amount_hash request) amount"
    and "operand cr tf store d ck (rb_key_version request) (rb_params_hash request) (rb_limit_hash request) limit"
  shows "is_ok (fst (process_request cr tf ho store request csk operator d))"
  using process_request_runs [OF assms] by auto

theorem worker_answers_witness:
  "is_ok (fst (process_request tail_crates clear_tfhe lab_host lab_store worker_binding () (fill 3) worker_disk))"
  by (rule worker_answers [where ck = "()" and balance = 100 and amount = 25 and limit = 50])
    (use worker_key clear_laws tail_hex_law worker_operand [of 100] worker_operand [of 25]
      worker_operand [of 50] in \<open>simp_all add: lab_host_def worker_disk_def\<close>)

end
