(* ===== verification/WorkerFiles.thy ===== *)
theory WorkerFiles
  imports Worker
begin

text \<open>
  The request and result files of \<open>crates/fhe-worker/src/lib.rs\<close> and the command
  \<open>crates/fhe-worker/src/bin/fhe-worker.rs\<close>: hashes travel as hexadecimal text, the command
  reads a request, evaluates it and writes the result. JSON is the parameter \<open>Json\<close>; what the
  command prints is left out, its exit code is the result of \<open>main_worker\<close>.
\<close>

section \<open>Files\<close>

record RequestFile =
  rf_protocol_version :: u16
  rf_domain_id :: string
  rf_program_id :: string
  rf_config :: string
  rf_mint :: string
  rf_confidential_account :: string
  rf_request_pda :: string
  rf_operation :: u16
  rf_balance_hash :: string
  rf_amount_hash :: string
  rf_limit_hash :: string
  rf_params_hash :: string
  rf_state_version :: u64
  rf_request_nonce :: u64
  rf_key_version :: u32
  rf_operator_epoch :: u64
  rf_expiry_slot :: u64

record ResultFile =
  rr_result_hash :: string
  rr_result_type :: u8
  rr_circuit_id :: u16
  rr_request_digest :: string
  rr_result_digest :: string
  rr_signature :: string
  rr_operator :: string

definition parse_hex32 :: "Crates \<Rightarrow> string \<Rightarrow> (bytes32, WorkerError) result" where
  "parse_hex32 cr text =
     and_then (ok_or (cr_hex_decode cr text) Deserialize) (\<lambda>bytes.
     ok_or (try_bytes bytes) Deserialize)"

definition request_from_file :: "Crates \<Rightarrow> RequestFile \<Rightarrow> (RequestBinding, WorkerError) result" where
  "request_from_file cr file =
     and_then (parse_hex32 cr (rf_domain_id file)) (\<lambda>domain_id.
     and_then (parse_hex32 cr (rf_program_id file)) (\<lambda>program_id.
     and_then (parse_hex32 cr (rf_config file)) (\<lambda>config.
     and_then (parse_hex32 cr (rf_mint file)) (\<lambda>mint.
     and_then (parse_hex32 cr (rf_confidential_account file)) (\<lambda>confidential_account.
     and_then (parse_hex32 cr (rf_request_pda file)) (\<lambda>request_pda.
     and_then (parse_hex32 cr (rf_balance_hash file)) (\<lambda>balance_hash.
     and_then (parse_hex32 cr (rf_amount_hash file)) (\<lambda>amount_hash.
     and_then (parse_hex32 cr (rf_limit_hash file)) (\<lambda>limit_hash.
     and_then (parse_hex32 cr (rf_params_hash file)) (\<lambda>params_hash.
     Ok \<lparr>rb_protocol_version = rf_protocol_version file,
         rb_domain_id = domain_id,
         rb_program_id = program_id,
         rb_config = config,
         rb_mint = mint,
         rb_confidential_account = confidential_account,
         rb_request_pda = request_pda,
         rb_operation = rf_operation file,
         rb_balance_hash = balance_hash,
         rb_amount_hash = amount_hash,
         rb_limit_hash = limit_hash,
         rb_params_hash = params_hash,
         rb_state_version = rf_state_version file,
         rb_request_nonce = rf_request_nonce file,
         rb_key_version = rf_key_version file,
         rb_operator_epoch = rf_operator_epoch file,
         rb_expiry_slot = rf_expiry_slot file\<rparr>))))))))))"

definition request_to_file :: "Crates \<Rightarrow> RequestBinding \<Rightarrow> RequestFile" where
  "request_to_file cr binding =
    \<lparr>rf_protocol_version = rb_protocol_version binding,
     rf_domain_id = cr_hex_encode cr (raw (rb_domain_id binding)),
     rf_program_id = cr_hex_encode cr (raw (rb_program_id binding)),
     rf_config = cr_hex_encode cr (raw (rb_config binding)),
     rf_mint = cr_hex_encode cr (raw (rb_mint binding)),
     rf_confidential_account = cr_hex_encode cr (raw (rb_confidential_account binding)),
     rf_request_pda = cr_hex_encode cr (raw (rb_request_pda binding)),
     rf_operation = rb_operation binding,
     rf_balance_hash = cr_hex_encode cr (raw (rb_balance_hash binding)),
     rf_amount_hash = cr_hex_encode cr (raw (rb_amount_hash binding)),
     rf_limit_hash = cr_hex_encode cr (raw (rb_limit_hash binding)),
     rf_params_hash = cr_hex_encode cr (raw (rb_params_hash binding)),
     rf_state_version = rb_state_version binding,
     rf_request_nonce = rb_request_nonce binding,
     rf_key_version = rb_key_version binding,
     rf_operator_epoch = rb_operator_epoch binding,
     rf_expiry_slot = rb_expiry_slot binding\<rparr>"

lemma parse_hex32_encode: "hex_law cr \<Longrightarrow> parse_hex32 cr (cr_hex_encode cr (raw h)) = Ok h"
  by (simp add: parse_hex32_def hex_law_def)

section \<open>The command\<close>

record Json =
  js_read_request :: "u8 list \<Rightarrow> (RequestFile, string) result"
  js_write_result :: "ResultFile \<Rightarrow> (u8 list, string) result"

text \<open>\<open>impl Display for WorkerError\<close> and the derived \<open>Debug\<close> of \<open>BlobError\<close>\<close>

fun blob_error_debug :: "BlobError \<Rightarrow> string" where
  "blob_error_debug Truncated = ''Truncated''"
| "blob_error_debug Magic = ''Magic''"
| "blob_error_debug Kind = ''Kind''"
| "blob_error_debug KeyVersion = ''KeyVersion''"
| "blob_error_debug BlobError.Params = ''Params''"

fun worker_error_text :: "WorkerError \<Rightarrow> string" where
  "worker_error_text (Io msg) = ''io: '' @ msg"
| "worker_error_text HashMismatch = ''ciphertext hash mismatch''"
| "worker_error_text (Blob err) = ''blob: '' @ blob_error_debug err"
| "worker_error_text Deserialize = ''ciphertext deserialize failed''"
| "worker_error_text Serialize = ''ciphertext serialize failed''"
| "worker_error_text WorkerError.Params = ''parameter mismatch''"
| "worker_error_text Unsupported = ''unsupported operation''"
| "worker_error_text StorePath = ''refusing untrusted store path''"

text \<open>\<open>args.windows(2).find(|pair| pair[0] == name)\<close>: the argument after the first \<open>name\<close>.\<close>

fun flag_lookup :: "string list \<Rightarrow> string \<Rightarrow> string option" where
  "flag_lookup (a # b # rest) name = (if a = name then Some b else flag_lookup (b # rest) name)"
| "flag_lookup _ name = None"

definition flag :: "string list \<Rightarrow> string \<Rightarrow> (string, string) result" where
  "flag args name = ok_or (flag_lookup args name) (''missing '' @ name)"

text \<open>A text of the operating system for a failed \<open>fs\<close> call, without the worker's prefix.\<close>

fun io_text :: "WorkerError \<Rightarrow> string" where
  "io_text (Io msg) = msg"
| "io_text e = worker_error_text e"

definition read_operator :: "'kp Host \<Rightarrow> string \<Rightarrow> ('kp, string) dio" where
  "read_operator ho path =
     wbind (wmap_err io_text (fs_read path)) (\<lambda>bytes.
     case ho_json_bytes ho bytes of
       Some json \<Rightarrow> wlift (ho_keypair_try_from ho json)
     | None \<Rightarrow> wlift (ho_keypair_try_from ho bytes))"

text \<open>The \<open>ResultFile\<close> that each evaluating command writes.\<close>

definition result_file :: "Crates \<Rightarrow> ResultBinding \<Rightarrow> bytes64 \<Rightarrow> pubkey \<Rightarrow> ResultFile" where
  "result_file cr binding signature operator =
    \<lparr>rr_result_hash = cr_hex_encode cr (raw (rs_result_hash binding)),
     rr_result_type = rs_result_type binding,
     rr_circuit_id = rs_circuit_id binding,
     rr_request_digest = cr_hex_encode cr (raw (rs_request_digest binding)),
     rr_result_digest = cr_hex_encode cr (raw (result_digest (cr_sha256 cr) binding)),
     rr_signature = cr_hex_encode cr (raw signature),
     rr_operator = cr_hex_encode cr (raw operator)\<rparr>"

definition evaluate ::
    "Crates \<Rightarrow> ('ck, 'sk, 'csk, 'ct, 'cb) Tfhe \<Rightarrow> 'kp Host \<Rightarrow> Json \<Rightarrow> string list \<Rightarrow> (unit, string) dio" where
  "evaluate cr tf ho js args =
     wbind (wlift (flag args ''--request'')) (\<lambda>request_path.
     wbind (wlift (flag args ''--store'')) (\<lambda>store_path.
     wbind (wlift (flag args ''--server-key'')) (\<lambda>server_key_path.
     wbind (wlift (flag args ''--operator'')) (\<lambda>operator_path.
     wbind (wlift (flag args ''--out'')) (\<lambda>out_path.
     wbind (wmap_err io_text (fs_read request_path)) (\<lambda>bytes.
     wbind (wlift (js_read_request js bytes)) (\<lambda>request_file.
     wbind (wlift (map_err worker_error_text (request_from_file cr request_file))) (\<lambda>request.
     wbind (wmap_err worker_error_text (new_store store_path)) (\<lambda>store.
     wbind (wmap_err worker_error_text (read_compressed_server_key tf server_key_path)) (\<lambda>compressed_server_key.
     wbind (read_operator ho operator_path) (\<lambda>operator.
     wbind (wmap_err worker_error_text (process_request cr tf ho store request compressed_server_key operator)) (\<lambda>(binding, signature).
     let file = result_file cr binding signature (ho_pubkey ho operator) in
     wbind (wmap_err io_text (create_parent out_path)) (\<lambda>_.
     wbind (wlift (js_write_result js file)) (\<lambda>text.
     wmap_err io_text (fs_write out_path text)))))))))))))))"

definition main_worker ::
    "Crates \<Rightarrow> ('ck, 'sk, 'csk, 'ct, 'cb) Tfhe \<Rightarrow> 'kp Host \<Rightarrow> Json \<Rightarrow> string list \<Rightarrow> Disk \<Rightarrow> u8 \<times> Disk" where
  "main_worker cr tf ho js args d =
    (case args of
       [] \<Rightarrow> (2, d)
     | cmd # rest \<Rightarrow>
         if cmd = ''evaluate'' then
           (case evaluate cr tf ho js rest d of (Err _, d') \<Rightarrow> (1, d') | (Ok _, d') \<Rightarrow> (0, d'))
         else (2, d))"

section \<open>Properties\<close>

text \<open>
  Requests survive the trip through a request file: reading back what was written gives the
  same binding, hence the same digest.
\<close>

lemma request_file_roundtrip:
  assumes "hex_law cr"
  shows "request_from_file cr (request_to_file cr binding) = Ok binding"
  using assms by (simp add: request_from_file_def request_to_file_def parse_hex32_encode)

lemma flag_lookup_Some:
  "flag_lookup args name = Some v \<longleftrightarrow>
     (\<exists>before rest. args = before @ name # v # rest \<and> name \<notin> set before)"
proof (induction args name rule: flag_lookup.induct)
  case (1 a b rest name)
  show ?case
  proof
    assume "flag_lookup (a # b # rest) name = Some v"
    then show "\<exists>before rest'. a # b # rest = before @ name # v # rest' \<and> name \<notin> set before"
    proof (cases "a = name")
      case True
      then have "a # b # rest = [] @ name # v # rest \<and> name \<notin> set []"
        using \<open>flag_lookup (a # b # rest) name = Some v\<close> by simp
      then show ?thesis by blast
    next
      case False
      then obtain before rest' where "b # rest = before @ name # v # rest'" "name \<notin> set before"
        using 1 \<open>flag_lookup (a # b # rest) name = Some v\<close> by auto
      then have "a # b # rest = (a # before) @ name # v # rest' \<and> name \<notin> set (a # before)"
        using False by simp
      then show ?thesis by blast
    qed
  next
    assume "\<exists>before rest'. a # b # rest = before @ name # v # rest' \<and> name \<notin> set before"
    then obtain before rest' where split: "a # b # rest = before @ name # v # rest'" "name \<notin> set before"
      by blast
    show "flag_lookup (a # b # rest) name = Some v"
    proof (cases before)
      case Nil
      then show ?thesis using split by simp
    next
      case (Cons c cs)
      then have a: "a \<noteq> name" and "b # rest = cs @ name # v # rest'" and "name \<notin> set cs"
        using split by auto
      then have "flag_lookup (b # rest) name = Some v" using 1 by blast
      then show ?thesis using a by simp
    qed
  qed
qed (auto simp: append_eq_Cons_conv)

text \<open>
  A flag's value is the argument right after the first occurrence of its name; when the name
  does not occur, or nothing follows it, the lookup fails with the name in the message.
\<close>

lemma flag_finds_first:
  "flag args name = Ok v \<longleftrightarrow> (\<exists>before rest. args = before @ name # v # rest \<and> name \<notin> set before)"
  by (simp add: flag_def flag_lookup_Some)

end
