(* ===== verification/Client.thy ===== *)
theory Client
  imports Progress WorkerFiles
begin

text \<open>
  \<open>crates/client/src/lib.rs\<close>, the part every client command is built from: the program's
  addresses, the instructions of the coordinator, and the pair of Ed25519 verification and
  finalization.

  The record \<open>Sdk\<close> collects what comes from other crates: the Solana SDK's addresses and their
  text, the encoding of instruction data and the decoding of account data that Anchor
  generates, the builder of Ed25519 instructions, signature verification, base64. The account
  metas of an instruction follow the attributes of its \<open>#[derive(Accounts)]\<close> struct.
\<close>

section \<open>Library parameters\<close>

record Sdk =
  sd_runtime :: Runtime
  sd_crates :: Crates
  sd_encode_call :: "Call \<Rightarrow> u8 list"
  sd_ed25519_instruction :: "u8 list \<Rightarrow> bytes64 \<Rightarrow> bytes32 \<Rightarrow> Instruction"
  sd_address_from_str :: "string \<Rightarrow> pubkey option"
  sd_address_to_string :: "pubkey \<Rightarrow> string"
  sd_verifying_key_ok :: "bytes32 \<Rightarrow> bool"
  sd_signature_ok :: "bytes32 \<Rightarrow> u8 list \<Rightarrow> bytes64 \<Rightarrow> bool"
  sd_decode_config :: "u8 list \<Rightarrow> Config option"
  sd_decode_account :: "u8 list \<Rightarrow> ConfidentialAccount option"
  sd_decode_request :: "u8 list \<Rightarrow> Request option"
  sd_base64_encode :: "u8 list \<Rightarrow> string"
  sd_base64_decode :: "string \<Rightarrow> u8 list option"

definition PROGRAM_ID :: pubkey where
  "PROGRAM_ID = ID"

text \<open>\<open>anchor_lang::system_program::ID\<close>\<close>

definition SYSTEM_PROGRAM_ID :: pubkey where
  "SYSTEM_PROGRAM_ID = 0"

section \<open>Account metas\<close>

definition meta :: "bool \<Rightarrow> bool \<Rightarrow> pubkey \<Rightarrow> AccountMeta" where
  "meta is_signer is_writable key =
     \<lparr>am_pubkey = key, am_is_signer = is_signer, am_is_writable = is_writable\<rparr>"

definition InitializeConfig_metas :: "pubkey \<Rightarrow> pubkey \<Rightarrow> pubkey \<Rightarrow> pubkey \<Rightarrow> AccountMeta list" where
  "InitializeConfig_metas authority mint config system_program =
     [meta True True authority, meta False False mint, meta False True config,
      meta False False system_program]"

definition AdminConfig_metas :: "pubkey \<Rightarrow> pubkey \<Rightarrow> AccountMeta list" where
  "AdminConfig_metas authority config = [meta True False authority, meta False True config]"

definition CreateAccount_metas :: "pubkey \<Rightarrow> pubkey \<Rightarrow> pubkey \<Rightarrow> pubkey \<Rightarrow> AccountMeta list" where
  "CreateAccount_metas owner config account system_program =
     [meta True True owner, meta False False config, meta False True account,
      meta False False system_program]"

definition Submit_metas :: "pubkey \<Rightarrow> pubkey \<Rightarrow> pubkey \<Rightarrow> pubkey \<Rightarrow> pubkey \<Rightarrow> AccountMeta list" where
  "Submit_metas owner config account request system_program =
     [meta True True owner, meta False False config, meta False True account,
      meta False True request, meta False False system_program]"

definition Cancel_metas :: "pubkey \<Rightarrow> pubkey \<Rightarrow> pubkey \<Rightarrow> AccountMeta list" where
  "Cancel_metas owner account request =
     [meta True False owner, meta False True account, meta False True request]"

definition Expire_metas :: "pubkey \<Rightarrow> pubkey \<Rightarrow> pubkey \<Rightarrow> AccountMeta list" where
  "Expire_metas payer account request =
     [meta True True payer, meta False True account, meta False True request]"

definition Finalize_metas ::
    "pubkey \<Rightarrow> pubkey \<Rightarrow> pubkey \<Rightarrow> pubkey \<Rightarrow> pubkey \<Rightarrow> AccountMeta list" where
  "Finalize_metas payer config account request instructions =
     [meta True True payer, meta False False config, meta False True account,
      meta False True request, meta False False instructions]"

section \<open>Instructions\<close>

definition request_pda :: "Sdk \<Rightarrow> pubkey \<Rightarrow> u64 \<Rightarrow> pubkey" where
  "request_pda sd account nonce =
     fst (rt_find_program_address (sd_runtime sd)
       [SEED_REQUEST, raw account, le_bytes nonce] PROGRAM_ID)"

definition program_ix :: "Sdk \<Rightarrow> AccountMeta list \<Rightarrow> Call \<Rightarrow> Instruction" where
  "program_ix sd metas call =
     \<lparr>ix_program_id = PROGRAM_ID, ix_accounts = metas, ix_data = sd_encode_call sd call\<rparr>"

definition initialize_ix ::
    "Sdk \<Rightarrow> pubkey \<Rightarrow> pubkey \<Rightarrow> pubkey \<Rightarrow> pubkey \<Rightarrow> bytes32 \<Rightarrow> u64 \<Rightarrow> Instruction" where
  "initialize_ix sd authority mint config operator params_hash max_request_lifetime_slots =
     program_ix sd (InitializeConfig_metas authority mint config SYSTEM_PROGRAM_ID)
       (InitializeConfigCall
         \<lparr>ica_domain_id = local_domain_id (rt_sha256 (sd_runtime sd)), ica_operator = operator,
          ica_key_version = 1, ica_params_hash = params_hash,
          ica_max_request_lifetime_slots = max_request_lifetime_slots\<rparr>)"

definition create_account_ix ::
    "Sdk \<Rightarrow> pubkey \<Rightarrow> pubkey \<Rightarrow> pubkey \<Rightarrow> bytes32 \<Rightarrow> bytes32 \<Rightarrow> Instruction" where
  "create_account_ix sd owner config account balance_hash limit_hash =
     program_ix sd (CreateAccount_metas owner config account SYSTEM_PROGRAM_ID)
       (CreateAccountCall \<lparr>caa_balance_hash = balance_hash, caa_limit_hash = limit_hash\<rparr>)"

definition submit_ix ::
    "Sdk \<Rightarrow> pubkey \<Rightarrow> pubkey \<Rightarrow> pubkey \<Rightarrow> pubkey \<Rightarrow> bytes32 \<Rightarrow> u64 \<Rightarrow> u64 \<Rightarrow> Instruction" where
  "submit_ix sd owner config account request amount_hash expected_state_version expected_nonce =
     program_ix sd (Submit_metas owner config account request SYSTEM_PROGRAM_ID)
       (SubmitCall \<lparr>sba_amount_hash = amount_hash,
         sba_expected_state_version = expected_state_version, sba_expected_nonce = expected_nonce\<rparr>)"

definition cancel_ix :: "Sdk \<Rightarrow> pubkey \<Rightarrow> pubkey \<Rightarrow> pubkey \<Rightarrow> Instruction" where
  "cancel_ix sd owner account request =
     program_ix sd (Cancel_metas owner account request) CancelCall"

definition expire_ix :: "Sdk \<Rightarrow> pubkey \<Rightarrow> pubkey \<Rightarrow> pubkey \<Rightarrow> Instruction" where
  "expire_ix sd payer account request =
     program_ix sd (Expire_metas payer account request) ExpireCall"

definition rotate_operator_ix :: "Sdk \<Rightarrow> pubkey \<Rightarrow> pubkey \<Rightarrow> pubkey \<Rightarrow> Instruction" where
  "rotate_operator_ix sd authority config new_operator =
     program_ix sd (AdminConfig_metas authority config) (RotateOperatorCall new_operator)"

definition set_key_version_ix :: "Sdk \<Rightarrow> pubkey \<Rightarrow> pubkey \<Rightarrow> u32 \<Rightarrow> Instruction" where
  "set_key_version_ix sd authority config key_version =
     program_ix sd (AdminConfig_metas authority config) (SetKeyVersionCall key_version)"

definition set_paused_ix :: "Sdk \<Rightarrow> pubkey \<Rightarrow> pubkey \<Rightarrow> bool \<Rightarrow> Instruction" where
  "set_paused_ix sd authority config paused =
     program_ix sd (AdminConfig_metas authority config) (SetPausedCall paused)"

definition finalize_ix ::
    "Sdk \<Rightarrow> pubkey \<Rightarrow> pubkey \<Rightarrow> pubkey \<Rightarrow> pubkey \<Rightarrow> ResultBinding \<Rightarrow> Instruction" where
  "finalize_ix sd payer config account request binding =
     program_ix sd (Finalize_metas payer config account request INSTRUCTIONS_ID)
       (FinalizeCall \<lparr>fna_result_hash = rs_result_hash binding,
         fna_result_type = rs_result_type binding, fna_circuit_id = rs_circuit_id binding\<rparr>)"

text \<open>\<open>expect("ed25519 signature")\<close>: a signature that has not 64 bytes would panic (\<open>None\<close>).\<close>

definition finalize_ixs ::
    "Sdk \<Rightarrow> 'kp Host \<Rightarrow> pubkey \<Rightarrow> pubkey \<Rightarrow> pubkey \<Rightarrow> pubkey \<Rightarrow> 'kp \<Rightarrow> ResultBinding \<Rightarrow> Instruction list option" where
  "finalize_ixs sd ho payer config account request operator binding =
    (let message = encode_result binding;
         signature = ho_sign_message ho operator message in
     case try_bytes signature of
       None \<Rightarrow> None
     | Some sig \<Rightarrow>
         let verify = sd_ed25519_instruction sd message sig (ho_pubkey ho operator)
         in Some [verify, finalize_ix sd payer config account request binding])"

definition finalize_ixs_with_signature ::
    "Sdk \<Rightarrow> pubkey \<Rightarrow> pubkey \<Rightarrow> pubkey \<Rightarrow> pubkey \<Rightarrow> bytes32 \<Rightarrow> bytes64 \<Rightarrow> ResultBinding \<Rightarrow> Instruction list" where
  "finalize_ixs_with_signature sd payer config account request operator_pubkey signature binding =
    (let message = encode_result binding;
         verify = sd_ed25519_instruction sd message signature operator_pubkey
     in [verify, finalize_ix sd payer config account request binding])"

section \<open>Transactions\<close>

text \<open>
  The instructions sysvar while the instruction at an index of a transaction runs: the runtime
  writes the index and all instructions of the transaction into it.
\<close>

definition tx_sysvar :: "Instruction list \<Rightarrow> nat \<Rightarrow> InstructionsSysvar" where
  "tx_sysvar ixs current =
    \<lparr>load_current_index_checked = Ok (word_of_nat current),
     load_instruction_at_checked = (\<lambda>i.
       if i < length ixs then Ok (ixs ! i) else Err (Framework SysvarInvalidArgument))\<rparr>"

definition tx_env :: "u64 \<Rightarrow> Instruction list \<Rightarrow> nat \<Rightarrow> Env" where
  "tx_env slot ixs current = \<lparr>env_slot = slot, env_instructions = tx_sysvar ixs current\<rparr>"

text \<open>What the crates promise: decoding inverts encoding, and an Ed25519 instruction holds one
  record of key, signature and message.\<close>

definition anchor_law :: "Sdk \<Rightarrow> bool" where
  "anchor_law sd \<longleftrightarrow> (\<forall>call. rt_decode_call (sd_runtime sd) (sd_encode_call sd call) = Some call)"

definition ed25519_builder_law :: "Sdk \<Rightarrow> bool" where
  "ed25519_builder_law sd \<longleftrightarrow>
     (\<forall>msg sig pk. sd_ed25519_instruction sd msg sig pk =
        \<lparr>ix_program_id = ED25519_PROGRAM_ID, ix_accounts = [], ix_data = ed25519_record pk sig msg\<rparr>)"

lemma metas_simps [simp]:
  "am_pubkey (meta s w k) = k" "am_is_signer (meta s w k) = s" "am_is_writable (meta s w k) = w"
  by (simp_all add: meta_def)

lemma process_built:
  assumes "anchor_law sd"
  shows "process_instruction (sd_runtime sd) env L (program_ix sd metas call)
    = run_call (sd_runtime sd) env L metas call"
  using assms by (simp add: process_instruction_def program_ix_def anchor_law_def)

text \<open>The pair of instructions passes the on-chain check of the attestation.\<close>

lemma pair_attests:
  assumes "ed25519_builder_law sd"
  shows "verify_operator_message
    (tx_sysvar (finalize_ixs_with_signature sd payer config account request operator sig binding) 1)
    operator (encode_result binding) = Ok ()"
proof -
  have "attests 0 (ed25519_record operator sig (encode_result binding)) operator (encode_result binding)"
    by (rule ed25519_record_attests) (simp add: encoded_lengths)
  then show ?thesis
    using assms region_checks_attests
    by (auto simp: verify_operator_message_unfold tx_sysvar_def finalize_ixs_with_signature_def
        ed25519_builder_law_def attests_def Let_def)
qed

end
