(* ===== verification/Decode.thy ===== *)
theory Decode
  imports Client
begin

text \<open>
  \<open>crates/client/src/devnet/args.rs\<close> and \<open>decode.rs\<close>: flags, and how the client fetches the
  accounts of the coordinator and decides whether to trust them before it evaluates or
  finalizes a request.

  \<open>LabError\<close> is a text in the source; here it is a value with one constructor per message, grouped by where they come from. What
  \<open>RpcClient::get_account_info\<close> returns for an address is a parameter (\<open>rpc\<close>).
\<close>

section \<open>Errors\<close>

datatype args_error =
    MissingFlag string
  | InvalidNumber string string
  | InvalidHexFlag string
  | InvalidAddress string
  | ApiKeyFlag
  | UnknownTransport string
  | NoRequestKnown
  | MissingApiKey
  | MissingRelayerUrl
  | MissingRelayerId

datatype chain_error =
    InvalidOwner string
  | WrongOwner string
  | DecodeFailed string
  | AccountMissing string
  | NotMatching string
  | DigestMismatch

datatype finalize_error =
    InvalidOperatorKey
  | SignatureMismatch
  | InvalidHexField string
  | WrongLengthField string
  | StaleCache
  | NotPending u8
  | RequestDigestMismatch
  | OperatorMismatch
  | UnexpectedResultType u8
  | CircuitMismatch
  | ResultDigestMismatch
  | ConfigPaused
  | FinalizeCount nat
  | Ed25519NotAdjacent

datatype confirm_error =
    NotFinalized u8
  | ResultHashDiffers
  | ResultDigestDiffers
  | StillPending
  | VersionOverflow
  | VersionNotAdvanced

datatype relayer_error =
    WrongNetworkType
  | WrongNetwork
  | RelayerPaused
  | RelayerDisabled
  | RelayerNoAddress
  | RelayerBadAddress
  | RelayerZeroAddress
  | UserPaysFees
  | UnsupportedStrategy string
  | NoStrategy
  | AuthRejected string
  | NotJson string
  | RelayerFailed string
  | NoData string
  | JobFailed string
  | JobTimeout string
  | RelayerClientNotBuilt string

datatype rpc_error =
    ClientNotBuilt string
  | RequestFailed string
  | UnreadableBody string
  | InvalidResponse nat
  | MethodFailed string "int option" string "string option"
  | NoResult string
  | MissingBlockhash
  | NonNumericSlot
  | MalformedData string
  | InvalidBase64 string
  | MissingOwner string
  | Unserializable
  | UnexpectedResult
  | MissingStatuses
  | InvalidStatus
  | TransactionFailed string
  | ConfirmationTimeout string
  | InvalidBlockhash string

datatype command_error =
    ConfigExists
  | AccountExists
  | ParamsUnreadable string
  | ResultUnreadable string
  | InvalidParamsHash
  | NoMintRecorded
  | NoConfigRecorded
  | NoAccountRecorded
  | SubmitPaused
  | AccountConfigDiffers
  | AccountMintDiffers
  | NotTheOwner
  | KeyVersionDiffers
  | StillHasPending
  | NonceOverflow
  | KeypairUnreadable string
  | KeypairNotJson string
  | KeypairInvalid string
  | MissingValue string
  | InvalidValue string
  | MissingSubcommand
  | UnknownSubcommand string
  | MissingProgram

datatype LabError =
    WorkerFailed WorkerError
  | RpcFailed rpc_error
  | CommandFailed command_error
  | HostFailed string
  | ArgsFailed args_error
  | ChainFailed chain_error
  | FinalizeRefused finalize_error
  | NotConfirmed confirm_error
  | RelayerRefused relayer_error

section \<open>Flags\<close>

text \<open>\<open>args::flag\<close> is the lookup of the worker's command.\<close>

definition has_flag :: "string list \<Rightarrow> string \<Rightarrow> bool" where
  "has_flag args name = list_ex (\<lambda>arg. arg = name) args"

definition require_flag :: "string list \<Rightarrow> string \<Rightarrow> (string, LabError) result" where
  "require_flag args name = ok_or (flag_lookup args name) (ArgsFailed (MissingFlag name))"

definition flag_or :: "string list \<Rightarrow> string \<Rightarrow> string \<Rightarrow> string" where
  "flag_or args name default_value =
     (case flag_lookup args name of None \<Rightarrow> default_value | Some v \<Rightarrow> v)"

text \<open>\<open>str::parse::<u64>\<close>: an optional plus sign, then decimal digits, at least one; the value
  must fit.\<close>

definition digit_value :: "char \<Rightarrow> nat option" where
  "digit_value c = hex_value c ''0123456789''"

fun parse_digits :: "int \<Rightarrow> string \<Rightarrow> int option" where
  "parse_digits acc [] = Some acc"
| "parse_digits acc (c # cs) =
    (case digit_value c of None \<Rightarrow> None
     | Some d \<Rightarrow> let v = 10 * acc + int d in if 2 ^ 64 \<le> v then None else parse_digits v cs)"

definition parse_u64 :: "string \<Rightarrow> u64 option" where
  "parse_u64 text =
    (let digits = (case text of c # cs \<Rightarrow> if c = CHR ''+'' then cs else text | [] \<Rightarrow> []) in
     if digits = [] then None else map_option word_of_int (parse_digits 0 digits))"

definition flag_u64_or :: "string list \<Rightarrow> string \<Rightarrow> u64 \<Rightarrow> (u64, LabError) result" where
  "flag_u64_or args name default_value =
    (case flag_lookup args name of
       Some v \<Rightarrow> ok_or (parse_u64 v) (ArgsFailed (InvalidNumber name v))
     | None \<Rightarrow> Ok default_value)"

definition flag_hex32 :: "Crates \<Rightarrow> string list \<Rightarrow> string \<Rightarrow> (bytes32, LabError) result" where
  "flag_hex32 cr args name =
     and_then (require_flag args name) (\<lambda>v.
     map_err (\<lambda>_. ArgsFailed (InvalidHexFlag name)) (parse_hex32 cr v))"

section \<open>Accounts of the program\<close>

record FetchedAccount =
  fa_data :: "u8 list"
  fa_owner :: string
  fa_lamports :: u64

type_synonym rpc = "string \<Rightarrow> (FetchedAccount option, LabError) result"

definition parse_address :: "Sdk \<Rightarrow> string \<Rightarrow> (pubkey, LabError) result" where
  "parse_address sd v = ok_or (sd_address_from_str sd v) (ArgsFailed (InvalidAddress v))"

text \<open>\<open>decode_owned_account\<close> is generic in the account type; \<open>try_deserialize\<close> is the type's
  decoder, with its discriminator check.\<close>

definition decode_owned_account ::
    "Sdk \<Rightarrow> (u8 list \<Rightarrow> 'a option) \<Rightarrow> pubkey \<Rightarrow> string \<Rightarrow> u8 list \<Rightarrow> string \<Rightarrow> ('a, LabError) result" where
  "decode_owned_account sd try_deserialize address owner data label =
     and_then (ok_or (sd_address_from_str sd owner) (ChainFailed (InvalidOwner label))) (\<lambda>owner_address.
     if owner_address \<noteq> PROGRAM_ID then Err (ChainFailed (WrongOwner label))
     else ok_or (try_deserialize data) (ChainFailed (DecodeFailed label)))"

definition fetch_and_decode ::
    "Sdk \<Rightarrow> (u8 list \<Rightarrow> 'a option) \<Rightarrow> rpc \<Rightarrow> pubkey \<Rightarrow> string \<Rightarrow> ('a, LabError) result" where
  "fetch_and_decode sd try_deserialize rpc address label =
     and_then (rpc (sd_address_to_string sd address)) (\<lambda>info.
     and_then (ok_or info (ChainFailed (AccountMissing label))) (\<lambda>account.
     decode_owned_account sd try_deserialize address (fa_owner account) (fa_data account) label))"

definition account_exists :: "Sdk \<Rightarrow> rpc \<Rightarrow> pubkey \<Rightarrow> (bool, LabError) result" where
  "account_exists sd rpc address =
     and_then (rpc (sd_address_to_string sd address)) (\<lambda>info. Ok (info \<noteq> None))"

definition fetch_config :: "Sdk \<Rightarrow> rpc \<Rightarrow> pubkey \<Rightarrow> (Config, LabError) result" where
  "fetch_config sd rpc address = fetch_and_decode sd (sd_decode_config sd) rpc address ''config''"

definition fetch_account :: "Sdk \<Rightarrow> rpc \<Rightarrow> pubkey \<Rightarrow> (ConfidentialAccount, LabError) result" where
  "fetch_account sd rpc address =
     fetch_and_decode sd (sd_decode_account sd) rpc address ''confidential account''"

definition fetch_request_raw :: "Sdk \<Rightarrow> rpc \<Rightarrow> pubkey \<Rightarrow> (Request, LabError) result" where
  "fetch_request_raw sd rpc address = fetch_and_decode sd (sd_decode_request sd) rpc address ''request''"

section \<open>Trusting a request\<close>

record VerifiedRequest =
  vr_config_address :: pubkey
  vr_config :: Config
  vr_account_address :: pubkey
  vr_account :: ConfidentialAccount
  vr_request_address :: pubkey
  vr_request :: Request
  vr_binding :: RequestBinding

definition reconstruct_request_binding ::
    "Config \<Rightarrow> pubkey \<Rightarrow> Request \<Rightarrow> pubkey \<Rightarrow> pubkey \<Rightarrow> RequestBinding" where
  "reconstruct_request_binding config config_address request account_address request_address =
    \<lparr>rb_protocol_version = cfg_protocol_version config,
     rb_domain_id = cfg_domain_id config,
     rb_program_id = PROGRAM_ID,
     rb_config = config_address,
     rb_mint = req_mint request,
     rb_confidential_account = account_address,
     rb_request_pda = request_address,
     rb_operation = req_operation request,
     rb_balance_hash = req_balance_hash request,
     rb_amount_hash = req_amount_hash request,
     rb_limit_hash = req_limit_hash request,
     rb_params_hash = req_params_hash request,
     rb_state_version = req_state_version request,
     rb_request_nonce = req_request_nonce request,
     rb_key_version = req_key_version request,
     rb_operator_epoch = req_operator_epoch request,
     rb_expiry_slot = req_expiry_slot request\<rparr>"

definition derive_config :: "Sdk \<Rightarrow> pubkey \<Rightarrow> pubkey" where
  "derive_config sd mint =
     fst (rt_find_program_address (sd_runtime sd) [SEED_CONFIG, raw mint] PROGRAM_ID)"

definition derive_account :: "Sdk \<Rightarrow> pubkey \<Rightarrow> pubkey \<Rightarrow> pubkey" where
  "derive_account sd mint owner =
     fst (rt_find_program_address (sd_runtime sd) [SEED_ACCOUNT, raw mint, raw owner] PROGRAM_ID)"

definition derive_request :: "Sdk \<Rightarrow> pubkey \<Rightarrow> u64 \<Rightarrow> pubkey" where
  "derive_request sd account nonce = request_pda sd account nonce"

definition require_eq_address :: "pubkey \<Rightarrow> pubkey \<Rightarrow> string \<Rightarrow> (unit, LabError) result" where
  "require_eq_address actual expected message =
     (if actual \<noteq> expected then Err (ChainFailed (NotMatching message)) else Ok ())"

definition verify_request_accounts ::
    "Sdk \<Rightarrow> pubkey \<Rightarrow> Request \<Rightarrow> pubkey \<Rightarrow> Config \<Rightarrow> pubkey \<Rightarrow> ConfidentialAccount \<Rightarrow>
     (RequestBinding, LabError) result" where
  "verify_request_accounts sd request_address request config_address config account_address account =
     and_then (require_eq_address (req_config request) config_address ''request.config'') (\<lambda>_.
     and_then (require_eq_address (req_mint request) (cfg_mint config) ''request.mint'') (\<lambda>_.
     and_then (require_eq_address (req_confidential_account request) account_address
                 ''request.confidential_account'') (\<lambda>_.
     and_then (require_eq_address (acc_config account) config_address ''account.config'') (\<lambda>_.
     and_then (require_eq_address (acc_mint account) (cfg_mint config) ''account.mint'') (\<lambda>_.
     if req_requester request \<noteq> acc_owner account then Err (ChainFailed (NotMatching ''request.requester''))
     else if req_operation request \<noteq> cfg_operation config then Err (ChainFailed (NotMatching ''request.operation''))
     else if req_params_hash request \<noteq> cfg_params_hash config then Err (ChainFailed (NotMatching ''request.params_hash''))
     else
     and_then (require_eq_address config_address (derive_config sd (req_mint request)) ''config PDA'') (\<lambda>_.
     and_then (require_eq_address account_address (derive_account sd (req_mint request) (acc_owner account))
                 ''account PDA'') (\<lambda>_.
     and_then (require_eq_address request_address (derive_request sd account_address (req_request_nonce request))
                 ''request PDA'') (\<lambda>_.
     and_then
       (if req_status request = STATUS_PENDING then
          and_then (require_eq_address (acc_pending_request account) request_address
                      ''pending account.pending_request'') (\<lambda>_.
          if acc_request_nonce account \<noteq> req_request_nonce request
            then Err (ChainFailed (NotMatching ''pending account.request_nonce''))
          else if acc_state_version account \<noteq> req_state_version request
            then Err (ChainFailed (NotMatching ''pending account.state_version''))
          else Ok ())
        else Ok ()) (\<lambda>_.
     let binding = reconstruct_request_binding config config_address request account_address request_address;
         recomputed = request_digest (rt_sha256 (sd_runtime sd)) binding in
     if recomputed \<noteq> req_request_digest request then Err (ChainFailed DigestMismatch)
     else Ok binding)))))))))"

definition fetch_and_verify_request ::
    "Sdk \<Rightarrow> rpc \<Rightarrow> pubkey \<Rightarrow> (VerifiedRequest, LabError) result" where
  "fetch_and_verify_request sd rpc request_address =
     and_then (fetch_request_raw sd rpc request_address) (\<lambda>request.
     let config_address = req_config request in
     and_then (fetch_config sd rpc config_address) (\<lambda>config.
     let account_address = req_confidential_account request in
     and_then (fetch_account sd rpc account_address) (\<lambda>account.
     and_then (verify_request_accounts sd request_address request config_address config
                 account_address account) (\<lambda>binding.
     Ok \<lparr>vr_config_address = config_address, vr_config = config,
         vr_account_address = account_address, vr_account = account,
         vr_request_address = request_address, vr_request = request,
         vr_binding = binding\<rparr>))))"

definition status_label :: "u8 \<Rightarrow> string" where
  "status_label status =
    (if status = STATUS_PENDING then ''pending''
     else if status = STATUS_FINALIZED then ''finalized''
     else if status = STATUS_CANCELLED then ''cancelled''
     else if status = STATUS_EXPIRED then ''expired''
     else ''unknown'')"

definition verify_ed25519 :: "Sdk \<Rightarrow> bytes32 \<Rightarrow> u8 list \<Rightarrow> bytes64 \<Rightarrow> (unit, LabError) result" where
  "verify_ed25519 sd pubkey_bytes message signature_bytes =
    (if \<not> sd_verifying_key_ok sd pubkey_bytes then Err (FinalizeRefused InvalidOperatorKey)
     else require (sd_signature_ok sd pubkey_bytes message signature_bytes) (FinalizeRefused SignatureMismatch))"

section \<open>The worker's result\<close>

record ParsedResultFile =
  pr_result_hash :: bytes32
  pr_request_digest :: bytes32
  pr_result_digest :: bytes32
  pr_signature :: bytes64
  pr_operator :: bytes32
  pr_result_type :: u8
  pr_circuit_id :: u16

definition parse_hex32_field :: "Crates \<Rightarrow> string \<Rightarrow> string \<Rightarrow> (bytes32, LabError) result" where
  "parse_hex32_field cr v name = map_err (\<lambda>_. FinalizeRefused (InvalidHexField name)) (parse_hex32 cr v)"

definition parse_hex64_field :: "Crates \<Rightarrow> string \<Rightarrow> string \<Rightarrow> (bytes64, LabError) result" where
  "parse_hex64_field cr v name =
     and_then (ok_or (cr_hex_decode cr v) (FinalizeRefused (InvalidHexField name))) (\<lambda>bytes.
     ok_or (try_bytes bytes) (FinalizeRefused (WrongLengthField name)))"

definition parse_result_file :: "Crates \<Rightarrow> ResultFile \<Rightarrow> (ParsedResultFile, LabError) result" where
  "parse_result_file cr file =
     and_then (parse_hex32_field cr (rr_result_hash file) ''result_hash'') (\<lambda>result_hash.
     and_then (parse_hex32_field cr (rr_request_digest file) ''request_digest'') (\<lambda>request_digest.
     and_then (parse_hex32_field cr (rr_result_digest file) ''result_digest'') (\<lambda>result_digest.
     and_then (parse_hex64_field cr (rr_signature file) ''signature'') (\<lambda>signature.
     and_then (parse_hex32_field cr (rr_operator file) ''operator'') (\<lambda>operator.
     Ok \<lparr>pr_result_hash = result_hash, pr_request_digest = request_digest,
         pr_result_digest = result_digest, pr_signature = signature, pr_operator = operator,
         pr_result_type = rr_result_type file, pr_circuit_id = rr_circuit_id file\<rparr>)))))"

definition result_binding_from_authoritative ::
    "Sdk \<Rightarrow> RequestBinding \<Rightarrow> ParsedResultFile \<Rightarrow> ResultBinding" where
  "result_binding_from_authoritative sd authoritative parsed =
    \<lparr>rs_request = authoritative,
     rs_request_digest = request_digest (rt_sha256 (sd_runtime sd)) authoritative,
     rs_result_hash = pr_result_hash parsed,
     rs_result_type = pr_result_type parsed,
     rs_circuit_id = pr_circuit_id parsed\<rparr>"

definition validate_finalize_consistency ::
    "Sdk \<Rightarrow> VerifiedRequest \<Rightarrow> RequestBinding option \<Rightarrow> ParsedResultFile \<Rightarrow> (ResultBinding, LabError) result" where
  "validate_finalize_consistency sd verified cached_request parsed =
     and_then (case cached_request of
         Some cached \<Rightarrow> if vr_binding verified \<noteq> cached then Err (FinalizeRefused StaleCache) else Ok ()
       | None \<Rightarrow> Ok ()) (\<lambda>_.
     if req_status (vr_request verified) \<noteq> STATUS_PENDING
       then Err (FinalizeRefused (NotPending (req_status (vr_request verified))))
     else if req_request_digest (vr_request verified) \<noteq> pr_request_digest parsed
       then Err (FinalizeRefused RequestDigestMismatch)
     else if pr_operator parsed \<noteq> cfg_operator (vr_config verified) then Err (FinalizeRefused OperatorMismatch)
     else if pr_result_type parsed \<noteq> RESULT_TYPE_FHE_BOOL
       then Err (FinalizeRefused (UnexpectedResultType (pr_result_type parsed)))
     else if pr_circuit_id parsed \<noteq> cfg_circuit_id (vr_config verified) then Err (FinalizeRefused CircuitMismatch)
     else
     let binding = result_binding_from_authoritative sd (vr_binding verified) parsed;
         recomputed_result_digest = result_digest (rt_sha256 (sd_runtime sd)) binding in
     if recomputed_result_digest \<noteq> pr_result_digest parsed then Err (FinalizeRefused ResultDigestMismatch)
     else
     let message = encode_result binding in
     and_then (verify_ed25519 sd (pr_operator parsed) message (pr_signature parsed)) (\<lambda>_.
     Ok binding))"

section \<open>What trust means\<close>

lemma require_eq_address_Ok [simp]: "require_eq_address a b m = Ok u \<longleftrightarrow> a = b"
  by (simp add: require_eq_address_def)

lemma reconstruct_is_on_chain:
  "reconstruct_request_binding config (req_config request) request (req_confidential_account request) key
     = request_binding config request key"
  by (simp add: reconstruct_request_binding_def request_binding_def PROGRAM_ID_def)

text \<open>The relation between the three accounts that the client demands.\<close>

definition trusted ::
    "Sdk \<Rightarrow> pubkey \<Rightarrow> Request \<Rightarrow> pubkey \<Rightarrow> Config \<Rightarrow> pubkey \<Rightarrow> ConfidentialAccount \<Rightarrow> bool" where
  "trusted sd rk r ck c ak a \<longleftrightarrow>
     req_config r = ck \<and> req_mint r = cfg_mint c \<and> req_confidential_account r = ak \<and>
     acc_config a = ck \<and> acc_mint a = cfg_mint c \<and> req_requester r = acc_owner a \<and>
     req_operation r = cfg_operation c \<and> req_params_hash r = cfg_params_hash c \<and>
     ck = derive_config sd (req_mint r) \<and> ak = derive_account sd (req_mint r) (acc_owner a) \<and>
     rk = derive_request sd ak (req_request_nonce r) \<and>
     (req_status r = STATUS_PENDING \<longrightarrow>
        acc_pending_request a = rk \<and> acc_request_nonce a = req_request_nonce r \<and>
        acc_state_version a = req_state_version r) \<and>
     request_digest (rt_sha256 (sd_runtime sd)) (request_binding c r rk) = req_request_digest r"

lemma verify_request_accounts_Ok:
  "verify_request_accounts sd rk r ck c ak a = Ok b \<longleftrightarrow>
     trusted sd rk r ck c ak a \<and> b = request_binding c r rk"
proof -
  have "verify_request_accounts sd rk r ck c ak a = Ok b \<longleftrightarrow>
    req_config r = ck \<and> req_mint r = cfg_mint c \<and> req_confidential_account r = ak \<and>
     acc_config a = ck \<and> acc_mint a = cfg_mint c \<and> req_requester r = acc_owner a \<and>
     req_operation r = cfg_operation c \<and> req_params_hash r = cfg_params_hash c \<and>
     ck = derive_config sd (req_mint r) \<and> ak = derive_account sd (req_mint r) (acc_owner a) \<and>
     rk = derive_request sd ak (req_request_nonce r) \<and>
     (req_status r = STATUS_PENDING \<longrightarrow>
        acc_pending_request a = rk \<and> acc_request_nonce a = req_request_nonce r \<and>
        acc_state_version a = req_state_version r) \<and>
     request_digest (rt_sha256 (sd_runtime sd)) (reconstruct_request_binding c ck r ak rk)
       = req_request_digest r \<and> b = reconstruct_request_binding c ck r ak rk"
    by (simp add: verify_request_accounts_def and_then_eq_Ok Let_def) blast
  also have "\<dots> \<longleftrightarrow> trusted sd rk r ck c ak a \<and> b = request_binding c r rk"
    using reconstruct_is_on_chain [of c r rk] by (auto simp: trusted_def)
  finally show ?thesis .
qed

lemma fetch_and_decode_Ok:
  "fetch_and_decode sd dec rpc k label = Ok x \<longleftrightarrow>
     (\<exists>fa. rpc (sd_address_to_string sd k) = Ok (Some fa) \<and>
        sd_address_from_str sd (fa_owner fa) = Some PROGRAM_ID \<and> dec (fa_data fa) = Some x)"
  by (auto simp: fetch_and_decode_def decode_owned_account_def and_then_eq_Ok split: if_splits)

text \<open>An RPC node that shows a ledger: the coordinator's accounts come with the program as their
  owner and data that decodes to them.\<close>

definition shows_as :: "Sdk \<Rightarrow> (u8 list \<Rightarrow> 'a option) \<Rightarrow> rpc \<Rightarrow> pubkey \<Rightarrow> 'a \<Rightarrow> bool" where
  "shows_as sd dec rpc k x \<longleftrightarrow>
     (\<exists>fa. rpc (sd_address_to_string sd k) = Ok (Some fa) \<and>
        sd_address_from_str sd (fa_owner fa) = Some PROGRAM_ID \<and> dec (fa_data fa) = Some x)"

definition rpc_shows :: "Sdk \<Rightarrow> rpc \<Rightarrow> ledger \<Rightarrow> bool" where
  "rpc_shows sd rpc L \<longleftrightarrow>
     (\<forall>k c. L k = Some (ConfigAccount c) \<longrightarrow> shows_as sd (sd_decode_config sd) rpc k c) \<and>
     (\<forall>k a. L k = Some (BalanceAccount a) \<longrightarrow> shows_as sd (sd_decode_account sd) rpc k a) \<and>
     (\<forall>k r. L k = Some (RequestAccount r) \<longrightarrow> shows_as sd (sd_decode_request sd) rpc k r)"

lemma fetch_shown:
  assumes "rpc_shows sd rpc L"
  shows "L k = Some (ConfigAccount c) \<Longrightarrow> fetch_config sd rpc k = Ok c"
    and "L k = Some (BalanceAccount a) \<Longrightarrow> fetch_account sd rpc k = Ok a"
    and "L k = Some (RequestAccount r) \<Longrightarrow> fetch_request_raw sd rpc k = Ok r"
  using assms
  by (auto simp: rpc_shows_def shows_as_def fetch_config_def fetch_account_def fetch_request_raw_def
      fetch_and_decode_Ok)

text \<open>Every request of a reachable ledger satisfies the client's demands.\<close>

lemma reachable_trusted:
  assumes "reachable (sd_runtime sd) ch" and "ch_ledger ch rk = Some (RequestAccount r)"
  obtains a c where "ch_ledger ch (req_confidential_account r) = Some (BalanceAccount a)"
    "ch_ledger ch (req_config r) = Some (ConfigAccount c)"
    "trusted sd rk r (req_config r) c (req_confidential_account r) a"
proof -
  let ?rt = "sd_runtime sd"
  have r: "request_ok ?rt (ch_ledger ch) rk r"
    using reachable_entry(3) [OF assms] .
  then obtain a c where a: "ch_ledger ch (req_confidential_account r) = Some (BalanceAccount a)"
    and c: "ch_ledger ch (req_config r) = Some (ConfigAccount c)" and of: "request_of ?rt rk r a c"
    by (auto simp: request_ok_def)
  have pdas: "rt_find_program_address ?rt (config_seeds (cfg_mint c)) ID = (req_config r, cfg_bump c)"
    "rt_find_program_address ?rt (account_seeds (acc_mint a) (acc_owner a)) ID
       = (req_confidential_account r, acc_bump a)"
    "rt_find_program_address ?rt (request_seeds (req_confidential_account r) (req_request_nonce r)) ID
       = (rk, req_bump r)"
    using reachable_entry(1) [OF assms(1) c] reachable_entry(2) [OF assms(1) a] r
    by (simp_all add: config_ok_def account_ok_def request_ok_def)
  have "req_status r = STATUS_PENDING \<longrightarrow> acc_pending_request a = rk \<and>
      acc_request_nonce a = req_request_nonce r \<and> acc_state_version a = req_state_version r"
    using locks_okD(3) [OF reachable_locks [OF assms(1)] assms(2) _ a] by blast
  then have "trusted sd rk r (req_config r) c (req_confidential_account r) a"
    using of pdas by (simp add: trusted_def request_of_def derive_config_def derive_account_def
        derive_request_def request_pda_def PROGRAM_ID_def config_seeds_def account_seeds_def
        request_seeds_def)
  then show thesis using that a c by blast
qed

lemma fetch_verified:
  assumes "reachable (sd_runtime sd) ch" and "ch_ledger ch rk = Some (RequestAccount r)"
    and "rpc_shows sd rpc (ch_ledger ch)"
  obtains a c where "ch_ledger ch (req_confidential_account r) = Some (BalanceAccount a)"
    "ch_ledger ch (req_config r) = Some (ConfigAccount c)"
    "fetch_and_verify_request sd rpc rk = Ok
       \<lparr>vr_config_address = req_config r, vr_config = c,
        vr_account_address = req_confidential_account r, vr_account = a,
        vr_request_address = rk, vr_request = r, vr_binding = request_binding c r rk\<rparr>"
proof -
  obtain a c where a: "ch_ledger ch (req_confidential_account r) = Some (BalanceAccount a)"
    and c: "ch_ledger ch (req_config r) = Some (ConfigAccount c)"
    and ok: "trusted sd rk r (req_config r) c (req_confidential_account r) a"
    using reachable_trusted [OF assms(1,2)] by blast
  have "verify_request_accounts sd rk r (req_config r) c (req_confidential_account r) a
      = Ok (request_binding c r rk)"
    using ok by (simp add: verify_request_accounts_Ok)
  then have "fetch_and_verify_request sd rpc rk = Ok
       \<lparr>vr_config_address = req_config r, vr_config = c,
        vr_account_address = req_confidential_account r, vr_account = a,
        vr_request_address = rk, vr_request = r, vr_binding = request_binding c r rk\<rparr>"
    using fetch_shown [OF assms(3)] assms(2) a c by (simp add: fetch_and_verify_request_def Let_def)
  then show thesis using that a c by blast
qed

lemma fetch_and_verify_Ok:
  assumes "fetch_and_verify_request sd rpc rk = Ok v"
  shows "trusted sd rk (vr_request v) (vr_config_address v) (vr_config v) (vr_account_address v) (vr_account v)"
    and "vr_binding v = request_binding (vr_config v) (vr_request v) rk"
    and "vr_request_address v = rk"
    and "fetch_request_raw sd rpc rk = Ok (vr_request v)"
    and "fetch_config sd rpc (vr_config_address v) = Ok (vr_config v)"
    and "fetch_account sd rpc (vr_account_address v) = Ok (vr_account v)"
  using assms
  by (auto simp: fetch_and_verify_request_def and_then_eq_Ok Let_def verify_request_accounts_Ok)

end
