(* ===== verification/Polling.thy ===== *)
theory Polling
  imports Prelude
begin

text \<open>
  Loops that ask until something is decided or a deadline has passed, and sleep in between: the
  confirmation of a transaction and the wait for a relayer's job have this shape. A round asks
  once; a decided answer ends the loop, otherwise the deadline is looked at, and before the next
  round the loop sleeps. The loop has a fuel, \<open>None\<close> says that it ran out.
\<close>

fun poll_until ::
    "nat \<Rightarrow> ('n \<Rightarrow> nat) \<Rightarrow> (nat \<Rightarrow> 'n \<Rightarrow> 'n) \<Rightarrow> ('n \<Rightarrow> 'r option \<times> 'n) \<Rightarrow> nat \<Rightarrow> nat \<Rightarrow> 'r \<Rightarrow> 'n \<Rightarrow> ('r \<times> 'n) option" where
  "poll_until 0 now sleep attempt deadline interval late n = None"
| "poll_until (Suc fuel) now sleep attempt deadline interval late n =
    (case attempt n of
       (Some r, n') \<Rightarrow> Some (r, n')
     | (None, n') \<Rightarrow>
         if deadline \<le> now n' then Some (late, n')
         else poll_until fuel now sleep attempt deadline interval late (sleep interval n'))"

text \<open>What the loop returns was decided by an attempt, or is the answer for being late.\<close>

lemma poll_until_decided:
  assumes "poll_until fuel now sleep attempt deadline interval late n = Some (r, n')"
  shows "(r = late \<and> deadline \<le> now n') \<or> (\<exists>m. attempt m = (Some r, n'))"
  using assms
  by (induction fuel arbitrary: n) (auto split: prod.splits option.splits if_splits)

text \<open>
  On a clock that does not go back, and sleeps that take their time, the loop ends: a fuel of
  one round more than the intervals up to the deadline is enough.
\<close>

lemma poll_until_ends:
  assumes attempt: "\<And>n. now n \<le> now (snd (attempt n))"
    and sleep: "\<And>d n. now n + d \<le> now (sleep d n)"
    and "deadline \<le> now n + fuel * interval"
  shows "poll_until (Suc fuel) now sleep attempt deadline interval late n \<noteq> None"
  using assms(3)
proof (induction fuel arbitrary: n)
  case 0
  obtain r n' where "attempt n = (r, n')" by (rule prod.exhaust)
  then show ?case using attempt [of n] 0 by (auto split: option.splits)
next
  case (Suc fuel)
  obtain r n' where a: "attempt n = (r, n')" by (rule prod.exhaust)
  have "now n + interval \<le> now (sleep interval n')"
    using attempt [of n] sleep [of n' interval] a by simp
  then have "poll_until (Suc fuel) now sleep attempt deadline interval late (sleep interval n') \<noteq> None"
    using Suc by (intro Suc.IH) simp
  then show ?case
    using a poll_until.simps(2) [of "Suc fuel" now sleep attempt deadline interval late n]
    by (auto simp del: poll_until.simps split: option.splits)
qed

text \<open>More fuel does not change what is returned.\<close>

lemma poll_until_mono:
  assumes "poll_until fuel now sleep attempt deadline interval late n = Some x" and "fuel \<le> fuel'"
  shows "poll_until fuel' now sleep attempt deadline interval late n = Some x"
  using assms
proof (induction fuel arbitrary: n fuel')
  case (Suc fuel)
  then obtain k where "fuel' = Suc k" "fuel \<le> k" by (cases fuel') auto
  then show ?case using Suc by (auto split: prod.splits option.splits if_splits)
qed simp

end
