(* ===== verification/Relayer.thy ===== *)
theory Relayer
  imports Decode Polling
begin

text \<open>
  \<open>crates/client/src/relayer/types.rs\<close> and \<open>openzeppelin.rs\<close>: the relayer that may deliver a
  finalization: which relayers are accepted, how instructions are described to them, that the
  Ed25519 verification stands right before the finalization, and the polling of a job.

  HTTP, the clock and sleeping are the operations of \<open>Http\<close> over a state \<open>'n\<close> of the world; JSON
  values and the parsing of responses are \<open>Parsers\<close>. The wait for a job is a loop of theory \<open>Polling\<close>.
\<close>

section \<open>Texts\<close>

text \<open>\<open>char::is_whitespace\<close> on the first 256 code points, \<open>str::trim\<close>, \<open>trim_end_matches('/')\<close>,
  \<open>to_ascii_lowercase\<close>\<close>

definition is_whitespace :: "char \<Rightarrow> bool" where
  "is_whitespace c \<longleftrightarrow> (let n = (of_char c :: nat) in (9 \<le> n \<and> n \<le> 13) \<or> n = 32 \<or> n = 133 \<or> n = 160)"

definition trim :: "string \<Rightarrow> string" where
  "trim s = rev (dropWhile is_whitespace (rev (dropWhile is_whitespace s)))"

definition trim_end_slash :: "string \<Rightarrow> string" where
  "trim_end_slash s = rev (dropWhile (\<lambda>c. c = CHR ''/'') (rev s))"

definition to_ascii_lowercase :: "string \<Rightarrow> string" where
  "to_ascii_lowercase s = map (\<lambda>c. let n = (of_char c :: nat) in
     if 65 \<le> n \<and> n \<le> 90 then char_of (n + 32) else c) s"

section \<open>Types\<close>

definition ED25519_PROGRAM_ID_STR :: string where
  "ED25519_PROGRAM_ID_STR = ''Ed25519SigVerify111111111111111111111111111''"

definition RELAYER_NETWORK_DEVNET :: string where "RELAYER_NETWORK_DEVNET = ''devnet''"
definition RELAYER_NETWORK_SOLANA_DEVNET :: string where "RELAYER_NETWORK_SOLANA_DEVNET = ''solana-devnet''"

record SolanaAccountMeta =
  sm_pubkey :: string
  sm_is_signer :: bool
  sm_is_writable :: bool

record SolanaInstructionSpec =
  sp_program_id :: string
  sp_accounts :: "SolanaAccountMeta list"
  sp_data :: string

record 'v RelayerInfo =
  ri_id :: string
  ri_name :: string
  ri_network :: string
  ri_network_type :: string
  ri_paused :: bool
  ri_address :: "string option"
  ri_system_disabled :: "bool option"
  ri_policies :: "'v option"

record ValidatedRelayer =
  va_id :: string
  va_network :: string
  va_address :: pubkey

record RelayerTransaction =
  rx_id :: string
  rx_status :: string
  rx_signature :: "string option"
  rx_status_reason :: "string option"

datatype RelayerJobState = InProgress | Succeeded | Failed

definition classify_relayer_status :: "string \<Rightarrow> RelayerJobState" where
  "classify_relayer_status status =
    (let s = to_ascii_lowercase (trim status) in
     if s = ''confirmed'' then Succeeded
     else if s = ''failed'' \<or> s = ''expired'' \<or> s = ''canceled'' then Failed
     else InProgress)"

definition is_solana_devnet_network :: "string \<Rightarrow> bool" where
  "is_solana_devnet_network network =
    (let normalized = to_ascii_lowercase (trim network) in
     normalized = RELAYER_NETWORK_DEVNET \<or> normalized = RELAYER_NETWORK_SOLANA_DEVNET)"

text \<open>JSON values are opaque: \<open>Value::get\<close> and \<open>Value::as_str\<close>. An envelope is what a response
  body parses to.\<close>

record 'a ApiEnvelope =
  en_success :: "bool option"
  en_data :: "'a option"
  en_error :: "string option"
  en_message :: "string option"

record 'v Parsers =
  js_get :: "'v \<Rightarrow> string \<Rightarrow> 'v option"
  js_as_str :: "'v \<Rightarrow> string option"
  js_relayer_info :: "string \<Rightarrow> 'v RelayerInfo ApiEnvelope option"
  js_transaction :: "string \<Rightarrow> RelayerTransaction ApiEnvelope option"

definition validate_solana_devnet_relayer ::
    "Sdk \<Rightarrow> 'v Parsers \<Rightarrow> 'v RelayerInfo \<Rightarrow> (ValidatedRelayer, LabError) result" where
  "validate_solana_devnet_relayer sd js info =
    (if ri_network_type info \<noteq> ''solana'' then Err (RelayerRefused WrongNetworkType)
     else if \<not> is_solana_devnet_network (ri_network info) then Err (RelayerRefused WrongNetwork)
     else if ri_paused info then Err (RelayerRefused RelayerPaused)
     else if ri_system_disabled info = Some True then Err (RelayerRefused RelayerDisabled)
     else
     and_then (ok_or (case ri_address info of
           None \<Rightarrow> None
         | Some text \<Rightarrow> if trim text = [] then None else Some (trim text))
       (RelayerRefused RelayerNoAddress)) (\<lambda>address_str.
     and_then (map_err (\<lambda>_. RelayerRefused RelayerBadAddress) (parse_address sd address_str)) (\<lambda>address.
     if address = 0 then Err (RelayerRefused RelayerZeroAddress)
     else
     let strategy = (case ri_policies info of
           None \<Rightarrow> None
         | Some policies \<Rightarrow> (case js_get js policies ''fee_payment_strategy'' of
               None \<Rightarrow> None
             | Some v \<Rightarrow> js_as_str js v)) in
     and_then (case strategy of
         Some s \<Rightarrow> if s = ''relayer'' then Ok ()
                  else if s = ''user'' then Err (RelayerRefused UserPaysFees)
                  else Err (RelayerRefused (UnsupportedStrategy s))
       | None \<Rightarrow> Err (RelayerRefused NoStrategy)) (\<lambda>_.
     Ok \<lparr>va_id = ri_id info, va_network = ri_network info, va_address = address\<rparr>))))"

definition instruction_to_spec :: "Sdk \<Rightarrow> Instruction \<Rightarrow> SolanaInstructionSpec" where
  "instruction_to_spec sd ix =
    \<lparr>sp_program_id = sd_address_to_string sd (ix_program_id ix),
     sp_accounts = map (\<lambda>account.
        \<lparr>sm_pubkey = sd_address_to_string sd (am_pubkey account),
         sm_is_signer = am_is_signer account,
         sm_is_writable = am_is_writable account\<rparr>) (ix_accounts ix),
     sp_data = sd_base64_encode sd (ix_data ix)\<rparr>"

definition instructions_to_specs :: "Sdk \<Rightarrow> Instruction list \<Rightarrow> SolanaInstructionSpec list" where
  "instructions_to_specs sd ixs = map (instruction_to_spec sd) ixs"

definition require_ed25519_immediately_before_finalize_ids ::
    "Sdk \<Rightarrow> string list \<Rightarrow> (unit, LabError) result" where
  "require_ed25519_immediately_before_finalize_ids sd program_ids =
    (let coordinator = sd_address_to_string sd PROGRAM_ID;
         finalize_positions = map fst (filter (\<lambda>(_, id). id = coordinator) (enumerate 0 program_ids)) in
     if length finalize_positions \<noteq> 1 then Err (FinalizeRefused (FinalizeCount (length finalize_positions)))
     else
     let finalize_idx = finalize_positions ! 0 in
     if finalize_idx = 0 \<or> program_ids ! (finalize_idx - 1) \<noteq> ED25519_PROGRAM_ID_STR
     then Err (FinalizeRefused Ed25519NotAdjacent)
     else Ok ())"

definition require_ed25519_immediately_before_finalize ::
    "Sdk \<Rightarrow> Instruction list \<Rightarrow> (unit, LabError) result" where
  "require_ed25519_immediately_before_finalize sd ixs =
     require_ed25519_immediately_before_finalize_ids sd
       (map (\<lambda>ix. sd_address_to_string sd (ix_program_id ix)) ixs)"

definition require_ed25519_immediately_before_finalize_specs ::
    "Sdk \<Rightarrow> SolanaInstructionSpec list \<Rightarrow> (unit, LabError) result" where
  "require_ed25519_immediately_before_finalize_specs sd specs =
     require_ed25519_immediately_before_finalize_ids sd (map sp_program_id specs)"

section \<open>The relayer client\<close>

record 'n Http =
  ht_build :: "(unit, string) result"
  ht_send :: "string \<Rightarrow> string \<Rightarrow> string \<Rightarrow> SolanaInstructionSpec list option \<Rightarrow> 'n \<Rightarrow>
              (nat \<times> string, string) result \<times> 'n"
  ht_now :: "'n \<Rightarrow> nat"
  ht_sleep :: "nat \<Rightarrow> 'n \<Rightarrow> 'n"

record OpenZeppelinRelayerClient =
  oz_base_url :: string
  oz_relayer_id :: string
  oz_api_key :: string

text \<open>Durations in milliseconds.\<close>

record PollSettings =
  po_timeout :: nat
  po_interval :: nat

definition DEFAULT_RELAYER_POLL_TIMEOUT_SECS :: nat where "DEFAULT_RELAYER_POLL_TIMEOUT_SECS = 240"

definition default_poll :: PollSettings where
  "default_poll = \<lparr>po_timeout = DEFAULT_RELAYER_POLL_TIMEOUT_SECS * 1000, po_interval = 1000\<rparr>"

record RelayerSubmitResult =
  rs_transaction_id :: string
  rs_status :: string
  rs_solana_signature :: "string option"

definition load_api_key :: "string option \<Rightarrow> (string, LabError) result" where
  "load_api_key v =
    (case v of
       None \<Rightarrow> Err (ArgsFailed MissingApiKey)
     | Some text \<Rightarrow> if trim text = [] then Err (ArgsFailed MissingApiKey) else Ok (trim text))"

definition new_relayer_client ::
    "'n Http \<Rightarrow> string \<Rightarrow> string \<Rightarrow> string \<Rightarrow> (OpenZeppelinRelayerClient, LabError) result" where
  "new_relayer_client ht relayer_url relayer_id api_key =
    (let base_url = trim_end_slash (trim relayer_url) in
     if base_url = [] then Err (ArgsFailed MissingRelayerUrl)
     else if trim relayer_id = [] then Err (ArgsFailed MissingRelayerId)
     else
     and_then (map_err (\<lambda>e. RelayerRefused (RelayerClientNotBuilt e)) (ht_build ht)) (\<lambda>_.
     Ok \<lparr>oz_base_url = base_url, oz_relayer_id = relayer_id, oz_api_key = api_key\<rparr>))"

definition relayer_path :: "OpenZeppelinRelayerClient \<Rightarrow> string \<Rightarrow> string" where
  "relayer_path self suffix = oz_base_url self @ ''/api/v1/relayers/'' @ oz_relayer_id self @ suffix"

text \<open>A computation on the world that may fail.\<close>

type_synonym ('a, 'n) net = "'n \<Rightarrow> ('a, LabError) result \<times> 'n"

definition nbind :: "('a, 'n) net \<Rightarrow> ('a \<Rightarrow> ('b, 'n) net) \<Rightarrow> ('b, 'n) net" where
  "nbind m f = (\<lambda>n. case m n of (Ok x, n') \<Rightarrow> f x n' | (Err e, n') \<Rightarrow> (Err e, n'))"

definition nlift :: "('a, LabError) result \<Rightarrow> ('a, 'n) net" where
  "nlift r = (\<lambda>n. (r, n))"

definition send_http ::
    "'n Http \<Rightarrow> OpenZeppelinRelayerClient \<Rightarrow> string \<Rightarrow> string \<Rightarrow> SolanaInstructionSpec list option \<Rightarrow>
     (nat \<times> string, 'n) net" where
  "send_http ht self http_method url body =
    (\<lambda>n. case ht_send ht (oz_api_key self) http_method url body n of
       (r, n') \<Rightarrow> (map_err HostFailed r, n'))"

definition is_success_status :: "nat \<Rightarrow> bool" where
  "is_success_status status \<longleftrightarrow> 200 \<le> status \<and> status \<le> 299"

definition decode_envelope ::
    "(string \<Rightarrow> 'a ApiEnvelope option) \<Rightarrow> string \<Rightarrow> nat \<Rightarrow> string \<Rightarrow> ('a, LabError) result" where
  "decode_envelope parse operation status text =
    (if status = 401 then Err (RelayerRefused (AuthRejected operation))
     else
     and_then (ok_or (parse text) (RelayerRefused (NotJson operation))) (\<lambda>envelope.
     let success = (case en_success envelope of Some s \<Rightarrow> s | None \<Rightarrow> is_success_status status) in
     if \<not> is_success_status status \<or> \<not> success then
       let detail = (case en_error envelope of Some e \<Rightarrow> e
                     | None \<Rightarrow> (case en_message envelope of Some m \<Rightarrow> m | None \<Rightarrow> text))
       in Err (RelayerRefused (RelayerFailed detail))
     else ok_or (en_data envelope) (RelayerRefused (NoData operation))))"

definition fetch_relayer ::
    "'v Parsers \<Rightarrow> 'n Http \<Rightarrow> OpenZeppelinRelayerClient \<Rightarrow> ('v RelayerInfo, 'n) net" where
  "fetch_relayer js ht self =
     nbind (send_http ht self ''GET'' (relayer_path self '''') None) (\<lambda>(status, text).
     nlift (decode_envelope (js_relayer_info js) ''GET /relayers/{id}'' status text))"

definition validate_configured_relayer ::
    "Sdk \<Rightarrow> 'v Parsers \<Rightarrow> 'n Http \<Rightarrow> OpenZeppelinRelayerClient \<Rightarrow> (ValidatedRelayer, 'n) net" where
  "validate_configured_relayer sd js ht self =
     nbind (fetch_relayer js ht self) (\<lambda>info.
     nlift (validate_solana_devnet_relayer sd js info))"

definition submit_instructions ::
    "'v Parsers \<Rightarrow> 'n Http \<Rightarrow> OpenZeppelinRelayerClient \<Rightarrow> SolanaInstructionSpec list \<Rightarrow> (RelayerTransaction, 'n) net" where
  "submit_instructions js ht self instructions =
     nbind (send_http ht self ''POST'' (relayer_path self ''/transactions'') (Some instructions)) (\<lambda>(status, text).
     nlift (decode_envelope (js_transaction js) ''POST /relayers/{id}/transactions'' status text))"

definition get_transaction ::
    "'v Parsers \<Rightarrow> 'n Http \<Rightarrow> OpenZeppelinRelayerClient \<Rightarrow> string \<Rightarrow> (RelayerTransaction, 'n) net" where
  "get_transaction js ht self transaction_id =
     nbind (send_http ht self ''GET'' (relayer_path self (''/transactions/'' @ transaction_id)) None) (\<lambda>(status, text).
     nlift (decode_envelope (js_transaction js) ''GET /relayers/{id}/transactions/{id}'' status text))"

text \<open>One round of \<open>wait_for_terminal\<close>: a confirmed or failed job is decided.\<close>

definition job_attempt ::
    "'v Parsers \<Rightarrow> 'n Http \<Rightarrow> OpenZeppelinRelayerClient \<Rightarrow> string \<Rightarrow> 'n \<Rightarrow>
     (RelayerTransaction, LabError) result option \<times> 'n" where
  "job_attempt js ht self transaction_id n =
    (case get_transaction js ht self transaction_id n of
       (Err e, n') \<Rightarrow> (Some (Err e), n')
     | (Ok tx, n') \<Rightarrow>
         (case classify_relayer_status (rx_status tx) of
            Succeeded \<Rightarrow> (Some (Ok tx), n')
          | Failed \<Rightarrow>
              let reason = (case rx_status_reason tx of
                    Some reason \<Rightarrow> if reason = [] then ''no status_reason from Relayer'' else reason
                  | None \<Rightarrow> ''no status_reason from Relayer'')
              in (Some (Err (RelayerRefused (JobFailed reason))), n')
          | InProgress \<Rightarrow> (None, n')))"

definition wait_for_terminal ::
    "nat \<Rightarrow> 'v Parsers \<Rightarrow> 'n Http \<Rightarrow> OpenZeppelinRelayerClient \<Rightarrow> string \<Rightarrow> PollSettings \<Rightarrow> 'n \<Rightarrow>
     ((RelayerTransaction, LabError) result \<times> 'n) option" where
  "wait_for_terminal fuel js ht self transaction_id poll n =
    (let deadline = ht_now ht n + po_timeout poll
     in poll_until fuel (ht_now ht) (ht_sleep ht) (job_attempt js ht self transaction_id)
          deadline (po_interval poll) (Err (RelayerRefused (JobTimeout transaction_id))) n)"

definition submit_instructions_and_wait ::
    "nat \<Rightarrow> 'v Parsers \<Rightarrow> 'n Http \<Rightarrow> OpenZeppelinRelayerClient \<Rightarrow> SolanaInstructionSpec list \<Rightarrow> PollSettings \<Rightarrow> 'n \<Rightarrow>
     ((RelayerSubmitResult, LabError) result \<times> 'n) option" where
  "submit_instructions_and_wait fuel js ht self instructions poll n =
    (case submit_instructions js ht self instructions n of
       (Err e, n') \<Rightarrow> Some (Err e, n')
     | (Ok first, n') \<Rightarrow>
         map_option (\<lambda>(r, n''). (and_then r (\<lambda>terminal.
             Ok \<lparr>rs_transaction_id = rx_id terminal, rs_status = rx_status terminal,
                 rs_solana_signature = rx_signature terminal\<rparr>), n''))
           (case classify_relayer_status (rx_status first) of
              Succeeded \<Rightarrow> Some (Ok first, n')
            | Failed \<Rightarrow>
                let reason = (case rx_status_reason first of Some reason \<Rightarrow> reason
                              | None \<Rightarrow> ''no status_reason from Relayer'')
                in Some (Err (RelayerRefused (JobFailed reason)), n')
            | InProgress \<Rightarrow> wait_for_terminal fuel js ht self (rx_id first) poll n'))"

section \<open>The pair stands together\<close>

lemma coordinator_positions:
  "map fst (filter (\<lambda>(_, id). id = x) (enumerate k ids)) = map (\<lambda>i. i + k) (filter (\<lambda>i. ids ! i = x) [0..<length ids])"
proof (induction ids arbitrary: k)
  case Nil
  show ?case by simp
next
  case (Cons a ids)
  have "filter (\<lambda>i. (a # ids) ! i = x) [0..<length (a # ids)]
      = (if a = x then [0] else []) @ map Suc (filter (\<lambda>i. ids ! i = x) [0..<length ids])"
    by (simp add: upt_conv_Cons map_Suc_upt [symmetric] filter_map o_def del: upt_Suc)
  then show ?case using Cons.IH [of "Suc k"] by simp
qed

text \<open>
  A list of instructions is accepted for delivery exactly when one and only one of them is
  for the coordinator, it is not the first, and the one right before it is for the native
  Ed25519 program.
\<close>

lemma ed25519_adjacency_exact:
  "require_ed25519_immediately_before_finalize_ids sd ids = Ok () \<longleftrightarrow>
     (\<exists>i. filter (\<lambda>i. ids ! i = sd_address_to_string sd PROGRAM_ID) [0..<length ids] = [i] \<and>
        0 < i \<and> ids ! (i - 1) = ED25519_PROGRAM_ID_STR)"
  unfolding require_ed25519_immediately_before_finalize_ids_def Let_def coordinator_positions
  by (auto simp: length_Suc_conv)

section \<open>Jobs\<close>

text \<open>
  A job counts as done exactly when the relayer reports "confirmed", in any case and with
  any surrounding white space; nothing else, in particular not "mined" or an unknown status, is
  taken for success.
\<close>

lemma only_confirmed_succeeds:
  "classify_relayer_status status = Succeeded \<longleftrightarrow> to_ascii_lowercase (trim status) = ''confirmed''"
  by (simp add: classify_relayer_status_def Let_def)

lemma wait_for_terminal_Ok:
  assumes "wait_for_terminal fuel js ht self job poll n = Some (Ok tx, n')"
  shows "classify_relayer_status (rx_status tx) = Succeeded"
proof -
  obtain m where "job_attempt js ht self job m = (Some (Ok tx), n')"
    using poll_until_decided [OF assms [unfolded wait_for_terminal_def Let_def]] by auto
  then show ?thesis
    by (auto simp: job_attempt_def Let_def split: prod.splits sum.splits RelayerJobState.splits)
qed

text \<open>
  A delivery through the relayer is reported as successful only for a job that the relayer
  reports as confirmed, whether at once or after polling.
\<close>

lemma relayer_success_is_confirmed:
  assumes "submit_instructions_and_wait fuel js ht self ixs poll n = Some (Ok res, n')"
  shows "classify_relayer_status (rs_status res) = Succeeded"
  using assms
  by (auto simp: submit_instructions_and_wait_def Let_def and_then_eq_Ok
      split: prod.splits sum.splits RelayerJobState.splits option.splits dest!: wait_for_terminal_Ok)

text \<open>The clock of the world: it never goes back, and sleeping takes at least as long as asked.\<close>

definition clock_law :: "'n Http \<Rightarrow> bool" where
  "clock_law ht \<longleftrightarrow>
     (\<forall>key http_method url body n. ht_now ht n \<le> ht_now ht (snd (ht_send ht key http_method url body n))) \<and>
     (\<forall>d n. ht_now ht n + d \<le> ht_now ht (ht_sleep ht d n))"

lemma get_transaction_clock:
  assumes "clock_law ht"
  shows "ht_now ht n \<le> ht_now ht (snd (get_transaction js ht self job n))"
proof -
  obtain r n' where s: "ht_send ht (oz_api_key self) ''GET'' (relayer_path self (''/transactions/'' @ job)) None n = (r, n')"
    by (rule prod.exhaust)
  then have "ht_now ht n \<le> ht_now ht n'"
    using assms unfolding clock_law_def by (metis snd_conv)
  then show ?thesis
    using s by (cases r) (auto simp: get_transaction_def nbind_def send_http_def nlift_def split: prod.splits)
qed

lemma job_attempt_clock:
  assumes "clock_law ht"
  shows "ht_now ht n \<le> ht_now ht (snd (job_attempt js ht self job n))"
  using get_transaction_clock [OF assms, of n js self job]
  by (auto simp: job_attempt_def Let_def split: prod.splits sum.splits RelayerJobState.splits)

text \<open>
  C40: polling ends: as the clock never goes back and every round sleeps for the interval,
  waiting for a job returns, with a result or an error, within one round more than the timeout
  holds intervals, whatever the relayer answers.
\<close>

theorem polling_ends:
  assumes "clock_law ht" and "po_timeout poll \<le> rounds * po_interval poll"
  shows "wait_for_terminal (Suc rounds) js ht self job poll n \<noteq> None"
  unfolding wait_for_terminal_def Let_def
  by (rule poll_until_ends) 
    (use assms job_attempt_clock [OF assms(1)] in \<open>auto simp: clock_law_def\<close>)

text \<open>A world that is only a clock, and whose relayer always answers that the job is pending.\<close>

definition idle_http :: "nat Http" where
  "idle_http = \<lparr>ht_build = Ok (), ht_send = (\<lambda>_ _ _ _ n. (Ok (200, ''{}''), n)), ht_now = (\<lambda>n. n), ht_sleep = (\<lambda>d n. n + d)\<rparr>"

definition pending_parsers :: "unit Parsers" where
  "pending_parsers =
    \<lparr>js_get = (\<lambda>_ _. None), js_as_str = (\<lambda>_. None), js_relayer_info = (\<lambda>_. None),
     js_transaction = (\<lambda>_. Some \<lparr>en_success = Some True,
       en_data = Some \<lparr>rx_id = ''job'', rx_status = ''pending'', rx_signature = None, rx_status_reason = None\<rparr>,
       en_error = None, en_message = None\<rparr>)\<rparr>"

definition lab_relayer :: OpenZeppelinRelayerClient where
  "lab_relayer = \<lparr>oz_base_url = ''http://localhost'', oz_relayer_id = ''solana-devnet'', oz_api_key = ''key''\<rparr>"

theorem polling_ends_witness:
  "wait_for_terminal (Suc 240) pending_parsers idle_http lab_relayer ''job'' default_poll 0 \<noteq> None"
  by (rule polling_ends)
    (simp_all add: clock_law_def idle_http_def default_poll_def DEFAULT_RELAYER_POLL_TIMEOUT_SECS_def)

definition confirmed_parsers :: "unit Parsers" where
  "confirmed_parsers = pending_parsers\<lparr>js_transaction := (\<lambda>_. Some \<lparr>en_success = Some True,
       en_data = Some \<lparr>rx_id = ''job'', rx_status = ''Confirmed'', rx_signature = Some ''sig'', rx_status_reason = None\<rparr>,
       en_error = None, en_message = None\<rparr>)\<rparr>"

lemma relayer_success_is_confirmed_instance:
  "classify_relayer_status ''Confirmed'' = Succeeded"
proof -
  have "classify_relayer_status ''Confirmed'' = Succeeded" by code_simp
  then have "submit_instructions_and_wait 1 confirmed_parsers idle_http lab_relayer [] default_poll 0
      = Some (Ok \<lparr>rs_transaction_id = ''job'', rs_status = ''Confirmed'', rs_solana_signature = Some ''sig''\<rparr>, 0)"
    by (simp add: submit_instructions_and_wait_def submit_instructions_def nbind_def send_http_def
        nlift_def idle_http_def confirmed_parsers_def pending_parsers_def decode_envelope_def
        is_success_status_def)
  from relayer_success_is_confirmed [OF this] show ?thesis by simp
qed

end
