(* ===== verification/Finalizer.thy ===== *)
theory Finalizer
  imports Relayer
begin

text \<open>
  \<open>crates/client/src/devnet/finalize.rs\<close> and the state file of \<open>state.rs\<close>: from the request and
  the worker's result to a finalization on chain, with every check made once, before any
  transport, and the request read again afterwards.

  The world \<open>'n\<close> is what RPC reads show and transactions change: \<open>wo_client\<close> says whether
  the client of its node can be built, \<open>wo_rpc\<close> is the view of the RPC
  node in a state, \<open>wo_slot\<close> the slot it reports, \<open>wo_send\<close> sends a transaction signed by a payer
  and waits for it. Theory \<open>Rpc\<close> makes a world of a node behind HTTP.
\<close>

section \<open>State file\<close>

definition DEFAULT_DEVNET_RPC_URL :: string where
  "DEFAULT_DEVNET_RPC_URL = ''https://api.devnet.solana.com''"

definition DEFAULT_MAX_REQUEST_LIFETIME_SLOTS :: u64 where
  "DEFAULT_MAX_REQUEST_LIFETIME_SLOTS = 10000"

record DevnetState =
  ds_rpc_url :: "string option"
  ds_program_id :: "string option"
  ds_mint :: "string option"
  ds_config :: "string option"
  ds_account :: "string option"
  ds_owner :: "string option"
  ds_authority :: "string option"
  ds_operator :: "string option"
  ds_params_hash :: "string option"
  ds_key_version :: "u32 option"
  ds_max_request_lifetime_slots :: "u64 option"
  ds_latest_request :: "string option"
  ds_latest_request_nonce :: "u64 option"
  ds_payer_keypair_path :: "string option"
  ds_authority_keypair_path :: "string option"
  ds_owner_keypair_path :: "string option"
  ds_latest_relayer_transaction_id :: "string option"
  ds_latest_solana_signature :: "string option"

definition rpc_url :: "DevnetState \<Rightarrow> string" where
  "rpc_url self = (case ds_rpc_url self of Some url \<Rightarrow> url | None \<Rightarrow> DEFAULT_DEVNET_RPC_URL)"

section \<open>Choosing transport and request\<close>

datatype FinalizeTransport = Direct | OpenZeppelin string string

definition starts_with :: "string \<Rightarrow> string \<Rightarrow> bool" where
  "starts_with prefix text \<longleftrightarrow> take (length prefix) text = prefix"

definition transport_from_args :: "string list \<Rightarrow> (FinalizeTransport, LabError) result" where
  "transport_from_args args =
    (if has_flag args ''--api-key'' \<or> list_ex (\<lambda>arg. starts_with ''--api-key='' arg) args
     then Err (ArgsFailed ApiKeyFlag)
     else
     let transport = flag_or args ''--transport'' ''direct'' in
     if transport = ''direct'' then Ok Direct
     else if transport = ''openzeppelin'' then
       and_then (require_flag args ''--relayer-url'') (\<lambda>relayer_url.
       and_then (require_flag args ''--relayer-id'') (\<lambda>relayer_id.
       Ok (OpenZeppelin relayer_url relayer_id)))
     else Err (ArgsFailed (UnknownTransport transport)))"

definition resolve_request_address ::
    "Sdk \<Rightarrow> string list \<Rightarrow> DevnetState \<Rightarrow> RequestBinding option \<Rightarrow> (pubkey, LabError) result" where
  "resolve_request_address sd args state cached_request =
    (case flag_lookup args ''--request'' of
       Some v \<Rightarrow> parse_address sd v
     | None \<Rightarrow> (case cached_request of
           Some cached \<Rightarrow> Ok (rb_request_pda cached)
         | None \<Rightarrow>
             and_then (ok_or (ds_latest_request state) (ArgsFailed NoRequestKnown)) (\<lambda>v.
             parse_address sd v)))"

section \<open>Preparing\<close>

record PreparedFinalize =
  pf_request_address :: pubkey
  pf_config_address :: pubkey
  pf_account_address :: pubkey
  pf_prior_state_version :: u64
  pf_parsed :: ParsedResultFile
  pf_binding :: ResultBinding
  pf_result_hash :: bytes32
  pf_result_digest :: bytes32

definition prepare_finalize ::
    "Sdk \<Rightarrow> rpc \<Rightarrow> pubkey \<Rightarrow> RequestBinding option \<Rightarrow> ParsedResultFile \<Rightarrow> (PreparedFinalize, LabError) result" where
  "prepare_finalize sd rpc request_address cached_request parsed =
     and_then (fetch_and_verify_request sd rpc request_address) (\<lambda>verified.
     and_then (validate_finalize_consistency sd verified cached_request parsed) (\<lambda>binding.
     if cfg_paused (vr_config verified) then Err (FinalizeRefused ConfigPaused)
     else Ok \<lparr>pf_request_address = vr_request_address verified,
              pf_config_address = vr_config_address verified,
              pf_account_address = vr_account_address verified,
              pf_prior_state_version = acc_state_version (vr_account verified),
              pf_parsed = parsed, pf_binding = binding,
              pf_result_hash = pr_result_hash parsed,
              pf_result_digest = result_digest (rt_sha256 (sd_runtime sd)) binding\<rparr>))"

definition instructions_for_payer ::
    "Sdk \<Rightarrow> PreparedFinalize \<Rightarrow> pubkey \<Rightarrow> (Instruction list, LabError) result" where
  "instructions_for_payer sd self payer =
    (let ixs = finalize_ixs_with_signature sd payer (pf_config_address self) (pf_account_address self)
           (pf_request_address self) (pr_operator (pf_parsed self)) (pr_signature (pf_parsed self))
           (pf_binding self) in
     and_then (require_ed25519_immediately_before_finalize sd ixs) (\<lambda>_. Ok ixs))"

section \<open>After delivery\<close>

definition verify_authoritative_finalized ::
    "VerifiedRequest \<Rightarrow> PreparedFinalize \<Rightarrow> (unit, LabError) result" where
  "verify_authoritative_finalized post prepared =
    (if req_status (vr_request post) \<noteq> STATUS_FINALIZED
       then Err (NotConfirmed (NotFinalized (req_status (vr_request post))))
     else if req_result_hash (vr_request post) \<noteq> pf_result_hash prepared
       then Err (NotConfirmed ResultHashDiffers)
     else if req_result_digest (vr_request post) \<noteq> pf_result_digest prepared
       then Err (NotConfirmed ResultDigestDiffers)
     else if acc_pending_request (vr_account post) \<noteq> 0 then Err (NotConfirmed StillPending)
     else
     and_then (ok_or (checked_add (pf_prior_state_version prepared) 1) (NotConfirmed VersionOverflow)) (\<lambda>expected_version.
     if acc_state_version (vr_account post) \<noteq> expected_version then Err (NotConfirmed VersionNotAdvanced)
     else Ok ()))"

definition refetch_and_verify_finalized ::
    "Sdk \<Rightarrow> rpc \<Rightarrow> PreparedFinalize \<Rightarrow> (VerifiedRequest, LabError) result" where
  "refetch_and_verify_finalized sd rpc prepared =
     and_then (fetch_and_verify_request sd rpc (pf_request_address prepared)) (\<lambda>post.
     and_then (verify_authoritative_finalized post prepared) (\<lambda>_. Ok post))"

section \<open>Delivery\<close>

record FinalizeOutcome =
  fo_request_address :: pubkey
  fo_result_hash :: bytes32
  fo_result_digest :: bytes32
  fo_solana_signature :: "string option"
  fo_relayer_transaction_id :: "string option"

record ('kp, 'n) World =
  wo_client :: "(unit, LabError) result"
  wo_rpc :: "'n \<Rightarrow> rpc"
  wo_slot :: "'n \<Rightarrow> (u64, LabError) result"
  wo_send :: "'kp \<Rightarrow> Instruction list \<Rightarrow> 'n \<Rightarrow> (string, LabError) result \<times> 'n"
  wo_api_key :: "string option"

definition outcome ::
    "PreparedFinalize \<Rightarrow> string option \<Rightarrow> string option \<Rightarrow> FinalizeOutcome" where
  "outcome prepared signature transaction_id =
    \<lparr>fo_request_address = pf_request_address prepared,
     fo_result_hash = pf_result_hash prepared,
     fo_result_digest = pf_result_digest prepared,
     fo_solana_signature = signature,
     fo_relayer_transaction_id = transaction_id\<rparr>"

definition deliver_direct ::
    "Sdk \<Rightarrow> 'kp Host \<Rightarrow> ('kp, 'n) World \<Rightarrow> PreparedFinalize \<Rightarrow> 'kp \<Rightarrow> (FinalizeOutcome, 'n) net" where
  "deliver_direct sd ho wo prepared payer =
     nbind (nlift (instructions_for_payer sd prepared (ho_pubkey ho payer))) (\<lambda>ixs.
     nbind (wo_send wo payer ixs) (\<lambda>signature.
     nbind (\<lambda>n. (refetch_and_verify_finalized sd (wo_rpc wo n) prepared, n)) (\<lambda>_.
     nlift (Ok (outcome prepared (Some signature) None)))))"

text \<open>The relayer's job runs in the world's state as well; running out of fuel is \<open>None\<close>.\<close>

definition deliver_openzeppelin ::
    "nat \<Rightarrow> Sdk \<Rightarrow> 'v Parsers \<Rightarrow> 'n Http \<Rightarrow> ('kp, 'n) World \<Rightarrow> PreparedFinalize \<Rightarrow> string \<Rightarrow> string \<Rightarrow> PollSettings \<Rightarrow> 'n \<Rightarrow>
     ((FinalizeOutcome, LabError) result \<times> 'n) option" where
  "deliver_openzeppelin fuel sd js ht wo prepared relayer_url relayer_id poll n =
    (case nbind (nlift (load_api_key (wo_api_key wo))) (\<lambda>api_key.
          nbind (nlift (new_relayer_client ht relayer_url relayer_id api_key)) (\<lambda>client.
          nbind (validate_configured_relayer sd js ht client) (\<lambda>relayer.
          nbind (nlift (instructions_for_payer sd prepared (va_address relayer))) (\<lambda>ixs.
          let specs = instructions_to_specs sd ixs in
          nbind (nlift (require_ed25519_immediately_before_finalize_specs sd specs)) (\<lambda>_.
          nlift (Ok (client, specs))))))) n of
       (Err e, n') \<Rightarrow> Some (Err e, n')
     | (Ok (client, specs), n') \<Rightarrow>
         map_option (\<lambda>(r, n'').
             nbind (nlift r) (\<lambda>res.
             nbind (\<lambda>m. (refetch_and_verify_finalized sd (wo_rpc wo m) prepared, m)) (\<lambda>_.
             nlift (Ok (outcome prepared (rs_solana_signature res) (Some (rs_transaction_id res)))))) n'')
           (submit_instructions_and_wait fuel js ht client specs poll n'))"

definition ed25519_instruction_contains_operator :: "Sdk \<Rightarrow> Instruction \<Rightarrow> bytes32 \<Rightarrow> bool" where
  "ed25519_instruction_contains_operator sd verify_ix operator \<longleftrightarrow>
     sd_address_to_string sd (ix_program_id verify_ix) = ED25519_PROGRAM_ID_STR \<and>
     list_ex (\<lambda>i. take 32 (drop i (ix_data verify_ix)) = raw operator)
       [0..<length (ix_data verify_ix) + 1 - 32]"

section \<open>What the checks establish\<close>

lemma validate_finalize_Ok:
  "validate_finalize_consistency sd v cached parsed = Ok b \<longleftrightarrow>
     (\<forall>c. cached = Some c \<longrightarrow> vr_binding v = c) \<and>
     req_status (vr_request v) = STATUS_PENDING \<and>
     req_request_digest (vr_request v) = pr_request_digest parsed \<and>
     pr_operator parsed = cfg_operator (vr_config v) \<and>
     pr_result_type parsed = RESULT_TYPE_FHE_BOOL \<and>
     pr_circuit_id parsed = cfg_circuit_id (vr_config v) \<and>
     b = result_binding_from_authoritative sd (vr_binding v) parsed \<and>
     result_digest (rt_sha256 (sd_runtime sd)) b = pr_result_digest parsed \<and>
     sd_verifying_key_ok sd (pr_operator parsed) \<and>
     sd_signature_ok sd (pr_operator parsed) (encode_result b) (pr_signature parsed)"
  by (cases cached)
    (auto simp: validate_finalize_consistency_def and_then_eq_Ok Let_def verify_ed25519_def
      split: if_splits)

lemma authoritative_Ok:
  "verify_authoritative_finalized post p = Ok u \<longleftrightarrow>
     req_status (vr_request post) = STATUS_FINALIZED \<and>
     req_result_hash (vr_request post) = pf_result_hash p \<and>
     req_result_digest (vr_request post) = pf_result_digest p \<and>
     acc_pending_request (vr_account post) = 0 \<and>
     unat (pf_prior_state_version p) + 1 < 2 ^ 64 \<and>
     acc_state_version (vr_account post) = pf_prior_state_version p + 1"
  by (auto simp: verify_authoritative_finalized_def and_then_eq_Ok checked_add_one_u64)

lemma nbind_Ok: "nbind m f n = (Ok y, n'') \<longleftrightarrow> (\<exists>x n'. m n = (Ok x, n') \<and> f x n' = (Ok y, n''))"
  by (auto simp: nbind_def split: prod.splits sum.splits)

lemma nlift_eq [simp]: "nlift r n = (s, n') \<longleftrightarrow> s = r \<and> n' = n"
  by (auto simp: nlift_def)

end
