(* ===== verification/ClientScenario.thy ===== *)
theory ClientScenario
  imports Finalizer
begin

text \<open>
  What the client needs from the crates it is built on, stated as laws, and a concrete client
  that satisfies them: addresses written in hexadecimal, instruction data with a tag and the
  fields in order, and a view of the concrete run's ledger. It shows that the laws hold together.
\<close>

section \<open>What the crates promise\<close>

text \<open>Addresses and their text: base58 decoding inverts encoding, and the native program's
  address is written as the constant of the relayer module.\<close>

definition address_law :: "Sdk \<Rightarrow> bool" where
  "address_law sd \<longleftrightarrow>
     (\<forall>k. sd_address_from_str sd (sd_address_to_string sd k) = Some k) \<and>
     sd_address_to_string sd ED25519_PROGRAM_ID = ED25519_PROGRAM_ID_STR"

definition sdk_law :: "Sdk \<Rightarrow> bool" where
  "sdk_law sd \<longleftrightarrow> address_law sd \<and> anchor_law sd \<and> ed25519_builder_law sd \<and>
     pda_consistent (sd_runtime sd)"

lemma to_string_inj: "address_law sd \<Longrightarrow> sd_address_to_string sd a = sd_address_to_string sd b \<longleftrightarrow> a = b"
  by (metis address_law_def option.inject)

section \<open>A codec for instruction data\<close>

fun lab_encode :: "Call \<Rightarrow> u8 list" where
  "lab_encode (InitializeConfigCall a) = 0 # raw (ica_domain_id a) @ raw (ica_operator a) @
     le_bytes (ica_key_version a) @ raw (ica_params_hash a) @ le_bytes (ica_max_request_lifetime_slots a)"
| "lab_encode (SetPausedCall p) = [1, if p then 1 else 0]"
| "lab_encode (RotateOperatorCall k) = 2 # raw k"
| "lab_encode (SetKeyVersionCall v) = 3 # le_bytes v"
| "lab_encode (CreateAccountCall a) = 4 # raw (caa_balance_hash a) @ raw (caa_limit_hash a)"
| "lab_encode (SubmitCall a) = 5 # raw (sba_amount_hash a) @ le_bytes (sba_expected_state_version a) @
     le_bytes (sba_expected_nonce a)"
| "lab_encode CancelCall = [6]"
| "lab_encode ExpireCall = [7]"
| "lab_encode (FinalizeCall a) = 8 # raw (fna_result_hash a) @ [fna_result_type a] @ le_bytes (fna_circuit_id a)"

definition lab_fields :: "u8 \<Rightarrow> u8 list \<Rightarrow> Call option" where
  "lab_fields t d =
    (if t = 0 then Some (InitializeConfigCall
       \<lparr>ica_domain_id = mk_bytes (take 32 d), ica_operator = mk_bytes (take 32 (drop 32 d)),
        ica_key_version = from_le_bytes (take 4 (drop 64 d)), ica_params_hash = mk_bytes (take 32 (drop 68 d)),
        ica_max_request_lifetime_slots = from_le_bytes (take 8 (drop 100 d))\<rparr>)
     else if t = 1 then Some (SetPausedCall (d = [1]))
     else if t = 2 then Some (RotateOperatorCall (mk_bytes d))
     else if t = 3 then Some (SetKeyVersionCall (from_le_bytes d))
     else if t = 4 then Some (CreateAccountCall
       \<lparr>caa_balance_hash = mk_bytes (take 32 d), caa_limit_hash = mk_bytes (drop 32 d)\<rparr>)
     else if t = 5 then Some (SubmitCall
       \<lparr>sba_amount_hash = mk_bytes (take 32 d), sba_expected_state_version = from_le_bytes (take 8 (drop 32 d)),
        sba_expected_nonce = from_le_bytes (drop 40 d)\<rparr>)
     else if t = 6 then Some CancelCall
     else if t = 7 then Some ExpireCall
     else if t = 8 then Some (FinalizeCall
       \<lparr>fna_result_hash = mk_bytes (take 32 d), fna_result_type = d ! 32,
        fna_circuit_id = from_le_bytes (drop 33 d)\<rparr>)
     else None)"

definition lab_decode_call :: "u8 list \<Rightarrow> Call option" where
  "lab_decode_call data = (case data of t # d \<Rightarrow> lab_fields t d | [] \<Rightarrow> None)"

lemma lab_decode_encode: "lab_decode_call (lab_encode call) = Some call"
  by (cases call)
    (simp_all add: lab_decode_call_def lab_fields_def nth_append u16_le.dec_enc u32_le.dec_enc u64_le.dec_enc)

section \<open>A concrete client\<close>

definition lab_text :: "pubkey \<Rightarrow> string" where
  "lab_text k = (if k = ED25519_PROGRAM_ID then ED25519_PROGRAM_ID_STR else hex_text (raw k))"

definition lab_parse :: "string \<Rightarrow> pubkey option" where
  "lab_parse s = (if s = ED25519_PROGRAM_ID_STR then Some ED25519_PROGRAM_ID
     else case hex_untext s of None \<Rightarrow> None | Some bs \<Rightarrow> try_bytes bs)"

definition client_runtime :: Runtime where
  "client_runtime = lab_runtime\<lparr>rt_decode_call := lab_decode_call\<rparr>"

definition account2 :: ConfidentialAccount where
  "account2 = unlocked account1"

definition request2 :: Request where
  "request2 = finalized lab_sha256 finalize_ctx0 finalize_args0"

definition lab_sdk :: Sdk where
  "lab_sdk =
    \<lparr>sd_runtime = client_runtime, sd_crates = lab_crates, sd_encode_call = lab_encode,
     sd_ed25519_instruction = (\<lambda>msg sig pk.
       \<lparr>ix_program_id = ED25519_PROGRAM_ID, ix_accounts = [], ix_data = ed25519_record pk sig msg\<rparr>),
     sd_address_from_str = lab_parse, sd_address_to_string = lab_text,
     sd_verifying_key_ok = (\<lambda>_. True), sd_signature_ok = (\<lambda>_ _ sig. sig = fill 9),
     sd_decode_config = (\<lambda>d. if d = [1] then Some config0 else None),
     sd_decode_account = (\<lambda>d. if d = [2] then Some account1 else if d = [4] then Some account2
       else if d = [6] then Some account0 else None),
     sd_decode_request = (\<lambda>d. if d = [3] then Some request1 else if d = [5] then Some request2 else None),
     sd_base64_encode = hex_text, sd_base64_decode = hex_untext\<rparr>"

text \<open>An RPC node that shows the run before (\<open>False\<close>) or after (\<open>True\<close>) the finalization.\<close>

definition lab_rpc :: "bool \<Rightarrow> rpc" where
  "lab_rpc done s =
    (let of_program = (\<lambda>d. Ok (Some \<lparr>fa_data = [d], fa_owner = lab_text PROGRAM_ID, fa_lamports = 1\<rparr>)) in
     if s = lab_text lab_config then of_program 1
     else if s = lab_text lab_account then of_program (if done then 4 else 2)
     else if s = lab_text lab_request then of_program (if done then 5 else 3)
     else Ok None)"

lemma lab_parse_text [simp]: "lab_parse (lab_text k) = Some k"
proof -
  have "length (hex_text (raw k)) \<noteq> length ED25519_PROGRAM_ID_STR"
    by (simp add: ED25519_PROGRAM_ID_STR_def)
  then have "hex_text (raw k) \<noteq> ED25519_PROGRAM_ID_STR" by metis
  then show ?thesis
    by (simp add: lab_parse_def lab_text_def hex_untext_text)
qed

lemma lab_text_inj [simp]: "lab_text a = lab_text b \<longleftrightarrow> a = b"
  by (metis lab_parse_text option.inject)

lemma client_runtime_pda [simp]:
  "rt_find_program_address client_runtime = rt_find_program_address lab_runtime"
  "rt_create_program_address client_runtime = rt_create_program_address lab_runtime"
  "rt_sha256 client_runtime = lab_sha256"
  "rt_decode_call client_runtime = lab_decode_call"
  by (simp_all add: client_runtime_def)

lemma lab_sdk_runtime [simp]: "sd_runtime lab_sdk = client_runtime"
  by (simp add: lab_sdk_def)

lemma lab_sdk_law: "sdk_law lab_sdk"
  by (simp add: sdk_law_def address_law_def anchor_law_def ed25519_builder_law_def pda_consistent_def
      lab_sdk_def lab_decode_encode) (simp add: lab_text_def)

section \<open>The run, seen by the client\<close>

text \<open>The decoder of instruction data does not matter to what calls do.\<close>

lemma checks_client_runtime:
  "init_pda client_runtime = init_pda lab_runtime" "check_seeds client_runtime = check_seeds lab_runtime"
  by (intro ext; simp add: init_pda_def check_seeds_def del: lab_pda)+

lemma accounts_client_runtime:
  "InitializeConfig_accounts client_runtime = InitializeConfig_accounts lab_runtime"
  "CreateAccount_accounts client_runtime = CreateAccount_accounts lab_runtime"
  "Submit_accounts client_runtime = Submit_accounts lab_runtime"
  "Cancel_accounts client_runtime = Cancel_accounts lab_runtime"
  "Expire_accounts client_runtime = Expire_accounts lab_runtime"
  "Finalize_accounts client_runtime = Finalize_accounts lab_runtime"
  unfolding InitializeConfig_accounts_def CreateAccount_accounts_def Submit_accounts_def
    Cancel_accounts_def Expire_accounts_def Finalize_accounts_def fun_eq_iff checks_client_runtime
  by (intro allI refl)+

lemma run_call_client_runtime: "run_call client_runtime env L metas call = run_call lab_runtime env L metas call"
  by (cases call) (simp_all add: accounts_client_runtime)

lemma chain_step_client_runtime: "chain_step lab_runtime c d \<Longrightarrow> chain_step client_runtime c d"
  by (erule chain_step.cases) (auto intro: chain_step.intros simp: run_call_client_runtime
      simp del: run_call.simps fun_upd_apply)

lemma reachable_client_runtime: "reachable lab_runtime c \<Longrightarrow> reachable client_runtime c"
  by (induction rule: reachable.induct) (auto intro: reachable.intros chain_step_client_runtime)

definition settled_view :: ledger where
  "settled_view = pending_ledger(lab_account \<mapsto> BalanceAccount account2, lab_request \<mapsto> RequestAccount request2)"

lemma pending_ledger_cases:
  "pending_ledger k = (if k = lab_request then Some (RequestAccount request1)
     else if k = lab_account then Some (BalanceAccount account1)
     else if k = lab_config then Some (ConfigAccount config0)
     else if k = 0 then Some ForeignAccount else None)"
  by (simp add: pending_ledger_def ready_ledger_def)

lemma lab_sdk_simps:
  "sd_address_to_string lab_sdk = lab_text" "sd_address_from_str lab_sdk = lab_parse"
  "sd_decode_config lab_sdk [1] = Some config0"
  "sd_decode_account lab_sdk [2] = Some account1" "sd_decode_account lab_sdk [4] = Some account2"
  "sd_decode_account lab_sdk [6] = Some account0"
  "sd_decode_request lab_sdk [3] = Some request1" "sd_decode_request lab_sdk [5] = Some request2"
  by (simp_all add: lab_sdk_def)

lemma lab_rpc_shows: "rpc_shows lab_sdk (lab_rpc False) pending_ledger" "rpc_shows lab_sdk (lab_rpc True) settled_view"
  by (auto simp: rpc_shows_def shows_as_def lab_rpc_def pending_ledger_cases settled_view_def lab_sdk_simps Let_def
      split: if_splits)

definition parsed0 :: ParsedResultFile where
  "parsed0 =
    \<lparr>pr_result_hash = fill 30, pr_request_digest = req_request_digest request1,
     pr_result_digest = req_result_digest request2, pr_signature = fill 9, pr_operator = lab_operator,
     pr_result_type = 1, pr_circuit_id = 1\<rparr>"

definition binding1 :: ResultBinding where
  "binding1 = result_of config0 (request1\<lparr>req_result_hash := fill 30\<rparr>) lab_request"

definition prepared0 :: PreparedFinalize where
  "prepared0 =
    \<lparr>pf_request_address = lab_request, pf_config_address = lab_config, pf_account_address = lab_account,
     pf_prior_state_version = 0, pf_parsed = parsed0, pf_binding = binding1,
     pf_result_hash = fill 30, pf_result_digest = req_result_digest request2\<rparr>"

lemma lab_fetch:
  "fetch_and_verify_request lab_sdk (lab_rpc False) lab_request = Ok
     \<lparr>vr_config_address = lab_config, vr_config = config0, vr_account_address = lab_account,
      vr_account = account1, vr_request_address = lab_request, vr_request = request1,
      vr_binding = request_binding config0 request1 lab_request\<rparr>"
  by (rule fetch_verified [of lab_sdk pending_chain lab_request request1 "lab_rpc False"])
    (use reachable_client_runtime [OF pending_reachable] lab_rpc_shows(1) in
      \<open>auto simp: pending_chain_def\<close>)

lemma lab_prepare: "prepare_finalize lab_sdk (lab_rpc False) lab_request None parsed0 = Ok prepared0"
proof -
  have b: "result_binding_from_authoritative lab_sdk (request_binding config0 request1 lab_request) parsed0 = binding1"
    using request_digest0
    by (simp add: result_binding_from_authoritative_def binding1_def result_of_def parsed0_def
        request_binding_def config0_def RESULT_TYPE_FHE_BOOL_def)
  have d: "result_digest lab_sha256 binding1 = req_result_digest request2"
    by (simp add: request2_def finalized_def finalize_binding0 binding1_def)
  have "validate_finalize_consistency lab_sdk
     \<lparr>vr_config_address = lab_config, vr_config = config0, vr_account_address = lab_account,
      vr_account = account1, vr_request_address = lab_request, vr_request = request1,
      vr_binding = request_binding config0 request1 lab_request\<rparr> None parsed0 = Ok binding1"
    using d by (simp add: validate_finalize_Ok b) (simp add: parsed0_def config0_def lab_sdk_def RESULT_TYPE_FHE_BOOL_def)
  then show ?thesis
    using d by (simp add: prepare_finalize_def lab_fetch) (simp add: prepared0_def parsed0_def config0_def)
qed

end
