(* ===== verification/Reads.thy ===== *)
theory Reads
  imports Decode
begin

text \<open>
  Reads at different times. \<open>fetch_and_verify_request\<close> (\<open>crates/client/src/devnet/decode.rs\<close>)
  asks the RPC node three times, for the request, its configuration and its account, and the
  chain goes on in between. This theory states what such a reading sees and when the client's
  checks accept it.
\<close>

text \<open>The node shows the request at the first of three states of one history, the configuration
  at the second and the account at the third.\<close>

definition reads_over :: "Sdk \<Rightarrow> rpc \<Rightarrow> pubkey \<Rightarrow> Chain \<Rightarrow> Chain \<Rightarrow> Chain \<Rightarrow> bool" where
  "reads_over sd rpc rk first second third \<longleftrightarrow>
     leads_to (sd_runtime sd) first second \<and> leads_to (sd_runtime sd) second third \<and>
     (\<forall>r. ch_ledger first rk = Some (RequestAccount r) \<longrightarrow>
        shows_as sd (sd_decode_request sd) rpc rk r \<and>
        (\<forall>c. ch_ledger second (req_config r) = Some (ConfigAccount c) \<longrightarrow>
           shows_as sd (sd_decode_config sd) rpc (req_config r) c) \<and>
        (\<forall>a. ch_ledger third (req_confidential_account r) = Some (BalanceAccount a) \<longrightarrow>
           shows_as sd (sd_decode_account sd) rpc (req_confidential_account r) a))"

lemma reads_at_once: "rpc_shows sd rpc (ch_ledger ch) \<Longrightarrow> reads_over sd rpc rk ch ch ch"
  by (simp add: reads_over_def rpc_shows_def leads_to_refl)

lemma leads_to_trans: "leads_to rt c d \<Longrightarrow> leads_to rt d e \<Longrightarrow> leads_to rt c e"
  by (simp add: leads_to_def)

lemma reads_reached:
  assumes "reachable (sd_runtime sd) first" and "reads_over sd rpc rk first second third"
  shows "reachable (sd_runtime sd) second" "reachable (sd_runtime sd) third"
    "leads_to (sd_runtime sd) second third" "leads_to (sd_runtime sd) first second"
  using assms by (auto simp: reads_over_def intro: reachable_leads_to)

text \<open>The operator epoch of the configuration read is at least that of the request.\<close>

lemma reads_epoch:
  assumes "reachable (sd_runtime sd) first" and "ch_ledger first rk = Some (RequestAccount r)"
    and "reads_over sd rpc rk first second third" and "ch_ledger second (req_config r) = Some (ConfigAccount c)"
  shows "req_operator_epoch r \<le> cfg_operator_epoch c"
proof -
  obtain c0 where c0: "ch_ledger first (req_config r) = Some (ConfigAccount c0)"
      "req_operator_epoch r \<le> cfg_operator_epoch c0"
    using reachable_entry(3) [OF assms(1,2)] by (auto simp: request_ok_def request_of_def)
  have "config_evolves c0 c"
    using ledger_evolvesD(1) [OF leads_to_evolves [OF reads_reached(4) [OF assms(1,3)] assms(1)] c0(1)] assms(4)
    by auto
  then show ?thesis using c0(2) by (auto simp: config_evolves_def intro: order_trans)
qed

text \<open>What a request is at two moments, it was in between.\<close>

lemma request_between:
  assumes "reachable rt c" and "leads_to rt c d" and "leads_to rt d e"
    and "ch_ledger c rk = Some (RequestAccount r)" and "ch_ledger e rk = Some (RequestAccount r)"
  shows "ch_ledger d rk = Some (RequestAccount r)"
proof -
  obtain x where x: "ch_ledger d rk = Some (RequestAccount x)" "request_evolves r x"
    using ledger_evolvesD(3) [OF leads_to_evolves [OF assms(2,1)] assms(4)] by blast
  have "request_evolves x r"
    using ledger_evolvesD(3) [OF leads_to_evolves [OF assms(3) reachable_leads_to [OF assms(2,1)]] x(1)] assms(5)
    by auto
  then have "x = r" using x(2) by (auto simp: request_evolves_def closed_at_def status_defs)
  then show ?thesis using x(1) by simp
qed

lemma fetch_as:
  "shows_as sd (sd_decode_config sd) rpc k c \<Longrightarrow> fetch_config sd rpc k = Ok c"
  "shows_as sd (sd_decode_account sd) rpc k a \<Longrightarrow> fetch_account sd rpc k = Ok a"
  "shows_as sd (sd_decode_request sd) rpc k r \<Longrightarrow> fetch_request_raw sd rpc k = Ok r"
  by (auto simp: shows_as_def fetch_config_def fetch_account_def fetch_request_raw_def fetch_and_decode_Ok)

text \<open>Everything the client demands but the lock survives any course of the chain.\<close>

lemma trusted_later:
  assumes "trusted sd rk r ck c ak a" and "config_evolves c c'" and "account_evolves a a'"
    and "req_status r = STATUS_PENDING \<Longrightarrow> acc_pending_request a' = rk \<and>
      acc_request_nonce a' = req_request_nonce r \<and> acc_state_version a' = req_state_version r"
  shows "trusted sd rk r ck c' ak a'"
  using assms request_binding_config [OF assms(2), of r rk]
  by (auto simp: trusted_def config_evolves_def account_evolves_def)

text \<open>A request that was pending and has been closed no longer holds its account.\<close>

lemma closed_releases:
  assumes "reachable rt ch" and "ch_ledger ch rk = Some (RequestAccount r')" and "req_status r' \<noteq> STATUS_PENDING"
    and "ch_ledger ch ak = Some (BalanceAccount a)"
  shows "acc_pending_request a \<noteq> rk"
proof
  assume held: "acc_pending_request a = rk"
  have "rk \<noteq> 0" using reachable_system_program [OF assms(1)] assms(2) by auto
  then show False
    using locks_okD(2) [OF reachable_locks [OF assms(1)] assms(4)] held assms(2,3)
    by (simp add: has_pending_def)
qed

text \<open>Had the lock been in place, the checks would have passed: so a missing lock is what they report.\<close>

lemma verify_lost_lock:
  assumes "trusted sd rk r ck c ak (a\<lparr>acc_pending_request := rk, acc_request_nonce := req_request_nonce r,
      acc_state_version := req_state_version r\<rparr>)"
    and "req_status r = STATUS_PENDING" and "acc_pending_request a \<noteq> rk"
  shows "verify_request_accounts sd rk r ck c ak a = Err (ChainFailed (NotMatching ''pending account.pending_request''))"
  using assms by (auto simp: trusted_def verify_request_accounts_def require_eq_address_def)

lemma closed_refused:
  assumes "trusted sd rk r ck c0 ak a0" and "config_evolves c0 c" and "account_evolves a0 a"
    and "request_evolves r r'" and "r' \<noteq> r" and "reachable (sd_runtime sd) ch"
    and "ch_ledger ch rk = Some (RequestAccount r')" and "ch_ledger ch ak = Some (BalanceAccount a)"
  shows "verify_request_accounts sd rk r ck c ak a = Err (ChainFailed (NotMatching ''pending account.pending_request''))"
proof (rule verify_lost_lock)
  have "req_status r = STATUS_PENDING" "req_status r' \<noteq> STATUS_PENDING"
    using assms(4,5) by (auto simp: request_evolves_def closed_at_def status_defs)
  then show "req_status r = STATUS_PENDING" "acc_pending_request a \<noteq> rk"
    using closed_releases [OF assms(6,7) _ assms(8)] by simp_all
  show "trusted sd rk r ck c ak (a\<lparr>acc_pending_request := rk, acc_request_nonce := req_request_nonce r,
      acc_state_version := req_state_version r\<rparr>)"
    using assms(1-3) request_binding_config [OF assms(2), of r rk]
    by (auto simp: trusted_def config_evolves_def account_evolves_def)
qed

text \<open>The fetch over three states.\<close>

lemma fetch_over:
  assumes "reachable (sd_runtime sd) first" and "ch_ledger first rk = Some (RequestAccount r)"
    and "reads_over sd rpc rk first second third"
  obtains a c r' where "ch_ledger third (req_confidential_account r) = Some (BalanceAccount a)"
    "ch_ledger second (req_config r) = Some (ConfigAccount c)"
    "ch_ledger third rk = Some (RequestAccount r')" "request_evolves r r'"
    "r' = r \<Longrightarrow> trusted sd rk r (req_config r) c (req_confidential_account r) a"
    "fetch_and_verify_request sd rpc rk =
       (if r' = r then Ok \<lparr>vr_config_address = req_config r, vr_config = c,
          vr_account_address = req_confidential_account r, vr_account = a,
          vr_request_address = rk, vr_request = r, vr_binding = request_binding c r rk\<rparr>
        else Err (ChainFailed (NotMatching ''pending account.pending_request'')))"
proof -
  note reached = reads_reached [OF assms(1,3)]
  note step = ledger_evolvesD [OF leads_to_evolves [OF reached(4) assms(1)]]
    ledger_evolvesD [OF leads_to_evolves [OF reached(3,1)]]
  obtain a0 c0 where a0: "ch_ledger first (req_confidential_account r) = Some (BalanceAccount a0)"
    and c0: "ch_ledger first (req_config r) = Some (ConfigAccount c0)"
    and ok: "trusted sd rk r (req_config r) c0 (req_confidential_account r) a0"
    by (rule reachable_trusted [OF assms(1,2)])
  obtain c where c: "ch_ledger second (req_config r) = Some (ConfigAccount c)" "config_evolves c0 c"
    using step(1) [OF c0] by blast
  obtain a1 where a1: "ch_ledger second (req_confidential_account r) = Some (BalanceAccount a1)" "account_evolves a0 a1"
    using step(2) [OF a0] by blast
  obtain a where a: "ch_ledger third (req_confidential_account r) = Some (BalanceAccount a)" "account_evolves a1 a"
    using step(5) [OF a1(1)] by blast
  obtain r1 where r1: "ch_ledger second rk = Some (RequestAccount r1)" "request_evolves r r1"
    using step(3) [OF assms(2)] by blast
  obtain r' where r': "ch_ledger third rk = Some (RequestAccount r')" "request_evolves r1 r'"
    using step(6) [OF r1(1)] by blast
  have aa: "account_evolves a0 a" using a1(2) a(2) by (rule account_evolves_trans)
  have rr: "request_evolves r r'" using r1(2) r'(2) by (rule request_evolves_trans)
  have read: "fetch_request_raw sd rpc rk = Ok r" "fetch_config sd rpc (req_config r) = Ok c"
      "fetch_account sd rpc (req_confidential_account r) = Ok a"
    using assms(2,3) a(1) c(1) by (auto simp: reads_over_def fetch_as)
  have held: "trusted sd rk r (req_config r) c (req_confidential_account r) a" if "r' = r"
    using trusted_later [OF ok c(2) aa] locks_okD(3) [OF reachable_locks [OF reached(2)] r'(1) _ ] a(1) that by blast
  have "verify_request_accounts sd rk r (req_config r) c (req_confidential_account r) a
      = Err (ChainFailed (NotMatching ''pending account.pending_request''))" if "r' \<noteq> r"
    using closed_refused [OF ok c(2) aa rr that reached(2) r'(1) a(1)] .
  then have "fetch_and_verify_request sd rpc rk =
       (if r' = r then Ok \<lparr>vr_config_address = req_config r, vr_config = c,
          vr_account_address = req_confidential_account r, vr_account = a,
          vr_request_address = rk, vr_request = r, vr_binding = request_binding c r rk\<rparr>
        else Err (ChainFailed (NotMatching ''pending account.pending_request'')))"
    using held by (auto simp: fetch_and_verify_request_def Let_def read verify_request_accounts_Ok [THEN iffD2])
  then show thesis using that [OF a(1) c(1) r'(1) rr held] by blast
qed

text \<open>What an accepted reading has seen.\<close>

lemma fetch_over_Ok:
  assumes "reachable (sd_runtime sd) first" and "ch_ledger first rk = Some (RequestAccount r)"
    and "reads_over sd rpc rk first second third" and "fetch_and_verify_request sd rpc rk = Ok v"
  obtains a c where "ch_ledger third (req_confidential_account r) = Some (BalanceAccount a)"
    "ch_ledger second (req_config r) = Some (ConfigAccount c)"
    "ch_ledger third rk = Some (RequestAccount r)"
    "trusted sd rk r (req_config r) c (req_confidential_account r) a"
    "v = \<lparr>vr_config_address = req_config r, vr_config = c,
          vr_account_address = req_confidential_account r, vr_account = a,
          vr_request_address = rk, vr_request = r, vr_binding = request_binding c r rk\<rparr>"
  by (rule fetch_over [OF assms(1-3)]) (use assms(4) that in \<open>auto split: if_splits\<close>)

end
