(* ===== verification/Settlement.thy ===== *)
theory Settlement
  imports ClientScenario Reads
begin

text \<open>
  The parts together: the client's reading of a request agrees with the chain, what the client
  has prepared is what the program accepts, what it reports as done is done, and a request that
  the worker has evaluated settles on chain with the worker's result.
\<close>

lemma coordinator_is_not_ed25519: "PROGRAM_ID \<noteq> ED25519_PROGRAM_ID"
  by code_simp

section \<open>The prepared pair\<close>

lemma instructions_for_payer_Ok:
  assumes "sdk_law sd"
  shows "instructions_for_payer sd p payer = Ok (finalize_ixs_with_signature sd payer
    (pf_config_address p) (pf_account_address p) (pf_request_address p)
    (pr_operator (pf_parsed p)) (pr_signature (pf_parsed p)) (pf_binding p))"
proof -
  have laws: "address_law sd" "ed25519_builder_law sd" using assms by (simp_all add: sdk_law_def)
  then have "sd_address_to_string sd PROGRAM_ID \<noteq> ED25519_PROGRAM_ID_STR"
    using to_string_inj [OF laws(1), of PROGRAM_ID ED25519_PROGRAM_ID] coordinator_is_not_ed25519
    by (simp add: address_law_def)
  then show ?thesis
    using laws by (simp add: instructions_for_payer_def Let_def finalize_ixs_with_signature_def
        require_ed25519_immediately_before_finalize_def ed25519_builder_law_def finalize_ix_def
        program_ix_def require_ed25519_immediately_before_finalize_ids_def address_law_def)
qed

text \<open>The three accounts of a finalization, as the ledger holds them.\<close>

definition settling :: "Runtime \<Rightarrow> ledger \<Rightarrow> pubkey \<Rightarrow> Request \<Rightarrow> ConfidentialAccount \<Rightarrow> Config \<Rightarrow> bool" where
  "settling rt L rk r a c \<longleftrightarrow>
     L rk = Some (RequestAccount r) \<and> L (req_confidential_account r) = Some (BalanceAccount a) \<and>
     L (req_config r) = Some (ConfigAccount c) \<and>
     request_of rt rk r a c \<and>
     rt_find_program_address rt (config_seeds (cfg_mint c)) ID = (req_config r, cfg_bump c) \<and>
     rt_find_program_address rt (account_seeds (cfg_mint c) (acc_owner a)) ID
       = (req_confidential_account r, acc_bump a) \<and>
     rt_find_program_address rt (request_seeds (req_confidential_account r) (req_request_nonce r)) ID
       = (rk, req_bump r)"

lemma reachable_settling:
  assumes "reachable rt ch" and "ch_ledger ch rk = Some (RequestAccount r)"
    and "ch_ledger ch (req_confidential_account r) = Some (BalanceAccount a)"
    and "ch_ledger ch (req_config r) = Some (ConfigAccount c)"
  shows "settling rt (ch_ledger ch) rk r a c"
proof -
  have r: "request_ok rt (ch_ledger ch) rk r" using reachable_entry(3) [OF assms(1,2)] .
  then have "request_of rt rk r a c" using assms(3,4) by (auto simp: request_ok_def)
  then show ?thesis
    using assms r reachable_entry(1) [OF assms(1,4)] reachable_entry(2) [OF assms(1,3)]
    by (simp add: settling_def request_of_def config_ok_def account_ok_def request_ok_def)
qed

section \<open>The pair on chain\<close>

definition settled :: "Sdk \<Rightarrow> Request \<Rightarrow> ResultBinding \<Rightarrow> Request" where
  "settled sd r b = r\<lparr>req_status := STATUS_FINALIZED, req_result_hash := rs_result_hash b,
     req_result_digest := result_digest (rt_sha256 (sd_runtime sd)) b\<rparr>"

definition settled_ledger ::
    "Sdk \<Rightarrow> ledger \<Rightarrow> pubkey \<Rightarrow> Request \<Rightarrow> ConfidentialAccount \<Rightarrow> ResultBinding \<Rightarrow> ledger" where
  "settled_ledger sd L rk r a b =
     L(req_confidential_account r \<mapsto> BalanceAccount (unlocked a), rk \<mapsto> RequestAccount (settled sd r b))"

text \<open>A result binding made for a request as the chain holds it.\<close>

definition binds :: "Config \<Rightarrow> Request \<Rightarrow> pubkey \<Rightarrow> ResultBinding \<Rightarrow> bool" where
  "binds c r rk b \<longleftrightarrow> rs_request b = request_binding c r rk \<and>
     rs_request_digest b = req_request_digest r \<and>
     rs_result_type b = RESULT_TYPE_FHE_BOOL \<and> rs_circuit_id b = cfg_circuit_id c"

definition pair_for ::
    "Sdk \<Rightarrow> pubkey \<Rightarrow> Config \<Rightarrow> Request \<Rightarrow> pubkey \<Rightarrow> bytes64 \<Rightarrow> ResultBinding \<Rightarrow> Instruction list" where
  "pair_for sd payer c r rk sig b = finalize_ixs_with_signature sd payer (req_config r)
     (req_confidential_account r) rk (cfg_operator c) sig b"

lemma pair_second:
  "pair_for sd payer c r rk sig b ! 1
     = finalize_ix sd payer (req_config r) (req_confidential_account r) rk b"
  by (simp add: pair_for_def finalize_ixs_with_signature_def Let_def)

definition pair_ctx ::
    "Sdk \<Rightarrow> pubkey \<Rightarrow> Request \<Rightarrow> pubkey \<Rightarrow> ConfidentialAccount \<Rightarrow> Config \<Rightarrow> Instruction list \<Rightarrow> FinalizeCtx" where
  "pair_ctx sd payer r rk a c ixs =
     \<lparr>fnx_config_key = req_config r, fnx_config = c,
      fnx_account_key = req_confidential_account r, fnx_account = a,
      fnx_request_key = rk, fnx_request = r, fnx_instructions = tx_sysvar ixs 1\<rparr>"

lemma pair_accounts:
  assumes "sdk_law sd" and "settling (sd_runtime sd) L rk r a c"
  shows "Finalize_accounts (sd_runtime sd) (tx_env s ixs 1) L
     (Finalize_metas payer (req_config r) (req_confidential_account r) rk INSTRUCTIONS_ID)
     = Ok (pair_ctx sd payer r rk a c ixs)"
proof -
  have seeds: "check_seeds (sd_runtime sd) (config_seeds (cfg_mint c)) (cfg_bump c) (meta False False (req_config r)) = Ok ()"
    "check_seeds (sd_runtime sd) (account_seeds (cfg_mint c) (acc_owner a)) (acc_bump a)
       (meta False True (req_confidential_account r)) = Ok ()"
    "check_seeds (sd_runtime sd) (request_seeds (req_confidential_account r) (req_request_nonce r)) (req_bump r)
       (meta False True rk) = Ok ()"
    using assms by (auto simp: settling_def sdk_law_def intro!: check_seeds_found)
  show ?thesis
    using assms(2) seeds
    by (simp add: Finalize_accounts_def Finalize_metas_def settling_def request_of_def load_defs
        check_signer_def check_mut_def pair_ctx_def tx_env_def require_def)
qed

lemma pair_binding:
  assumes "binds c r rk b"
  shows "result_binding (pair_ctx sd payer r rk a c ixs)
     \<lparr>fna_result_hash = rs_result_hash b, fna_result_type = rs_result_type b, fna_circuit_id = rs_circuit_id b\<rparr> = b"
  using assms by (cases b) (simp add: result_binding_def pair_ctx_def binds_def)

lemma pair_attested:
  assumes "sdk_law sd" and "binds c r rk b"
  shows "verify_operator_message (tx_sysvar (pair_for sd payer c r rk sig b) 1) (cfg_operator c)
     (encode_result b) = Ok ()"
  using pair_attests assms(1) by (simp add: pair_for_def sdk_law_def)

text \<open>What still has to hold on chain when the pair runs.\<close>

definition may_settle :: "u64 \<Rightarrow> Config \<Rightarrow> Request \<Rightarrow> ResultBinding \<Rightarrow> bool" where
  "may_settle s c r b \<longleftrightarrow> \<not> cfg_paused c \<and> s < req_expiry_slot r \<and>
     req_operator_epoch r = cfg_operator_epoch c \<and> req_key_version r = cfg_key_version c \<and>
     rs_result_hash b \<noteq> 0"

lemma pair_ctx_simps:
  "fnx_config_key (pair_ctx sd payer r rk a c ixs) = req_config r"
  "fnx_config (pair_ctx sd payer r rk a c ixs) = c"
  "fnx_account_key (pair_ctx sd payer r rk a c ixs) = req_confidential_account r"
  "fnx_account (pair_ctx sd payer r rk a c ixs) = a"
  "fnx_request_key (pair_ctx sd payer r rk a c ixs) = rk"
  "fnx_request (pair_ctx sd payer r rk a c ixs) = r"
  "fnx_instructions (pair_ctx sd payer r rk a c ixs) = tx_sysvar ixs 1"
  by (simp_all add: pair_ctx_def)

abbreviation finalize_args :: "ResultBinding \<Rightarrow> FinalizeArgs" where
  "finalize_args b \<equiv> \<lparr>fna_result_hash = rs_result_hash b, fna_result_type = rs_result_type b,
     fna_circuit_id = rs_circuit_id b\<rparr>"

lemma pair_ready:
  assumes "request_of rt rk r a c" and "binds c r rk b"
    and "acc_request_nonce a = req_request_nonce r" and "acc_state_version a = req_state_version r"
  shows "finalize_ready (pair_ctx sd payer r rk a c ixs) (finalize_args b) \<longleftrightarrow>
    req_operator_epoch r = cfg_operator_epoch c \<and> req_key_version r = cfg_key_version c \<and>
    rs_result_hash b \<noteq> 0"
  using assms by (simp add: finalize_ready_def Let_def pair_ctx_simps request_of_def binds_def)

lemma pair_finalizes:
  assumes "sdk_law sd" and "request_of (sd_runtime sd) rk r a c" and "binds c r rk b"
    and "pending_lock a (req_confidential_account r) r rk" and "version_room a"
    and "acc_request_nonce a = req_request_nonce r" and "acc_state_version a = req_state_version r"
    and "ixs = pair_for sd payer c r rk sig b"
  shows "finalize (rt_sha256 (sd_runtime sd)) s (pair_ctx sd payer r rk a c ixs) (finalize_args b) = Ok (a', r')
     \<longleftrightarrow> may_settle s c r b \<and> a' = unlocked a \<and> r' = settled sd r b"
proof -
  have attested: "verify_operator_message (tx_sysvar ixs 1) (cfg_operator c) (encode_result b) = Ok ()"
    using pair_attested [OF assms(1,3)] assms(8) by simp
  have digest: "request_digest (rt_sha256 (sd_runtime sd)) (request_binding c r rk) = req_request_digest r"
    using assms(2) by (simp add: request_of_def)
  have fin: "finalized (rt_sha256 (sd_runtime sd)) (pair_ctx sd payer r rk a c ixs) (finalize_args b) = settled sd r b"
    by (simp add: finalized_def pair_binding [OF assms(3)] settled_def) (simp add: pair_ctx_simps)
  show ?thesis
    unfolding finalize_Ok pair_binding [OF assms(3)] pair_ready [OF assms(2,3,6,7)] fin pair_ctx_simps
    using attested digest assms(4,5) by (auto simp: may_settle_def)
qed

lemma pair_runs:
  assumes "sdk_law sd" and "settling (sd_runtime sd) L rk r a c" and "binds c r rk b"
    and "pending_lock a (req_confidential_account r) r rk" and "version_room a"
    and "acc_request_nonce a = req_request_nonce r" and "acc_state_version a = req_state_version r"
    and "ixs = pair_for sd payer c r rk sig b"
  shows "process_instruction (sd_runtime sd) (tx_env s ixs 1) L (ixs ! 1) = Ok L' \<longleftrightarrow>
     may_settle s c r b \<and> L' = settled_ledger sd L rk r a b"
proof -
  have of: "request_of (sd_runtime sd) rk r a c" using assms(2) by (simp add: settling_def)
  have "process_instruction (sd_runtime sd) (tx_env s ixs 1) L (ixs ! 1) =
    run_call (sd_runtime sd) (tx_env s ixs 1) L
      (Finalize_metas payer (req_config r) (req_confidential_account r) rk INSTRUCTIONS_ID)
      (FinalizeCall (finalize_args b))"
    unfolding assms(8) pair_second finalize_ix_def
    using assms(1) by (intro process_built) (simp add: sdk_law_def)
  moreover have "env_slot (tx_env s ixs 1) = s" by (simp add: tx_env_def)
  ultimately show ?thesis
    using pair_finalizes [OF assms(1) of assms(3-8)]
    by (auto simp: pair_accounts [OF assms(1,2)] and_then_eq_Ok pair_ctx_simps settled_ledger_def
        simp del: One_nat_def)
qed

lemma pair_needs:
  assumes "sdk_law sd" and "settling (sd_runtime sd) L rk r a c" and "rs_request_digest b = req_request_digest r"
    and "ixs = finalize_ixs_with_signature sd payer (req_config r) (req_confidential_account r) rk operator sig b"
    and "process_instruction (sd_runtime sd) (tx_env s ixs 1) L (ixs ! 1) = Ok L'"
  shows "may_settle s c r b"
proof -
  have "ixs ! 1 = finalize_ix sd payer (req_config r) (req_confidential_account r) rk b"
    by (simp add: assms(4) finalize_ixs_with_signature_def Let_def)
  moreover have "anchor_law sd" using assms(1) by (simp add: sdk_law_def)
  ultimately have "run_call (sd_runtime sd) (tx_env s ixs 1) L
      (Finalize_metas payer (req_config r) (req_confidential_account r) rk INSTRUCTIONS_ID)
      (FinalizeCall (finalize_args b)) = Ok L'"
    using assms(5) unfolding finalize_ix_def by (metis process_built)
  moreover have "env_slot (tx_env s ixs 1) = s" by (simp add: tx_env_def)
  ultimately have "\<exists>a' r'. finalize (rt_sha256 (sd_runtime sd)) s (pair_ctx sd payer r rk a c ixs) (finalize_args b) = Ok (a', r')"
    by (auto simp: pair_accounts [OF assms(1,2)] and_then_eq_Ok simp del: One_nat_def)
  then show ?thesis
    by (auto simp: finalize_Ok pair_ctx_simps finalize_ready_def Let_def may_settle_def)
qed

section \<open>What is prepared\<close>

lemma prepare_Ok:
  assumes "reachable (sd_runtime sd) ch" and "ch_ledger ch rk = Some (RequestAccount r)"
    and "reads_over sd rpc rk ch ch2 ch3" and "prepare_finalize sd rpc rk cached parsed = Ok p"
  obtains a c where "ch_ledger ch3 (req_confidential_account r) = Some (BalanceAccount a)"
    "ch_ledger ch2 (req_config r) = Some (ConfigAccount c)"
    "ch_ledger ch3 rk = Some (RequestAccount r)"
    "req_status r = STATUS_PENDING" "binds c r rk (pf_binding p)"
    "pf_parsed p = parsed" "pr_operator parsed = cfg_operator c"
    "pf_request_address p = rk" "pf_config_address p = req_config r"
    "pf_account_address p = req_confidential_account r"
    "pf_prior_state_version p = acc_state_version a"
    "pf_result_hash p = rs_result_hash (pf_binding p)"
    "pf_result_digest p = result_digest (rt_sha256 (sd_runtime sd)) (pf_binding p)"
proof -
  obtain v where "fetch_and_verify_request sd rpc rk = Ok v"
    using assms(4) by (auto simp: prepare_finalize_def and_then_eq_Ok)
  from fetch_over_Ok [OF assms(1-3) this] this
  obtain a c where a: "ch_ledger ch3 (req_confidential_account r) = Some (BalanceAccount a)"
    and c: "ch_ledger ch2 (req_config r) = Some (ConfigAccount c)"
    and r3: "ch_ledger ch3 rk = Some (RequestAccount r)"
    and trust: "trusted sd rk r (req_config r) c (req_confidential_account r) a"
    and v: "fetch_and_verify_request sd rpc rk = Ok
       \<lparr>vr_config_address = req_config r, vr_config = c,
        vr_account_address = req_confidential_account r, vr_account = a,
        vr_request_address = rk, vr_request = r, vr_binding = request_binding c r rk\<rparr>"
    by metis
  have digest: "request_digest (rt_sha256 (sd_runtime sd)) (request_binding c r rk) = req_request_digest r"
    using trust unfolding trusted_def by blast
  show thesis
    using assms(4) digest
    by (intro that [OF a c r3])
      (auto simp: prepare_finalize_def v and_then_eq_Ok validate_finalize_Ok binds_def
        result_binding_from_authoritative_def split: if_splits)
qed

lemma pending_held:
  assumes "reachable rt ch" and "ch_ledger ch rk = Some (RequestAccount r)" and "req_status r = STATUS_PENDING"
    and "ch_ledger ch (req_confidential_account r) = Some (BalanceAccount a)"
  shows "pending_lock a (req_confidential_account r) r rk" "version_room a"
    "acc_request_nonce a = req_request_nonce r" "acc_state_version a = req_state_version r"
proof -
  have "acc_pending_request a = rk \<and> acc_request_nonce a = req_request_nonce r \<and>
      acc_state_version a = req_state_version r"
    using locks_okD(3) [OF reachable_locks [OF assms(1)] assms(2-4)] .
  moreover have "rk \<noteq> 0" using reachable_system_program [OF assms(1)] assms(2) by auto
  ultimately show "pending_lock a (req_confidential_account r) r rk" "version_room a"
    "acc_request_nonce a = req_request_nonce r" "acc_state_version a = req_state_version r"
    using assms(3) pending_version_room [OF assms(1,4)]
    by (simp_all add: pending_lock_def has_pending_def)
qed

text \<open>A pair made for an earlier operator runs exactly when the request may settle: then the operator
  is still the same.\<close>

lemma earlier_pair_runs:
  assumes "sdk_law sd" and "settling (sd_runtime sd) L rk r a c'" and "binds c' r rk b"
    and "pending_lock a (req_confidential_account r) r rk" and "version_room a"
    and "acc_request_nonce a = req_request_nonce r" and "acc_state_version a = req_state_version r"
    and "config_evolves c c'" and "req_operator_epoch r \<le> cfg_operator_epoch c"
    and "ixs = finalize_ixs_with_signature sd payer (req_config r) (req_confidential_account r) rk (cfg_operator c) sig b"
  shows "process_instruction (sd_runtime sd) (tx_env s ixs 1) L (ixs ! 1) = Ok L' \<longleftrightarrow>
    may_settle s c' r b \<and> L' = settled_ledger sd L rk r a b"
proof (cases "may_settle s c' r b")
  case True
  then have "cfg_operator c' = cfg_operator c"
    using assms(8,9) by (auto simp: may_settle_def config_evolves_def)
  then have "ixs = pair_for sd payer c' r rk sig b"
    by (simp add: assms(10) pair_for_def)
  then show ?thesis using pair_runs [OF assms(1-7)] by blast
next
  case False
  then show ?thesis
    using pair_needs [OF assms(1,2) _ assms(10)] assms(3) by (auto simp: binds_def)
qed

text \<open>Between preparation and delivery the chain moves on; the prepared pair stays right.\<close>

lemma prepared_later:
  assumes "sdk_law sd" and "reachable (sd_runtime sd) ch" and "ch_ledger ch rk = Some (RequestAccount r)"
    and "reads_over sd rpc rk ch ch2 ch3" and "prepare_finalize sd rpc rk cached parsed = Ok p"
    and "leads_to (sd_runtime sd) ch3 later" and "ch_ledger later rk = Some (RequestAccount r)"
    and "ch_ledger later (req_config r) = Some (ConfigAccount c')"
    and "instructions_for_payer sd p payer = Ok ixs"
  obtains a where "ch_ledger later (req_confidential_account r) = Some (BalanceAccount a)"
    "pf_prior_state_version p = acc_state_version a" "version_room a" "binds c' r rk (pf_binding p)"
    "\<And>s L'. process_instruction (sd_runtime sd) (tx_env s ixs 1) (ch_ledger later) (ixs ! 1) = Ok L' \<longleftrightarrow>
       may_settle s c' r (pf_binding p) \<and> L' = settled_ledger sd (ch_ledger later) rk r a (pf_binding p)"
proof -
  let ?rt = "sd_runtime sd" and ?L = "ch_ledger later"
  obtain a0 c where a0: "ch_ledger ch3 (req_confidential_account r) = Some (BalanceAccount a0)"
    and c: "ch_ledger ch2 (req_config r) = Some (ConfigAccount c)"
    and r3: "ch_ledger ch3 rk = Some (RequestAccount r)"
    and pending: "req_status r = STATUS_PENDING" and binds: "binds c r rk (pf_binding p)"
    and parsed: "pf_parsed p = parsed" "pr_operator parsed = cfg_operator c"
    and keys: "pf_request_address p = rk" "pf_config_address p = req_config r"
      "pf_account_address p = req_confidential_account r"
    and prior: "pf_prior_state_version p = acc_state_version a0"
    using prepare_Ok [OF assms(2-5)] by metis
  note reached = reads_reached [OF assms(2,4)]
  have later: "reachable ?rt later" using assms(6) reached(2) by (rule reachable_leads_to)
  note evolves = ledger_evolvesD [OF leads_to_evolves [OF assms(6) reached(2)]]
  obtain a where a: "?L (req_confidential_account r) = Some (BalanceAccount a)"
    using evolves(2) [OF a0] by blast
  have cc': "config_evolves c c'"
    using ledger_evolvesD(1) [OF leads_to_evolves [OF leads_to_trans [OF reached(3) assms(6)] reached(1)] c] assms(8)
    by auto
  have held: "pending_lock a (req_confidential_account r) r rk" "version_room a"
      "acc_request_nonce a = req_request_nonce r" "acc_state_version a = req_state_version r"
    using pending_held [OF later assms(7) pending a] by blast+
  have settling: "settling ?rt ?L rk r a c'"
    using reachable_settling [OF later assms(7) a assms(8)] .
  have binds': "binds c' r rk (pf_binding p)"
    using binds cc' request_binding_config [OF cc'] by (simp add: binds_def config_evolves_def)
  have ixs: "ixs = finalize_ixs_with_signature sd payer (req_config r) (req_confidential_account r) rk
      (cfg_operator c) (pr_signature parsed) (pf_binding p)"
    using assms(9) instructions_for_payer_Ok [OF assms(1), of p payer] keys parsed by simp
  note runs = earlier_pair_runs [OF assms(1) settling binds' held cc' reads_epoch [OF assms(2,3,4) c] ixs]
  have "acc_state_version a0 = acc_state_version a"
    using pending_held(4) [OF reached(2) r3 pending a0] held(4) by simp
  then show thesis using that [OF a _ held(2) binds' runs] prior by simp
qed

lemma prepared_config:
  assumes "reachable (sd_runtime sd) ch" and "ch_ledger ch rk = Some (RequestAccount r)"
    and "reads_over sd rpc rk ch ch2 ch3" and "prepare_finalize sd rpc rk cached parsed = Ok p"
    and "leads_to (sd_runtime sd) ch3 later"
  shows "\<exists>cf. ch_ledger later (req_config r) = Some (ConfigAccount cf)"
proof -
  obtain c where c: "ch_ledger ch2 (req_config r) = Some (ConfigAccount c)"
    using prepare_Ok [OF assms(1-4)] by metis
  note reached = reads_reached [OF assms(1,3)]
  show ?thesis
    using ledger_evolvesD(1) [OF leads_to_evolves [OF leads_to_trans [OF reached(3) assms(5)] reached(1)] c] by blast
qed

section \<open>Reading a request\<close>

text \<open>
  C19: what the client makes of a request while the chain goes on between its three reads. For
  any request on a reachable ledger, with the configuration read in a later state and the
  account in a still later one, the fetch succeeds, with the binding the program itself computes
  and the digest it stored, whatever has happened to the three accounts; the only exception is a
  request that was closed between the first read and the last, which the checks refuse for its
  lost lock.
\<close>

theorem interleaved_fetch_exact:
  assumes "reachable (sd_runtime sd) first" and "ch_ledger first rk = Some (RequestAccount r)"
    and "reads_over sd rpc rk first second third"
  shows "\<exists>c a. ch_ledger second (req_config r) = Some (ConfigAccount c) \<and>
    ch_ledger third (req_confidential_account r) = Some (BalanceAccount a) \<and>
    request_digest (rt_sha256 (sd_runtime sd)) (request_binding c r rk) = req_request_digest r \<and>
    fetch_and_verify_request sd rpc rk =
      (if ch_ledger third rk = Some (RequestAccount r)
       then Ok \<lparr>vr_config_address = req_config r, vr_config = c,
          vr_account_address = req_confidential_account r, vr_account = a,
          vr_request_address = rk, vr_request = r, vr_binding = request_binding c r rk\<rparr>
       else Err (ChainFailed (NotMatching ''pending account.pending_request'')))"
proof -
  obtain c0 where c0: "ch_ledger first (req_config r) = Some (ConfigAccount c0)"
      "request_digest (rt_sha256 (sd_runtime sd)) (request_binding c0 r rk) = req_request_digest r"
    using reachable_entry(3) [OF assms(1,2)] by (auto simp: request_ok_def request_of_def)
  obtain c where c: "ch_ledger second (req_config r) = Some (ConfigAccount c)" "config_evolves c0 c"
    using ledger_evolvesD(1) [OF leads_to_evolves [OF reads_reached(4) [OF assms(1,3)] assms(1)] c0(1)] by blast
  have "request_digest (rt_sha256 (sd_runtime sd)) (request_binding c r rk) = req_request_digest r"
    using c0(2) request_binding_config [OF c(2)] by simp
  moreover obtain a r' where "ch_ledger third (req_confidential_account r) = Some (BalanceAccount a)"
    "ch_ledger third rk = Some (RequestAccount r')"
    "fetch_and_verify_request sd rpc rk =
       (if r' = r then Ok \<lparr>vr_config_address = req_config r, vr_config = c,
          vr_account_address = req_confidential_account r, vr_account = a,
          vr_request_address = rk, vr_request = r, vr_binding = request_binding c r rk\<rparr>
        else Err (ChainFailed (NotMatching ''pending account.pending_request'')))"
    by (rule fetch_over [OF assms]) (use c(1) that in simp)
  ultimately show ?thesis using c(1) by simp
qed

lemma fetched_digest:
  assumes "fetch_and_verify_request sd rpc rk = Ok v"
  shows "request_digest (rt_sha256 (sd_runtime sd)) (vr_binding v) = req_request_digest (vr_request v)"
  using fetch_and_verify_Ok(1) [OF assms] unfolding fetch_and_verify_Ok(2) [OF assms] trusted_def by blast

text \<open>
  Whatever an RPC node answers, what the client accepts as a request under a stored digest is
  determined by that digest, unless the hash collides on the two encodings.
\<close>

lemma accepted_binding_unique:
  assumes "fetch_and_verify_request sd rpc rk = Ok v" and "fetch_and_verify_request sd rpc' rk' = Ok v'"
    and "req_request_digest (vr_request v) = req_request_digest (vr_request v')"
    and "inj_on (rt_sha256 (sd_runtime sd)) {encode_request (vr_binding v), encode_request (vr_binding v')}"
  shows "vr_binding v = vr_binding v'"
  by (rule messages.one.digest_binds [OF assms(4)])
    (use fetched_digest [OF assms(1)] fetched_digest [OF assms(2)] assms(3) in \<open>simp add: request_digest_def\<close>)

section \<open>Preparing and landing\<close>

text \<open>
  C5: what the client has prepared lands. Prepared against any reachable state and delivered in
  any later one where the request has not been closed, the pair of instructions is accepted by
  the program for every payer exactly when the configuration is not paused, the request has not
  expired, its operator epoch and key version are current, and the result hash is not zero; the
  program then stores the prepared result and frees the account, and nothing else changes.
\<close>

theorem prepared_finalize_lands:
  assumes "sdk_law sd" and "reachable (sd_runtime sd) ch" and "ch_ledger ch rk = Some (RequestAccount r)"
    and "reads_over sd rpc rk ch ch2 ch3" and "prepare_finalize sd rpc rk cached parsed = Ok p"
    and "leads_to (sd_runtime sd) ch3 later" and "ch_ledger later rk = Some (RequestAccount r)"
  shows "\<exists>ixs a cf. instructions_for_payer sd p payer = Ok ixs \<and>
    ch_ledger later (req_confidential_account r) = Some (BalanceAccount a) \<and>
    ch_ledger later (req_config r) = Some (ConfigAccount cf) \<and>
    (\<forall>s L'. process_instruction (sd_runtime sd) (tx_env s ixs 1) (ch_ledger later) (ixs ! 1) = Ok L' \<longleftrightarrow>
       \<not> cfg_paused cf \<and> s < req_expiry_slot r \<and> req_operator_epoch r = cfg_operator_epoch cf \<and>
       req_key_version r = cfg_key_version cf \<and> pr_result_hash parsed \<noteq> 0 \<and>
       L' = (ch_ledger later)(req_confidential_account r \<mapsto> BalanceAccount (unlocked a),
         rk \<mapsto> RequestAccount (r\<lparr>req_status := STATUS_FINALIZED, req_result_hash := pr_result_hash parsed,
           req_result_digest := result_digest (rt_sha256 (sd_runtime sd)) (pf_binding p)\<rparr>)))"
proof -
  obtain ixs where ixs: "instructions_for_payer sd p payer = Ok ixs"
    using instructions_for_payer_Ok [OF assms(1)] by blast
  obtain cf where cf: "ch_ledger later (req_config r) = Some (ConfigAccount cf)"
    using prepared_config [OF assms(2-6)] by blast
  have hash: "rs_result_hash (pf_binding p) = pr_result_hash parsed"
    using assms(5) by (auto simp: prepare_finalize_def and_then_eq_Ok split: if_splits)
      (auto simp: validate_finalize_Ok result_binding_from_authoritative_def)
  obtain a where account: "ch_ledger later (req_confidential_account r) = Some (BalanceAccount a)"
    and runs: "\<And>s L'. process_instruction (sd_runtime sd) (tx_env s ixs 1) (ch_ledger later) (ixs ! 1) = Ok L' \<longleftrightarrow>
       may_settle s cf r (pf_binding p) \<and> L' = settled_ledger sd (ch_ledger later) rk r a (pf_binding p)"
    by (rule prepared_later [OF assms cf ixs]) (rule that)
  note landed = runs [unfolded may_settle_def settled_ledger_def settled_def hash conj_assoc]
  show ?thesis
    by (rule exI [of _ ixs], rule exI [of _ a], rule exI [of _ cf], intro conjI allI)
      (rule ixs, rule account, rule cf, rule landed)
qed

lemma lab_pending_reachable: "reachable (sd_runtime lab_sdk) pending_chain"
  by (simp add: reachable_client_runtime pending_reachable)

theorem prepared_finalize_lands_witness:
  "\<exists>ixs L'. instructions_for_payer lab_sdk prepared0 lab_payer = Ok ixs \<and>
     process_instruction client_runtime (tx_env 7 ixs 1) pending_ledger (ixs ! 1) = Ok L'"
proof -
  have "ch_ledger pending_chain lab_request = Some (RequestAccount request1)"
    and "reads_over lab_sdk (lab_rpc False) lab_request pending_chain pending_chain pending_chain"
    using lab_rpc_shows by (simp_all add: reads_at_once)
  from prepared_finalize_lands [OF lab_sdk_law lab_pending_reachable this lab_prepare leads_to_refl this(1),
      of lab_payer]
  obtain ixs a cf where ixs: "instructions_for_payer lab_sdk prepared0 lab_payer = Ok ixs"
    and cf: "pending_ledger lab_config = Some (ConfigAccount cf)"
    and runs: "\<And>s L'. process_instruction client_runtime (tx_env s ixs 1) pending_ledger (ixs ! 1) = Ok L' \<longleftrightarrow>
       \<not> cfg_paused cf \<and> s < req_expiry_slot request1 \<and> req_operator_epoch request1 = cfg_operator_epoch cf \<and>
       req_key_version request1 = cfg_key_version cf \<and> pr_result_hash parsed0 \<noteq> 0 \<and>
       L' = pending_ledger(lab_account \<mapsto> BalanceAccount (unlocked a),
         lab_request \<mapsto> RequestAccount (request1\<lparr>req_status := STATUS_FINALIZED, req_result_hash := pr_result_hash parsed0,
           req_result_digest := result_digest lab_sha256 (pf_binding prepared0)\<rparr>))"
    by (auto simp del: One_nat_def)
  have "cf = config0" using cf by simp
  then have "\<not> cfg_paused cf \<and> (7 :: u64) < req_expiry_slot request1 \<and> req_operator_epoch request1 = cfg_operator_epoch cf \<and>
       req_key_version request1 = cfg_key_version cf \<and> pr_result_hash parsed0 \<noteq> 0"
    by (simp add: config0_def parsed0_def) (simp add: request1_def)
  then show ?thesis using ixs runs by blast
qed

section \<open>Confirming\<close>

lemma process_step:
  assumes "process_instruction rt env L ix = Ok L'"
  shows "chain_step rt \<lparr>ch_slot = env_slot env, ch_ledger = L\<rparr> \<lparr>ch_slot = env_slot env, ch_ledger = L'\<rparr>"
  using assms by (auto simp: process_instruction_def and_then_eq_Ok intro: chain_step.Instr)

lemma settled_frozen: "request_evolves (settled sd r b) r' \<longleftrightarrow> r' = settled sd r b"
  by (auto simp: request_evolves_def settled_def status_defs)

lemma unused_since:
  assumes "account_evolves (unlocked a) b" and "account_lock.balanced (unlocked a)" and "account_lock.balanced b"
    and "acc_pending_request b = 0" and "acc_state_version b = acc_state_version a + 1"
  shows "b = unlocked a"
proof -
  have "acc_request_nonce b = acc_request_nonce (unlocked a)"
    using assms(2-5) by (simp add: account_lock.balanced_def has_pending_def unlocked_def word_unat_eq_iff)
  then show ?thesis
    using assms(1,4,5) by (cases b, cases a) (simp add: account_evolves_def unlocked_def)
qed

lemma confirm_exact:
  assumes "reachable (sd_runtime sd) d" and "reads_over sd rpc rk d d2 d3"
    and "ch_ledger d rk = Some (RequestAccount (settled sd r (pf_binding p)))"
    and "ch_ledger d3 (req_confidential_account r) = Some (BalanceAccount b)"
    and "pf_request_address p = rk" and "pf_result_hash p = rs_result_hash (pf_binding p)"
    and "pf_result_digest p = result_digest (rt_sha256 (sd_runtime sd)) (pf_binding p)"
    and "pf_prior_state_version p = acc_state_version a" and "version_room a"
  shows "is_ok (refetch_and_verify_finalized sd rpc p) \<longleftrightarrow>
    acc_pending_request b = 0 \<and> acc_state_version b = acc_state_version a + 1"
proof -
  have ak: "req_confidential_account (settled sd r (pf_binding p)) = req_confidential_account r"
    by (simp add: settled_def)
  obtain v where v: "fetch_and_verify_request sd rpc rk = Ok v"
      "vr_account v = b" "vr_request v = settled sd r (pf_binding p)"
    by (rule fetch_over [OF assms(1,3,2)]) (use assms(4) that in \<open>auto simp: ak settled_frozen\<close>)
  show ?thesis
    using v(2,3) assms(6-9)
    by (auto simp: refetch_and_verify_finalized_def assms(5) v(1) is_ok_iff and_then_eq_Ok authoritative_Ok
        settled_def version_room_def)
qed

text \<open>
  C13: when the client confirms a finalization. Once the prepared pair has run, the request
  stays finalized with the prepared result, and reading it again succeeds exactly as long as the
  account has not been used since; as soon as its owner submits another request the check fails,
  although the finalization stands.
\<close>

theorem confirmation_exact:
  assumes "sdk_law sd" and "reachable (sd_runtime sd) ch" and "ch_ledger ch rk = Some (RequestAccount r)"
    and "reads_over sd rpc rk ch ch2 ch3" and "prepare_finalize sd rpc rk cached parsed = Ok p"
    and "leads_to (sd_runtime sd) ch3 later" and "ch_ledger later rk = Some (RequestAccount r)"
    and "instructions_for_payer sd p payer = Ok ixs"
    and "process_instruction (sd_runtime sd) (tx_env (ch_slot later) ixs 1) (ch_ledger later) (ixs ! 1) = Ok L'"
    and "leads_to (sd_runtime sd) \<lparr>ch_slot = ch_slot later, ch_ledger = L'\<rparr> now"
    and "reads_over sd rpc' rk now now2 now3"
  shows "ch_ledger now rk = L' rk \<and>
    (is_ok (refetch_and_verify_finalized sd rpc' p) \<longleftrightarrow>
     ch_ledger now3 (req_confidential_account r) = L' (req_confidential_account r))"
proof -
  have p: "pf_request_address p = rk" "pf_result_hash p = rs_result_hash (pf_binding p)"
      "pf_result_digest p = result_digest (rt_sha256 (sd_runtime sd)) (pf_binding p)"
    using prepare_Ok [OF assms(2-5)] by metis+
  obtain cf where cf: "ch_ledger later (req_config r) = Some (ConfigAccount cf)"
    using prepared_config [OF assms(2-6)] by blast
  obtain a where a: "ch_ledger later (req_confidential_account r) = Some (BalanceAccount a)"
      "pf_prior_state_version p = acc_state_version a" "version_room a"
    and runs: "\<And>s L'. process_instruction (sd_runtime sd) (tx_env s ixs 1) (ch_ledger later) (ixs ! 1) = Ok L' \<longleftrightarrow>
       may_settle s cf r (pf_binding p) \<and> L' = settled_ledger sd (ch_ledger later) rk r a (pf_binding p)"
    by (rule prepared_later [OF assms(1-7) cf assms(8)]) (rule that)
  have L': "L' = settled_ledger sd (ch_ledger later) rk r a (pf_binding p)"
    using assms(9) runs by blast
  have "reachable (sd_runtime sd) later" using assms(6) reads_reached(2) [OF assms(2,4)] by (rule reachable_leads_to)
  then have after: "reachable (sd_runtime sd) \<lparr>ch_slot = ch_slot later, ch_ledger = L'\<rparr>"
    using reachable.Step [of _ later] process_step [OF assms(9)] by (cases later) (simp add: tx_env_def)
  have now: "reachable (sd_runtime sd) now" using assms(10) after by (rule reachable_leads_to)
  note reached = reads_reached [OF now assms(11)]
  have all: "leads_to (sd_runtime sd) \<lparr>ch_slot = ch_slot later, ch_ledger = L'\<rparr> now3"
    using assms(10) reached(3,4) leads_to_trans by blast
  note evolves = ledger_evolvesD [OF leads_to_evolves [OF assms(10) after]]
    ledger_evolvesD [OF leads_to_evolves [OF all after]]
  have entries: "L' rk = Some (RequestAccount (settled sd r (pf_binding p)))"
    "L' (req_confidential_account r) = Some (BalanceAccount (unlocked a))"
    using assms(7) a(1) by (auto simp: L' settled_ledger_def)
  have rk: "ch_ledger now rk = Some (RequestAccount (settled sd r (pf_binding p)))"
    using evolves(3) [of rk] entries(1) by (auto simp: settled_frozen)
  obtain b where b: "ch_ledger now3 (req_confidential_account r) = Some (BalanceAccount b)" "account_evolves (unlocked a) b"
    using evolves(5) [of "req_confidential_account r"] entries(2) by auto
  have "account_lock.balanced (unlocked a)" "account_lock.balanced b"
    using locks_okD(1) [OF reachable_locks [OF after], of "req_confidential_account r"] entries(2)
      locks_okD(1) [OF reachable_locks [OF reached(2)] b(1)] by simp_all
  then have "b = unlocked a \<longleftrightarrow> acc_pending_request b = 0 \<and> acc_state_version b = acc_state_version a + 1"
    using unused_since [OF b(2)] by (auto simp: unlocked_def)
  then show ?thesis
    using confirm_exact [OF now assms(11) rk b(1) p a(2,3)] rk b(1) entries by simp
qed

lemma lab_pending_facts:
  "ch_ledger pending_chain lab_request = Some (RequestAccount request1)"
  "reads_over lab_sdk (lab_rpc False) lab_request pending_chain pending_chain pending_chain"
  "ch_ledger pending_chain (req_config request1) = Some (ConfigAccount config0)"
  using lab_rpc_shows by (simp_all add: reads_at_once)

lemma lab_settled: "settled lab_sdk request1 binding1 = request2"
  by (simp add: settled_def request2_def finalized_def finalize_binding0 binding1_def)
    (simp add: finalize_ctx0_def finalize_args0_def result_of_def)

lemma lab_lands:
  assumes "instructions_for_payer lab_sdk prepared0 lab_payer = Ok ixs"
  shows "process_instruction (sd_runtime lab_sdk) (tx_env (ch_slot pending_chain) ixs 1) (ch_ledger pending_chain) (ixs ! 1)
    = Ok settled_view"
proof -
  have binding: "pf_binding prepared0 = binding1" by (simp add: prepared0_def)
  have "may_settle 6 config0 request1 binding1"
    by (simp add: may_settle_def config0_def request1_def binding1_def result_of_def)
  moreover have "settled_ledger lab_sdk pending_ledger lab_request request1 account1 binding1 = settled_view"
    by (simp add: settled_ledger_def settled_view_def account2_def lab_settled)
  moreover obtain a where "ch_ledger pending_chain (req_confidential_account request1) = Some (BalanceAccount a)"
    "\<And>s L'. process_instruction (sd_runtime lab_sdk) (tx_env s ixs 1) (ch_ledger pending_chain) (ixs ! 1) = Ok L' \<longleftrightarrow>
       may_settle s config0 request1 (pf_binding prepared0) \<and>
       L' = settled_ledger lab_sdk (ch_ledger pending_chain) lab_request request1 a (pf_binding prepared0)"
    by (rule prepared_later [OF lab_sdk_law lab_pending_reachable lab_pending_facts(1,2) lab_prepare
        leads_to_refl lab_pending_facts(1,3) assms]) (rule that)
  ultimately show ?thesis by (simp add: binding del: One_nat_def)
qed

theorem confirmation_exact_witness:
  "is_ok (refetch_and_verify_finalized lab_sdk (lab_rpc True) prepared0)"
proof -
  obtain ixs where ixs: "instructions_for_payer lab_sdk prepared0 lab_payer = Ok ixs"
    using instructions_for_payer_Ok [OF lab_sdk_law] by blast
  let ?after = "\<lparr>ch_slot = ch_slot pending_chain, ch_ledger = settled_view\<rparr>"
  have view: "reads_over lab_sdk (lab_rpc True) lab_request ?after ?after ?after"
    using lab_rpc_shows(2) by (simp add: reads_at_once)
  show ?thesis
    using confirmation_exact [OF lab_sdk_law lab_pending_reachable lab_pending_facts(1,2) lab_prepare
        leads_to_refl lab_pending_facts(1) ixs lab_lands [OF ixs] leads_to_refl view]
    by simp
qed

section \<open>Delivery\<close>

lemma refetch_Ok:
  assumes "refetch_and_verify_finalized sd rpc p = Ok v" and "reachable (sd_runtime sd) now"
    and "reads_over sd rpc (pf_request_address p) now now2 now3"
    and "ch_ledger now (pf_request_address p) = Some (RequestAccount r)"
  shows "req_status r = STATUS_FINALIZED" "req_result_hash r = pf_result_hash p"
    "req_result_digest r = pf_result_digest p"
proof -
  have v: "fetch_and_verify_request sd rpc (pf_request_address p) = Ok v"
    and ok: "verify_authoritative_finalized v p = Ok ()"
    using assms(1) by (auto simp: refetch_and_verify_finalized_def and_then_eq_Ok)
  have "vr_request v = r"
    by (rule fetch_over_Ok [OF assms(2,4,3) v]) simp
  then show "req_status r = STATUS_FINALIZED" "req_result_hash r = pf_result_hash p"
    "req_result_digest r = pf_result_digest p"
    using ok by (auto simp: authoritative_Ok)
qed

lemma deliver_direct_Ok:
  assumes "deliver_direct sd ho wo p payer n = (Ok out, n')"
  shows "\<exists>sig v. out = outcome p sig None \<and> refetch_and_verify_finalized sd (wo_rpc wo n') p = Ok v"
  using assms by (auto simp: deliver_direct_def nbind_Ok)

lemma deliver_openzeppelin_Ok:
  assumes "deliver_openzeppelin fuel sd js ht wo p url job poll n = Some (Ok out, n')"
  shows "\<exists>sig id v. out = outcome p sig id \<and> refetch_and_verify_finalized sd (wo_rpc wo n') p = Ok v"
  using assms
  by (auto simp: deliver_openzeppelin_def nbind_Ok split: prod.splits sum.splits)

text \<open>
  C14: a delivery that reports success has finalized. Through either transport, when the client
  returns an outcome, the chain that the RPC node shows at that moment holds the request as
  finalized, with the result hash and the result digest of the outcome; the answer of the
  transport itself is not relied upon.
\<close>

theorem delivery_reports_finalized:
  assumes "deliver_direct sd ho wo p payer n = (Ok out, n') \<or>
      deliver_openzeppelin fuel sd js ht wo p url job poll n = Some (Ok out, n')"
    and "reachable (sd_runtime sd) now" and "reads_over sd (wo_rpc wo n') (fo_request_address out) now now2 now3"
    and "ch_ledger now (fo_request_address out) = Some (RequestAccount r)"
  shows "req_status r = STATUS_FINALIZED \<and> req_result_hash r = fo_result_hash out \<and>
    req_result_digest r = fo_result_digest out"
proof -
  obtain sig id v where out: "out = outcome p sig id" "refetch_and_verify_finalized sd (wo_rpc wo n') p = Ok v"
    using assms(1) deliver_direct_Ok deliver_openzeppelin_Ok by metis
  moreover have "ch_ledger now (pf_request_address p) = Some (RequestAccount r)"
    using assms(4) out(1) by (simp add: outcome_def)
  ultimately show ?thesis
    using refetch_Ok [OF out(2) assms(2)] assms(3) by (simp add: outcome_def)
qed

text \<open>A world whose only transaction is the finalization of the run.\<close>

definition lab_world :: "(pubkey, bool) World" where
  "lab_world = \<lparr>wo_client = Ok (), wo_rpc = lab_rpc, wo_slot = (\<lambda>_. Ok 6), wo_send = (\<lambda>payer ixs n. (Ok ''sig'', True)), wo_api_key = None\<rparr>"

lemma lab_settled_step: "chain_step (sd_runtime lab_sdk) pending_chain \<lparr>ch_slot = 6, ch_ledger = settled_view\<rparr>"
proof -
  obtain ixs where ixs: "instructions_for_payer lab_sdk prepared0 lab_payer = Ok ixs"
    using instructions_for_payer_Ok [OF lab_sdk_law] by blast
  show ?thesis using process_step [OF lab_lands [OF ixs]] by (simp add: tx_env_def pending_chain_def)
qed

lemma lab_settled_reachable: "reachable (sd_runtime lab_sdk) \<lparr>ch_slot = 6, ch_ledger = settled_view\<rparr>"
  using lab_settled_step lab_pending_reachable by (rule reachable.Step [rotated])

lemma settled_view_lookups [simp]:
  "settled_view lab_request = Some (RequestAccount request2)"
  "settled_view lab_account = Some (BalanceAccount account2)"
  by (simp_all add: settled_view_def)

lemma request2_differs: "request2 \<noteq> request1"
proof
  assume "request2 = request1"
  then have "req_status (settled lab_sdk request1 binding1) = req_status request1" using lab_settled by simp
  then show False by (simp add: settled_def request1_def status_defs)
qed

text \<open>A node that is asked for the account after the finalization.\<close>

definition late_rpc :: rpc where
  "late_rpc s = lab_rpc (s \<noteq> sd_address_to_string lab_sdk lab_request) s"

theorem interleaved_fetch_exact_witness:
  "fetch_and_verify_request lab_sdk late_rpc lab_request
     = Err (ChainFailed (NotMatching ''pending account.pending_request''))"
proof -
  have after: "leads_to (sd_runtime lab_sdk) pending_chain \<lparr>ch_slot = 6, ch_ledger = settled_view\<rparr>"
    using lab_settled_step by (blast intro: leads_to_step)
  have "reads_over lab_sdk late_rpc lab_request pending_chain \<lparr>ch_slot = 6, ch_ledger = settled_view\<rparr>
      \<lparr>ch_slot = 6, ch_ledger = settled_view\<rparr>"
    using after lab_rpc_shows
    by (auto simp: reads_over_def late_rpc_def rpc_shows_def shows_as_def lab_sdk_simps)
  from interleaved_fetch_exact [OF lab_pending_reachable lab_pending_facts(1) this]
  show ?thesis using request2_differs by auto
qed

lemma lab_refetch: "is_ok (refetch_and_verify_finalized lab_sdk (lab_rpc True) prepared0)"
proof -
  have "is_ok (refetch_and_verify_finalized lab_sdk (lab_rpc True) prepared0) \<longleftrightarrow>
      acc_pending_request account2 = 0 \<and> acc_state_version account2 = acc_state_version account1 + 1"
    by (rule confirm_exact [OF lab_settled_reachable reads_at_once, where r = request1 and rk = lab_request])
      (use lab_rpc_shows(2) in \<open>simp_all add: prepared0_def lab_settled version_room_def,
        simp_all add: binding1_def result_of_def request2_def finalized_def finalize_binding0\<close>)
  then show ?thesis by (simp add: account2_def unlocked_def)
qed

theorem delivery_reports_finalized_witness:
  "\<exists>out. deliver_direct lab_sdk lab_host lab_world prepared0 lab_payer False = (Ok out, True) \<and>
     req_result_hash request2 = fo_result_hash out"
proof -
  obtain ixs where ixs: "instructions_for_payer lab_sdk prepared0 lab_payer = Ok ixs"
    using instructions_for_payer_Ok [OF lab_sdk_law] by blast
  obtain v where "refetch_and_verify_finalized lab_sdk (lab_rpc True) prepared0 = Ok v"
    using lab_refetch by (auto simp: is_ok_iff)
  then have deliver: "deliver_direct lab_sdk lab_host lab_world prepared0 lab_payer False
      = (Ok (outcome prepared0 (Some ''sig'') None), True)"
    using ixs by (simp add: deliver_direct_def nbind_def nlift_def lab_world_def lab_host_def)
  have "req_result_hash request2 = fo_result_hash (outcome prepared0 (Some ''sig'') None)"
    using delivery_reports_finalized [OF disjI1 [OF deliver] lab_settled_reachable reads_at_once, of request2] lab_rpc_shows(2)
    by (simp add: lab_world_def outcome_def prepared0_def)
  then show ?thesis using deliver by blast
qed

end
