(* ===== verification/EndToEnd.thy ===== *)
theory EndToEnd
  imports Settlement
begin

text \<open>
  The whole way of a request: the worker evaluates what the client has verified, the result file
  it writes is what the client prepares a finalization from, the program accepts it, and the
  ciphertext the chain then names decrypts to the policy.
\<close>

section \<open>The worker's file is accepted\<close>

text \<open>Signatures made with a keypair verify under its public key.\<close>

definition signing_law :: "Sdk \<Rightarrow> 'kp Host \<Rightarrow> 'kp \<Rightarrow> bool" where
  "signing_law sd ho operator \<longleftrightarrow>
     sd_verifying_key_ok sd (ho_pubkey ho operator) \<and>
     (\<forall>m sig. raw sig = ho_sign_message ho operator m \<longrightarrow> sd_signature_ok sd (ho_pubkey ho operator) m sig)"

definition parsed_result :: "Crates \<Rightarrow> ResultBinding \<Rightarrow> bytes64 \<Rightarrow> pubkey \<Rightarrow> ParsedResultFile" where
  "parsed_result cr b sig operator =
    \<lparr>pr_result_hash = rs_result_hash b, pr_request_digest = rs_request_digest b,
     pr_result_digest = result_digest (cr_sha256 cr) b, pr_signature = sig, pr_operator = operator,
     pr_result_type = rs_result_type b, pr_circuit_id = rs_circuit_id b\<rparr>"

lemma parsed_result_simps [simp]:
  "pr_request_digest (parsed_result cr b sig operator) = rs_request_digest b"
  "pr_result_hash (parsed_result cr b sig operator) = rs_result_hash b"
  "pr_result_digest (parsed_result cr b sig operator) = result_digest (cr_sha256 cr) b"
  "pr_signature (parsed_result cr b sig operator) = sig"
  "pr_operator (parsed_result cr b sig operator) = operator"
  "pr_result_type (parsed_result cr b sig operator) = rs_result_type b"
  "pr_circuit_id (parsed_result cr b sig operator) = rs_circuit_id b"
  by (simp_all add: parsed_result_def)

lemma parse_hex_encoded:
  assumes "hex_law cr"
  shows "parse_hex32_field cr (cr_hex_encode cr (raw h)) name = Ok h"
    and "parse_hex64_field cr (cr_hex_encode cr (raw s)) name = Ok s"
  using assms by (simp_all add: parse_hex32_field_def parse_hex32_encode parse_hex64_field_def hex_law_def)

lemma parse_result_file_written:
  assumes "hex_law cr"
  shows "parse_result_file cr (result_file cr b sig operator) = Ok (parsed_result cr b sig operator)"
  using assms by (simp add: parse_result_file_def result_file_def parse_hex_encoded parsed_result_def)

lemma authoritative_is_worker_binding:
  assumes "rs_request b = request" and "rs_request_digest b = request_digest (rt_sha256 (sd_runtime sd)) request"
  shows "result_binding_from_authoritative sd request (parsed_result cr b sig operator) = b"
  using assms by (cases b) (simp add: result_binding_from_authoritative_def parsed_result_def)

lemma worker_result_prepared:
  assumes "cr_sha256 cr = rt_sha256 (sd_runtime sd)" and "signing_law sd ho operator"
    and "reachable (sd_runtime sd) ch" and "ch_ledger ch rk = Some (RequestAccount r)"
    and "reads_over sd rpc rk ch ch2 ch3" and "req_status r = STATUS_PENDING"
    and "ch_ledger ch2 (req_config r) = Some (ConfigAccount c)" and "\<not> cfg_paused c"
    and "ho_pubkey ho operator = cfg_operator c"
    and "process_request cr tf ho store (request_binding c r rk) csk operator d = (Ok (b, sig), d')"
    and "ch_ledger ch3 rk = Some (RequestAccount r)"
  obtains p where "prepare_finalize sd rpc rk (Some (request_binding c r rk))
      (parsed_result cr b sig (ho_pubkey ho operator)) = Ok p" "pf_binding p = b"
proof -
  obtain a where fetched: "fetch_and_verify_request sd rpc rk = Ok
       \<lparr>vr_config_address = req_config r, vr_config = c,
        vr_account_address = req_confidential_account r, vr_account = a,
        vr_request_address = rk, vr_request = r, vr_binding = request_binding c r rk\<rparr>"
    by (rule fetch_over [OF assms(3-5)]) (use assms(7,11) that in simp)
  have b: "rs_request b = request_binding c r rk"
    "rs_request_digest b = request_digest (rt_sha256 (sd_runtime sd)) (request_binding c r rk)"
    "rs_result_type b = RESULT_TYPE_FHE_BOOL" "rs_circuit_id b = CIRCUIT_POLICY_V1"
    "raw sig = ho_sign_message ho operator (encode_result b)"
    using process_request_Ok [OF assms(10)] assms(1) by fastforce+
  have digest: "request_digest (rt_sha256 (sd_runtime sd)) (request_binding c r rk) = req_request_digest r"
    using fetched_digest [OF fetched] by simp
  have circuit: "cfg_circuit_id c = CIRCUIT_POLICY_V1"
    using reachable_entry(1) [OF reads_reached(1) [OF assms(3,5)] assms(7)] by (simp add: config_ok_def)
  let ?v = "\<lparr>vr_config_address = req_config r, vr_config = c,
        vr_account_address = req_confidential_account r, vr_account = a,
        vr_request_address = rk, vr_request = r, vr_binding = request_binding c r rk\<rparr>"
  have "validate_finalize_consistency sd ?v (Some (request_binding c r rk))
      (parsed_result cr b sig (ho_pubkey ho operator)) = Ok b"
    unfolding validate_finalize_Ok
    using b digest circuit assms(1,2,6,9) authoritative_is_worker_binding [OF b(1,2)]
    by (simp add: signing_law_def)
  then show thesis
    using assms(8) by (intro that) (auto simp: prepare_finalize_def fetched)
qed

section \<open>What the chain's result hash names\<close>

lemma load_stored_bool:
  assumes "stored cr store d h = Some (wrap_blob CT_KIND_BOOL kv ph payload)" and "dk_faults d = []"
    and "tf_serialize_bool tf ct BOOL_LIMIT = Some payload" and "serial_law tf"
  shows "load_bool cr tf store h kv ph d = (Ok ct, d)"
proof -
  have "tf_deserialize_bool tf payload BOOL_LIMIT = Some ct"
    using assms(3,4) by (simp add: serial_law_def)
  then show ?thesis
    using get_stored [OF assms(1,2)]
    by (simp add: load_bool_def wbind_simp unwrap_wrap deserialize_bool_def)
qed

text \<open>No entry stands under a hash.\<close>

definition vacant :: "Crates \<Rightarrow> BlobStore \<Rightarrow> Disk \<Rightarrow> bytes32 \<Rightarrow> bool" where
  "vacant cr store d h \<longleftrightarrow> stored cr store d h = None \<and> \<not> corrupted cr store d h"

lemma vacant_cong: "dk_files d' = dk_files d \<Longrightarrow> vacant cr store d' = vacant cr store d"
  by (rule ext) (simp add: vacant_def stored_cong [of d' d] corrupted_def)

lemma worker_result_stored:
  assumes "process_request cr tf ho store request csk operator d = (Ok (b, sig), d')"
    and "tfhe_law tf ck csk" and "serial_law tf"
    and "operand cr tf store d ck (rb_key_version request) (rb_params_hash request) (rb_balance_hash request) balance"
    and "operand cr tf store d ck (rb_key_version request) (rb_params_hash request) (rb_amount_hash request) amount"
    and "operand cr tf store d ck (rb_key_version request) (rb_params_hash request) (rb_limit_hash request) limit"
    and "vacant cr store d (rs_result_hash b)"
  shows "\<exists>ct payload. tf_decrypt_bool tf ct ck = (amount \<le> balance \<and> amount \<le> limit) \<and>
    tf_serialize_bool tf ct BOOL_LIMIT = Some payload \<and>
    stored cr store d' (rs_result_hash b)
      = Some (wrap_blob CT_KIND_BOOL (rb_key_version request) (rb_params_hash request) payload)"
proof -
  obtain ct payload d3 where ct: "tf_decrypt_bool tf ct ck = (amount \<le> balance \<and> amount \<le> limit)"
      "tf_serialize_bool tf ct BOOL_LIMIT = Some payload"
    and d3: "dk_files d3 = dk_files d"
      "put cr store (wrap_blob CT_KIND_BOOL (rb_key_version request) (rb_params_hash request) payload) d3
         = (Ok (rs_result_hash b), d')"
    using worker_evaluates [OF assms(1-6)] by blast
  have "vacant cr store d3 (rs_result_hash b)"
    using assms(7) vacant_cong [OF d3(1)] by simp
  then have "stored cr store d' (rs_result_hash b)
      = Some (wrap_blob CT_KIND_BOOL (rb_key_version request) (rb_params_hash request) payload)"
    using blob_store.insert_view [OF d3(2)] by (simp add: vacant_def)
  then show ?thesis using ct by blast
qed

lemma worker_result_readable:
  assumes "process_request cr tf ho store request csk operator d = (Ok (b, sig), d')"
    and "tfhe_law tf ck csk" and "serial_law tf"
    and "operand cr tf store d ck (rb_key_version request) (rb_params_hash request) (rb_balance_hash request) balance"
    and "operand cr tf store d ck (rb_key_version request) (rb_params_hash request) (rb_amount_hash request) amount"
    and "operand cr tf store d ck (rb_key_version request) (rb_params_hash request) (rb_limit_hash request) limit"
    and "vacant cr store d (rs_result_hash b)" and "dk_files d2 = dk_files d'" and "dk_faults d2 = []"
  shows "\<exists>ct. load_bool cr tf store (rs_result_hash b) (rb_key_version request) (rb_params_hash request) d2 = (Ok ct, d2) \<and>
    tf_decrypt_bool tf ct ck = (amount \<le> balance \<and> amount \<le> limit)"
proof -
  obtain ct payload where ct: "tf_decrypt_bool tf ct ck = (amount \<le> balance \<and> amount \<le> limit)"
      "tf_serialize_bool tf ct BOOL_LIMIT = Some payload"
      "stored cr store d2 (rs_result_hash b)
        = Some (wrap_blob CT_KIND_BOOL (rb_key_version request) (rb_params_hash request) payload)"
    using worker_result_stored [OF assms(1-7)] stored_cong [OF assms(8)] by metis
  then show ?thesis
    using load_stored_bool [OF ct(3) assms(9) ct(2) assms(3)] by blast
qed

text \<open>
  C4: a policy request settles with the right answer. For a pending request of a reachable
  state, let the worker evaluate the binding the client has verified, on stored encryptions of a
  balance, an amount and a limit, where no entry stands under the hash of the result before, and
  let this hash not be zero. Then the result file it writes parses. If the request is still
  pending some time later and the configuration read then is not paused and names the worker's
  key as the operator, the client prepares a finalization from the file; and in every still later
  state where the request is pending, not expired, and the operator epoch and key version are
  current, the program accepts the pair, whoever pays. The request is then finalized with a
  result hash under which the store holds a ciphertext that decrypts to "the amount is at most
  the balance and at most the limit". Both readings of the request take place while the chain
  goes on.
\<close>

theorem policy_request_settles:
  assumes laws: "sdk_law sd" "hex_law cr" "cr_sha256 cr = rt_sha256 (sd_runtime sd)" "signing_law sd ho operator"
      "tfhe_law tf ck csk" "serial_law tf"
    and chain: "reachable (sd_runtime sd) ch" "ch_ledger ch rk = Some (RequestAccount r)"
      "req_status r = STATUS_PENDING" "reads_over sd rpc0 rk ch ch2 ch3"
    and worker: "fetch_and_verify_request sd rpc0 rk = Ok v"
      "process_request cr tf ho store (vr_binding v) csk operator d = (Ok (b, sig), d')"
      "operand cr tf store d ck (req_key_version r) (req_params_hash r) (req_balance_hash r) balance"
      "operand cr tf store d ck (req_key_version r) (req_params_hash r) (req_amount_hash r) amount"
      "operand cr tf store d ck (req_key_version r) (req_params_hash r) (req_limit_hash r) limit"
      "vacant cr store d (rs_result_hash b)" "rs_result_hash b \<noteq> 0"
    and client: "leads_to (sd_runtime sd) ch3 pre" "reads_over sd rpc rk pre pre2 pre3"
      "ch_ledger pre3 rk = Some (RequestAccount r)" "ch_ledger pre2 (req_config r) = Some (ConfigAccount c)"
      "\<not> cfg_paused c" "ho_pubkey ho operator = cfg_operator c"
    and later: "leads_to (sd_runtime sd) pre3 later" "ch_ledger later rk = Some (RequestAccount r)"
      "ch_ledger later (req_config r) = Some (ConfigAccount c')" "\<not> cfg_paused c'"
      "ch_slot later < req_expiry_slot r" "req_operator_epoch r = cfg_operator_epoch c'"
      "req_key_version r = cfg_key_version c'"
  shows "\<exists>parsed p ixs L' r'.
    parse_result_file cr (result_file cr b sig (ho_pubkey ho operator)) = Ok parsed \<and>
    prepare_finalize sd rpc rk (Some (vr_binding v)) parsed = Ok p \<and>
    instructions_for_payer sd p payer = Ok ixs \<and>
    process_instruction (sd_runtime sd) (tx_env (ch_slot later) ixs 1) (ch_ledger later) (ixs ! 1) = Ok L' \<and>
    L' rk = Some (RequestAccount r') \<and> req_status r' = STATUS_FINALIZED \<and>
    (\<forall>d2. dk_files d2 = dk_files d' \<and> dk_faults d2 = [] \<longrightarrow>
       (\<exists>ct. load_bool cr tf store (req_result_hash r') (req_key_version r) (req_params_hash r) d2 = (Ok ct, d2) \<and>
          tf_decrypt_bool tf ct ck = (amount \<le> balance \<and> amount \<le> limit)))"
proof -
  obtain c0 where c0: "ch_ledger ch2 (req_config r) = Some (ConfigAccount c0)"
    and r3: "ch_ledger ch3 rk = Some (RequestAccount r)" and v0: "vr_binding v = request_binding c0 r rk"
    by (rule fetch_over_Ok [OF chain(1,2,4) worker(1)]) (use that in simp)
  note reached = reads_reached [OF chain(1,4)]
  have pre: "reachable (sd_runtime sd) pre" using client(1) reached(2) by (rule reachable_leads_to)
  note reached' = reads_reached [OF pre client(2)]
  have "leads_to (sd_runtime sd) ch2 pre2" using reached(3) client(1) reached'(4) leads_to_trans by blast
  then have "config_evolves c0 c"
    using ledger_evolvesD(1) [OF leads_to_evolves [OF _ reached(1)] c0] client(4) by force
  then have v: "vr_binding v = request_binding c r rk" using v0 by (simp add: request_binding_config)
  have "ch_ledger pre rk = Some (RequestAccount r)"
    using request_between [OF reached(2) client(1) _ r3 client(3)] reached'(3,4) leads_to_trans by blast
  note pre = pre this
  obtain p where p: "prepare_finalize sd rpc rk (Some (request_binding c r rk))
      (parsed_result cr b sig (ho_pubkey ho operator)) = Ok p" "pf_binding p = b"
    by (rule worker_result_prepared [OF laws(3,4) pre client(2) chain(3) client(4-6) worker(2) [unfolded v] client(3)])
  obtain ixs where ixs: "instructions_for_payer sd p payer = Ok ixs"
    using instructions_for_payer_Ok [OF laws(1)] by blast
  obtain a where runs: "\<And>s L'. process_instruction (sd_runtime sd) (tx_env s ixs 1) (ch_ledger later) (ixs ! 1) = Ok L' \<longleftrightarrow>
       may_settle s c' r (pf_binding p) \<and> L' = settled_ledger sd (ch_ledger later) rk r a (pf_binding p)"
    by (rule prepared_later [OF laws(1) pre client(2) p(1) later(1,2,3) ixs]) (rule that)
  let ?L = "settled_ledger sd (ch_ledger later) rk r a b"
  have lands: "process_instruction (sd_runtime sd) (tx_env (ch_slot later) ixs 1) (ch_ledger later) (ixs ! 1) = Ok ?L"
    using runs later(4-7) worker(7) p(2) by (simp add: may_settle_def del: One_nat_def)
  have r': "?L rk = Some (RequestAccount (settled sd r b))" by (simp add: settled_ledger_def)
  have fields: "req_status (settled sd r b) = STATUS_FINALIZED" "req_result_hash (settled sd r b) = rs_result_hash b"
    by (simp_all add: settled_def)
  have decrypts: "\<exists>ct. load_bool cr tf store (rs_result_hash b) (req_key_version r) (req_params_hash r) d2 = (Ok ct, d2) \<and>
      tf_decrypt_bool tf ct ck = (amount \<le> balance \<and> amount \<le> limit)"
    if "dk_files d2 = dk_files d'" "dk_faults d2 = []" for d2
    using worker_result_readable [OF worker(2) laws(5,6) _ _ _ worker(6) that] worker(3-5)
    by (simp add: v request_binding_def)
  show ?thesis
    using parse_result_file_written [OF laws(2)] p(1) ixs lands r' fields decrypts unfolding v by metis
qed

section \<open>The way of the concrete request\<close>

text \<open>A transparent "encryption" of small numbers whose stored forms have the hashes of the run.\<close>

definition lab_tfhe :: "(unit, unit, unit, u64, bool) Tfhe" where
  "lab_tfhe = clear_tfhe
     \<lparr>tf_serialize_compressed := (\<lambda>_ _. Some (replicate 32 8)),
      tf_serialize_u64 := (\<lambda>v _. if v < 256 then Some (replicate 32 (ucast v)) else None),
      tf_deserialize_u64 := (\<lambda>bs _. Some (ucast (hd bs))),
      tf_serialize_bool := (\<lambda>p _. Some (replicate 32 (if p then 31 else 30))),
      tf_deserialize_bool := (\<lambda>bs _. Some (hd bs = 31))\<rparr>"

lemma small_ucast: "v < 256 \<Longrightarrow> ucast (ucast (v :: u64) :: u8) = v"
  by (simp add: word_unat_eq_iff unsigned_ucast_eq unsigned_take_bit_eq word_less_nat_alt take_bit_nat_eq_self)

lemma lab_tfhe_laws: "tfhe_law lab_tfhe () ()" "serial_law lab_tfhe" "serializable lab_tfhe"
  by (auto simp: tfhe_law_def serial_law_def serializable_def lab_tfhe_def clear_tfhe_def
      small_ucast split: if_splits)

definition lab_blob_of :: "u8 \<Rightarrow> u8 list" where
  "lab_blob_of c = wrap_blob CT_KIND_U64 1 (fill 8) (replicate 32 c)"

definition lab_blob_path :: "u8 \<Rightarrow> string" where
  "lab_blob_path c = ''blobs/'' @ hex_text (replicate 32 c)"

definition lab_disk :: Disk where
  "lab_disk = \<lparr>dk_files = [lab_blob_path 21 \<mapsto> lab_blob_of 21, lab_blob_path 23 \<mapsto> lab_blob_of 23,
     lab_blob_path 22 \<mapsto> lab_blob_of 22], dk_faults = []\<rparr>"

lemma lab_paths: "path_for tail_crates lab_store (fill c) = Ok (lab_blob_path c)"
  "lab_blob_path c = lab_blob_path c' \<longleftrightarrow> c = c'"
  by (simp_all add: path_for_hex tail_hex_law lab_blob_path_def hex_text_inj)
    (simp add: lab_store_def tail_crates_def)

lemma lab_blob_hash: "c \<in> {21, 22, 23} \<Longrightarrow> cr_sha256 tail_crates (lab_blob_of c) = fill c"
  by (elim insertE; clarsimp; code_simp)

lemma lab_operand:
  assumes "v \<in> {21, 22, 23}"
  shows "operand tail_crates lab_tfhe lab_store lab_disk () 1 (fill 8) (fill (ucast v)) v"
proof -
  have "stored tail_crates lab_store lab_disk (fill (ucast v)) = Some (lab_blob_of (ucast v))"
    using assms lab_blob_hash [of "ucast v"] by (auto simp: stored_Some lab_paths lab_disk_def)
  then show ?thesis
    using assms unfolding operand_def
    by (intro exI [of _ 0] exI [of _ "replicate 32 (ucast v)"]) (auto simp: lab_tfhe_def clear_tfhe_def lab_blob_of_def)
qed

lemma lab_key: "hash_compressed_server_key tail_crates lab_tfhe () = Ok (fill 8)"
proof -
  have "cr_sha256 tail_crates (replicate 32 8) = fill 8" by code_simp
  then show ?thesis by (simp add: hash_compressed_server_key_def lab_tfhe_def)
qed

lemma lab_vacant: "vacant tail_crates lab_store lab_disk (fill 30)"
  by (simp add: vacant_def stored_def corrupted_def lab_paths lab_disk_def)

lemma lab_result_hash:
  "cr_sha256 tail_crates (wrap_blob CT_KIND_BOOL 1 (fill 8) (replicate 32 30)) = fill 30"
  by code_simp

text \<open>The policy does not hold for balance 21, amount 23 and limit 22, and so the result decrypts.\<close>

lemma lab_worker_at:
  assumes "\<And>v. v \<in> {21, 22, 23} \<Longrightarrow> operand tail_crates lab_tfhe store d () 1 (fill 8) (fill (ucast v)) v"
    and "dk_faults d = []"
  shows "\<exists>b sig d'. process_request tail_crates lab_tfhe lab_host store (request_binding config0 request1 lab_request)
     () operator d = (Ok (b, sig), d') \<and> rs_result_hash b = fill 30"
proof -
  let ?q = "request_binding config0 request1 lab_request"
  have q: "rb_operation ?q = OPERATION_POLICY_CHECK" "rb_protocol_version ?q = PROTOCOL_VERSION"
    "rb_params_hash ?q = fill 8" "rb_key_version ?q = 1" "rb_balance_hash ?q = fill 21"
    "rb_amount_hash ?q = fill 23" "rb_limit_hash ?q = fill 22"
    by (simp_all add: request_binding_def config0_def request1_def OPERATION_POLICY_CHECK_def PROTOCOL_VERSION_def)
  have ops: "operand tail_crates lab_tfhe store d () 1 (fill 8) (fill 21) 21"
    "operand tail_crates lab_tfhe store d () 1 (fill 8) (fill 23) 23"
    "operand tail_crates lab_tfhe store d () 1 (fill 8) (fill 22) 22"
    using assms(1) [of 21] assms(1) [of 23] assms(1) [of 22] by simp_all
  have host: "length (ho_sign_message lab_host key m) = 64" for key m
    by (simp add: lab_host_def)
  obtain b sig d' where run: "process_request tail_crates lab_tfhe lab_host store ?q () operator d = (Ok (b, sig), d')"
    using process_request_runs [where ck = "()" and balance = 21 and amount = 23 and limit = 22,
        of ?q tail_crates lab_tfhe "()" d lab_host operator store]
      q ops host lab_key lab_tfhe_laws tail_hex_law assms(2) by auto
  obtain ct payload where ct: "\<not> tf_decrypt_bool lab_tfhe ct ()"
      "tf_serialize_bool lab_tfhe ct BOOL_LIMIT = Some payload"
      "rs_result_hash b = cr_sha256 tail_crates (wrap_blob CT_KIND_BOOL 1 (fill 8) payload)"
    using worker_evaluates [OF run lab_tfhe_laws(1,2), of 21 23 22] ops q by auto
  have "payload = replicate 32 30" using ct(1,2) by (auto simp: lab_tfhe_def clear_tfhe_def)
  then have "rs_result_hash b = fill 30" using ct(3) lab_result_hash by simp
  then show ?thesis using run by blast
qed

lemma lab_worker:
  "\<exists>b sig d'. process_request tail_crates lab_tfhe lab_host lab_store (request_binding config0 request1 lab_request)
     () lab_operator lab_disk = (Ok (b, sig), d') \<and> rs_result_hash b = fill 30"
  by (rule lab_worker_at [OF lab_operand]) (simp_all add: lab_disk_def)

lemma lab_signing: "signing_law lab_sdk lab_host lab_operator"
  by (simp add: signing_law_def lab_sdk_def lab_host_def) (simp flip: raw_inject)

theorem policy_request_settles_witness:
  "\<exists>ixs L' r'. process_instruction client_runtime (tx_env 6 ixs 1) pending_ledger (ixs ! 1) = Ok L' \<and>
     L' lab_request = Some (RequestAccount r') \<and> req_status r' = STATUS_FINALIZED"
proof -
  obtain b sig d' where run: "process_request tail_crates lab_tfhe lab_host lab_store
      (request_binding config0 request1 lab_request) () lab_operator lab_disk = (Ok (b, sig), d')"
    and hash: "rs_result_hash b = fill 30"
    using lab_worker by blast
  let ?v = "\<lparr>vr_config_address = lab_config, vr_config = config0, vr_account_address = lab_account,
      vr_account = account1, vr_request_address = lab_request, vr_request = request1,
      vr_binding = request_binding config0 request1 lab_request\<rparr>"
  have worker: "process_request tail_crates lab_tfhe lab_host lab_store (vr_binding ?v) () lab_operator lab_disk
      = (Ok (b, sig), d')" using run by simp
  have sha: "cr_sha256 tail_crates = rt_sha256 (sd_runtime lab_sdk)"
    by (simp add: tail_crates_def lab_sha256_def fun_eq_iff)
  have facts: "req_status request1 = STATUS_PENDING" "\<not> cfg_paused config0" "ho_pubkey lab_host lab_operator = cfg_operator config0"
    "ch_slot pending_chain < req_expiry_slot request1" "req_operator_epoch request1 = cfg_operator_epoch config0"
    "req_key_version request1 = cfg_key_version config0"
    by (simp_all add: lab_host_def config0_def) (simp_all add: request1_def)
  have refs: "req_key_version request1 = 1" "req_params_hash request1 = fill 8" "req_balance_hash request1 = fill 21"
    "req_amount_hash request1 = fill 23" "req_limit_hash request1 = fill 22"
    by (simp_all add: request1_def)
  have stored: "operand tail_crates lab_tfhe lab_store lab_disk () (req_key_version request1) (req_params_hash request1)
      (req_balance_hash request1) 21"
    "operand tail_crates lab_tfhe lab_store lab_disk () (req_key_version request1) (req_params_hash request1)
      (req_amount_hash request1) 23"
    "operand tail_crates lab_tfhe lab_store lab_disk () (req_key_version request1) (req_params_hash request1)
      (req_limit_hash request1) 22"
    using lab_operand [of 21] lab_operand [of 23] lab_operand [of 22] by (simp_all add: refs)
  have result: "vacant tail_crates lab_store lab_disk (rs_result_hash b)" "rs_result_hash b \<noteq> 0"
    using lab_vacant by (simp_all add: hash)
  from policy_request_settles [OF lab_sdk_law tail_hex_law sha lab_signing lab_tfhe_laws(1,2)
      lab_pending_reachable lab_pending_facts(1) facts(1) lab_pending_facts(2)
      lab_fetch worker stored result leads_to_refl lab_pending_facts(2,1,3) facts(2,3)
      leads_to_refl lab_pending_facts(1,3) facts(2,4,5,6)]
  show ?thesis by (simp del: One_nat_def) blast
qed

end
