(* ===== verification/Rpc.thy ===== *)
theory Rpc
  imports EndToEnd
begin

text \<open>
  \<open>crates/client/src/devnet/rpc.rs\<close>: the JSON-RPC client, and how the reads of the other
  modules and the sending of transactions come out of it.

  JSON values are opaque, \<open>Jsons\<close> are the operations of \<open>serde_json\<close> on them; the node behind
  HTTP, the clock and sleeping are \<open>Node\<close>, over a state \<open>'n\<close> of the world; transactions are the
  SDK's (\<open>Txs\<close>). The texts of messages are kept as far as callers can tell them apart.
\<close>

section \<open>Library parameters\<close>

record 'v SignatureStatus =
  ss_slot :: u64
  ss_err :: "'v option"
  ss_confirmation_status :: "string option"

record 'v Jsons =
  jv_parse :: "string \<Rightarrow> 'v option"
  jv_get :: "'v \<Rightarrow> string \<Rightarrow> 'v option"
  jv_as_str :: "'v \<Rightarrow> string option"
  jv_as_u64 :: "'v \<Rightarrow> u64 option"
  jv_as_i64 :: "'v \<Rightarrow> int option"
  jv_as_array :: "'v \<Rightarrow> 'v list option"
  jv_is_null :: "'v \<Rightarrow> bool"
  jv_null :: 'v
  jv_string :: "string \<Rightarrow> 'v"
  jv_bool :: "bool \<Rightarrow> 'v"
  jv_number :: "nat \<Rightarrow> 'v"
  jv_array :: "'v list \<Rightarrow> 'v"
  jv_object :: "(string \<times> 'v) list \<Rightarrow> 'v"
  jv_signature_status :: "'v \<Rightarrow> 'v SignatureStatus option"

text \<open>A response is its status and its body, which may fail to be read.\<close>

record ('v, 'n) Node =
  nd_build :: "(unit, string) result"
  nd_post :: "string \<Rightarrow> 'v \<Rightarrow> 'n \<Rightarrow> (nat \<times> (string, string) result, string) result \<times> 'n"
  nd_now :: "'n \<Rightarrow> nat"
  nd_sleep :: "nat \<Rightarrow> 'n \<Rightarrow> 'n"

record ('kp, 'tx) Txs =
  tx_sign :: "'kp \<Rightarrow> Instruction list \<Rightarrow> pubkey \<Rightarrow> bytes32 \<Rightarrow> 'tx"
  tx_hash_from_str :: "string \<Rightarrow> bytes32 option"
  tx_serialize :: "'tx \<Rightarrow> u8 list option"

record RpcClient =
  rc_url :: string

text \<open>\<open>RpcClient::new\<close>: the library's HTTP client has to be built first.\<close>

definition new_rpc_client :: "('v, 'n) Node \<Rightarrow> string \<Rightarrow> (RpcClient, LabError) result" where
  "new_rpc_client nd url =
     and_then (map_err (\<lambda>e. RpcFailed (ClientNotBuilt e)) (nd_build nd)) (\<lambda>_. Ok \<lparr>rc_url = url\<rparr>)"

section \<open>Calls\<close>

text \<open>\<open>Vec<&str>::join\<close>\<close>

fun join :: "string \<Rightarrow> string list \<Rightarrow> string" where
  "join sep [] = []"
| "join sep [x] = x"
| "join sep (x # y # xs) = x @ sep @ join sep (y # xs)"

definition rpc_error_to_lab_error :: "'v Jsons \<Rightarrow> string \<Rightarrow> 'v \<Rightarrow> LabError" where
  "rpc_error_to_lab_error jv rpc_method error =
    (let message = (case Option.bind (jv_get jv error ''message'') (jv_as_str jv) of
             None \<Rightarrow> ''unknown RPC error'' | Some m \<Rightarrow> m);
         code = Option.bind (jv_get jv error ''code'') (jv_as_i64 jv);
         logs = map_option (\<lambda>entries. join (CHR 0x0A # ''  '') (List.map_filter (jv_as_str jv) entries))
           (Option.bind (Option.bind (jv_get jv error ''data'') (\<lambda>d. jv_get jv d ''logs'')) (jv_as_array jv))
     in case (code, logs) of
          (Some code, Some logs) \<Rightarrow>
            if logs \<noteq> [] then RpcFailed (MethodFailed rpc_method (Some code) message (Some logs))
            else RpcFailed (MethodFailed rpc_method (Some code) message None)
        | (Some code, None) \<Rightarrow> RpcFailed (MethodFailed rpc_method (Some code) message None)
        | (None, Some logs) \<Rightarrow>
            if logs \<noteq> [] then RpcFailed (MethodFailed rpc_method None message (Some logs))
            else RpcFailed (MethodFailed rpc_method None message None)
        | (None, None) \<Rightarrow> RpcFailed (MethodFailed rpc_method None message None))"

definition rpc_call ::
    "'v Jsons \<Rightarrow> ('v, 'n) Node \<Rightarrow> RpcClient \<Rightarrow> string \<Rightarrow> 'v \<Rightarrow> ('v, 'n) net" where
  "rpc_call jv nd self rpc_method params =
    (let body = jv_object jv [(''jsonrpc'', jv_string jv ''2.0''), (''id'', jv_number jv 1),
           (''method'', jv_string jv rpc_method), (''params'', params)] in
     nbind (\<lambda>n. case nd_post nd (rc_url self) body n of
         (r, n') \<Rightarrow> (map_err (\<lambda>_. RpcFailed (RequestFailed (rc_url self))) r, n')) (\<lambda>(status, text).
     nbind (nlift (map_err (\<lambda>e. RpcFailed (UnreadableBody e)) text)) (\<lambda>text.
     nbind (nlift (ok_or (jv_parse jv text) (RpcFailed (InvalidResponse status)))) (\<lambda>v.
     nlift (case jv_get jv v ''error'' of
         Some error \<Rightarrow> Err (rpc_error_to_lab_error jv rpc_method error)
       | None \<Rightarrow> ok_or (jv_get jv v ''result'') (RpcFailed (NoResult rpc_method)))))))"

definition confirmed_options :: "'v Jsons \<Rightarrow> 'v" where
  "confirmed_options jv = jv_array jv [jv_object jv [(''commitment'', jv_string jv ''confirmed'')]]"

definition get_latest_blockhash ::
    "'v Jsons \<Rightarrow> ('v, 'n) Node \<Rightarrow> RpcClient \<Rightarrow> (string, 'n) net" where
  "get_latest_blockhash jv nd self =
     nbind (rpc_call jv nd self ''getLatestBlockhash'' (confirmed_options jv)) (\<lambda>res.
     nlift (ok_or (Option.bind (Option.bind (jv_get jv res ''value'') (\<lambda>v. jv_get jv v ''blockhash'')) (jv_as_str jv))
       (RpcFailed MissingBlockhash)))"

definition get_slot :: "'v Jsons \<Rightarrow> ('v, 'n) Node \<Rightarrow> RpcClient \<Rightarrow> (u64, 'n) net" where
  "get_slot jv nd self =
     nbind (rpc_call jv nd self ''getSlot'' (confirmed_options jv)) (\<lambda>res.
     nlift (ok_or (jv_as_u64 jv res) (RpcFailed NonNumericSlot)))"

text \<open>The part of \<open>get_account_info\<close> after the call: from the result to the account.\<close>

definition account_from_result ::
    "Sdk \<Rightarrow> 'v Jsons \<Rightarrow> string \<Rightarrow> 'v \<Rightarrow> (FetchedAccount option, LabError) result" where
  "account_from_result sd jv address res =
    (let v = (case jv_get jv res ''value'' of None \<Rightarrow> jv_null jv | Some v \<Rightarrow> v) in
     if jv_is_null jv v then Ok None
     else
     and_then (ok_or (Option.bind (Option.bind (Option.bind (jv_get jv v ''data'') (jv_as_array jv))
         (\<lambda>a. case a of [] \<Rightarrow> None | x # _ \<Rightarrow> Some x)) (jv_as_str jv))
       (RpcFailed (MalformedData address))) (\<lambda>data_field.
     and_then (ok_or (sd_base64_decode sd data_field) (RpcFailed (InvalidBase64 address))) (\<lambda>data.
     and_then (ok_or (Option.bind (jv_get jv v ''owner'') (jv_as_str jv)) (RpcFailed (MissingOwner address))) (\<lambda>owner.
     let lamports = (case Option.bind (jv_get jv v ''lamports'') (jv_as_u64 jv) of None \<Rightarrow> 0 | Some l \<Rightarrow> l)
     in Ok (Some \<lparr>fa_data = data, fa_owner = owner, fa_lamports = lamports\<rparr>)))))"

definition get_account_info ::
    "Sdk \<Rightarrow> 'v Jsons \<Rightarrow> ('v, 'n) Node \<Rightarrow> RpcClient \<Rightarrow> string \<Rightarrow> (FetchedAccount option, 'n) net" where
  "get_account_info sd jv nd self address =
     nbind (rpc_call jv nd self ''getAccountInfo'' (jv_array jv [jv_string jv address,
         jv_object jv [(''encoding'', jv_string jv ''base64''), (''commitment'', jv_string jv ''confirmed'')]])) (\<lambda>res.
     nlift (account_from_result sd jv address res))"

section \<open>Sending\<close>

definition send_transaction ::
    "Sdk \<Rightarrow> 'v Jsons \<Rightarrow> ('v, 'n) Node \<Rightarrow> ('kp, 'tx) Txs \<Rightarrow> RpcClient \<Rightarrow> 'tx \<Rightarrow> (string, 'n) net" where
  "send_transaction sd jv nd txs self tx =
     nbind (nlift (ok_or (tx_serialize txs tx) (RpcFailed Unserializable))) (\<lambda>bytes.
     let encoded = sd_base64_encode sd bytes in
     nbind (rpc_call jv nd self ''sendTransaction'' (jv_array jv [jv_string jv encoded,
         jv_object jv [(''encoding'', jv_string jv ''base64''), (''skipPreflight'', jv_bool jv False),
           (''preflightCommitment'', jv_string jv ''confirmed'')]])) (\<lambda>res.
     nlift (ok_or (jv_as_str jv res) (RpcFailed UnexpectedResult))))"

text \<open>\<open>into_iter().map(..).collect::<Result<Vec<_>, _>>()\<close>: the first error wins.\<close>

fun collect_statuses :: "'v Jsons \<Rightarrow> 'v list \<Rightarrow> ('v SignatureStatus option list, LabError) result" where
  "collect_statuses jv [] = Ok []"
| "collect_statuses jv (v # vs) =
     and_then (if jv_is_null jv v then Ok None
               else and_then (ok_or (jv_signature_status jv v) (RpcFailed InvalidStatus)) (\<lambda>s. Ok (Some s))) (\<lambda>s.
     and_then (collect_statuses jv vs) (\<lambda>rest. Ok (s # rest)))"

definition get_signature_statuses ::
    "'v Jsons \<Rightarrow> ('v, 'n) Node \<Rightarrow> RpcClient \<Rightarrow> string list \<Rightarrow> ('v SignatureStatus option list, 'n) net" where
  "get_signature_statuses jv nd self signatures =
     nbind (rpc_call jv nd self ''getSignatureStatuses''
       (jv_array jv [jv_array jv (map (jv_string jv) signatures),
         jv_object jv [(''searchTransactionHistory'', jv_bool jv True)]])) (\<lambda>res.
     nbind (nlift (ok_or (Option.bind (jv_get jv res ''value'') (jv_as_array jv)) (RpcFailed MissingStatuses))) (\<lambda>vs.
     nlift (collect_statuses jv vs)))"

text \<open>One round of \<open>send_and_confirm\<close>: only the first status counts; none, or one that is not yet
  confirmed, leaves it open.\<close>

definition confirm_attempt ::
    "'v Jsons \<Rightarrow> ('v, 'n) Node \<Rightarrow> RpcClient \<Rightarrow> string \<Rightarrow> 'n \<Rightarrow> (string, LabError) result option \<times> 'n" where
  "confirm_attempt jv nd self signature n =
    (case get_signature_statuses jv nd self [signature] n of
       (Err e, n') \<Rightarrow> (Some (Err e), n')
     | (Ok (Some status # _), n') \<Rightarrow>
         if ss_err status \<noteq> None then (Some (Err (RpcFailed (TransactionFailed signature))), n')
         else if ss_confirmation_status status \<in> {Some ''confirmed'', Some ''finalized''}
         then (Some (Ok signature), n')
         else (None, n')
     | (Ok _, n') \<Rightarrow> (None, n'))"

definition confirm_loop ::
    "nat \<Rightarrow> 'v Jsons \<Rightarrow> ('v, 'n) Node \<Rightarrow> RpcClient \<Rightarrow> string \<Rightarrow> 'n \<Rightarrow> ((string, LabError) result \<times> 'n) option" where
  "confirm_loop fuel jv nd self signature n =
    (let deadline = nd_now nd n + 90000 in
     poll_until fuel (nd_now nd) (nd_sleep nd) (confirm_attempt jv nd self signature)
       deadline 1000 (Err (RpcFailed (ConfirmationTimeout signature))) n)"

definition send_and_confirm ::
    "nat \<Rightarrow> Sdk \<Rightarrow> 'v Jsons \<Rightarrow> ('v, 'n) Node \<Rightarrow> ('kp, 'tx) Txs \<Rightarrow> RpcClient \<Rightarrow> 'tx \<Rightarrow> 'n \<Rightarrow>
     ((string, LabError) result \<times> 'n) option" where
  "send_and_confirm fuel sd jv nd txs self tx n =
    (case send_transaction sd jv nd txs self tx n of
       (Err e, n') \<Rightarrow> Some (Err e, n')
     | (Ok signature, n') \<Rightarrow> confirm_loop fuel jv nd self signature n')"

section \<open>The world behind a node\<close>

definition send_ixs ::
    "nat \<Rightarrow> Sdk \<Rightarrow> 'v Jsons \<Rightarrow> ('v, 'n) Node \<Rightarrow> ('kp, 'tx) Txs \<Rightarrow> 'kp Host \<Rightarrow> RpcClient \<Rightarrow> 'kp \<Rightarrow> Instruction list \<Rightarrow> 'n \<Rightarrow>
     ((string, LabError) result \<times> 'n) option" where
  "send_ixs fuel sd jv nd txs ho self payer ixs n =
    (case nbind (get_latest_blockhash jv nd self) (\<lambda>blockhash_str.
          nlift (ok_or (tx_hash_from_str txs blockhash_str) (RpcFailed (InvalidBlockhash blockhash_str)))) n of
       (Err e, n') \<Rightarrow> Some (Err e, n')
     | (Ok blockhash, n') \<Rightarrow>
         let tx = tx_sign txs payer ixs (ho_pubkey ho payer) blockhash
         in send_and_confirm fuel sd jv nd txs self tx n')"

text \<open>
  What the other modules use of the client: the view that reads give in a state, and sending. A
  wait that would not end is taken for a timeout; with a clock this does not happen.
\<close>

definition rpc_world ::
    "Sdk \<Rightarrow> 'v Jsons \<Rightarrow> ('v, 'n) Node \<Rightarrow> ('kp, 'tx) Txs \<Rightarrow> 'kp Host \<Rightarrow> string option \<Rightarrow> string \<Rightarrow> ('kp, 'n) World" where
  "rpc_world sd jv nd txs ho api_key url =
    (let self = \<lparr>rc_url = url\<rparr> in
     \<lparr>wo_client = and_then (new_rpc_client nd url) (\<lambda>_. Ok ()),
      wo_rpc = (\<lambda>n address. fst (get_account_info sd jv nd self address n)),
      wo_slot = (\<lambda>n. fst (get_slot jv nd self n)),
      wo_send = (\<lambda>payer ixs n.
        case send_ixs 91 sd jv nd txs ho self payer ixs n of
          Some x \<Rightarrow> x
        | None \<Rightarrow> (Err (RpcFailed (ConfirmationTimeout url)), n)),
      wo_api_key = api_key\<rparr>)"

section \<open>Waiting ends, and success was confirmed\<close>

definition node_clock :: "('v, 'n) Node \<Rightarrow> bool" where
  "node_clock nd \<longleftrightarrow>
     (\<forall>url body n. nd_now nd n \<le> nd_now nd (snd (nd_post nd url body n))) \<and>
     (\<forall>d n. nd_now nd n + d \<le> nd_now nd (nd_sleep nd d n))"

text \<open>Computations on which the clock does not go back.\<close>

definition forward :: "('v, 'n) Node \<Rightarrow> ('a, 'n) net \<Rightarrow> bool" where
  "forward nd m \<longleftrightarrow> (\<forall>n. nd_now nd n \<le> nd_now nd (snd (m n)))"

lemma forward_nlift: "forward nd (nlift r)"
  by (simp add: forward_def nlift_def)

lemma forward_nbind: "forward nd m \<Longrightarrow> (\<And>x. forward nd (f x)) \<Longrightarrow> forward nd (nbind m f)"
  unfolding forward_def nbind_def
  by (auto split: prod.splits sum.splits) (metis le_trans snd_conv)+

lemma forward_rpc_call: "node_clock nd \<Longrightarrow> forward nd (rpc_call jv nd self rpc_method params)"
  unfolding rpc_call_def Let_def
  by (intro forward_nbind)
    (auto simp: forward_def nlift_def node_clock_def nbind_def split: prod.splits sum.splits, metis snd_conv)

lemma forward_statuses: "node_clock nd \<Longrightarrow> forward nd (get_signature_statuses jv nd self sigs)"
  unfolding get_signature_statuses_def by (intro forward_nbind forward_nlift forward_rpc_call)

lemma confirm_attempt_clock:
  assumes "node_clock nd"
  shows "nd_now nd n \<le> nd_now nd (snd (confirm_attempt jv nd self signature n))"
proof -
  have "nd_now nd n \<le> nd_now nd (snd (get_signature_statuses jv nd self [signature] n))"
    using forward_statuses [OF assms] by (simp add: forward_def)
  then show ?thesis
    by (auto simp: confirm_attempt_def split: prod.splits sum.splits list.splits option.splits)
qed

lemma confirm_loop_ends:
  assumes "node_clock nd"
  shows "confirm_loop 91 jv nd self signature n \<noteq> None"
proof -
  have "confirm_loop (Suc 90) jv nd self signature n \<noteq> None"
    unfolding confirm_loop_def Let_def
    by (rule poll_until_ends [where fuel = 90])
      (use confirm_attempt_clock [OF assms] assms in \<open>auto simp: node_clock_def\<close>)
  then show ?thesis by simp
qed

text \<open>
  C34: sending a transaction ends: on a clock that does not go back, the wait for confirmation
  returns after at most 91 rounds, whatever the node answers, with a signature or an error.
\<close>

theorem sending_ends:
  assumes "node_clock nd"
  shows "send_ixs 91 sd jv nd txs ho self payer ixs n \<noteq> None"
  using confirm_loop_ends [OF assms]
  by (auto simp: send_ixs_def send_and_confirm_def Let_def split: prod.splits sum.splits)

lemma confirm_loop_Ok:
  assumes "confirm_loop fuel jv nd self signature n = Some (Ok s, n')"
  shows "s = signature \<and> (\<exists>m status rest. get_signature_statuses jv nd self [signature] m = (Ok (Some status # rest), n') \<and>
    ss_err status = None \<and> ss_confirmation_status status \<in> {Some ''confirmed'', Some ''finalized''})"
proof -
  obtain m where "confirm_attempt jv nd self signature m = (Some (Ok s), n')"
    using poll_until_decided [OF assms [unfolded confirm_loop_def Let_def]] by auto
  then show ?thesis
    by (intro conjI exI [of _ m])
      (auto simp: confirm_attempt_def split: prod.splits sum.splits list.splits option.splits if_splits)
qed

text \<open>
  A sent transaction is reported as confirmed only when the node's last answer says of its
  signature that it has no error and is confirmed or finalized.
\<close>

lemma sending_reports_confirmed:
  assumes "send_and_confirm fuel sd jv nd txs self tx n = Some (Ok signature, n')"
  shows "\<exists>m status rest. get_signature_statuses jv nd self [signature] m = (Ok (Some status # rest), n') \<and>
    ss_err status = None \<and> ss_confirmation_status status \<in> {Some ''confirmed'', Some ''finalized''}"
  using assms confirm_loop_Ok
  by (fastforce simp: send_and_confirm_def split: prod.splits sum.splits)

section \<open>A node that confirms at once\<close>

text \<open>JSON values are texts here, every field of a value is the value, and the node echoes one text.\<close>

definition echo_jsons :: "string Jsons" where
  "echo_jsons =
    \<lparr>jv_parse = Some, jv_get = (\<lambda>v k. if k = ''error'' then None else Some v), jv_as_str = Some,
     jv_as_u64 = (\<lambda>_. None), jv_as_i64 = (\<lambda>_. None), jv_as_array = (\<lambda>v. Some [v]),
     jv_is_null = (\<lambda>_. False), jv_null = '''', jv_string = (\<lambda>s. s), jv_bool = (\<lambda>_. ''''),
     jv_number = (\<lambda>_. ''''), jv_array = concat, jv_object = (\<lambda>_. ''''),
     jv_signature_status = (\<lambda>_. Some \<lparr>ss_slot = 1, ss_err = None, ss_confirmation_status = Some ''confirmed''\<rparr>)\<rparr>"

definition echo_node :: "(string, nat) Node" where
  "echo_node = \<lparr>nd_build = Ok (), nd_post = (\<lambda>_ _ n. (Ok (200, Ok ''sig''), n)), nd_now = (\<lambda>n. n), nd_sleep = (\<lambda>d n. n + d)\<rparr>"

definition echo_txs :: "(pubkey, unit) Txs" where
  "echo_txs = \<lparr>tx_sign = (\<lambda>_ _ _ _. ()), tx_hash_from_str = (\<lambda>_. Some 0), tx_serialize = (\<lambda>_. Some [])\<rparr>"

lemma echo_call: "rpc_call echo_jsons echo_node self m params n = (Ok ''sig'', n)"
  by (simp add: rpc_call_def Let_def nbind_def nlift_def echo_node_def) (simp add: echo_jsons_def)

theorem sending_ends_witness:
  "send_ixs 91 lab_sdk echo_jsons echo_node echo_txs lab_host \<lparr>rc_url = ''''\<rparr> lab_payer [] 0 \<noteq> None"
  by (rule sending_ends) (simp add: node_clock_def echo_node_def)

lemma sending_reports_confirmed_instance:
  "\<exists>m status rest. get_signature_statuses echo_jsons echo_node \<lparr>rc_url = ''''\<rparr> [''sig''] m = (Ok (Some status # rest), 0) \<and>
    ss_err status = None"
proof -
  have statuses: "get_signature_statuses echo_jsons echo_node \<lparr>rc_url = ''''\<rparr> [''sig''] 0
      = (Ok [Some \<lparr>ss_slot = 1, ss_err = None, ss_confirmation_status = Some ''confirmed''\<rparr>], 0)"
    by (simp add: get_signature_statuses_def nbind_def nlift_def echo_call) (simp add: echo_jsons_def)
  have "send_transaction lab_sdk echo_jsons echo_node echo_txs \<lparr>rc_url = ''''\<rparr> () 0 = (Ok ''sig'', 0)"
    by (simp add: send_transaction_def nbind_def nlift_def echo_call Let_def) (simp add: echo_jsons_def echo_txs_def)
  then have "send_and_confirm 1 lab_sdk echo_jsons echo_node echo_txs \<lparr>rc_url = ''''\<rparr> () 0 = Some (Ok ''sig'', 0)"
    by (simp add: send_and_confirm_def confirm_loop_def Let_def confirm_attempt_def statuses)
  from sending_reports_confirmed [OF this] show ?thesis by blast
qed

end
