(* ===== verification/Lab.thy ===== *)
theory Lab
  imports Rpc
begin

text \<open>
  The files of the lab: \<open>crates/client/src/lib.rs\<close> (data directory, set-up, encrypted inputs,
  request files), \<open>devnet/state.rs\<close> (the cached state, keypair files) and the loading of results
  in \<open>devnet/finalize.rs\<close>.

  JSON texts are made and read by \<open>CliJson\<close>; new keypairs take their randomness as an argument
  (\<open>Keys\<close>). Computations with \<open>LabError\<close> over any state are \<open>nbind\<close>, over the disk in this theory.
\<close>

section \<open>Parameters and lifting\<close>

record ParamsFile =
  pm_params_hash :: string
  pm_key_version :: u32

record CliJson =
  cj_read_bytes :: "u8 list \<Rightarrow> (u8 list, string) result"
  cj_write_bytes :: "u8 list \<Rightarrow> (u8 list, string) result"
  cj_read_params :: "u8 list \<Rightarrow> (ParamsFile, string) result"
  cj_write_params :: "ParamsFile \<Rightarrow> (u8 list, string) result"
  cj_read_request :: "u8 list \<Rightarrow> (RequestFile, string) result"
  cj_write_request :: "RequestFile \<Rightarrow> (u8 list, string) result"
  cj_read_result :: "u8 list \<Rightarrow> (ResultFile, string) result"
  cj_write_result :: "ResultFile \<Rightarrow> (u8 list, string) result"
  cj_read_state :: "u8 list \<Rightarrow> (DevnetState, string) result"
  cj_write_state :: "DevnetState \<Rightarrow> (u8 list, string) result"

record 'kp Keys =
  ke_new :: "nat \<Rightarrow> 'kp"
  ke_to_bytes :: "'kp \<Rightarrow> u8 list"

text \<open>\<open>From<io::Error>\<close>, \<open>From<WorkerError>\<close> and \<open>map_err(|e| LabError(e.to_string()))\<close>\<close>

definition io :: "'a wio \<Rightarrow> ('a, Disk) net" where
  "io m = wmap_err (\<lambda>e. HostFailed (io_text e)) m"

definition worker :: "'a wio \<Rightarrow> ('a, Disk) net" where
  "worker m = wmap_err WorkerFailed m"

definition text_err :: "('a, string) result \<Rightarrow> ('a, 's) net" where
  "text_err r = nlift (map_err HostFailed r)"

section \<open>Data directory\<close>

record DataPaths =
  dp_root :: string
  dp_keys :: string
  dp_ciphertexts :: string
  dp_client_key :: string
  dp_server_key :: string
  dp_operator :: string
  dp_params :: string
  dp_request :: string
  dp_result :: string

definition data_paths :: "string \<Rightarrow> DataPaths" where
  "data_paths root =
    \<lparr>dp_root = root,
     dp_keys = path_join root ''keys'',
     dp_ciphertexts = path_join root ''ciphertexts'',
     dp_client_key = path_join root ''keys/client.bin'',
     dp_server_key = path_join root ''keys/server.bin'',
     dp_operator = path_join root ''keys/operator.json'',
     dp_params = path_join root ''keys/params.json'',
     dp_request = path_join root ''request.json'',
     dp_result = path_join root ''result.json''\<rparr>"

text \<open>\<open>setup\<close>; the three numbers are the randomness of the keys and of the operator's keypair.\<close>

definition setup_lab ::
    "Crates \<Rightarrow> ('ck, 'sk, 'csk, 'ct, 'cb) Tfhe \<Rightarrow> 'kp Keys \<Rightarrow> CliJson \<Rightarrow> nat \<times> nat \<times> nat \<Rightarrow> string \<Rightarrow>
     (('ck, 'sk, 'csk) FheMaterial, Disk) net" where
  "setup_lab cr tf ke cj entropy root =
    (case entropy of (e1, e2, e3) \<Rightarrow>
     let paths = data_paths root in
     nbind (io (fs_create_dir_all (dp_keys paths))) (\<lambda>_.
     nbind (io (fs_create_dir_all (dp_ciphertexts paths))) (\<lambda>_.
     nbind (nlift (map_err WorkerFailed (generate_material cr tf e1 e2))) (\<lambda>material.
     nbind (worker (write_client_key tf (dp_client_key paths) (fm_client_key material))) (\<lambda>_.
     nbind (worker (write_server_key tf (dp_server_key paths) (fm_compressed_server_key material))) (\<lambda>_.
     let operator = ke_new ke e3 in
     nbind (text_err (cj_write_bytes cj (ke_to_bytes ke operator))) (\<lambda>operator_text.
     nbind (io (fs_write (dp_operator paths) operator_text)) (\<lambda>_.
     let params = \<lparr>pm_params_hash = cr_hex_encode cr (raw (fm_params_hash material)), pm_key_version = 1\<rparr> in
     nbind (text_err (cj_write_params cj params)) (\<lambda>params_text.
     nbind (io (fs_write (dp_params paths) params_text)) (\<lambda>_.
     nlift (Ok material)))))))))))"

record EncryptedRefs =
  er_balance_hash :: bytes32
  er_amount_hash :: bytes32
  er_limit_hash :: bytes32

definition encrypt_inputs ::
    "Crates \<Rightarrow> ('ck, 'sk, 'csk, 'ct, 'cb) Tfhe \<Rightarrow> nat \<times> nat \<times> nat \<Rightarrow> string \<Rightarrow> ('ck, 'sk, 'csk) FheMaterial \<Rightarrow>
     u64 \<Rightarrow> u64 \<Rightarrow> u64 \<Rightarrow> (EncryptedRefs, Disk) net" where
  "encrypt_inputs cr tf entropy root material balance amount limit =
    (case entropy of (e1, e2, e3) \<Rightarrow>
     let paths = data_paths root in
     nbind (worker (new_store (dp_ciphertexts paths))) (\<lambda>store.
     let key_version = 1 in
     nbind (worker (store_u64 cr tf store (encrypt_u64 tf e1 balance (fm_client_key material))
              key_version (fm_params_hash material))) (\<lambda>balance_hash.
     nbind (worker (store_u64 cr tf store (encrypt_u64 tf e2 amount (fm_client_key material))
              key_version (fm_params_hash material))) (\<lambda>amount_hash.
     nbind (worker (store_u64 cr tf store (encrypt_u64 tf e3 limit (fm_client_key material))
              key_version (fm_params_hash material))) (\<lambda>limit_hash.
     nlift (Ok \<lparr>er_balance_hash = balance_hash, er_amount_hash = amount_hash,
               er_limit_hash = limit_hash\<rparr>))))))"

text \<open>\<open>read_operator\<close> of the client library: JSON bytes only, unlike the worker's.\<close>

definition read_operator_file :: "'kp Host \<Rightarrow> CliJson \<Rightarrow> string \<Rightarrow> ('kp, Disk) net" where
  "read_operator_file ho cj path =
     nbind (io (fs_read path)) (\<lambda>bytes.
     nbind (text_err (cj_read_bytes cj bytes)) (\<lambda>json.
     text_err (ho_keypair_try_from ho json)))"

definition write_request_file :: "Crates \<Rightarrow> CliJson \<Rightarrow> string \<Rightarrow> RequestBinding \<Rightarrow> (unit, Disk) net" where
  "write_request_file cr cj path binding =
     nbind (text_err (cj_write_request cj (request_to_file cr binding))) (\<lambda>text.
     io (fs_write path text))"

definition read_request_file :: "Crates \<Rightarrow> CliJson \<Rightarrow> string \<Rightarrow> (RequestBinding, Disk) net" where
  "read_request_file cr cj path =
     nbind (io (fs_read path)) (\<lambda>bytes.
     nbind (text_err (cj_read_request cj bytes)) (\<lambda>file.
     nlift (map_err WorkerFailed (request_from_file cr file))))"

definition read_params_file :: "CliJson \<Rightarrow> string \<Rightarrow> (ParamsFile, Disk) net" where
  "read_params_file cj path =
     nbind (io (fs_read path)) (\<lambda>bytes. text_err (cj_read_params cj bytes))"

section \<open>State and keypair files\<close>

definition default_state :: DevnetState where
  "default_state =
    \<lparr>ds_rpc_url = None, ds_program_id = None, ds_mint = None, ds_config = None, ds_account = None,
     ds_owner = None, ds_authority = None, ds_operator = None, ds_params_hash = None,
     ds_key_version = None, ds_max_request_lifetime_slots = None, ds_latest_request = None,
     ds_latest_request_nonce = None, ds_payer_keypair_path = None, ds_authority_keypair_path = None,
     ds_owner_keypair_path = None, ds_latest_relayer_transaction_id = None,
     ds_latest_solana_signature = None\<rparr>"

definition state_path :: "string \<Rightarrow> string" where
  "state_path data_dir = path_join data_dir ''devnet-state.json''"

definition load_state :: "CliJson \<Rightarrow> string \<Rightarrow> (DevnetState, Disk) net" where
  "load_state cj data_dir =
    (let path = state_path data_dir in
     nbind (io (fs_exists path)) (\<lambda>there.
     if \<not> there then nlift (Ok default_state)
     else nbind (io (fs_read path)) (\<lambda>bytes. text_err (cj_read_state cj bytes))))"

definition save_state :: "CliJson \<Rightarrow> DevnetState \<Rightarrow> string \<Rightarrow> (unit, Disk) net" where
  "save_state cj self data_dir =
     nbind (io (fs_create_dir_all data_dir)) (\<lambda>_.
     let path = state_path data_dir in
     nbind (text_err (cj_write_state cj self)) (\<lambda>bytes.
     io (fs_write path bytes)))"

definition expand_tilde_with_home :: "string \<Rightarrow> string option \<Rightarrow> string" where
  "expand_tilde_with_home path home =
    (if take 2 path = ''~/'' then (case home of Some h \<Rightarrow> path_join h (drop 2 path) | None \<Rightarrow> path)
     else path)"

definition default_keypair_path_with_home :: "string option \<Rightarrow> string" where
  "default_keypair_path_with_home home =
    (case home of Some h \<Rightarrow> path_join h ''.config/solana/id.json'' | None \<Rightarrow> ''.config/solana/id.json'')"

definition read_keypair_file :: "'kp Host \<Rightarrow> CliJson \<Rightarrow> string \<Rightarrow> ('kp, Disk) net" where
  "read_keypair_file ho cj path =
     nbind (wmap_err (\<lambda>_. CommandFailed (KeypairUnreadable path)) (fs_read path)) (\<lambda>bytes.
     nbind (nlift (map_err (\<lambda>_. CommandFailed (KeypairNotJson path)) (cj_read_bytes cj bytes))) (\<lambda>json.
     nlift (map_err (\<lambda>_. CommandFailed (KeypairInvalid path)) (ho_keypair_try_from ho json))))"

section \<open>Result files\<close>

definition load_parsed_result :: "Crates \<Rightarrow> CliJson \<Rightarrow> string \<Rightarrow> (ParsedResultFile, Disk) net" where
  "load_parsed_result cr cj data_dir =
    (let paths = data_paths data_dir in
     nbind (wmap_err (\<lambda>_. CommandFailed (ResultUnreadable (dp_result paths))) (fs_read (dp_result paths))) (\<lambda>bytes.
     nbind (text_err (cj_read_result cj bytes)) (\<lambda>file.
     nlift (parse_result_file cr file))))"

definition load_cached_request :: "Crates \<Rightarrow> CliJson \<Rightarrow> string \<Rightarrow> (RequestBinding option, Disk) net" where
  "load_cached_request cr cj data_dir =
    (let paths = data_paths data_dir in
     nbind (io (fs_exists (dp_request paths))) (\<lambda>there.
     if there then nbind (read_request_file cr cj (dp_request paths)) (\<lambda>request. nlift (Ok (Some request)))
     else nlift (Ok None)))"

end
