(* ===== verification/Commands.thy ===== *)
theory Commands
  imports Lab
begin

text \<open>
  The devnet commands, \<open>crates/client/src/devnet/commands.rs\<close>, over the disk and a world: each
  reads the cached state, the chain and its files, sends at most one transaction, and writes the
  state back. Everything a command prints is left out, except for \<open>inspect\<close>, whose result is
  what it prints.

  \<open>Cli\<close> bundles the parameters: \<open>cl_world\<close> gives the world behind an RPC URL, whose client
  each command builds first, \<open>cl_home\<close> is the
  environment's home directory.
\<close>

section \<open>Parameters and lifting\<close>

record ('kp, 'n) Cli =
  cl_sdk :: Sdk
  cl_crates :: Crates
  cl_host :: "'kp Host"
  cl_json :: CliJson
  cl_home :: "string option"
  cl_world :: "string \<Rightarrow> ('kp, 'n) World"

definition on_disk :: "('a, Disk) net \<Rightarrow> ('a, Disk \<times> 'n) net" where
  "on_disk m = (\<lambda>(d, n). case m d of (r, d') \<Rightarrow> (r, (d', n)))"

definition on_world :: "('a, 'n) net \<Rightarrow> ('a, Disk \<times> 'n) net" where
  "on_world m = (\<lambda>(d, n). case m n of (r, n') \<Rightarrow> (r, (d, n')))"

text \<open>A read of the chain in the current state.\<close>

definition reading :: "('kp, 'n) World \<Rightarrow> (rpc \<Rightarrow> ('a, LabError) result) \<Rightarrow> ('a, Disk \<times> 'n) net" where
  "reading wo f = (\<lambda>(d, n). (f (wo_rpc wo n), (d, n)))"

definition chain_slot :: "('kp, 'n) World \<Rightarrow> (u64, Disk \<times> 'n) net" where
  "chain_slot wo = (\<lambda>(d, n). (wo_slot wo n, (d, n)))"

definition sending ::
    "('kp, 'n) World \<Rightarrow> 'kp \<Rightarrow> Instruction list \<Rightarrow> (string, Disk \<times> 'n) net" where
  "sending wo payer ixs = on_world (wo_send wo payer ixs)"

definition refuse_if :: "bool \<Rightarrow> LabError \<Rightarrow> (unit, 's) net" where
  "refuse_if c e = nlift (if c then Err e else Ok ())"

section \<open>Helpers\<close>

definition signer_path :: "string option \<Rightarrow> string list \<Rightarrow> string \<Rightarrow> string option \<Rightarrow> string" where
  "signer_path home args flag_name cached =
    (case flag_lookup args flag_name of
       Some v \<Rightarrow> expand_tilde_with_home v home
     | None \<Rightarrow> (case cached of
           Some c \<Rightarrow> expand_tilde_with_home c home
         | None \<Rightarrow> default_keypair_path_with_home home))"

definition optional_address_flag :: "Sdk \<Rightarrow> string list \<Rightarrow> string \<Rightarrow> (pubkey option, LabError) result" where
  "optional_address_flag sd args name =
    (case flag_lookup args name of
       None \<Rightarrow> Ok None
     | Some v \<Rightarrow> and_then (parse_address sd v) (\<lambda>a. Ok (Some a)))"

text \<open>An address recorded in the state file.\<close>

definition recorded :: "Sdk \<Rightarrow> string option \<Rightarrow> LabError \<Rightarrow> (pubkey, LabError) result" where
  "recorded sd text e = and_then (ok_or text e) (parse_address sd)"

section \<open>Initialize and create-account\<close>

definition cmd_initialize ::
    "('kp, 'n) Cli \<Rightarrow> 'kp \<Rightarrow> string \<Rightarrow> string list \<Rightarrow> (unit, Disk \<times> 'n) net" where
  "cmd_initialize cl generated data_dir args =
    (let sd = cl_sdk cl; ho = cl_host cl; cj = cl_json cl in
     nbind (on_disk (load_state cj data_dir)) (\<lambda>state.
     let url = flag_or args ''--rpc-url'' (rpc_url state);
         wo = cl_world cl url in
     nbind (nlift (wo_client wo)) (\<lambda>_.
     let authority_path = signer_path (cl_home cl) args ''--authority'' (ds_authority_keypair_path state) in
     nbind (on_disk (read_keypair_file ho cj authority_path)) (\<lambda>authority.
     nbind (nlift (optional_address_flag sd args ''--mint'')) (\<lambda>mint_flag.
     let mint = (case mint_flag of Some mint \<Rightarrow> mint | None \<Rightarrow> ho_pubkey ho generated);
         config = derive_config sd mint in
     nbind (reading wo (\<lambda>rpc. account_exists sd rpc config)) (\<lambda>there.
     nbind (refuse_if there (CommandFailed ConfigExists)) (\<lambda>_.
     let paths = data_paths data_dir in
     nbind (on_disk (wmap_err (\<lambda>_. CommandFailed (ParamsUnreadable (dp_params paths))) (fs_read (dp_params paths)))) (\<lambda>params_bytes.
     nbind (text_err (cj_read_params cj params_bytes)) (\<lambda>params.
     nbind (nlift (map_err (\<lambda>_. CommandFailed InvalidParamsHash)
              (parse_hex32 (cl_crates cl) (pm_params_hash params)))) (\<lambda>params_hash.
     nbind (on_disk (read_operator_file ho cj (dp_operator paths))) (\<lambda>operator.
     let operator_pubkey = ho_pubkey ho operator in
     nbind (nlift (flag_u64_or args ''--max-request-lifetime-slots'' DEFAULT_MAX_REQUEST_LIFETIME_SLOTS)) (\<lambda>lifetime.
     let ix = initialize_ix sd (ho_pubkey ho authority) mint config operator_pubkey params_hash lifetime in
     nbind (sending wo authority [ix]) (\<lambda>signature.
     let text = sd_address_to_string sd in
     on_disk (save_state cj (state\<lparr>ds_rpc_url := Some url, ds_program_id := Some (text PROGRAM_ID),
         ds_mint := Some (text mint), ds_config := Some (text config),
         ds_authority := Some (text (ho_pubkey ho authority)), ds_operator := Some (text operator_pubkey),
         ds_params_hash := Some (pm_params_hash params), ds_key_version := Some (pm_key_version params),
         ds_max_request_lifetime_slots := Some lifetime,
         ds_authority_keypair_path := Some authority_path\<rparr>) data_dir))))))))))))))"

definition cmd_create_account ::
    "('kp, 'n) Cli \<Rightarrow> string \<Rightarrow> string list \<Rightarrow> (unit, Disk \<times> 'n) net" where
  "cmd_create_account cl data_dir args =
    (let sd = cl_sdk cl; ho = cl_host cl; cj = cl_json cl in
     nbind (on_disk (load_state cj data_dir)) (\<lambda>state.
     let url = flag_or args ''--rpc-url'' (rpc_url state);
         wo = cl_world cl url in
     nbind (nlift (wo_client wo)) (\<lambda>_.
     nbind (nlift (recorded sd (ds_mint state) (CommandFailed NoMintRecorded))) (\<lambda>mint.
     nbind (nlift (recorded sd (ds_config state) (CommandFailed NoConfigRecorded))) (\<lambda>config.
     let owner_path = signer_path (cl_home cl) args ''--owner'' (ds_owner_keypair_path state) in
     nbind (on_disk (read_keypair_file ho cj owner_path)) (\<lambda>owner.
     let account = derive_account sd mint (ho_pubkey ho owner) in
     nbind (reading wo (\<lambda>rpc. account_exists sd rpc account)) (\<lambda>there.
     nbind (refuse_if there (CommandFailed AccountExists)) (\<lambda>_.
     nbind (nlift (flag_hex32 (cl_crates cl) args ''--balance-hash'')) (\<lambda>balance_hash.
     nbind (nlift (flag_hex32 (cl_crates cl) args ''--limit-hash'')) (\<lambda>limit_hash.
     let ix = create_account_ix sd (ho_pubkey ho owner) config account balance_hash limit_hash in
     nbind (sending wo owner [ix]) (\<lambda>signature.
     on_disk (save_state cj (state\<lparr>ds_rpc_url := Some url,
         ds_owner := Some (sd_address_to_string sd (ho_pubkey ho owner)),
         ds_account := Some (sd_address_to_string sd account),
         ds_owner_keypair_path := Some owner_path\<rparr>) data_dir))))))))))))"

section \<open>Submit and fetch-request\<close>

text \<open>What \<open>submit\<close> demands of the fetched accounts before it sends anything.\<close>

definition submit_checks ::
    "pubkey \<Rightarrow> Config \<Rightarrow> ConfidentialAccount \<Rightarrow> pubkey \<Rightarrow> (unit, LabError) result" where
  "submit_checks config_address config account owner =
    (if cfg_paused config then Err (CommandFailed SubmitPaused)
     else if acc_config account \<noteq> config_address then Err (CommandFailed AccountConfigDiffers)
     else if acc_mint account \<noteq> cfg_mint config then Err (CommandFailed AccountMintDiffers)
     else if acc_owner account \<noteq> owner then Err (CommandFailed NotTheOwner)
     else if acc_key_version account \<noteq> cfg_key_version config then Err (CommandFailed KeyVersionDiffers)
     else if acc_pending_request account \<noteq> 0 then Err (CommandFailed StillHasPending)
     else Ok ())"

definition cmd_submit ::
    "('kp, 'n) Cli \<Rightarrow> string \<Rightarrow> string list \<Rightarrow> (unit, Disk \<times> 'n) net" where
  "cmd_submit cl data_dir args =
    (let sd = cl_sdk cl; ho = cl_host cl; cj = cl_json cl in
     nbind (on_disk (load_state cj data_dir)) (\<lambda>state.
     let url = flag_or args ''--rpc-url'' (rpc_url state);
         wo = cl_world cl url in
     nbind (nlift (wo_client wo)) (\<lambda>_.
     let owner_path = signer_path (cl_home cl) args ''--owner'' (ds_owner_keypair_path state) in
     nbind (on_disk (read_keypair_file ho cj owner_path)) (\<lambda>owner.
     nbind (nlift (recorded sd (ds_config state) (CommandFailed NoConfigRecorded))) (\<lambda>config_address.
     nbind (nlift (recorded sd (ds_account state) (CommandFailed NoAccountRecorded))) (\<lambda>account_address.
     nbind (reading wo (\<lambda>rpc. fetch_config sd rpc config_address)) (\<lambda>config.
     nbind (reading wo (\<lambda>rpc. fetch_account sd rpc account_address)) (\<lambda>account.
     nbind (nlift (submit_checks config_address config account (ho_pubkey ho owner))) (\<lambda>_.
     nbind (nlift (flag_hex32 (cl_crates cl) args ''--amount-hash'')) (\<lambda>amount_hash.
     let expected_state_version = acc_state_version account in
     nbind (nlift (ok_or (checked_add (acc_request_nonce account) 1) (CommandFailed NonceOverflow))) (\<lambda>expected_nonce.
     let request_address = derive_request sd account_address expected_nonce;
         ix = submit_ix sd (ho_pubkey ho owner) config_address account_address request_address
                amount_hash expected_state_version expected_nonce in
     nbind (sending wo owner [ix]) (\<lambda>signature.
     nbind (reading wo (\<lambda>rpc. fetch_and_verify_request sd rpc request_address)) (\<lambda>verified.
     let paths = data_paths data_dir in
     nbind (on_disk (write_request_file (cl_crates cl) cj (dp_request paths) (vr_binding verified))) (\<lambda>_.
     on_disk (save_state cj (state\<lparr>ds_rpc_url := Some url,
         ds_owner := Some (sd_address_to_string sd (ho_pubkey ho owner)),
         ds_owner_keypair_path := Some owner_path,
         ds_latest_request := Some (sd_address_to_string sd request_address),
         ds_latest_request_nonce := Some expected_nonce\<rparr>) data_dir)))))))))))))))"

definition cmd_fetch_request ::
    "('kp, 'n) Cli \<Rightarrow> string \<Rightarrow> string list \<Rightarrow> (unit, Disk \<times> 'n) net" where
  "cmd_fetch_request cl data_dir args =
    (let sd = cl_sdk cl; cj = cl_json cl in
     nbind (on_disk (load_state cj data_dir)) (\<lambda>state.
     let wo = cl_world cl (flag_or args ''--rpc-url'' (rpc_url state)) in
     nbind (nlift (wo_client wo)) (\<lambda>_.
     nbind (nlift (and_then (optional_address_flag sd args ''--request'') (\<lambda>given.
              case given of
                Some address \<Rightarrow> Ok address
              | None \<Rightarrow> recorded sd (ds_latest_request state) (ArgsFailed NoRequestKnown)))) (\<lambda>request_address.
     nbind (reading wo (\<lambda>rpc. fetch_and_verify_request sd rpc request_address)) (\<lambda>verified.
     let paths = data_paths data_dir in
     on_disk (write_request_file (cl_crates cl) cj (dp_request paths) (vr_binding verified)))))))"

section \<open>Finalize\<close>

text \<open>The part before the delivery, shared by both transports.\<close>

definition finalize_prepared ::
    "('kp, 'n) Cli \<Rightarrow> string \<Rightarrow> string list \<Rightarrow>
     (DevnetState \<times> FinalizeTransport \<times> string \<times> PreparedFinalize, Disk \<times> 'n) net" where
  "finalize_prepared cl data_dir args =
    (let sd = cl_sdk cl; cj = cl_json cl; cr = cl_crates cl in
     nbind (on_disk (load_state cj data_dir)) (\<lambda>state.
     nbind (nlift (transport_from_args args)) (\<lambda>transport.
     let url = flag_or args ''--rpc-url'' (rpc_url state);
         wo = cl_world cl url in
     nbind (nlift (wo_client wo)) (\<lambda>_.
     nbind (on_disk (load_parsed_result cr cj data_dir)) (\<lambda>parsed.
     nbind (on_disk (load_cached_request cr cj data_dir)) (\<lambda>cached_request.
     nbind (nlift (resolve_request_address sd args state cached_request)) (\<lambda>request_address.
     nbind (reading wo (\<lambda>rpc. prepare_finalize sd rpc request_address cached_request parsed)) (\<lambda>prepared.
     nlift (Ok (state, transport, url, prepared))))))))))"

definition finalize_direct ::
    "('kp, 'n) Cli \<Rightarrow> string \<Rightarrow> string list \<Rightarrow> DevnetState \<Rightarrow> string \<Rightarrow> PreparedFinalize \<Rightarrow> (unit, Disk \<times> 'n) net" where
  "finalize_direct cl data_dir args state url prepared =
    (let payer_path = signer_path (cl_home cl) args ''--payer'' (ds_payer_keypair_path state) in
     nbind (on_disk (read_keypair_file (cl_host cl) (cl_json cl) payer_path)) (\<lambda>payer.
     nbind (on_world (deliver_direct (cl_sdk cl) (cl_host cl) (cl_world cl url) prepared payer)) (\<lambda>outcome.
     on_disk (save_state (cl_json cl) (state\<lparr>ds_rpc_url := Some url,
       ds_payer_keypair_path := Some payer_path\<rparr>) data_dir))))"

text \<open>The relayer's polling loop may run out of fuel (\<open>None\<close>); theory \<open>Relayer\<close> bounds it.\<close>

definition cmd_finalize ::
    "nat \<Rightarrow> 'v Parsers \<Rightarrow> 'n Http \<Rightarrow> ('kp, 'n) Cli \<Rightarrow> string \<Rightarrow> string list \<Rightarrow> Disk \<times> 'n \<Rightarrow>
     ((unit, LabError) result \<times> (Disk \<times> 'n)) option" where
  "cmd_finalize fuel js ht cl data_dir args s =
    (case finalize_prepared cl data_dir args s of
       (Err e, s') \<Rightarrow> Some (Err e, s')
     | (Ok (state, Direct, url, prepared), s') \<Rightarrow>
         Some (finalize_direct cl data_dir args state url prepared s')
     | (Ok (state, OpenZeppelin relayer_url relayer_id, url, prepared), (d, n)) \<Rightarrow>
         map_option (\<lambda>(r, n').
             nbind (nlift r) (\<lambda>outcome.
             on_disk (save_state (cl_json cl) (state\<lparr>ds_rpc_url := Some url,
               ds_latest_relayer_transaction_id := fo_relayer_transaction_id outcome,
               ds_latest_solana_signature := fo_solana_signature outcome\<rparr>) data_dir)) (d, n'))
           (deliver_openzeppelin fuel (cl_sdk cl) js ht (cl_world cl url) prepared relayer_url relayer_id
              default_poll n))"

section \<open>Inspect\<close>

text \<open>What is printed: for each address that is known, what was read or the error; for a request
  with the slot, when the node reports one, and whether it is a stale pending request.\<close>

record Inspection =
  in_config :: "(pubkey \<times> (Config, LabError) result) option"
  in_account :: "(pubkey \<times> (ConfidentialAccount, LabError) result) option"
  in_request :: "(pubkey \<times> (VerifiedRequest \<times> (u64 \<times> bool) option, LabError) result) option"

definition known_address ::
    "Sdk \<Rightarrow> string list \<Rightarrow> string \<Rightarrow> string option \<Rightarrow> (pubkey option, LabError) result" where
  "known_address sd args name cached =
     and_then (optional_address_flag sd args name) (\<lambda>given.
     case given of
       Some address \<Rightarrow> Ok (Some address)
     | None \<Rightarrow> (case cached of
           None \<Rightarrow> Ok None
         | Some text \<Rightarrow> and_then (parse_address sd text) (\<lambda>a. Ok (Some a))))"

definition stale_at :: "Request \<Rightarrow> u64 \<Rightarrow> bool" where
  "stale_at request slot \<longleftrightarrow> req_expiry_slot request \<le> slot \<and> req_status request = STATUS_PENDING"

definition cmd_inspect ::
    "('kp, 'n) Cli \<Rightarrow> string \<Rightarrow> string list \<Rightarrow> (Inspection, Disk \<times> 'n) net" where
  "cmd_inspect cl data_dir args =
    (let sd = cl_sdk cl; cj = cl_json cl in
     nbind (on_disk (load_state cj data_dir)) (\<lambda>state.
     let wo = cl_world cl (flag_or args ''--rpc-url'' (rpc_url state)) in
     nbind (nlift (wo_client wo)) (\<lambda>_.
     nbind (nlift (known_address sd args ''--config'' (ds_config state))) (\<lambda>config_address.
     nbind (reading wo (\<lambda>rpc. Ok (map_option (\<lambda>a. (a, fetch_config sd rpc a)) config_address))) (\<lambda>config.
     nbind (nlift (known_address sd args ''--account'' (ds_account state))) (\<lambda>account_address.
     nbind (reading wo (\<lambda>rpc. Ok (map_option (\<lambda>a. (a, fetch_account sd rpc a)) account_address))) (\<lambda>account.
     nbind (nlift (known_address sd args ''--request'' (ds_latest_request state))) (\<lambda>request_address.
     nbind (reading wo (\<lambda>rpc. Ok (map_option (\<lambda>a. (a, fetch_and_verify_request sd rpc a)) request_address))) (\<lambda>request.
     nbind (\<lambda>s. (Ok (case fst (chain_slot wo s) of Err _ \<Rightarrow> None | Ok slot \<Rightarrow> Some slot), s)) (\<lambda>slot.
     nlift (Ok \<lparr>in_config = config, in_account = account,
       in_request = map_option (\<lambda>(a, r). (a, and_then r (\<lambda>verified.
         Ok (verified, map_option (\<lambda>s. (s, stale_at (vr_request verified) s)) slot)))) request\<rparr>)))))))))))"

section \<open>Rules for commands\<close>

named_theorems command_Ok \<open>when the steps of a command succeed, and what they change\<close>

lemma wmap_err_Ok [command_Ok]: "wmap_err g m d = (Ok x, d') \<longleftrightarrow> m d = (Ok x, d')"
  by (auto simp: wmap_err_def split: prod.splits)

lemma io_Ok [command_Ok]: "io m d = (Ok x, d') \<longleftrightarrow> m d = (Ok x, d')"
  by (simp add: io_def wmap_err_Ok)

lemma worker_Ok [command_Ok]: "worker m d = (Ok x, d') \<longleftrightarrow> m d = (Ok x, d')"
  by (simp add: worker_def wmap_err_Ok)

lemma text_err_Ok [command_Ok]: "text_err r s = (Ok x, s') \<longleftrightarrow> r = Ok x \<and> s' = s"
  by (auto simp: text_err_def nlift_def)

lemma refuse_if_Ok [command_Ok]: "refuse_if c e s = (Ok x, s') \<longleftrightarrow> \<not> c \<and> s' = s"
  by (auto simp: refuse_if_def nlift_def)

lemma on_disk_Ok [command_Ok]: "on_disk m (d, n) = (Ok x, (d', n')) \<longleftrightarrow> m d = (Ok x, d') \<and> n' = n"
  by (auto simp: on_disk_def split: prod.splits)

lemma on_world_Ok [command_Ok]: "on_world m (d, n) = (Ok x, (d', n')) \<longleftrightarrow> m n = (Ok x, n') \<and> d' = d"
  by (auto simp: on_world_def split: prod.splits)

lemma reading_Ok [command_Ok]:
  "reading wo f (d, n) = (Ok x, (d', n')) \<longleftrightarrow> f (wo_rpc wo n) = Ok x \<and> d' = d \<and> n' = n"
  by (auto simp: reading_def)

lemma sending_Ok [command_Ok]:
  "sending wo payer ixs (d, n) = (Ok x, (d', n')) \<longleftrightarrow> wo_send wo payer ixs n = (Ok x, n') \<and> d' = d"
  by (simp add: sending_def on_world_Ok)

text \<open>The files after writing.\<close>

lemma write_request_file_files:
  assumes "write_request_file cr cj path binding d = (Ok u, d')"
  shows "\<exists>text. cj_write_request cj (request_to_file cr binding) = Ok text \<and>
    dk_files d' = (dk_files d)(path \<mapsto> text)"
  using assms by (auto simp: write_request_file_def nbind_Ok command_Ok dest: fs_write_Ok)

lemma fs_create_dir_all_files: "fs_create_dir_all p d = (r, d') \<Longrightarrow> dk_files d' = dk_files d"
  by (auto simp: fs_create_dir_all_def fs_op_def split: list.splits option.splits)

lemma save_state_files:
  assumes "save_state cj state dir d = (Ok u, d')"
  shows "\<exists>text. cj_write_state cj state = Ok text \<and> dk_files d' = (dk_files d)(state_path dir \<mapsto> text)"
  using assms
  by (auto simp: save_state_def nbind_Ok command_Ok Let_def dest!: fs_write_Ok fs_create_dir_all_files)

lemma path_join_name: "take 1 name \<noteq> ''/'' \<Longrightarrow> path_join root name = path_base root @ name"
  by (simp add: path_join_def)

lemma data_files_differ:
  "dp_request (data_paths dir) \<noteq> state_path dir" "dp_result (data_paths dir) \<noteq> state_path dir"
  "dp_request (data_paths dir) \<noteq> dp_result (data_paths dir)"
  by (simp_all add: data_paths_def state_path_def path_join_name)

lemma read_request_written:
  assumes "dk_files d (dp_request (data_paths dir)) = Some text" and "dk_faults d = []"
    and "cj_write_request cj (request_to_file cr binding) = Ok text"
    and "\<And>f t. cj_write_request cj f = Ok t \<Longrightarrow> cj_read_request cj t = Ok f" and "hex_law cr"
  shows "read_request_file cr cj (dp_request (data_paths dir)) d = (Ok binding, d)"
  using assms(1,2) assms(4) [OF assms(3)] assms(5)
  by (simp add: read_request_file_def nbind_def io_def wmap_err_def fs_read_def fs_op_def text_err_def nlift_def
      request_from_file_def request_to_file_def parse_hex32_encode)

end
