(* ===== verification/CommandScenario.thy ===== *)
theory CommandScenario
  imports Commands
begin

text \<open>
  A lab in which the commands run: the concrete client, the state file as the commands leave it,
  and a world of four phases, with the configuration alone, with the account, with the request
  pending, and with the request finalized. The disk is any that has the files a command reads.
\<close>

section \<open>World and files\<close>

definition session_ledger :: "nat \<Rightarrow> ledger" where
  "session_ledger phase =
    (if phase = 0 then [0 \<mapsto> ForeignAccount, lab_config \<mapsto> ConfigAccount config0]
     else if phase = 1 then ready_ledger else if phase = 2 then pending_ledger else settled_view)"

definition session_rpc :: "nat \<Rightarrow> rpc" where
  "session_rpc phase s =
    (let of_program = (\<lambda>d. Ok (Some \<lparr>fa_data = [d], fa_owner = lab_text PROGRAM_ID, fa_lamports = 1\<rparr>)) in
     if phase \<ge> 2 then lab_rpc (phase \<noteq> 2) s
     else if s = lab_text lab_config then of_program 1
     else if s = lab_text lab_account \<and> phase = 1 then of_program 6
     else Ok None)"

abbreviation session_create_ix :: Instruction where
  "session_create_ix \<equiv> create_account_ix lab_sdk lab_owner lab_config lab_account (fill 21) (fill 22)"

abbreviation session_submit_ix :: Instruction where
  "session_submit_ix \<equiv> submit_ix lab_sdk lab_owner lab_config lab_account lab_request (fill 23) 0 1"

text \<open>Each phase accepts one transaction, the last one the finalization's pair.\<close>

definition session_send :: "pubkey \<Rightarrow> Instruction list \<Rightarrow> nat \<Rightarrow> (string, LabError) result \<times> nat" where
  "session_send payer ixs phase =
    (if phase = 0 \<and> ixs = [session_create_ix] \<or> phase = 1 \<and> ixs = [session_submit_ix] \<or> phase = 2 \<and> length ixs = 2
     then (Ok ''sig'', phase + 1) else (Err (RpcFailed UnexpectedResult), phase))"

definition session_world :: "(pubkey, nat) World" where
  "session_world = \<lparr>wo_client = Ok (), wo_rpc = session_rpc, wo_slot = (\<lambda>_. Ok 6), wo_send = session_send, wo_api_key = None\<rparr>"

definition session_state0 :: DevnetState where
  "session_state0 = default_state\<lparr>ds_mint := Some (lab_text lab_mint), ds_config := Some (lab_text lab_config)\<rparr>"

definition session_state1 :: DevnetState where
  "session_state1 = session_state0\<lparr>ds_rpc_url := Some DEFAULT_DEVNET_RPC_URL, ds_owner := Some (lab_text lab_owner),
     ds_account := Some (lab_text lab_account), ds_owner_keypair_path := Some ''key''\<rparr>"

definition session_state2 :: DevnetState where
  "session_state2 = session_state1\<lparr>ds_latest_request := Some (lab_text lab_request), ds_latest_request_nonce := Some 1\<rparr>"

definition session_state3 :: DevnetState where
  "session_state3 = session_state2\<lparr>ds_payer_keypair_path := Some ''key''\<rparr>"

definition session_binding :: RequestBinding where
  "session_binding = request_binding config0 request1 lab_request"

text \<open>JSON, as far as the session needs it: one request, one result, one parameter file, four states.\<close>

definition session_json :: CliJson where
  "session_json =
    \<lparr>cj_read_bytes = Ok, cj_write_bytes = Ok,
     cj_read_params = (\<lambda>_. Ok \<lparr>pm_params_hash = hex_text (replicate 32 8), pm_key_version = 1\<rparr>),
     cj_write_params = (\<lambda>_. Ok [4]),
     cj_read_request = (\<lambda>_. Ok (request_to_file tail_crates session_binding)),
     cj_write_request = (\<lambda>f. if f = request_to_file tail_crates session_binding then Ok [1] else Err ''request''),
     cj_read_result = (\<lambda>_. Ok (result_file tail_crates binding1 (fill 9) lab_operator)),
     cj_write_result = (\<lambda>f. if f = result_file tail_crates binding1 (fill 9) lab_operator then Ok [3] else Err ''result''),
     cj_read_state = (\<lambda>t. Ok (if t = [11] then session_state1 else if t = [12] then session_state2
       else if t = [13] then session_state3 else session_state0)),
     cj_write_state = (\<lambda>s. if s = session_state1 then Ok [11] else if s = session_state2 then Ok [12]
       else if s = session_state3 then Ok [13] else Err ''state'')\<rparr>"

definition session_cli :: "(pubkey, nat) Cli" where
  "session_cli = \<lparr>cl_sdk = lab_sdk, cl_crates = tail_crates, cl_host = lab_host, cl_json = session_json,
     cl_home = None, cl_world = (\<lambda>_. session_world)\<rparr>"

lemma session_cli_simps [simp]:
  "cl_sdk session_cli = lab_sdk" "cl_crates session_cli = tail_crates" "cl_host session_cli = lab_host"
  "cl_json session_cli = session_json" "cl_home session_cli = None" "cl_world session_cli url = session_world"
  by (simp_all add: session_cli_def)

lemma session_world_simps [simp]:
  "wo_client session_world = Ok ()" "wo_rpc session_world = session_rpc" "wo_send session_world = session_send"
  by (simp_all add: session_world_def)

lemma session_rpc_simps [simp]:
  "session_rpc 2 = lab_rpc False" "session_rpc 3 = lab_rpc True"
  by (rule ext, simp add: session_rpc_def)+

lemma session_send_simps [simp]:
  "session_send payer [session_create_ix] 0 = (Ok ''sig'', 1)"
  "session_send payer [session_submit_ix] 1 = (Ok ''sig'', 2)"
  "length ixs = 2 \<Longrightarrow> session_send payer ixs 2 = (Ok ''sig'', 3)"
  by (simp_all add: session_send_def)

lemma session_json_law:
  "cj_write_request session_json f = Ok t \<Longrightarrow> cj_read_request session_json t = Ok f"
  "cj_write_result session_json g = Ok t \<Longrightarrow> cj_read_result session_json t = Ok g"
  "cj_write_state session_json st = Ok t \<Longrightarrow> cj_read_state session_json t = Ok st"
  by (auto simp: session_json_def split: if_splits)

lemma session_states:
  "cj_write_state session_json session_state1 = Ok [11]" "cj_write_state session_json session_state2 = Ok [12]"
  "cj_write_state session_json session_state3 = Ok [13]"
  by (simp_all add: session_json_def) (simp_all add: session_state3_def session_state2_def session_state1_def
      session_state0_def default_state_def)

lemma session_rpc_shows: "rpc_shows lab_sdk (session_rpc phase) (session_ledger phase)"
proof (cases "phase \<ge> 2")
  case True
  then have "session_rpc phase = lab_rpc (phase \<noteq> 2)" "session_ledger phase = (if phase = 2 then pending_ledger else settled_view)"
    by (auto simp: session_rpc_def session_ledger_def fun_eq_iff)
  then show ?thesis using lab_rpc_shows by simp
next
  case False
  then show ?thesis
    by (auto simp: rpc_shows_def shows_as_def session_rpc_def session_ledger_def ready_ledger_def lab_sdk_simps Let_def
        split: if_splits)
qed

lemma session_reads:
  "fetch_config lab_sdk (session_rpc 1) lab_config = Ok config0"
  "fetch_account lab_sdk (session_rpc 1) lab_account = Ok account0"
  "account_exists lab_sdk (session_rpc 0) lab_account = Ok False"
  using fetch_shown [OF session_rpc_shows [of 1]]
  by (simp_all add: session_ledger_def account_exists_def session_rpc_def lab_sdk_simps)

lemma session_paths:
  "state_path ''lab'' = ''lab/devnet-state.json''" "dp_result (data_paths ''lab'') = ''lab/result.json''"
  "dp_request (data_paths ''lab'') = ''lab/request.json''"
  by (simp_all add: state_path_def data_paths_def path_join_def path_base_def)

lemma session_parsed:
  "parse_result_file tail_crates (result_file tail_crates binding1 (fill 9) lab_operator) = Ok parsed0"
proof -
  have sha: "cr_sha256 tail_crates = lab_sha256"
    by (simp add: tail_crates_def lab_sha256_def fun_eq_iff)
  have "parsed_result tail_crates binding1 (fill 9) lab_operator = parsed0"
    by (simp add: parsed_result_def parsed0_def sha request2_def finalized_def finalize_binding0)
      (simp add: binding1_def result_of_def config0_def request1_def RESULT_TYPE_FHE_BOOL_def)
  then show ?thesis by (simp add: parse_result_file_written [OF tail_hex_law])
qed

section \<open>Creating the account and submitting\<close>

definition create_args :: "string list" where
  "create_args = [''--owner'', ''key'', ''--balance-hash'', hex_text (raw (fill 21 :: bytes32)),
     ''--limit-hash'', hex_text (raw (fill 22 :: bytes32))]"

definition session_args :: "string list" where
  "session_args = [''--owner'', ''key'', ''--amount-hash'', hex_text (raw (fill 23 :: bytes32))]"

lemma session_hash: "parse_hex32 tail_crates (hex_text (raw h)) = Ok h"
  using parse_hex32_encode [OF tail_hex_law, of h] by (simp add: tail_crates_def)

lemma session_flags:
  "flag_or create_args ''--rpc-url'' url = url" "signer_path None create_args ''--owner'' cached = ''key''"
  "flag_hex32 tail_crates create_args ''--balance-hash'' = Ok (fill 21)"
  "flag_hex32 tail_crates create_args ''--limit-hash'' = Ok (fill 22)"
  "flag_or session_args ''--rpc-url'' url = url" "signer_path None session_args ''--owner'' cached = ''key''"
  "flag_hex32 tail_crates session_args ''--amount-hash'' = Ok (fill 23)"
proof -
  have no_flag: "length name \<noteq> 64 \<Longrightarrow> hex_text (raw h) \<noteq> name" for h :: bytes32 and name by auto
  then have hashes: "flag_lookup create_args ''--balance-hash'' = Some (hex_text (raw (fill 21 :: bytes32)))"
      "flag_lookup create_args ''--limit-hash'' = Some (hex_text (raw (fill 22 :: bytes32)))"
      "flag_lookup session_args ''--amount-hash'' = Some (hex_text (raw (fill 23 :: bytes32)))"
    by (simp_all add: create_args_def session_args_def no_flag del: raw_fill)
  then show "flag_hex32 tail_crates create_args ''--balance-hash'' = Ok (fill 21)"
      "flag_hex32 tail_crates create_args ''--limit-hash'' = Ok (fill 22)"
      "flag_hex32 tail_crates session_args ''--amount-hash'' = Ok (fill 23)"
    by (simp_all add: flag_hex32_def require_flag_def ok_or_def session_hash del: raw_fill)
  show "flag_or create_args ''--rpc-url'' url = url" "signer_path None create_args ''--owner'' cached = ''key''"
    "flag_or session_args ''--rpc-url'' url = url" "signer_path None session_args ''--owner'' cached = ''key''"
    by (simp_all add: create_args_def session_args_def flag_or_def signer_path_def expand_tilde_with_home_def no_flag
        del: raw_fill)
qed

text \<open>Files are read and written at once on a disk without faults.\<close>

lemma session_loads:
  assumes "dk_faults d = []"
  shows "dk_files d (state_path ''lab'') = Some t \<Longrightarrow> cj_read_state session_json t = Ok st \<Longrightarrow>
      load_state session_json ''lab'' d = (Ok st, d)"
    and "dk_files d ''key'' = Some (raw lab_owner) \<Longrightarrow> read_keypair_file lab_host session_json ''key'' d = (Ok lab_owner, d)"
    and "cj_write_state session_json st = Ok t \<Longrightarrow>
      save_state session_json st ''lab'' d = (Ok (), d\<lparr>dk_files := (dk_files d)(state_path ''lab'' \<mapsto> t)\<rparr>)"
proof -
  have bytes: "cj_read_bytes session_json = Ok" "ho_keypair_try_from lab_host (raw k) = Ok k" for k
    by (simp_all add: session_json_def lab_host_def)
  show "dk_files d (state_path ''lab'') = Some t \<Longrightarrow> cj_read_state session_json t = Ok st \<Longrightarrow>
      load_state session_json ''lab'' d = (Ok st, d)"
    "dk_files d ''key'' = Some (raw lab_owner) \<Longrightarrow> read_keypair_file lab_host session_json ''key'' d = (Ok lab_owner, d)"
    "cj_write_state session_json st = Ok t \<Longrightarrow>
      save_state session_json st ''lab'' d = (Ok (), d\<lparr>dk_files := (dk_files d)(state_path ''lab'' \<mapsto> t)\<rparr>)"
    using assms
    by (simp_all add: load_state_def save_state_def read_keypair_file_def Let_def io_def wmap_err_def nbind_def nlift_def
        text_err_def fs_exists_def fs_read_def fs_write_def fs_create_dir_all_def fs_op_def bytes)
qed

lemma session_recorded:
  "recorded lab_sdk (ds_mint session_state0) e = Ok lab_mint"
  "recorded lab_sdk (ds_config session_state0) e = Ok lab_config"
  "recorded lab_sdk (ds_config session_state1) e = Ok lab_config"
  "recorded lab_sdk (ds_account session_state1) e = Ok lab_account"
  "rpc_url session_state0 = DEFAULT_DEVNET_RPC_URL" "rpc_url session_state1 = DEFAULT_DEVNET_RPC_URL"
  "rpc_url session_state2 = DEFAULT_DEVNET_RPC_URL"
  by (simp_all add: recorded_def session_state2_def session_state1_def session_state0_def default_state_def rpc_url_def
      parse_address_def lab_sdk_simps)

lemma session_read_states:
  "cj_read_state session_json [11] = Ok session_state1" "cj_read_state session_json [12] = Ok session_state2"
  "cj_read_state session_json [10] = Ok session_state0"
  by (simp_all add: session_json_def)

lemma session_create:
  assumes "dk_faults d = []" and "dk_files d (state_path ''lab'') = Some [10]" and "dk_files d ''key'' = Some (raw lab_owner)"
  shows "cmd_create_account session_cli ''lab'' create_args (d, 0)
    = (Ok (), (d\<lparr>dk_files := (dk_files d)(state_path ''lab'' \<mapsto> [11])\<rparr>, 1))"
proof -
  have account: "derive_account lab_sdk lab_mint lab_owner = lab_account" "ho_pubkey lab_host lab_owner = lab_owner"
    by (simp_all add: derive_account_def lab_host_def flip: account_seeds_def)
  have new: "session_state0\<lparr>ds_rpc_url := Some DEFAULT_DEVNET_RPC_URL, ds_owner := Some (sd_address_to_string lab_sdk lab_owner),
      ds_account := Some (sd_address_to_string lab_sdk lab_account), ds_owner_keypair_path := Some ''key''\<rparr> = session_state1"
    by (simp add: session_state1_def lab_sdk_simps)
  show ?thesis
    by (simp add: cmd_create_account_def Let_def nbind_def nlift_def on_disk_def reading_def sending_def on_world_def
        refuse_if_def session_loads(1) [OF assms(1,2) session_read_states(3)] session_loads(2) [OF assms(1,3)]
        session_loads(3) [OF assms(1) session_states(1)] session_recorded session_flags session_reads account
        new [simplified])
qed

lemma session_submit:
  assumes "dk_faults d = []" and "dk_files d (state_path ''lab'') = Some [11]" and "dk_files d ''key'' = Some (raw lab_owner)"
  shows "cmd_submit session_cli ''lab'' session_args (d, 1)
    = (Ok (), (d\<lparr>dk_files := (dk_files d)(dp_request (data_paths ''lab'') \<mapsto> [1], state_path ''lab'' \<mapsto> [12])\<rparr>, 2))"
proof -
  have checks: "submit_checks lab_config config0 account0 lab_owner = Ok ()"
    by (simp add: submit_checks_def) (simp add: account0_def config0_def)
  have fields: "checked_add (acc_request_nonce account0) 1 = Some 1" "acc_state_version account0 = 0"
      "derive_request lab_sdk lab_account 1 = lab_request" "ho_pubkey lab_host lab_owner = lab_owner"
    by (simp_all add: account0_def checked_add_def derive_request_def request_pda_def lab_host_def flip: request_seeds_def)
  have request: "cj_write_request session_json (request_to_file tail_crates session_binding) = Ok [1]"
    by (simp add: session_json_def)
  have wrote: "write_request_file tail_crates session_json (dp_request (data_paths ''lab'')) session_binding d
      = (Ok (), d\<lparr>dk_files := (dk_files d)(dp_request (data_paths ''lab'') \<mapsto> [1])\<rparr>)"
    using assms(1)
    by (simp add: write_request_file_def request nbind_def text_err_def nlift_def io_def wmap_err_def fs_write_def fs_op_def)
  have new: "session_state1\<lparr>ds_rpc_url := Some DEFAULT_DEVNET_RPC_URL, ds_owner := Some (sd_address_to_string lab_sdk lab_owner),
      ds_owner_keypair_path := Some ''key'', ds_latest_request := Some (sd_address_to_string lab_sdk lab_request),
      ds_latest_request_nonce := Some 1\<rparr> = session_state2"
    by (simp add: session_state2_def session_state1_def lab_sdk_simps)
  have saved: "save_state session_json session_state2 ''lab'' (d\<lparr>dk_files := files\<rparr>)
      = (Ok (), d\<lparr>dk_files := files(state_path ''lab'' \<mapsto> [12])\<rparr>)" for files
    using session_loads(3) [OF _ session_states(2), of "d\<lparr>dk_files := files\<rparr>"] assms(1) by simp
  show ?thesis
    by (simp add: cmd_submit_def Let_def nbind_def nlift_def on_disk_def reading_def sending_def on_world_def ok_or_def
        session_loads(1) [OF assms(1,2) session_read_states(1)] session_loads(2) [OF assms(1,3)] session_recorded
        session_flags session_reads checks fields lab_fetch wrote [unfolded session_binding_def] new [simplified] saved
        del: One_nat_def)
qed

section \<open>Finalizing\<close>

definition payer_args :: "string list" where
  "payer_args = [''--payer'', ''key'']"

lemma prepare_with_cache:
  assumes "prepare_finalize sd rpc rk None parsed = Ok p" and "rs_request (pf_binding p) = c"
  shows "prepare_finalize sd rpc rk (Some c) parsed = Ok p"
proof -
  obtain v b where v: "fetch_and_verify_request sd rpc rk = Ok v"
      "validate_finalize_consistency sd v None parsed = Ok b" "pf_binding p = b"
    using assms(1) by (auto simp: prepare_finalize_def and_then_eq_Ok split: if_splits)
  then have "vr_binding v = c"
    using assms(2) by (simp add: validate_finalize_Ok result_binding_from_authoritative_def)
  then have "validate_finalize_consistency sd v (Some c) parsed = Ok b"
    using v(2) unfolding validate_finalize_Ok by blast
  then show ?thesis using assms(1) v(1,2) by (simp add: prepare_finalize_def)
qed

lemma session_prepared:
  assumes "dk_faults d = []" and "dk_files d (state_path ''lab'') = Some [12]"
    and "dk_files d (dp_request (data_paths ''lab'')) = Some [1]" and "dk_files d (dp_result (data_paths ''lab'')) = Some [3]"
  shows "finalize_prepared session_cli ''lab'' payer_args (d, 2)
    = (Ok (session_state2, Direct, DEFAULT_DEVNET_RPC_URL, prepared0), (d, 2))"
proof -
  have result: "load_parsed_result tail_crates session_json ''lab'' d = (Ok parsed0, d)"
    using assms(1,4) session_parsed
    by (simp add: load_parsed_result_def Let_def wmap_err_def nbind_def nlift_def text_err_def
        fs_read_def fs_op_def session_json_def)
  have request: "cj_write_request session_json (request_to_file tail_crates session_binding) = Ok [1]"
    by (simp add: session_json_def)
  have cached: "load_cached_request tail_crates session_json ''lab'' d = (Ok (Some session_binding), d)"
    using assms(1,3) read_request_written [OF assms(3,1) request session_json_law(1) tail_hex_law]
    by (simp add: load_cached_request_def Let_def io_def wmap_err_def nbind_def nlift_def fs_exists_def)
  have "rs_request (pf_binding prepared0) = session_binding"
    by (simp add: prepared0_def binding1_def result_of_def session_binding_def request_binding_def)
  then have prepare: "prepare_finalize lab_sdk (lab_rpc False) lab_request (Some session_binding) parsed0 = Ok prepared0"
    by (rule prepare_with_cache [OF lab_prepare])
  have flags: "transport_from_args payer_args = Ok Direct" "flag_or payer_args ''--rpc-url'' url = url" for url
    by (simp_all add: transport_from_args_def payer_args_def has_flag_def flag_or_def starts_with_def)
  have address: "resolve_request_address lab_sdk payer_args st (Some session_binding) = Ok lab_request" for st
    by (simp add: resolve_request_address_def payer_args_def) (simp add: session_binding_def request_binding_def)
  show ?thesis
    by (simp add: finalize_prepared_def Let_def nbind_def nlift_def on_disk_def flags result cached address reading_def
        prepare session_loads(1) [OF assms(1,2) session_read_states(2)] session_recorded)
qed

lemma session_finalize:
  assumes "dk_faults d = []" and "dk_files d (state_path ''lab'') = Some [12]"
    and "dk_files d (dp_request (data_paths ''lab'')) = Some [1]" and "dk_files d (dp_result (data_paths ''lab'')) = Some [3]"
    and "dk_files d ''key'' = Some (raw lab_owner)"
  shows "cmd_finalize fuel js ht session_cli ''lab'' payer_args (d, 2)
    = Some (Ok (), (d\<lparr>dk_files := (dk_files d)(state_path ''lab'' \<mapsto> [13])\<rparr>, 3))"
proof -
  have path: "signer_path None payer_args ''--payer'' cached = ''key''" for cached
    by (simp add: signer_path_def payer_args_def expand_tilde_with_home_def)
  obtain ixs where ixs: "instructions_for_payer lab_sdk prepared0 (ho_pubkey lab_host lab_owner) = Ok ixs"
    using instructions_for_payer_Ok [OF lab_sdk_law] by blast
  then have "length ixs = 2"
    by (auto simp: instructions_for_payer_def finalize_ixs_with_signature_def Let_def and_then_eq_Ok)
  moreover obtain v where "refetch_and_verify_finalized lab_sdk (lab_rpc True) prepared0 = Ok v"
    using lab_refetch by (auto simp: is_ok_iff)
  ultimately have deliver: "deliver_direct lab_sdk lab_host session_world prepared0 lab_owner 2
      = (Ok (outcome prepared0 (Some ''sig'') None), 3)"
    using ixs by (simp add: deliver_direct_def nbind_def nlift_def)
  have new: "session_state2\<lparr>ds_rpc_url := Some DEFAULT_DEVNET_RPC_URL, ds_payer_keypair_path := Some ''key''\<rparr> = session_state3"
    by (simp add: session_state3_def session_state2_def session_state1_def)
  have "finalize_direct session_cli ''lab'' payer_args session_state2 DEFAULT_DEVNET_RPC_URL prepared0 (d, 2)
      = (Ok (), (d\<lparr>dk_files := (dk_files d)(state_path ''lab'' \<mapsto> [13])\<rparr>, 3))"
    by (simp add: finalize_direct_def Let_def path nbind_def on_disk_def session_loads(2) [OF assms(1,5)] on_world_def
        deliver new session_loads(3) [OF assms(1) session_states(3)])
  then show ?thesis
    using session_prepared [OF assms(1-4)] by (simp add: cmd_finalize_def)
qed

section \<open>A disk for the session\<close>

text \<open>After the account was created, and after the submission; the result of the run is there already.\<close>

definition session_disk :: Disk where
  "session_disk = \<lparr>dk_files = [state_path ''lab'' \<mapsto> [11], ''key'' \<mapsto> raw lab_owner,
     dp_result (data_paths ''lab'') \<mapsto> [3]], dk_faults = []\<rparr>"

definition session_submitted :: Disk where
  "session_submitted = session_disk\<lparr>dk_files := (dk_files session_disk)
     (dp_request (data_paths ''lab'') \<mapsto> [1], state_path ''lab'' \<mapsto> [12])\<rparr>"

lemma session_files:
  "dk_faults session_disk = []" "dk_files session_disk (state_path ''lab'') = Some [11]"
  "dk_files session_disk ''key'' = Some (raw lab_owner)" "dk_faults session_submitted = []"
  "dk_files session_submitted (state_path ''lab'') = Some [12]" "dk_files session_submitted ''key'' = Some (raw lab_owner)"
  "dk_files session_submitted (dp_request (data_paths ''lab'')) = Some [1]"
  "dk_files session_submitted (dp_result (data_paths ''lab'')) = Some [3]"
  by (simp_all add: session_submitted_def session_disk_def session_paths)

lemmas session_steps =
  session_submit [OF session_files(1-3), folded session_submitted_def] session_prepared [OF session_files(4,5,7,8)]
  session_finalize [OF session_files(4,5,7,8,6)]

end
