(* ===== verification/Submission.thy ===== *)
theory Submission
  imports CommandScenario
begin

text \<open>
  The commands over a chain: what \<open>submit\<close> checks is what the program demands, the request a
  submission leaves behind is the one a later finalization settles, and a finalization command
  that ends without an error has finalized.
\<close>

section \<open>The checks of submit\<close>

lemma submit_checks_Ok:
  "submit_checks ck c a owner = Ok u \<longleftrightarrow>
     \<not> cfg_paused c \<and> acc_config a = ck \<and> acc_mint a = cfg_mint c \<and> acc_owner a = owner \<and>
     acc_key_version a = cfg_key_version c \<and> acc_pending_request a = 0"
  by (auto simp: submit_checks_def)

definition submit_ctx ::
    "Sdk \<Rightarrow> pubkey \<Rightarrow> pubkey \<Rightarrow> Config \<Rightarrow> pubkey \<Rightarrow> ConfidentialAccount \<Rightarrow> u64 \<Rightarrow> SubmitCtx" where
  "submit_ctx sd owner ck c ak a nonce =
    (case rt_find_program_address (sd_runtime sd) (request_seeds ak nonce) ID of (rk, bump) \<Rightarrow>
     \<lparr>sbx_owner = owner, sbx_config_key = ck, sbx_config = c, sbx_account_key = ak, sbx_account = a,
      sbx_request_key = rk, sbx_request_bump = bump\<rparr>)"

abbreviation submit_args :: "bytes32 \<Rightarrow> u64 \<Rightarrow> u64 \<Rightarrow> SubmitArgs" where
  "submit_args amount version nonce \<equiv> \<lparr>sba_amount_hash = amount, sba_expected_state_version = version,
     sba_expected_nonce = nonce\<rparr>"

lemma submit_ctx_simps [simp]:
  "sbx_owner (submit_ctx sd owner ck c ak a nonce) = owner"
  "sbx_config_key (submit_ctx sd owner ck c ak a nonce) = ck"
  "sbx_config (submit_ctx sd owner ck c ak a nonce) = c"
  "sbx_account_key (submit_ctx sd owner ck c ak a nonce) = ak"
  "sbx_account (submit_ctx sd owner ck c ak a nonce) = a"
  "sbx_request_key (submit_ctx sd owner ck c ak a nonce) = derive_request sd ak nonce"
  by (simp_all add: submit_ctx_def derive_request_def request_pda_def request_seeds_def PROGRAM_ID_def split: prod.split)

lemma submit_metas_accounts:
  assumes "Submit_accounts (sd_runtime sd) L (Submit_metas owner ck ak rk SYSTEM_PROGRAM_ID)
      (submit_args amount version nonce) = Ok ctx"
    and "L ck = Some (ConfigAccount c)" and "L ak = Some (BalanceAccount a)"
  shows "ctx = submit_ctx sd owner ck c ak a nonce \<and> L rk = None"
  using assms
  by (auto simp: Submit_accounts_def Submit_metas_def and_then_eq_Ok load_defs init_pda_Ok submit_ctx_def)

lemma submit_metas_accepted:
  assumes "pda_consistent (sd_runtime sd)" and "config_ok (sd_runtime sd) ck c"
    and "account_ok (sd_runtime sd) L ak a" and "L ck = Some (ConfigAccount c)"
    and "L ak = Some (BalanceAccount a)" and "submit_checks ck c a owner = Ok ()"
    and "rk = derive_request sd ak nonce" and "L rk = None"
  shows "Submit_accounts (sd_runtime sd) L (Submit_metas owner ck ak rk SYSTEM_PROGRAM_ID)
      (submit_args amount version nonce) = Ok (submit_ctx sd owner ck c ak a nonce)"
proof -
  have checks: "acc_config a = ck" "acc_mint a = cfg_mint c" "acc_owner a = owner"
    using assms(6) by (simp_all add: submit_checks_Ok)
  have seeds: "check_seeds (sd_runtime sd) (config_seeds (cfg_mint c)) (cfg_bump c) (meta False False ck) = Ok ()"
    "check_seeds (sd_runtime sd) (account_seeds (cfg_mint c) owner) (acc_bump a) (meta False True ak) = Ok ()"
    using assms(1-3) checks by (auto simp: config_ok_def account_ok_def intro!: check_seeds_found)
  obtain bump where pda: "rt_find_program_address (sd_runtime sd) (request_seeds ak nonce) ID = (rk, bump)"
    using assms(7) by (cases "rt_find_program_address (sd_runtime sd) (request_seeds ak nonce) ID")
      (simp add: derive_request_def request_pda_def request_seeds_def PROGRAM_ID_def)
  then have init: "init_pda (sd_runtime sd) L (request_seeds ak nonce) (meta False True rk) = Ok bump"
    using assms(8) by (simp add: init_pda_Ok)
  show ?thesis
    using seeds init pda checks assms(4,5)
    by (simp add: Submit_accounts_def Submit_metas_def load_defs check_signer_def check_mut_def
        check_system_program_def SYSTEM_PROGRAM_ID_def require_def submit_ctx_def)
qed

text \<open>The instruction against the accounts it was built from.\<close>

lemma submit_run_exact:
  assumes "sdk_law sd" and "reachable (sd_runtime sd) ch"
    and "ch_ledger ch ck = Some (ConfigAccount c)" and "ch_ledger ch ak = Some (BalanceAccount a)"
    and "checked_add (acc_request_nonce a) 1 = Some nonce" and "rk = derive_request sd ak nonce"
  shows "process_instruction (sd_runtime sd) env (ch_ledger ch)
      (submit_ix sd owner ck ak rk amount (acc_state_version a) nonce) = Ok L' \<longleftrightarrow>
    submit_checks ck c a owner = Ok () \<and> amount \<noteq> 0 \<and> ch_ledger ch rk = None \<and>
    checked_add (env_slot env) (cfg_max_request_lifetime_slots c) \<noteq> None \<and>
    L' = (ch_ledger ch)(ak \<mapsto> BalanceAccount (locked a rk),
      rk \<mapsto> RequestAccount (submitted (rt_sha256 (sd_runtime sd)) (env_slot env)
        (submit_ctx sd owner ck c ak a nonce) (submit_args amount (acc_state_version a) nonce)))"
    (is "?run = Ok L' \<longleftrightarrow> ?checks \<and> ?L'")
proof -
  let ?rt = "sd_runtime sd" and ?L = "ch_ledger ch" and ?ctx = "submit_ctx sd owner ck c ak a nonce"
  have laws: "anchor_law sd" "pda_consistent ?rt" using assms(1) by (simp_all add: sdk_law_def)
  have ok: "config_ok ?rt ck c" "account_ok ?rt ?L ak a"
    using reachable_entry(1) [OF assms(2,3)] reachable_entry(2) [OF assms(2,4)] .
  have run: "?run = run_call ?rt env ?L (Submit_metas owner ck ak rk SYSTEM_PROGRAM_ID)
      (SubmitCall (submit_args amount (acc_state_version a) nonce))"
    using process_built [OF laws(1)] by (simp add: submit_ix_def)
  have nonce: "unat (acc_request_nonce a) + 1 < 2 ^ 64" "nonce = acc_request_nonce a + 1"
    using assms(5) by (auto simp: checked_add_one_u64)
  have ready: "submit_ready (env_slot env) ?ctx (submit_args amount (acc_state_version a) nonce) \<longleftrightarrow>
      submit_checks ck c a owner = Ok () \<and> amount \<noteq> 0 \<and>
      checked_add (env_slot env) (cfg_max_request_lifetime_slots c) \<noteq> None"
    using ok(2) nonce by (auto simp: submit_ready_def submit_checks_Ok account_ok_def checked_add_def)
  show ?thesis
  proof
    assume "?run = Ok L'"
    then obtain ctx where ctx: "Submit_accounts ?rt ?L (Submit_metas owner ck ak rk SYSTEM_PROGRAM_ID)
        (submit_args amount (acc_state_version a) nonce) = Ok ctx"
      and L': "and_then (submit (rt_sha256 ?rt) (env_slot env) ctx (submit_args amount (acc_state_version a) nonce))
        (\<lambda>(acc, req). Ok (?L(sbx_account_key ctx \<mapsto> BalanceAccount acc, sbx_request_key ctx \<mapsto> RequestAccount req))) = Ok L'"
      by (auto simp: run and_then_eq_Ok)
    then show "?checks \<and> ?L'"
      using submit_metas_accounts [OF ctx assms(3,4)] ready
      by (auto simp: and_then_eq_Ok submit_Ok assms(6))
  next
    assume right: "?checks \<and> ?L'"
    then have "submit (rt_sha256 ?rt) (env_slot env) ?ctx (submit_args amount (acc_state_version a) nonce)
        = Ok (locked a rk, submitted (rt_sha256 ?rt) (env_slot env) ?ctx (submit_args amount (acc_state_version a) nonce))"
      using ready by (simp add: submit_Ok flip: assms(6))
    then show "?run = Ok L'"
      unfolding run using right submit_metas_accepted [OF laws(2) ok assms(3,4) _ assms(6)]
      by (simp flip: assms(6))
  qed
qed

text \<open>An instruction that runs was built from the account as it is when it runs.\<close>

lemma submit_run_current:
  assumes "anchor_law sd" and "ch_ledger ch ck = Some (ConfigAccount c)" and "ch_ledger ch ak = Some (BalanceAccount a)"
    and "process_instruction (sd_runtime sd) env (ch_ledger ch) (submit_ix sd owner ck ak rk amount version nonce) = Ok L'"
  shows "acc_pending_request a = 0" "acc_state_version a = version" "acc_request_nonce a + 1 = nonce"
proof -
  obtain ctx where ctx: "Submit_accounts (sd_runtime sd) (ch_ledger ch) (Submit_metas owner ck ak rk SYSTEM_PROGRAM_ID)
      (submit_args amount version nonce) = Ok ctx"
    and "and_then (submit (rt_sha256 (sd_runtime sd)) (env_slot env) ctx (submit_args amount version nonce))
      (\<lambda>(acc, req). Ok ((ch_ledger ch)(sbx_account_key ctx \<mapsto> BalanceAccount acc, sbx_request_key ctx \<mapsto> RequestAccount req)))
      = Ok L'"
    using assms(4) process_built [OF assms(1)] by (auto simp: submit_ix_def and_then_eq_Ok)
  then have "submit_ready (env_slot env) (submit_ctx sd owner ck c ak a nonce) (submit_args amount version nonce)"
    using submit_metas_accounts [OF ctx assms(2,3)] by (auto simp: and_then_eq_Ok submit_Ok)
  then show "acc_pending_request a = 0" "acc_state_version a = version" "acc_request_nonce a + 1 = nonce"
    by (simp_all add: submit_ready_def)
qed

lemma account_unmoved:
  assumes "account_evolves a b" and "account_lock.balanced a" and "account_lock.balanced b"
    and "acc_pending_request b = 0" and "acc_state_version b = acc_state_version a"
    and "acc_request_nonce b = acc_request_nonce a"
  shows "b = a"
proof -
  have "acc_pending_request a = 0"
    using assms(2-6) by (simp add: account_lock.balanced_def has_pending_def split: if_splits)
  then show ?thesis using assms by (cases b, cases a) (simp add: account_evolves_def)
qed

text \<open>
  C15: the checks of \<open>submit\<close> are exact, and what it submits is never stale. Let the command
  build its instruction from an account of a reachable ledger and let the chain go on. In any
  later state, whatever configuration stands there, the program accepts the instruction precisely
  when the account has not moved since it was read, the checks the command makes pass on the
  configuration of that state, the amount hash is not zero, nothing stands at the derived
  address, and the lifetime added to the slot does not overflow; it then locks the account with
  the derived address and writes the pending request there.
\<close>

theorem submit_checks_exact:
  assumes "sdk_law sd" and "reachable (sd_runtime sd) ch" and "ch_ledger ch ak = Some (BalanceAccount a)"
    and "checked_add (acc_request_nonce a) 1 = Some nonce" and "rk = derive_request sd ak nonce"
    and "leads_to (sd_runtime sd) ch later" and "ch_ledger later ck = Some (ConfigAccount c)"
  shows "process_instruction (sd_runtime sd) env (ch_ledger later)
      (submit_ix sd owner ck ak rk amount (acc_state_version a) nonce) = Ok L' \<longleftrightarrow>
    ch_ledger later ak = Some (BalanceAccount a) \<and>
    submit_checks ck c a owner = Ok () \<and> amount \<noteq> 0 \<and> ch_ledger later rk = None \<and>
    checked_add (env_slot env) (cfg_max_request_lifetime_slots c) \<noteq> None \<and>
    L' = (ch_ledger later)(ak \<mapsto> BalanceAccount (locked a rk),
      rk \<mapsto> RequestAccount (submitted (rt_sha256 (sd_runtime sd)) (env_slot env)
        (submit_ctx sd owner ck c ak a nonce) (submit_args amount (acc_state_version a) nonce)))"
proof -
  have law: "anchor_law sd" using assms(1) by (simp add: sdk_law_def)
  have later: "reachable (sd_runtime sd) later" using assms(6,2) by (rule reachable_leads_to)
  obtain b where b: "ch_ledger later ak = Some (BalanceAccount b)" "account_evolves a b"
    using ledger_evolvesD(2) [OF leads_to_evolves [OF assms(6,2)] assms(3)] by blast
  show ?thesis
  proof (cases "b = a")
    case True
    then show ?thesis using submit_run_exact [OF assms(1) later assms(7) _ assms(4,5)] b(1) by simp
  next
    case False
    have balanced: "account_lock.balanced a" "account_lock.balanced b"
      using locks_okD(1) [OF reachable_locks [OF assms(2)] assms(3)] locks_okD(1) [OF reachable_locks [OF later] b(1)] .
    have "process_instruction (sd_runtime sd) env (ch_ledger later)
        (submit_ix sd owner ck ak rk amount (acc_state_version a) nonce) \<noteq> Ok L'"
    proof
      assume run: "process_instruction (sd_runtime sd) env (ch_ledger later)
        (submit_ix sd owner ck ak rk amount (acc_state_version a) nonce) = Ok L'"
      have "acc_request_nonce b = acc_request_nonce a"
        using submit_run_current(3) [OF law assms(7) b(1) run] assms(4) by (simp add: checked_add_one_u64)
      then show False
        using account_unmoved [OF b(2) balanced submit_run_current(1,2) [OF law assms(7) b(1) run]] False by blast
    qed
    then show ?thesis using b(1) False by auto
  qed
qed

theorem submit_checks_exact_witness:
  "(\<exists>L'. process_instruction client_runtime (at_slot 6) ready_ledger
      (submit_ix lab_sdk lab_owner lab_config lab_account lab_request (fill 23) 0 1) = Ok L' \<and>
      L' lab_account = Some (BalanceAccount (locked account0 lab_request))) \<and>
   (\<nexists>L'. process_instruction client_runtime (at_slot 6) ready_ledger
      (submit_ix lab_sdk lab_payer lab_config lab_account lab_request (fill 23) 0 1) = Ok L')"
proof -
  have ready: "reachable (sd_runtime lab_sdk) ready_chain" "ch_ledger ready_chain lab_config = Some (ConfigAccount config0)"
    "ch_ledger ready_chain lab_account = Some (BalanceAccount account0)"
    using reachable_client_runtime [OF ready_reachable] by (simp_all add: ready_chain_def)
  have fields: "acc_request_nonce account0 = 0" "acc_state_version account0 = 0"
    by (simp_all add: account0_def)
  have args: "checked_add (acc_request_nonce account0) 1 = Some 1"
    "lab_request = derive_request lab_sdk lab_account 1"
    by (simp_all add: fields checked_add_def derive_request_def request_pda_def flip: request_seeds_def)
  have checks: "submit_checks lab_config config0 account0 lab_owner = Ok ()"
    by (simp add: submit_checks_Ok) (simp add: account0_def config0_def)
  have room: "checked_add (env_slot (at_slot 6)) (cfg_max_request_lifetime_slots config0) \<noteq> None"
    by (simp add: checked_add_def config0_def)
  have other: "submit_checks lab_config config0 account0 lab_payer \<noteq> Ok ()"
    by (simp add: submit_checks_Ok) code_simp
  have exact: "process_instruction client_runtime (at_slot 6) ready_ledger
      (submit_ix lab_sdk owner lab_config lab_account lab_request (fill 23) 0 1) = Ok L' \<longleftrightarrow>
    submit_checks lab_config config0 account0 owner = Ok () \<and>
    L' = ready_ledger(lab_account \<mapsto> BalanceAccount (locked account0 lab_request),
      lab_request \<mapsto> RequestAccount (submitted lab_sha256 6
        (submit_ctx lab_sdk owner lab_config config0 lab_account account0 1) (submit_args (fill 23) 0 1)))" for owner L'
    using submit_checks_exact [OF lab_sdk_law ready(1,3) args leads_to_refl ready(2), of "at_slot 6" owner "fill 23"]
      room ready(3)
    by (simp add: ready_chain_def fields del: fun_upd_apply)
  show ?thesis using checks other by (simp add: exact)
qed

section \<open>From submission to finalization\<close>

text \<open>What a successful \<open>submit\<close> has seen on chain and left on the disk.\<close>

lemma cmd_submit_Ok:
  assumes "cmd_submit cl dir args (d, n) = (Ok u, (d', n'))"
  shows "\<exists>url v text. fetch_and_verify_request (cl_sdk cl) (wo_rpc (cl_world cl url) n') (vr_request_address v) = Ok v \<and>
    cj_write_request (cl_json cl) (request_to_file (cl_crates cl) (vr_binding v)) = Ok text \<and>
    dk_files d' (dp_request (data_paths dir)) = Some text"
proof -
  obtain url rk v state d1 d2 where v: "fetch_and_verify_request (cl_sdk cl) (wo_rpc (cl_world cl url) n') rk = Ok v"
    and written: "write_request_file (cl_crates cl) (cl_json cl) (dp_request (data_paths dir)) (vr_binding v) d1 = (Ok (), d2)"
    and saved: "save_state (cl_json cl) state dir d2 = (Ok (), d')"
    using assms by (auto simp: cmd_submit_def Let_def nbind_Ok command_Ok split_paired_Ex)
  obtain bytes where written_bytes: "cj_write_request (cl_json cl) (request_to_file (cl_crates cl) (vr_binding v)) = Ok bytes"
      "dk_files d2 = (dk_files d1)(dp_request (data_paths dir) \<mapsto> bytes)"
    using write_request_file_files [OF written] by blast
  have "dk_files d' (dp_request (data_paths dir)) = Some bytes"
    using save_state_files [OF saved] written_bytes(2) data_files_differ(1) [of dir] by auto
  then show ?thesis
    using v written_bytes(1) fetch_and_verify_Ok(3) [OF v] by metis
qed

lemma load_cached_written:
  assumes "dk_files d (dp_request (data_paths dir)) = Some text" and "dk_faults d = []"
    and "cj_write_request cj (request_to_file cr binding) = Ok text"
    and "\<And>f t. cj_write_request cj f = Ok t \<Longrightarrow> cj_read_request cj t = Ok f" and "hex_law cr"
  shows "load_cached_request cr cj dir d = (Ok (Some binding), d)"
proof -
  have "fs_exists (dp_request (data_paths dir)) d = (Ok True, d)"
    using assms(1,2) by (simp add: fs_exists_def fs_op_def)
  then show ?thesis
    using read_request_written [OF assms]
    by (simp add: load_cached_request_def Let_def io_def wmap_err_def nbind_def nlift_def)
qed

text \<open>Reading commands leave the files alone; with a disk that does not fail, the disk.\<close>

definition only_reads :: "(Disk \<Rightarrow> 'a \<times> Disk) \<Rightarrow> bool" where
  "only_reads m \<longleftrightarrow> (\<forall>d r d'. m d = (r, d') \<longrightarrow> dk_files d' = dk_files d \<and> (dk_faults d = [] \<longrightarrow> d' = d))"

lemma only_reads_nbind: "only_reads m \<Longrightarrow> (\<And>x. only_reads (f x)) \<Longrightarrow> only_reads (nbind m f)"
  unfolding only_reads_def nbind_def by (auto split: prod.splits sum.splits) metis+

lemma only_reads_basic:
  "only_reads (fs_read p)" "only_reads (fs_exists p)" "only_reads (nlift r)" "only_reads (text_err r')"
  by (auto simp: only_reads_def fs_read_def fs_op_def fs_exists_def nlift_def text_err_def
      split: list.splits option.splits)

lemma only_reads_wmap_err: "only_reads m \<Longrightarrow> only_reads (wmap_err g m)"
  unfolding only_reads_def wmap_err_def by (auto split: prod.splits)

lemma only_reads_files:
  "only_reads (load_state cj dir)" "only_reads (load_parsed_result cr cj dir)"
  "only_reads (load_cached_request cr cj dir)" "only_reads (read_keypair_file ho cj path)"
  by (auto simp: load_state_def load_parsed_result_def load_cached_request_def read_request_file_def
      read_keypair_file_def Let_def io_def
      intro!: only_reads_nbind only_reads_basic only_reads_wmap_err)

lemma finalize_prepared_Ok:
  assumes "finalize_prepared cl dir args (d, n) = (Ok (st, tr, url, p), (d', n'))"
  shows "n' = n \<and> dk_files d' = dk_files d \<and> (\<exists>cached parsed rk d1 d2.
    load_state (cl_json cl) dir d = (Ok st, d1) \<and> transport_from_args args = Ok tr \<and>
    load_parsed_result (cl_crates cl) (cl_json cl) dir d1 = (Ok parsed, d2) \<and>
    load_cached_request (cl_crates cl) (cl_json cl) dir d2 = (Ok cached, d') \<and>
    dk_files d1 = dk_files d \<and> dk_files d2 = dk_files d \<and> (dk_faults d = [] \<longrightarrow> d1 = d \<and> d2 = d \<and> d' = d) \<and>
    resolve_request_address (cl_sdk cl) args st cached = Ok rk \<and>
    prepare_finalize (cl_sdk cl) (wo_rpc (cl_world cl url) n) rk cached parsed = Ok p)"
proof -
  obtain cached parsed rk d1 d2 where steps: "load_state (cl_json cl) dir d = (Ok st, d1)"
      "transport_from_args args = Ok tr"
      "load_parsed_result (cl_crates cl) (cl_json cl) dir d1 = (Ok parsed, d2)"
      "load_cached_request (cl_crates cl) (cl_json cl) dir d2 = (Ok cached, d')"
      "resolve_request_address (cl_sdk cl) args st cached = Ok rk" "n' = n"
      "prepare_finalize (cl_sdk cl) (wo_rpc (cl_world cl url) n) rk cached parsed = Ok p"
    using assms unfolding finalize_prepared_def Let_def
    by (clarsimp simp: nbind_Ok command_Ok split_paired_Ex) (metis (no_types))
  have reads: "dk_files d1 = dk_files d \<and> (dk_faults d = [] \<longrightarrow> d1 = d)"
      "dk_files d2 = dk_files d1 \<and> (dk_faults d1 = [] \<longrightarrow> d2 = d1)"
      "dk_files d' = dk_files d2 \<and> (dk_faults d2 = [] \<longrightarrow> d' = d2)"
    using steps(1,3,4) only_reads_files unfolding only_reads_def by blast+
  then have "dk_files d1 = dk_files d" "dk_files d2 = dk_files d" "dk_files d' = dk_files d"
      "dk_faults d = [] \<longrightarrow> d1 = d \<and> d2 = d \<and> d' = d"
    by auto
  then show ?thesis using steps by blast
qed

lemma prepared_binds_fetched:
  assumes "prepare_finalize sd rpc rk cached parsed = Ok p"
  shows "pf_request_address p = rk" "\<And>c. cached = Some c \<Longrightarrow> rs_request (pf_binding p) = c"
    "pf_result_hash p = pr_result_hash parsed" "pf_result_digest p = pr_result_digest parsed"
proof -
  show "pf_request_address p = rk" "pf_result_hash p = pr_result_hash parsed"
      "pf_result_digest p = pr_result_digest parsed"
    using assms by (auto simp: prepare_finalize_def and_then_eq_Ok validate_finalize_Ok
        fetch_and_verify_Ok(3) split: if_splits)
  show "rs_request (pf_binding p) = c" if "cached = Some c" for c
    using assms that by (auto simp: prepare_finalize_def and_then_eq_Ok validate_finalize_Ok
        result_binding_from_authoritative_def split: if_splits)
qed

text \<open>
  C16: what is finalized is what was submitted. After a successful \<open>submit\<close>, let the request
  file stay as it is, whatever else happens on the disk and on the chain. When a later \<open>finalize\<close>
  without a \<open>--request\<close> flag gets as far as a prepared finalization, that is for the request
  that the submission verified on chain, field by field. JSON texts read back as what was
  written, and hexadecimal text decodes to the bytes that were encoded.
\<close>

theorem submitted_request_is_finalized:
  assumes "hex_law (cl_crates cl)"
    and "\<forall>f t. cj_write_request (cl_json cl) f = Ok t \<longrightarrow> cj_read_request (cl_json cl) t = Ok f"
    and "cmd_submit cl dir args (d, n) = (Ok u, (d', n'))"
    and "dk_files d2 (dp_request (data_paths dir)) = dk_files d' (dp_request (data_paths dir))"
    and "dk_faults d2 = []" and "flag_lookup args2 ''--request'' = None"
    and "finalize_prepared cl dir args2 (d2, n2) = (Ok (st, tr, url, p), s)"
  shows "\<exists>url' v. fetch_and_verify_request (cl_sdk cl) (wo_rpc (cl_world cl url') n') (pf_request_address p) = Ok v \<and>
    rs_request (pf_binding p) = vr_binding v \<and> rb_request_pda (vr_binding v) = pf_request_address p"
proof -
  obtain url' v bytes where v: "fetch_and_verify_request (cl_sdk cl) (wo_rpc (cl_world cl url') n') (vr_request_address v) = Ok v"
    and written: "cj_write_request (cl_json cl) (request_to_file (cl_crates cl) (vr_binding v)) = Ok bytes"
      "dk_files d' (dp_request (data_paths dir)) = Some bytes"
    using cmd_submit_Ok [OF assms(3)] by blast
  have cached: "load_cached_request (cl_crates cl) (cl_json cl) dir d2 = (Ok (Some (vr_binding v)), d2)"
    by (rule load_cached_written [OF _ assms(5) written(1) _ assms(1)]) (simp_all add: assms(2,4) written(2))
  obtain s1 s2 where "s = (s1, s2)" by (cases s)
  then obtain parsed rk where "resolve_request_address (cl_sdk cl) args2 st (Some (vr_binding v)) = Ok rk"
    and p: "prepare_finalize (cl_sdk cl) (wo_rpc (cl_world cl url) n2) rk (Some (vr_binding v)) parsed = Ok p"
    using finalize_prepared_Ok assms(5,7) cached by (metis Inl_inject Inr_inject Pair_inject)
  then have "rk = rb_request_pda (vr_binding v)"
    using assms(6) by (simp add: resolve_request_address_def)
  moreover have "rb_request_pda (vr_binding v) = vr_request_address v"
    using fetch_and_verify_Ok(2,3) [OF v] by (simp add: request_binding_def)
  ultimately show ?thesis
    using v prepared_binds_fetched(1,2) [OF p] by metis
qed

theorem submitted_request_is_finalized_witness:
  "\<exists>p s. finalize_prepared session_cli ''lab'' payer_args (session_submitted, 2)
       = (Ok (session_state2, Direct, DEFAULT_DEVNET_RPC_URL, p), s) \<and>
     rb_request_pda (rs_request (pf_binding p)) = pf_request_address p"
proof -
  have later: "dk_faults session_submitted = []" "flag_lookup payer_args ''--request'' = None"
    by (simp_all add: session_submitted_def session_disk_def payer_args_def)
  have client: "hex_law (cl_crates session_cli)"
      "\<forall>f t. cj_write_request (cl_json session_cli) f = Ok t \<longrightarrow> cj_read_request (cl_json session_cli) t = Ok f"
    using tail_hex_law session_json_law(1) by simp_all
  obtain v :: VerifiedRequest where "rs_request (pf_binding prepared0) = vr_binding v"
      "rb_request_pda (vr_binding v) = pf_request_address prepared0"
    using submitted_request_is_finalized [OF client session_steps(1) refl later session_steps(2)] by blast
  then show ?thesis using session_steps(2) by metis
qed

section \<open>The finalize command\<close>

text \<open>Whatever the transport, a command that ends well has read the request again.\<close>

lemma cmd_finalize_Ok:
  assumes "cmd_finalize fuel js ht cl dir args (d, n) = Some (Ok u, (d', n'))"
  shows "\<exists>st tr url p v d1 n1. finalize_prepared cl dir args (d, n) = (Ok (st, tr, url, p), (d1, n1)) \<and>
    refetch_and_verify_finalized (cl_sdk cl) (wo_rpc (cl_world cl url) n') p = Ok v"
proof -
  obtain st tr url p d1 n1 where prep: "finalize_prepared cl dir args (d, n) = (Ok (st, tr, url, p), (d1, n1))"
    using assms by (auto simp: cmd_finalize_def split: prod.splits sum.splits)
  have "\<exists>v. refetch_and_verify_finalized (cl_sdk cl) (wo_rpc (cl_world cl url) n') p = Ok v"
  proof (cases tr)
    case Direct
    then have "finalize_direct cl dir args st url p (d1, n1) = (Ok u, (d', n'))"
      using assms prep by (simp add: cmd_finalize_def)
    then show ?thesis
      by (auto simp: finalize_direct_def Let_def nbind_Ok command_Ok split_paired_Ex dest!: deliver_direct_Ok)
  next
    case (OpenZeppelin relayer_url relayer_id)
    then obtain out n2 where "deliver_openzeppelin fuel (cl_sdk cl) js ht (cl_world cl url) p relayer_url relayer_id
        default_poll n1 = Some (Ok out, n2)" "n2 = n'"
      using assms prep by (auto simp: cmd_finalize_def nbind_Ok command_Ok)
    then show ?thesis using deliver_openzeppelin_Ok [of fuel "cl_sdk cl" js ht "cl_world cl url" p] by metis
  qed
  then show ?thesis using prep by blast
qed

text \<open>
  C18: a finalization command that ends without an error has finalized what the worker signed.
  Then the chain, read by the client after the delivery, holds the request as finalized, with
  the result hash and the result digest of the result file on the disk and its account free
  again; and the file's signature verifies, under the file's operator key, on a result binding
  with this digest. It does not matter which transport was used or what it answered.
\<close>

theorem finalize_command_finalizes:
  assumes "cmd_finalize fuel js ht cl dir args (d, n) = Some (Ok u, (d', n'))"
  shows "\<exists>d1 d2 parsed url rk v b. dk_files d1 = dk_files d \<and>
    load_parsed_result (cl_crates cl) (cl_json cl) dir d1 = (Ok parsed, d2) \<and>
    fetch_and_verify_request (cl_sdk cl) (wo_rpc (cl_world cl url) n') rk = Ok v \<and>
    req_status (vr_request v) = STATUS_FINALIZED \<and> req_result_hash (vr_request v) = pr_result_hash parsed \<and>
    req_result_digest (vr_request v) = pr_result_digest parsed \<and> acc_pending_request (vr_account v) = 0 \<and>
    result_digest (rt_sha256 (sd_runtime (cl_sdk cl))) b = pr_result_digest parsed \<and> rb_request_pda (rs_request b) = rk \<and>
    sd_signature_ok (cl_sdk cl) (pr_operator parsed) (encode_result b) (pr_signature parsed)"
proof -
  obtain st tr url p v s1 n1 where prep: "finalize_prepared cl dir args (d, n) = (Ok (st, tr, url, p), (s1, n1))"
    and again: "refetch_and_verify_finalized (cl_sdk cl) (wo_rpc (cl_world cl url) n') p = Ok v"
    using cmd_finalize_Ok [OF assms] by blast
  obtain cached parsed rk d1 d2 where result: "load_parsed_result (cl_crates cl) (cl_json cl) dir d1 = (Ok parsed, d2)"
      "dk_files d1 = dk_files d"
    and p: "prepare_finalize (cl_sdk cl) (wo_rpc (cl_world cl url) n) rk cached parsed = Ok p"
    using finalize_prepared_Ok [OF prep] by blast
  obtain w b where w: "fetch_and_verify_request (cl_sdk cl) (wo_rpc (cl_world cl url) n) rk = Ok w"
    and valid: "validate_finalize_consistency (cl_sdk cl) w cached parsed = Ok b"
    using p by (auto simp: prepare_finalize_def and_then_eq_Ok split: if_splits)
  have "rb_request_pda (rs_request b) = rk"
    using valid fetch_and_verify_Ok(2) [OF w]
    by (auto simp: validate_finalize_Ok result_binding_from_authoritative_def request_binding_def)
  then have b: "result_digest (rt_sha256 (sd_runtime (cl_sdk cl))) b = pr_result_digest parsed"
      "sd_signature_ok (cl_sdk cl) (pr_operator parsed) (encode_result b) (pr_signature parsed)"
      "rb_request_pda (rs_request b) = rk"
    using valid unfolding validate_finalize_Ok by blast+
  have "fetch_and_verify_request (cl_sdk cl) (wo_rpc (cl_world cl url) n') (pf_request_address p) = Ok v"
      "verify_authoritative_finalized v p = Ok ()"
    using again by (auto simp: refetch_and_verify_finalized_def and_then_eq_Ok)
  then show ?thesis
    using result b prepared_binds_fetched(1,3,4) [OF p] unfolding authoritative_Ok by metis
qed

theorem finalize_command_finalizes_witness:
  "\<forall>fuel js ht. \<exists>rk v. fetch_and_verify_request lab_sdk (lab_rpc True) rk = Ok v \<and>
     req_status (vr_request v) = STATUS_FINALIZED \<and>
     (\<exists>d'. cmd_finalize fuel js ht session_cli ''lab'' payer_args (session_submitted, 2) = Some (Ok (), (d', 3)))"
proof (intro allI)
  fix fuel :: nat and js :: "'v Parsers" and ht :: "nat Http"
  obtain d' where run: "cmd_finalize fuel js ht session_cli ''lab'' payer_args (session_submitted, 2)
      = Some (Ok (), (d', 3))"
    using session_steps(3) by blast
  then show "\<exists>rk v. fetch_and_verify_request lab_sdk (lab_rpc True) rk = Ok v \<and>
     req_status (vr_request v) = STATUS_FINALIZED \<and>
     (\<exists>d'. cmd_finalize fuel js ht session_cli ''lab'' payer_args (session_submitted, 2) = Some (Ok (), (d', 3)))"
    using finalize_command_finalizes [OF run] by (auto 4 4)
qed

end
