(* ===== verification/Demo.thy ===== *)
theory Demo
  imports Submission
begin

text \<open>
  The rest of \<open>crates/client/src/lib.rs\<close>: the demo, which runs the whole lab against the program
  on LiteSVM, and the measurements.

  LiteSVM is the parameter \<open>Svm\<close>, over a state \<open>'svm\<close> of the machine; its compute units are the
  number a transaction returns. \<open>Lab\<close> bundles the parameters. The randomness of keys and
  encryptions is an argument (\<open>Entropy\<close>). The \<open>expect\<close>s of the source are errors here. Elapsed
  times and the name of the hardware are left out of the measurements.
\<close>

section \<open>Parameters\<close>

record ('tx, 'svm) Svm =
  sv_new :: 'svm
  sv_add_program :: "pubkey \<Rightarrow> u8 list \<Rightarrow> 'svm \<Rightarrow> (unit, string) result \<times> 'svm"
  sv_airdrop :: "pubkey \<Rightarrow> u64 \<Rightarrow> 'svm \<Rightarrow> (unit, string) result \<times> 'svm"
  sv_latest_blockhash :: "'svm \<Rightarrow> bytes32"
  sv_send_transaction :: "'tx \<Rightarrow> 'svm \<Rightarrow> (u64, string) result \<times> 'svm"
  sv_clock_slot :: "'svm \<Rightarrow> u64"

record ('ck, 'sk, 'csk, 'ct, 'cb, 'kp, 'tx, 'svm) Lab =
  lb_sdk :: Sdk
  lb_crates :: Crates
  lb_tfhe :: "('ck, 'sk, 'csk, 'ct, 'cb) Tfhe"
  lb_host :: "'kp Host"
  lb_keys :: "'kp Keys"
  lb_json :: CliJson
  lb_txs :: "('kp, 'tx) Txs"
  lb_svm :: "('tx, 'svm) Svm"
  lb_manifest_dir :: string
  lb_current_dir :: "string option"
  lb_temp_dir :: string

record Entropy =
  en_setup :: "nat \<times> nat \<times> nat"
  en_encrypt :: "nat \<times> nat \<times> nat"
  en_boot :: "nat \<times> nat \<times> nat"

section \<open>The machine\<close>

fun first_existing :: "string list \<Rightarrow> (u8 list, Disk) net" where
  "first_existing [] = nlift (Err (CommandFailed MissingProgram))"
| "first_existing (path # rest) =
     nbind (io (fs_exists path)) (\<lambda>there.
     if there then io (fs_read path) else first_existing rest)"

definition program_bytes :: "string \<Rightarrow> string option \<Rightarrow> (u8 list, Disk) net" where
  "program_bytes manifest_dir current_dir =
    (let candidates =
          [path_join manifest_dir ''../../target/deploy/confidential_coordinator.so'',
           ''target/deploy/confidential_coordinator.so'',
           ''programs/confidential-coordinator/target/deploy/confidential_coordinator.so''];
         candidates = (case current_dir of
             Some cwd \<Rightarrow> candidates @ [path_join cwd ''target/deploy/confidential_coordinator.so'']
           | None \<Rightarrow> candidates)
     in first_existing candidates)"

definition clone_keypair :: "'kp Host \<Rightarrow> 'kp Keys \<Rightarrow> 'kp \<Rightarrow> ('kp, LabError) result" where
  "clone_keypair ho ke keypair =
     map_err (\<lambda>_. HostFailed ''keypair clone'') (ho_keypair_try_from ho (ke_to_bytes ke keypair))"

record ('kp, 'svm) LocalSvm =
  lv_svm :: 'svm
  lv_authority :: 'kp
  lv_owner :: 'kp
  lv_operator :: 'kp
  lv_mint :: 'kp
  lv_config :: pubkey
  lv_account :: pubkey

text \<open>A call of the machine that may fail with a text.\<close>

definition machine :: "('svm \<Rightarrow> ('a, string) result \<times> 'svm) \<Rightarrow> ('a, 'svm) net" where
  "machine m = (\<lambda>svm. case m svm of (r, svm') \<Rightarrow> (map_err HostFailed r, svm'))"

definition boot_svm ::
    "('ck, 'sk, 'csk, 'ct, 'cb, 'kp, 'tx, 'svm) Lab \<Rightarrow> nat \<times> nat \<times> nat \<Rightarrow> 'kp \<Rightarrow> (('kp, 'svm) LocalSvm, Disk) net" where
  "boot_svm lb entropy operator =
    (case entropy of (e1, e2, e3) \<Rightarrow>
     let sv = lb_svm lb; ho = lb_host lb; ke = lb_keys lb; rt = sd_runtime (lb_sdk lb) in
     nbind (program_bytes (lb_manifest_dir lb) (lb_current_dir lb)) (\<lambda>bytes d.
     let authority = ke_new ke e1; owner = ke_new ke e2; mint = ke_new ke e3;
         config = fst (rt_find_program_address rt (config_seeds (ho_pubkey ho mint)) PROGRAM_ID);
         account = fst (rt_find_program_address rt (account_seeds (ho_pubkey ho mint) (ho_pubkey ho owner)) PROGRAM_ID) in
     case nbind (machine (sv_add_program sv PROGRAM_ID bytes)) (\<lambda>_.
          nbind (machine (sv_airdrop sv (ho_pubkey ho authority) 10000000000)) (\<lambda>_.
          nbind (machine (sv_airdrop sv (ho_pubkey ho owner) 10000000000)) (\<lambda>_.
          nlift (clone_keypair ho ke operator)))) (sv_new sv) of
       (Err e, _) \<Rightarrow> (Err e, d)
     | (Ok operator, svm) \<Rightarrow>
         (Ok \<lparr>lv_svm = svm, lv_authority = authority, lv_owner = owner, lv_operator = operator,
              lv_mint = mint, lv_config = config, lv_account = account\<rparr>, d)))"

definition send ::
    "('ck, 'sk, 'csk, 'ct, 'cb, 'kp, 'tx, 'svm) Lab \<Rightarrow> 'kp \<Rightarrow> Instruction list \<Rightarrow> (u64, 'svm) net" where
  "send lb payer ixs = (\<lambda>svm.
     let blockhash = sv_latest_blockhash (lb_svm lb) svm;
         tx = tx_sign (lb_txs lb) payer ixs (ho_pubkey (lb_host lb) payer) blockhash
     in machine (sv_send_transaction (lb_svm lb) tx) svm)"

section \<open>The demo\<close>

record DemoReport =
  dr_allowed :: bool
  dr_result_hash :: bytes32
  dr_submit_cu :: u64
  dr_finalize_cu :: u64

definition demo_binding ::
    "('ck, 'sk, 'csk, 'ct, 'cb, 'kp, 'tx, 'svm) Lab \<Rightarrow> ('kp, 'svm) LocalSvm \<Rightarrow> bytes32 \<Rightarrow> EncryptedRefs \<Rightarrow> pubkey \<Rightarrow> u64 \<Rightarrow> RequestBinding" where
  "demo_binding lb local params_hash refs request slot =
    \<lparr>rb_protocol_version = PROTOCOL_VERSION,
     rb_domain_id = local_domain_id (rt_sha256 (sd_runtime (lb_sdk lb))),
     rb_program_id = ID,
     rb_config = lv_config local,
     rb_mint = ho_pubkey (lb_host lb) (lv_mint local),
     rb_confidential_account = lv_account local,
     rb_request_pda = request,
     rb_operation = OPERATION_POLICY_CHECK,
     rb_balance_hash = er_balance_hash refs,
     rb_amount_hash = er_amount_hash refs,
     rb_limit_hash = er_limit_hash refs,
     rb_params_hash = params_hash,
     rb_state_version = 0,
     rb_request_nonce = 1,
     rb_key_version = 1,
     rb_operator_epoch = 1,
     rb_expiry_slot = slot + 1000\<rparr>"

text \<open>The part of \<open>run_demo\<close> that runs on chain up to the request: initialize, create the account,
  submit; the compute units of the submission are its result.\<close>

definition demo_submit ::
    "('ck, 'sk, 'csk, 'ct, 'cb, 'kp, 'tx, 'svm) Lab \<Rightarrow> ('kp, 'svm) LocalSvm \<Rightarrow> bytes32 \<Rightarrow> EncryptedRefs \<Rightarrow> (u64, 'svm) net" where
  "demo_submit lb local params_hash refs =
    (let sd = lb_sdk lb; key = ho_pubkey (lb_host lb) in
     nbind (send lb (lv_authority local) [initialize_ix sd (key (lv_authority local)) (key (lv_mint local))
         (lv_config local) (key (lv_operator local)) params_hash 1000]) (\<lambda>_.
     nbind (send lb (lv_owner local) [create_account_ix sd (key (lv_owner local)) (lv_config local)
         (lv_account local) (er_balance_hash refs) (er_limit_hash refs)]) (\<lambda>_.
     let nonce = 1; request = request_pda sd (lv_account local) nonce in
     send lb (lv_owner local) [submit_ix sd (key (lv_owner local)) (lv_config local) (lv_account local)
       request (er_amount_hash refs) 0 nonce])))"

definition demo_finalize ::
    "('ck, 'sk, 'csk, 'ct, 'cb, 'kp, 'tx, 'svm) Lab \<Rightarrow> ('kp, 'svm) LocalSvm \<Rightarrow> pubkey \<Rightarrow> 'kp \<Rightarrow> ResultBinding \<Rightarrow> (u64, 'svm) net" where
  "demo_finalize lb local request operator result =
     nbind (nlift (ok_or (finalize_ixs (lb_sdk lb) (lb_host lb) (ho_pubkey (lb_host lb) (lv_owner local))
         (lv_config local) (lv_account local) request operator result) (HostFailed ''ed25519 signature''))) (\<lambda>ixs.
     send lb (lv_owner local) ixs)"

text \<open>After the boot: over the disk and the machine.\<close>

definition demo_rounds ::
    "('ck, 'sk, 'csk, 'ct, 'cb, 'kp, 'tx, 'svm) Lab \<Rightarrow> string \<Rightarrow> ('ck, 'sk, 'csk) FheMaterial \<Rightarrow> EncryptedRefs \<Rightarrow> 'kp \<Rightarrow>
     ('kp, 'svm) LocalSvm \<Rightarrow> (DemoReport, Disk \<times> 'svm) net" where
  "demo_rounds lb root material refs operator local =
    (let paths = data_paths root; sd = lb_sdk lb; cr = lb_crates lb; tf = lb_tfhe lb; ho = lb_host lb;
         cj = lb_json lb; request = request_pda sd (lv_account local) 1 in
     nbind (on_world (demo_submit lb local (fm_params_hash material) refs)) (\<lambda>submit_cu.
     nbind (\<lambda>(d, svm). (Ok (sv_clock_slot (lb_svm lb) svm), (d, svm))) (\<lambda>slot.
     let binding = demo_binding lb local (fm_params_hash material) refs request slot in
     nbind (text_err (cj_write_request cj (request_to_file cr binding))) (\<lambda>request_text.
     nbind (on_disk (io (fs_write (dp_request paths) request_text))) (\<lambda>_.
     nbind (on_disk (worker (new_store (dp_ciphertexts paths)))) (\<lambda>store.
     nbind (on_disk (worker (process_request cr tf ho store binding (fm_compressed_server_key material) operator))) (\<lambda>(result, signature).
     nbind (text_err (cj_write_result cj (result_file cr result signature (ho_pubkey ho operator)))) (\<lambda>result_text.
     nbind (on_disk (io (fs_write (dp_result paths) result_text))) (\<lambda>_.
     nbind (on_world (demo_finalize lb local request operator result)) (\<lambda>finalize_cu.
     nbind (on_disk (worker (load_bool cr tf store (rs_result_hash result) 1 (fm_params_hash material)))) (\<lambda>ct.
     nlift (Ok \<lparr>dr_allowed = decrypt_bool tf ct (fm_client_key material), dr_result_hash = rs_result_hash result,
       dr_submit_cu = submit_cu, dr_finalize_cu = finalize_cu\<rparr>))))))))))))"

text \<open>\<open>run_demo\<close>; the machine as the demo leaves it is returned with the report.\<close>

definition run_demo ::
    "('ck, 'sk, 'csk, 'ct, 'cb, 'kp, 'tx, 'svm) Lab \<Rightarrow> Entropy \<Rightarrow> string \<Rightarrow> u64 \<Rightarrow> u64 \<Rightarrow> u64 \<Rightarrow> (DemoReport \<times> 'svm, Disk) net" where
  "run_demo lb en root balance amount limit =
    (let paths = data_paths root; cr = lb_crates lb; tf = lb_tfhe lb; cj = lb_json lb in
     nbind (setup_lab cr tf (lb_keys lb) cj (en_setup en) root) (\<lambda>material.
     nbind (encrypt_inputs cr tf (en_encrypt en) root material balance amount limit) (\<lambda>refs.
     nbind (read_operator_file (lb_host lb) cj (dp_operator paths)) (\<lambda>operator.
     nbind (boot_svm lb (en_boot en) operator) (\<lambda>local d.
     case demo_rounds lb root material refs operator local (d, lv_svm local) of
       (Err e, (d', _)) \<Rightarrow> (Err e, d')
     | (Ok report, (d', svm)) \<Rightarrow> (Ok (report, svm), d'))))))"

section \<open>Measurements\<close>

record MeasureReport =
  mr_client_key_bytes :: nat
  mr_compressed_server_key_bytes :: nat
  mr_server_key_bytes :: nat
  mr_u64_ciphertext_bytes :: nat
  mr_bool_ciphertext_bytes :: nat

definition fs_remove_file :: "string \<Rightarrow> unit wio" where
  "fs_remove_file path = fs_op (\<lambda>_ files. files)
     (\<lambda>files. case files path of
        None \<Rightarrow> (Err (Io ''not found''), files)
      | Some _ \<Rightarrow> (Ok (), files(path := None)))"

text \<open>\<open>let _ = ...\<close>: the result is dropped.\<close>

definition ignored :: "('a, 'e) dio \<Rightarrow> (unit, Disk) net" where
  "ignored m = (\<lambda>d. (Ok (), snd (m d)))"

definition measure_lab ::
    "('ck, 'sk, 'csk, 'ct, 'cb, 'kp, 'tx, 'svm) Lab \<Rightarrow> Entropy \<Rightarrow> (MeasureReport, Disk) net" where
  "measure_lab lb en =
    (case (en_setup en, en_encrypt en) of ((g1, g2, _), (e1, e2, e3)) \<Rightarrow>
     let cr = lb_crates lb; tf = lb_tfhe lb in
     nbind (nlift (map_err WorkerFailed (generate_material cr tf g1 g2))) (\<lambda>material.
     let active = activate_server_key (fm_server_key material);
         balance = encrypt_u64 tf e1 100 (fm_client_key material);
         amount = encrypt_u64 tf e2 25 (fm_client_key material);
         limit = encrypt_u64 tf e3 50 (fm_client_key material);
         allowed = evaluate_policy tf active balance amount limit;
         client_key_path = path_join (lb_temp_dir lb) ''ctl-measure-client.bin'';
         server_key_path = path_join (lb_temp_dir lb) ''ctl-measure-server.bin'' in
     nbind (worker (write_client_key tf client_key_path (fm_client_key material))) (\<lambda>_.
     nbind (worker (write_server_key tf server_key_path (fm_compressed_server_key material))) (\<lambda>_.
     nbind (io (fs_read client_key_path)) (\<lambda>client_key_bytes.
     nbind (io (fs_read server_key_path)) (\<lambda>compressed_server_key_bytes.
     nbind (ignored (fs_remove_file client_key_path)) (\<lambda>_.
     nbind (ignored (fs_remove_file server_key_path)) (\<lambda>_.
     nbind (nlift (map_err WorkerFailed (serialized_server_key_len tf (fm_server_key material)))) (\<lambda>server_key_bytes.
     nbind (nlift (map_err WorkerFailed (serialize_u64 tf balance))) (\<lambda>u64_ciphertext_bytes.
     nbind (nlift (map_err WorkerFailed (serialize_bool tf allowed))) (\<lambda>bool_ciphertext_bytes.
     nlift (Ok \<lparr>mr_client_key_bytes = length client_key_bytes,
       mr_compressed_server_key_bytes = length compressed_server_key_bytes,
       mr_server_key_bytes = server_key_bytes,
       mr_u64_ciphertext_bytes = length u64_ciphertext_bytes,
       mr_bool_ciphertext_bytes = length bool_ciphertext_bytes\<rparr>))))))))))))"

end
