(* ===== verification/LabMain.thy ===== *)
theory LabMain
  imports Demo
begin

text \<open>
  The command line of the lab, \<open>crates/client/src/main.rs\<close>: set-up, encryption, evaluation and
  decryption over the data directory, the demo, the measurements, and the dispatch to the devnet
  commands. What a command prints of its result is its result here; usage texts and messages
  are left out, and the exit code is kept.
\<close>

definition parse_u64_flag :: "string list \<Rightarrow> string \<Rightarrow> (u64, LabError) result" where
  "parse_u64_flag args name =
     and_then (ok_or (flag_lookup args name) (CommandFailed (MissingValue name))) (\<lambda>v.
     ok_or (parse_u64 v) (CommandFailed (InvalidValue name)))"

text \<open>\<open>WorkerError\<close> becomes \<open>LabError\<close> by \<open>From\<close>.\<close>

abbreviation hex32 :: "Crates \<Rightarrow> string \<Rightarrow> (bytes32, Disk) net" where
  "hex32 cr text \<equiv> nlift (map_err WorkerFailed (parse_hex32 cr text))"

definition cmd_setup ::
    "('ck, 'sk, 'csk, 'ct, 'cb, 'kp, 'tx, 'svm) Lab \<Rightarrow> Entropy \<Rightarrow> string \<Rightarrow> (unit, Disk) net" where
  "cmd_setup lb en data_dir =
     nbind (setup_lab (lb_crates lb) (lb_tfhe lb) (lb_keys lb) (lb_json lb) (en_setup en) data_dir) (\<lambda>_. nlift (Ok ()))"

definition cmd_encrypt ::
    "('ck, 'sk, 'csk, 'ct, 'cb, 'kp, 'tx, 'svm) Lab \<Rightarrow> Entropy \<Rightarrow> string \<Rightarrow> string list \<Rightarrow> (EncryptedRefs, Disk) net" where
  "cmd_encrypt lb en data_dir args =
    (let cr = lb_crates lb; tf = lb_tfhe lb in
     nbind (nlift (parse_u64_flag args ''--balance'')) (\<lambda>balance.
     nbind (nlift (parse_u64_flag args ''--amount'')) (\<lambda>amount.
     nbind (nlift (parse_u64_flag args ''--limit'')) (\<lambda>limit.
     let paths = data_paths data_dir in
     nbind (read_params_file (lb_json lb) (dp_params paths)) (\<lambda>params.
     nbind (hex32 cr (pm_params_hash params)) (\<lambda>params_hash.
     nbind (worker (load_material cr tf (dp_client_key paths) (dp_server_key paths) params_hash)) (\<lambda>material.
     encrypt_inputs cr tf (en_encrypt en) data_dir material balance amount limit)))))))"

text \<open>The hash of the result is printed.\<close>

definition cmd_evaluate ::
    "('ck, 'sk, 'csk, 'ct, 'cb, 'kp, 'tx, 'svm) Lab \<Rightarrow> string \<Rightarrow> (bytes32, Disk) net" where
  "cmd_evaluate lb data_dir =
    (let cr = lb_crates lb; tf = lb_tfhe lb; ho = lb_host lb; cj = lb_json lb; paths = data_paths data_dir in
     nbind (read_request_file cr cj (dp_request paths)) (\<lambda>request.
     nbind (worker (new_store (dp_ciphertexts paths))) (\<lambda>store.
     nbind (read_params_file cj (dp_params paths)) (\<lambda>params.
     nbind (hex32 cr (pm_params_hash params)) (\<lambda>params_hash.
     nbind (worker (load_server_material cr tf (dp_server_key paths) params_hash)) (\<lambda>material.
     nbind (read_operator_file ho cj (dp_operator paths)) (\<lambda>operator.
     nbind (worker (process_request cr tf ho store request (sm_compressed_server_key material) operator)) (\<lambda>(binding, signature).
     nbind (text_err (cj_write_result cj (result_file cr binding signature (ho_pubkey ho operator)))) (\<lambda>out.
     nbind (io (fs_write (dp_result paths) out)) (\<lambda>_.
     nlift (Ok (rs_result_hash binding))))))))))))"

text \<open>The decrypted answer is printed.\<close>

definition cmd_decrypt ::
    "('ck, 'sk, 'csk, 'ct, 'cb, 'kp, 'tx, 'svm) Lab \<Rightarrow> string \<Rightarrow> (bool, Disk) net" where
  "cmd_decrypt lb data_dir =
    (let cr = lb_crates lb; tf = lb_tfhe lb; cj = lb_json lb; paths = data_paths data_dir in
     nbind (io (fs_read (dp_result paths))) (\<lambda>bytes.
     nbind (text_err (cj_read_result cj bytes)) (\<lambda>file.
     nbind (hex32 cr (rr_result_hash file)) (\<lambda>result_hash.
     nbind (read_params_file cj (dp_params paths)) (\<lambda>params.
     nbind (hex32 cr (pm_params_hash params)) (\<lambda>params_hash.
     nbind (worker (new_store (dp_ciphertexts paths))) (\<lambda>store.
     nbind (worker (load_material cr tf (dp_client_key paths) (dp_server_key paths) params_hash)) (\<lambda>material.
     nbind (worker (load_bool cr tf store result_hash (pm_key_version params) params_hash)) (\<lambda>ct.
     nlift (Ok (decrypt_bool tf ct (fm_client_key material))))))))))))"

definition cmd_demo ::
    "('ck, 'sk, 'csk, 'ct, 'cb, 'kp, 'tx, 'svm) Lab \<Rightarrow> Entropy \<Rightarrow> string \<Rightarrow> string list \<Rightarrow> (DemoReport, Disk) net" where
  "cmd_demo lb en data_dir args =
    (let unwrap_or = (\<lambda>r def. case r of Ok v \<Rightarrow> v | Err _ \<Rightarrow> def);
         balance = unwrap_or (parse_u64_flag args ''--balance'') 100;
         amount = unwrap_or (parse_u64_flag args ''--amount'') 25;
         limit = unwrap_or (parse_u64_flag args ''--limit'') 50 in
     nbind (run_demo lb en data_dir balance amount limit) (\<lambda>(report, _). nlift (Ok report)))"

definition cmd_measure ::
    "('ck, 'sk, 'csk, 'ct, 'cb, 'kp, 'tx, 'svm) Lab \<Rightarrow> Entropy \<Rightarrow> (MeasureReport, Disk) net" where
  "cmd_measure lb en = measure_lab lb en"

section \<open>Dispatch\<close>

text \<open>A command whose result is only printed.\<close>

definition printed :: "('a, 's) net \<Rightarrow> 's \<Rightarrow> ((unit, LabError) result \<times> 's) option" where
  "printed m s = Some (nbind m (\<lambda>_. nlift (Ok ())) s)"

definition cmd_devnet ::
    "nat \<Rightarrow> 'v Parsers \<Rightarrow> 'n Http \<Rightarrow> ('kp, 'n) Cli \<Rightarrow> 'kp \<Rightarrow> string \<Rightarrow> string list \<Rightarrow> Disk \<times> 'n \<Rightarrow>
     ((unit, LabError) result \<times> (Disk \<times> 'n)) option" where
  "cmd_devnet fuel js ht cl generated data_dir args =
    (case args of
       [] \<Rightarrow> printed (nlift (Err (CommandFailed MissingSubcommand)) :: (unit, _) net)
     | sub # rest \<Rightarrow>
         if sub = ''initialize'' then printed (cmd_initialize cl generated data_dir rest)
         else if sub = ''create-account'' then printed (cmd_create_account cl data_dir rest)
         else if sub = ''submit'' then printed (cmd_submit cl data_dir rest)
         else if sub = ''fetch-request'' then printed (cmd_fetch_request cl data_dir rest)
         else if sub = ''finalize'' then cmd_finalize fuel js ht cl data_dir rest
         else if sub = ''inspect'' then printed (cmd_inspect cl data_dir rest)
         else printed (nlift (Err (CommandFailed (UnknownSubcommand sub))) :: (unit, _) net))"

text \<open>\<open>args.iter().position(..)\<close> and the drain of the flag with its value.\<close>

fun position :: "string \<Rightarrow> string list \<Rightarrow> nat option" where
  "position name [] = None"
| "position name (a # rest) = (if a = name then Some 0 else map_option Suc (position name rest))"

definition main_lab ::
    "nat \<Rightarrow> ('ck, 'sk, 'csk, 'ct, 'cb, 'kp, 'tx, 'svm) Lab \<Rightarrow> 'v Parsers \<Rightarrow> 'n Http \<Rightarrow> ('kp, 'n) Cli \<Rightarrow> Entropy \<Rightarrow> 'kp \<Rightarrow>
     string list \<Rightarrow> Disk \<times> 'n \<Rightarrow> (u8 \<times> (Disk \<times> 'n)) option" where
  "main_lab fuel lb js ht cl en generated args s =
    (let run = (\<lambda>data_dir args. case args of
         [] \<Rightarrow> Some (2, s)
       | cmd # rest \<Rightarrow>
           let exit_code = map_option (\<lambda>(r, s'). (case r of Ok () \<Rightarrow> 0 | Err _ \<Rightarrow> 1, s')) in
           if cmd = ''setup'' then exit_code (printed (on_disk (cmd_setup lb en data_dir)) s)
           else if cmd = ''encrypt'' then exit_code (printed (on_disk (cmd_encrypt lb en data_dir rest)) s)
           else if cmd = ''evaluate'' then exit_code (printed (on_disk (cmd_evaluate lb data_dir)) s)
           else if cmd = ''decrypt'' then exit_code (printed (on_disk (cmd_decrypt lb data_dir)) s)
           else if cmd = ''demo'' then exit_code (printed (on_disk (cmd_demo lb en data_dir rest)) s)
           else if cmd = ''measure'' then exit_code (printed (on_disk (cmd_measure lb en)) s)
           else if cmd = ''devnet'' then exit_code (cmd_devnet fuel js ht cl generated data_dir rest s)
           else Some (2, s)) in
     case position ''--data-dir'' args of
       None \<Rightarrow> run ''.data'' args
     | Some pos \<Rightarrow>
         if length args \<le> pos + 1 then Some (2, s)
         else run (args ! (pos + 1)) (take pos args @ drop (pos + 2) args))"

end
