(* ===== verification/LabStore.thy ===== *)
theory LabStore
  imports LabMain
begin

text \<open>
  The ciphertext store of a data directory under the commands of the lab: which commands leave it
  alone, what encrypting puts into it, and what evaluating and then decrypting shows.
\<close>

section \<open>Leaving files alone\<close>

definition same_on :: "(string \<Rightarrow> bool) \<Rightarrow> (string \<rightharpoonup> u8 list) \<Rightarrow> (string \<rightharpoonup> u8 list) \<Rightarrow> bool" where
  "same_on P f f' \<longleftrightarrow> (\<forall>p. P p \<longrightarrow> f' p = f p)"

abbreviation untouched :: "(string \<Rightarrow> bool) \<Rightarrow> ('a, 'e) dio \<Rightarrow> bool" where
  "untouched P m \<equiv> preserves (same_on P) m"

named_theorems untouched_intros \<open>computations that leave files alone\<close>

lemma same_on_order: "reflp (same_on P)" "transp (same_on P)"
  by (auto simp: same_on_def reflp_def transp_def)

lemma untouched_wbind [untouched_intros]:
  "untouched P m \<Longrightarrow> (\<And>x. untouched P (f x)) \<Longrightarrow> untouched P (wbind m f)"
  by (rule preserves_wbind [OF same_on_order(2)])

text \<open>On the disk the two ways to sequence are the same.\<close>

lemma nbind_is_wbind: "nbind m f = wbind m f"
  by (simp add: nbind_def wbind_def)

lemma untouched_nbind [untouched_intros]:
  "untouched P m \<Longrightarrow> (\<And>x. untouched P (f x)) \<Longrightarrow> untouched P (nbind m f)"
  unfolding nbind_is_wbind by (rule untouched_wbind)

lemma untouched_lift [untouched_intros]:
  "untouched P (nlift r)" "untouched P (wlift r')" "untouched P (text_err t)"
  by (auto simp: preserves_def same_on_def nlift_def wlift_def text_err_def)

lemma untouched_wmap_err [untouched_intros]: "untouched P m \<Longrightarrow> untouched P (wmap_err g m)"
  unfolding preserves_def wmap_err_def by (auto split: prod.splits)

lemma untouched_io [untouched_intros]:
  "untouched P m \<Longrightarrow> untouched P (io m)" "untouched P m \<Longrightarrow> untouched P (worker m)"
  by (simp_all add: io_def worker_def untouched_wmap_err)

lemma untouched_fs [untouched_intros]:
  "untouched P (fs_read p)" "untouched P (fs_exists p)" "untouched P (fs_create_dir_all p)"
  "\<not> P p \<Longrightarrow> untouched P (fs_write p b)"
  by (auto simp: preserves_def same_on_def fs_read_def fs_exists_def fs_create_dir_all_def fs_write_def fs_op_def
      split: list.splits option.splits)

section \<open>The store of a data directory\<close>

definition lab_blobs :: "string \<Rightarrow> BlobStore" where
  "lab_blobs root = \<lparr>bs_root = dp_ciphertexts (data_paths root)\<rparr>"

definition in_store :: "string \<Rightarrow> string \<Rightarrow> bool" where
  "in_store root p \<longleftrightarrow> (\<exists>x. p = path_base root @ ''ciphertexts/'' @ x)"

lemma lab_blobs_base: "path_base (bs_root (lab_blobs root)) = path_base root @ ''ciphertexts/''"
  by (simp add: lab_blobs_def data_paths_def path_join_name path_base_def)

lemma data_files_outside:
  "\<not> in_store root (dp_client_key (data_paths root))" "\<not> in_store root (dp_server_key (data_paths root))"
  "\<not> in_store root (dp_operator (data_paths root))" "\<not> in_store root (dp_params (data_paths root))"
  "\<not> in_store root (dp_request (data_paths root))" "\<not> in_store root (dp_result (data_paths root))"
  by (simp_all add: in_store_def data_paths_def path_join_name)

lemma store_paths: "path_for cr (lab_blobs root) h = Ok p \<Longrightarrow> in_store root p"
  using path_for_Ok [of cr "lab_blobs root" h p] by (auto simp: lab_blobs_base in_store_def)

lemma same_entries:
  assumes "\<And>p. in_store root p \<Longrightarrow> dk_files d' p = dk_files d p"
  shows "stored cr (lab_blobs root) d' = stored cr (lab_blobs root) d"
    and "corrupted cr (lab_blobs root) d' = corrupted cr (lab_blobs root) d"
proof -
  show "stored cr (lab_blobs root) d' = stored cr (lab_blobs root) d"
    by (rule ext) (auto simp: stored_def assms store_paths split: sum.splits)
  show "corrupted cr (lab_blobs root) d' = corrupted cr (lab_blobs root) d"
    by (rule ext) (auto simp: corrupted_def assms store_paths)
qed

lemma setup_outside: "untouched (in_store root) (setup_lab cr tf ke cj en root)"
  unfolding setup_lab_def write_client_key_def write_server_key_def create_parent_def Let_def
  by (auto split: prod.splits option.splits intro!: untouched_intros data_files_outside)

lemma new_store_Ok: "new_store path d = (Ok s, d') \<longleftrightarrow> s = \<lparr>bs_root = path\<rparr> \<and> fs_create_dir_all path d = (Ok (), d')"
  by (auto simp: new_store_def wbind_Ok_iff)

section \<open>Contents of a store\<close>

text \<open>A store that holds only blobs of a set, none of them damaged. The set is one on which the hash
  does not collide: the blobs of one run.\<close>

definition holds_only :: "Crates \<Rightarrow> BlobStore \<Rightarrow> u8 list set \<Rightarrow> Disk \<Rightarrow> bool" where
  "holds_only cr store B d \<longleftrightarrow>
     (\<forall>h. \<not> corrupted cr store d h \<and> (\<forall>x. stored cr store d h = Some x \<longrightarrow> x \<in> B))"

lemma put_stored:
  assumes "put cr store b d = (r, d')" and "stored cr store d' h = Some x"
  shows "stored cr store d h = Some x \<or> x = b"
  using assms(1)
proof (cases rule: put_cases)
  case (failed p e)
  then show ?thesis using assms(2) tmp_not_stored unfolding stored_Some by metis
next
  case (written p)
  then show ?thesis using assms(2) by (auto simp: stored_Some split: if_splits)
qed (use assms(2) in auto)

lemma put_holds:
  assumes "hex_law cr" and "put cr store b d = (r, d')" and "holds_only cr store B d" and "b \<in> B"
  shows "holds_only cr store B d'"
  using assms put_undamaged [OF assms(1,2)] put_stored [OF assms(2)]
  unfolding holds_only_def by blast

lemma put_adds:
  assumes "put cr store b d = (Ok h, d')" and "holds_only cr store B d" and "b \<in> B" and "inj_on (cr_sha256 cr) B"
  shows "h = cr_sha256 cr b" and "stored cr store d' h = Some b"
proof -
  show h: "h = cr_sha256 cr b" using blob_store.insert_digest [OF assms(1)] .
  have "x = b" if "stored cr store d h = Some x" for x
    using that assms(2-4) h blob_store.view_digest [OF that] unfolding holds_only_def inj_on_def by blast
  then show "stored cr store d' h = Some b"
    using assms(1,2) by (intro blob_store.insert_view) (auto simp: holds_only_def)
qed

section \<open>Evaluating and decrypting\<close>

text \<open>The worker touches nothing outside the store.\<close>

lemma put_inside: "untouched (\<lambda>p. \<not> in_store root p) (put cr (lab_blobs root) b)"
  unfolding preserves_def same_on_def
proof (intro allI impI)
  fix d r d' q assume put: "put cr (lab_blobs root) b d = (r, d')" and q: "\<not> in_store root q"
  have tmp: "in_store root p \<Longrightarrow> in_store root (tmp_of p)" for p by (auto simp: in_store_def tmp_of_def)
  show "dk_files d' q = dk_files d q"
    using put
  proof (cases rule: put_cases)
    case (failed p e)
    then show ?thesis using q tmp store_paths by metis
  next
    case (written p)
    then have "q \<noteq> p" "q \<noteq> tmp_of p" using q tmp store_paths by metis+
    then show ?thesis using written by simp
  qed auto
qed

lemma get_untouched [untouched_intros]: "untouched P (get cr store h)"
  by (auto simp: preserves_def same_on_def dest!: get_files)

lemma process_inside:
  "untouched (\<lambda>p. \<not> in_store root p) (process_request cr tf ho (lab_blobs root) request csk operator)"
  unfolding process_request_def Let_def store_bool_def load_u64_def
  by (auto intro!: untouched_intros put_inside)

lemma load_server_material_Ok:
  assumes "load_server_material cr tf path ph d = (Ok m, d')"
  shows "\<exists>bytes. dk_files d path = Some bytes \<and>
      tf_deserialize_compressed tf bytes SERVER_KEY_LIMIT = Some (sm_compressed_server_key m)"
    and "hash_compressed_server_key cr tf (sm_compressed_server_key m) = Ok ph"
  using assms
  by (auto simp: load_server_material_def read_compressed_server_key_def wbind_Ok_iff
      require_server_key_commitment_def and_then_eq_Ok dest!: fs_read_Ok split: if_splits)

text \<open>Reading on a disk that does not fail.\<close>

lemma fs_read_now: "dk_faults d = [] \<Longrightarrow> dk_files d p = Some b \<Longrightarrow> fs_read p d = (Ok b, d)"
  by (simp add: fs_read_def fs_op_def)

lemma load_material_now:
  assumes "dk_faults d = []" and "dk_files d ckp = Some b" and "tf_deserialize_client_key tf b CLIENT_KEY_LIMIT = Some ck"
    and "dk_files d skp = Some b'" and "tf_deserialize_compressed tf b' SERVER_KEY_LIMIT = Some csk"
    and "hash_compressed_server_key cr tf csk = Ok ph"
  shows "load_material cr tf ckp skp ph d = (Ok \<lparr>fm_client_key = ck, fm_server_key = tf_decompress tf csk,
    fm_compressed_server_key = csk, fm_params_hash = ph\<rparr>, d)"
  using assms
  by (simp add: load_material_def read_client_key_def read_compressed_server_key_def wbind_simp fs_read_now
      require_server_key_commitment_def)

lemma nlift_Ok: "nlift r n = (Ok x, n') \<longleftrightarrow> r = Ok x \<and> n' = n"
  by (auto simp: nlift_def)

lemma cmd_evaluate_Ok:
  assumes "cmd_evaluate (lb :: ('a, 'b, 'c, 'ct, 'cb, 'kp, 'tx, 'svm) Lab) dir d = (Ok h, d')"
  obtains rbytes rf request pbytes params ph csk operator b sig d1 d2 out where
    "dk_files d (dp_request (data_paths dir)) = Some rbytes" "cj_read_request (lb_json lb) rbytes = Ok rf"
    "request_from_file (lb_crates lb) rf = Ok request"
    "dk_files d (dp_params (data_paths dir)) = Some pbytes" "cj_read_params (lb_json lb) pbytes = Ok params"
    "parse_hex32 (lb_crates lb) (pm_params_hash params) = Ok ph"
    "hash_compressed_server_key (lb_crates lb) (lb_tfhe lb) csk = Ok ph"
    "\<exists>kbytes. dk_files d (dp_server_key (data_paths dir)) = Some kbytes \<and>
       tf_deserialize_compressed (lb_tfhe lb) kbytes SERVER_KEY_LIMIT = Some csk"
    "dk_files d1 = dk_files d"
    "process_request (lb_crates lb) (lb_tfhe lb) (lb_host lb) (lab_blobs dir) request
       csk operator d1 = (Ok (b, sig), d2)"
    "cj_write_result (lb_json lb) (result_file (lb_crates lb) b sig (ho_pubkey (lb_host lb) operator)) = Ok out"
    "dk_files d' = (dk_files d2)(dp_result (data_paths dir) \<mapsto> out)" "h = rs_result_hash b"
proof -
  obtain rbytes rf request pbytes params ph and m :: "'c ServerMaterial" and operator b sig d1 d2 d3 d4 d5 d6 bytes where steps:
    "fs_read (dp_request (data_paths dir)) d = (Ok rbytes, d1)" "cj_read_request (lb_json lb) rbytes = Ok rf"
    "request_from_file (lb_crates lb) rf = Ok request"
    "fs_create_dir_all (dp_ciphertexts (data_paths dir)) d1 = (Ok (), d2)"
    "fs_read (dp_params (data_paths dir)) d2 = (Ok pbytes, d3)" "cj_read_params (lb_json lb) pbytes = Ok params"
    "parse_hex32 (lb_crates lb) (pm_params_hash params) = Ok ph"
    "load_server_material (lb_crates lb) (lb_tfhe lb) (dp_server_key (data_paths dir)) ph d3 = (Ok m, d4)"
    "read_operator_file (lb_host lb) (lb_json lb) (dp_operator (data_paths dir)) d4 = (Ok operator, d5)"
    "process_request (lb_crates lb) (lb_tfhe lb) (lb_host lb) (lab_blobs dir) request
       (sm_compressed_server_key m) operator d5 = (Ok (b, sig), d6)"
    "cj_write_result (lb_json lb) (result_file (lb_crates lb) b sig (ho_pubkey (lb_host lb) operator)) = Ok bytes"
    "fs_write (dp_result (data_paths dir)) bytes d6 = (Ok (), d')" "h = rs_result_hash b"
    using assms unfolding cmd_evaluate_def Let_def read_request_file_def read_params_file_def lab_blobs_def
    by (clarsimp simp: nbind_Ok command_Ok new_store_Ok nlift_Ok simp del: nlift_eq)
  have files: "dk_files d1 = dk_files d" "dk_files d2 = dk_files d1" "dk_files d3 = dk_files d2"
    "dk_files d4 = dk_files d3" "dk_files d5 = dk_files d4"
    using steps(1,4,5,8,9) fs_read_files fs_create_dir_all_files
    by (auto simp: load_server_material_def read_compressed_server_key_def read_operator_file_def wbind_Ok_iff nbind_Ok
        command_Ok)
  show thesis
    by (rule that [of rbytes rf request pbytes params ph "sm_compressed_server_key m" d5 operator b sig d6 bytes])
      (use steps files load_server_material_Ok [OF steps(8)] in \<open>auto dest!: fs_read_Ok fs_write_Ok\<close>)
qed

text \<open>What \<open>decrypt\<close> prints, on files that can be read.\<close>

lemma cmd_decrypt_now:
  fixes lb :: "('ck, 'sk, 'csk, 'ct, 'cb, 'kp, 'tx, 'svm) Lab"
  assumes "dk_faults d = []" and "dk_files d (dp_result (data_paths dir)) = Some rbytes"
    and "cj_read_result (lb_json lb) rbytes = Ok rf" and "parse_hex32 (lb_crates lb) (rr_result_hash rf) = Ok h"
    and "dk_files d (dp_params (data_paths dir)) = Some pbytes" and "cj_read_params (lb_json lb) pbytes = Ok params"
    and "parse_hex32 (lb_crates lb) (pm_params_hash params) = Ok ph"
    and "load_material (lb_crates lb) (lb_tfhe lb) (dp_client_key (data_paths dir)) (dp_server_key (data_paths dir)) ph d
      = (Ok m, d)"
    and "load_bool (lb_crates lb) (lb_tfhe lb) (lab_blobs dir) h (pm_key_version params) ph d = (Ok ct, d)"
  shows "cmd_decrypt lb dir d = (Ok (tf_decrypt_bool (lb_tfhe lb) ct (fm_client_key m)), d)"
proof -
  have store: "new_store (dp_ciphertexts (data_paths dir)) d = (Ok (lab_blobs dir), d)"
    using assms(1) by (simp add: new_store_Ok lab_blobs_def fs_create_dir_all_def fs_op_def)
  show ?thesis
    using assms(1-7) assms(8,9) store
    by (simp add: cmd_decrypt_def Let_def nbind_def nlift_def io_def worker_def wmap_err_def text_err_def fs_read_now
        read_params_file_def decrypt_bool_def)
qed

section \<open>Encrypting\<close>

text \<open>The encryption, with its randomness, of a value stands under a hash.\<close>

definition encrypted_at ::
    "Crates \<Rightarrow> ('ck, 'sk, 'csk, 'ct, 'cb) Tfhe \<Rightarrow> BlobStore \<Rightarrow> Disk \<Rightarrow> u32 \<Rightarrow> bytes32 \<Rightarrow> bytes32 \<Rightarrow> 'ct \<Rightarrow> bool" where
  "encrypted_at cr tf store d kv ph h ct \<longleftrightarrow>
     (\<exists>payload. tf_serialize_u64 tf ct CIPHERTEXT_LIMIT = Some payload \<and>
        stored cr store d h = Some (wrap_blob CT_KIND_U64 kv ph payload))"

text \<open>The blobs of a run on three ciphertexts and its result.\<close>

definition u64_blobs :: "('ck, 'sk, 'csk, 'ct, 'cb) Tfhe \<Rightarrow> u32 \<Rightarrow> bytes32 \<Rightarrow> 'ct \<Rightarrow> u8 list set" where
  "u64_blobs tf kv ph ct =
    (case tf_serialize_u64 tf ct CIPHERTEXT_LIMIT of None \<Rightarrow> {} | Some p \<Rightarrow> {wrap_blob CT_KIND_U64 kv ph p})"

definition bool_blobs :: "('ck, 'sk, 'csk, 'ct, 'cb) Tfhe \<Rightarrow> u32 \<Rightarrow> bytes32 \<Rightarrow> 'cb \<Rightarrow> u8 list set" where
  "bool_blobs tf kv ph ct =
    (case tf_serialize_bool tf ct BOOL_LIMIT of None \<Rightarrow> {} | Some p \<Rightarrow> {wrap_blob CT_KIND_BOOL kv ph p})"

lemma encrypted_operand: "encrypted_at cr tf store d kv ph h (tf_encrypt tf e v ck) \<Longrightarrow> operand cr tf store d ck kv ph h v"
  by (auto simp: encrypted_at_def operand_def)

lemma encrypted_stays:
  assumes "encrypted_at cr tf store d kv ph h ct" and "put cr store b d = (r, d')"
  shows "encrypted_at cr tf store d' kv ph h ct"
  using assms blob_store.insert_keeps [OF assms(2)] unfolding encrypted_at_def by blast

lemma store_u64_adds:
  assumes "hex_law cr" and "store_u64 cr tf store ct kv ph d = (Ok h, d')" and "holds_only cr store B d"
    and "u64_blobs tf kv ph ct \<subseteq> B" and "inj_on (cr_sha256 cr) B"
  shows "encrypted_at cr tf store d' kv ph h ct" and "holds_only cr store B d'"
    and "encrypted_at cr tf store d kv ph g x \<Longrightarrow> encrypted_at cr tf store d' kv ph g x"
proof -
  obtain payload where p: "tf_serialize_u64 tf ct CIPHERTEXT_LIMIT = Some payload"
      "put cr store (wrap_blob CT_KIND_U64 kv ph payload) d = (Ok h, d')"
    using assms(2) by (auto simp: store_u64_def wbind_Ok_iff serialize_u64_def)
  have b: "wrap_blob CT_KIND_U64 kv ph payload \<in> B" using assms(4) p(1) by (simp add: u64_blobs_def)
  show "encrypted_at cr tf store d' kv ph h ct"
    using put_adds(2) [OF p(2) assms(3) b assms(5)] p(1) by (simp add: encrypted_at_def)
  show "holds_only cr store B d'" using put_holds [OF assms(1) p(2) assms(3) b] .
  show "encrypted_at cr tf store d' kv ph g x" if "encrypted_at cr tf store d kv ph g x"
    using encrypted_stays [OF that p(2)] .
qed

lemma holds_only_agree:
  assumes "\<And>p. in_store root p \<Longrightarrow> dk_files d' p = dk_files d p"
  shows "holds_only cr (lab_blobs root) B d' = holds_only cr (lab_blobs root) B d"
  by (simp add: holds_only_def same_entries [OF assms])

lemma encrypt_inputs_stores:
  fixes material :: "('ck, 'sk, 'csk) FheMaterial"
  assumes "hex_law cr" and "inj_on (cr_sha256 cr) B" and "holds_only cr (lab_blobs root) B d"
    and "encrypt_inputs cr tf (e1, e2, e3) root material balance amount limit d = (Ok refs, d')"
    and "ck = fm_client_key material" and "ph = fm_params_hash material"
    and "u64_blobs tf 1 ph (tf_encrypt tf e1 balance ck) \<union> u64_blobs tf 1 ph (tf_encrypt tf e2 amount ck) \<union>
      u64_blobs tf 1 ph (tf_encrypt tf e3 limit ck) \<subseteq> B"
  shows "encrypted_at cr tf (lab_blobs root) d' 1 ph (er_balance_hash refs) (tf_encrypt tf e1 balance ck)"
    and "encrypted_at cr tf (lab_blobs root) d' 1 ph (er_amount_hash refs) (tf_encrypt tf e2 amount ck)"
    and "encrypted_at cr tf (lab_blobs root) d' 1 ph (er_limit_hash refs) (tf_encrypt tf e3 limit ck)"
    and "holds_only cr (lab_blobs root) B d'"
proof -
  obtain d1 d2 d3 where steps: "fs_create_dir_all (dp_ciphertexts (data_paths root)) d = (Ok (), d1)"
      "store_u64 cr tf (lab_blobs root) (tf_encrypt tf e1 balance ck) 1 ph d1 = (Ok (er_balance_hash refs), d2)"
      "store_u64 cr tf (lab_blobs root) (tf_encrypt tf e2 amount ck) 1 ph d2 = (Ok (er_amount_hash refs), d3)"
      "store_u64 cr tf (lab_blobs root) (tf_encrypt tf e3 limit ck) 1 ph d3 = (Ok (er_limit_hash refs), d')"
    using assms(4,5,6)
    by (auto simp: encrypt_inputs_def Let_def nbind_Ok command_Ok new_store_Ok encrypt_u64_def lab_blobs_def)
  have d1: "holds_only cr (lab_blobs root) B d1"
    using assms(3) fs_create_dir_all_files [OF steps(1)] by (simp add: holds_only_agree [of root d1 d])
  note first = store_u64_adds [OF assms(1) steps(2) d1 _ assms(2)]
  have d2: "holds_only cr (lab_blobs root) B d2" using first(2) assms(7) by simp
  note second = store_u64_adds [OF assms(1) steps(3) d2 _ assms(2)]
  have d3: "holds_only cr (lab_blobs root) B d3" using second(2) assms(7) by simp
  note third = store_u64_adds [OF assms(1) steps(4) d3 _ assms(2)]
  show "encrypted_at cr tf (lab_blobs root) d' 1 ph (er_balance_hash refs) (tf_encrypt tf e1 balance ck)"
    "encrypted_at cr tf (lab_blobs root) d' 1 ph (er_amount_hash refs) (tf_encrypt tf e2 amount ck)"
    "encrypted_at cr tf (lab_blobs root) d' 1 ph (er_limit_hash refs) (tf_encrypt tf e3 limit ck)"
    "holds_only cr (lab_blobs root) B d'"
    using first(1) second(1,3) third assms(7) by simp_all
qed

text \<open>A worker on such a store leaves the result of exactly these ciphertexts.\<close>

lemma load_encrypted:
  assumes "load_u64 cr tf store h kv ph d = (Ok ct', d')" and "encrypted_at cr tf store d kv ph h ct" and "serial_law tf"
  shows "ct' = ct" and "dk_files d' = dk_files d"
proof -
  obtain payload where p: "stored cr store d h = Some (wrap_blob CT_KIND_U64 kv ph payload)"
      "tf_deserialize_u64 tf payload CIPHERTEXT_LIMIT = Some ct'" "dk_files d' = dk_files d"
    using load_u64_Ok [OF assms(1)] by blast
  obtain payload' where q: "tf_serialize_u64 tf ct CIPHERTEXT_LIMIT = Some payload'"
      "stored cr store d h = Some (wrap_blob CT_KIND_U64 kv ph payload')"
    using assms(2) by (auto simp: encrypted_at_def)
  have "payload' = payload"
    using p(1) q(2) by (simp add: wrap_payload)
  then show "ct' = ct" using p(2) q(1) assms(3) unfolding serial_law_def by fastforce
  show "dk_files d' = dk_files d" by (rule p(3))
qed

text \<open>A ciphertext loads only under the key version and the parameters it was stored with.\<close>

lemma load_header:
  assumes "load_u64 cr tf store h kv ph d = (Ok ct', d')" and "encrypted_at cr tf store d kv' ph' h ct"
  shows "kv = kv'" and "ph = ph'"
proof -
  obtain payload payload' where "wrap_blob CT_KIND_U64 kv' ph' payload' = wrap_blob CT_KIND_U64 kv ph payload"
    using load_u64_Ok [OF assms(1)] assms(2) by (auto simp: encrypted_at_def)
  then have "unwrap_blob (wrap_blob CT_KIND_U64 kv' ph' payload') CT_KIND_U64 kv ph = Ok payload"
    by (metis unwrap_wrap)
  then show "kv = kv'" "ph = ph'" by (auto simp: unwrap_wrap split: if_splits)
qed

lemma load_bool_stored:
  assumes "load_bool cr tf store h kv ph d = (Ok ct', d')"
    and "stored cr store d h = Some (wrap_blob CT_KIND_BOOL kv ph payload)"
    and "tf_serialize_bool tf ct BOOL_LIMIT = Some payload" and "serial_law tf"
  shows "ct' = ct"
proof -
  obtain payload' where p: "stored cr store d h = Some (wrap_blob CT_KIND_BOOL kv ph payload')"
      "tf_deserialize_bool tf payload' BOOL_LIMIT = Some ct'"
    using assms(1)
    by (auto simp: load_bool_def wbind_Ok_iff deserialize_bool_def dest!: get_Ok unwrap_Ok_wrap)
  have "payload' = payload"
    using p(1) assms(2) by (simp add: wrap_payload)
  then show ?thesis using p(2) assms(3,4) unfolding serial_law_def by fastforce
qed

lemma encrypted_cong: "dk_files d' = dk_files d \<Longrightarrow> encrypted_at cr tf store d' = encrypted_at cr tf store d"
  by (intro ext) (simp add: encrypted_at_def stored_cong [of d' d])

lemma process_exact:
  assumes "process_request cr tf ho store request csk operator d = (Ok (b, sig), d')" and "serial_law tf"
    and "encrypted_at cr tf store d (rb_key_version request) (rb_params_hash request) (rb_balance_hash request) x"
    and "encrypted_at cr tf store d (rb_key_version request) (rb_params_hash request) (rb_amount_hash request) y"
    and "encrypted_at cr tf store d (rb_key_version request) (rb_params_hash request) (rb_limit_hash request) z"
    and "holds_only cr store B d" and "inj_on (cr_sha256 cr) B"
    and "bool_blobs tf (rb_key_version request) (rb_params_hash request) (evaluate_policy tf (tf_decompress tf csk) x y z) \<subseteq> B"
  shows "\<exists>payload. tf_serialize_bool tf (evaluate_policy tf (tf_decompress tf csk) x y z) BOOL_LIMIT = Some payload \<and>
    stored cr store d' (rs_result_hash b)
      = Some (wrap_blob CT_KIND_BOOL (rb_key_version request) (rb_params_hash request) payload)"
  using assms(1)
proof (rule process_request_Ok)
  fix b1 a1 l1 payload d1 d2 d3
  assume l: "load_u64 cr tf store (rb_balance_hash request) (rb_key_version request) (rb_params_hash request) d = (Ok b1, d1)"
      "load_u64 cr tf store (rb_amount_hash request) (rb_key_version request) (rb_params_hash request) d1 = (Ok a1, d2)"
      "load_u64 cr tf store (rb_limit_hash request) (rb_key_version request) (rb_params_hash request) d2 = (Ok l1, d3)"
    and payload: "tf_serialize_bool tf (evaluate_policy tf (tf_decompress tf csk) b1 a1 l1) BOOL_LIMIT = Some payload"
    and put: "put cr store (wrap_blob CT_KIND_BOOL (rb_key_version request) (rb_params_hash request) payload) d3
       = (Ok (rs_result_hash b), d')"
  note x = load_encrypted [OF l(1) assms(3,2)]
  note y = load_encrypted [OF l(2) _ assms(2), of y, unfolded encrypted_cong [OF x(2)], OF assms(4)]
  have d2: "dk_files d2 = dk_files d" using x(2) y(2) by simp
  note z = load_encrypted [OF l(3) _ assms(2), of z, unfolded encrypted_cong [OF d2], OF assms(5)]
  have d3: "dk_files d3 = dk_files d" using d2 z(2) by simp
  have holds: "holds_only cr store B d3"
    using assms(6) by (simp add: holds_only_def stored_cong [OF d3] corrupted_def d3)
  have "wrap_blob CT_KIND_BOOL (rb_key_version request) (rb_params_hash request) payload \<in> B"
    using assms(8) payload by (simp add: bool_blobs_def x(1) y(1) z(1))
  from put_adds(2) [OF put holds this assms(7)] show ?thesis
    using payload by (auto simp: x(1) y(1) z(1))
qed

lemma process_header:
  assumes "process_request cr tf ho store request csk operator d = (Ok (b, sig), d')"
    and "encrypted_at cr tf store d kv ph (rb_balance_hash request) x"
  shows "rb_key_version request = kv" "rb_params_hash request = ph"
  by (rule process_request_Ok [OF assms(1)], erule load_header [OF _ assms(2)])+

section \<open>A disk that does not fail\<close>

text \<open>stays one that does not fail.\<close>

definition calm :: "('a, 'e) dio \<Rightarrow> bool" where
  "calm m \<longleftrightarrow> (\<forall>d r d'. m d = (r, d') \<longrightarrow> dk_faults d = [] \<longrightarrow> dk_faults d' = [])"

lemma calm_wbind: "calm m \<Longrightarrow> (\<And>x. calm (f x)) \<Longrightarrow> calm (wbind m f)"
  unfolding calm_def wbind_def by (auto split: prod.splits sum.splits)

lemma calm_basic:
  "calm (wlift r)" "calm (fs_op g h)" "calm (fs_exists p)" "calm (fs_read p)" "calm (fs_write p b)" "calm (fs_rename p q)"
  by (auto simp: calm_def wlift_def fs_op_def fs_exists_def fs_read_def fs_write_def fs_rename_def
      split: list.splits option.splits prod.splits)

lemmas calm_intros = calm_wbind calm_basic

lemma calm_put: "calm (put cr store b)"
  by (auto simp: put_def Let_def intro!: calm_intros)

lemma calm_get: "calm (get cr store h)"
  by (auto simp: get_def intro!: calm_intros)

lemma calm_worker:
  "calm (store_u64 cr tf store ct kv ph)" "calm (process_request cr tf ho store request csk operator)"
  by (auto simp: store_u64_def process_request_def Let_def store_bool_def load_u64_def
      intro!: calm_intros calm_put calm_get)

end
