(* ===== verification/LabScenario.thy ===== *)
theory LabScenario
  imports LabStore
begin

text \<open>
  A concrete lab: the client, the transparent "encryption" and the session's files of the other
  scenarios, and a machine whose state is the ledger.
\<close>

section \<open>A machine and a lab\<close>

text \<open>What a transaction does to the ledger: the program's instructions, in order.\<close>

fun run_range :: "Runtime \<Rightarrow> u64 \<Rightarrow> Instruction list \<Rightarrow> nat list \<Rightarrow> ledger \<Rightarrow> ledger presult" where
  "run_range rt slot ixs [] L = Ok L"
| "run_range rt slot ixs (i # is) L =
     and_then (if ix_program_id (ixs ! i) = PROGRAM_ID
               then process_instruction rt (tx_env slot ixs i) L (ixs ! i) else Ok L) (\<lambda>L'.
     run_range rt slot ixs is L')"

definition run_tx :: "Runtime \<Rightarrow> u64 \<Rightarrow> Instruction list \<Rightarrow> ledger \<Rightarrow> ledger presult" where
  "run_tx rt slot ixs L = run_range rt slot ixs [0..<length ixs] L"

definition lab_svm :: "(Instruction list, ledger) Svm" where
  "lab_svm =
    \<lparr>sv_new = [0 \<mapsto> ForeignAccount], sv_add_program = (\<lambda>_ _ L. (Ok (), L)), sv_airdrop = (\<lambda>_ _ L. (Ok (), L)),
     sv_latest_blockhash = (\<lambda>_. 0),
     sv_send_transaction = (\<lambda>ixs L. case run_tx client_runtime 6 ixs L of Ok L' \<Rightarrow> (Ok 1, L') | Err _ \<Rightarrow> (Err ''failed'', L)),
     sv_clock_slot = (\<lambda>_. 6)\<rparr>"

definition demo_lab :: "(unit, unit, unit, u64, bool, pubkey, Instruction list, ledger) Lab" where
  "demo_lab =
    \<lparr>lb_sdk = lab_sdk, lb_crates = tail_crates, lb_tfhe = lab_tfhe, lb_host = lab_host,
     lb_keys = \<lparr>ke_new = (\<lambda>n. [lab_authority, lab_owner, lab_mint, lab_operator] ! n), ke_to_bytes = raw\<rparr>,
     lb_json = session_json,
     lb_txs = \<lparr>tx_sign = (\<lambda>_ ixs _ _. ixs), tx_hash_from_str = (\<lambda>_. Some 0), tx_serialize = (\<lambda>_. Some [])\<rparr>,
     lb_svm = lab_svm, lb_manifest_dir = ''m'', lb_current_dir = None, lb_temp_dir = ''tmp''\<rparr>"

lemma demo_lab_simps [simp]:
  "lb_sdk demo_lab = lab_sdk" "lb_crates demo_lab = tail_crates" "lb_tfhe demo_lab = lab_tfhe"
  "lb_host demo_lab = lab_host" "lb_json demo_lab = session_json" "lb_svm demo_lab = lab_svm"
  by (simp_all add: demo_lab_def)

lemma lab_data_paths:
  "dp_client_key (data_paths ''lab'') = ''lab/keys/client.bin''" "dp_server_key (data_paths ''lab'') = ''lab/keys/server.bin''"
  "dp_operator (data_paths ''lab'') = ''lab/keys/operator.json''" "dp_params (data_paths ''lab'') = ''lab/keys/params.json''"
  "dp_request (data_paths ''lab'') = ''lab/request.json''" "dp_result (data_paths ''lab'') = ''lab/result.json''"
  "dp_ciphertexts (data_paths ''lab'') = ''lab/ciphertexts''"
  by (simp_all add: data_paths_def path_join_def path_base_def)

lemma lab_hex8: "parse_hex32 tail_crates (hex_text (replicate 32 8)) = Ok (fill 8)"
  using parse_hex32_encode [OF tail_hex_law, of "fill 8"] by (simp add: tail_crates_def)

lemma lab_server_key: "tf_deserialize_compressed lab_tfhe bs n = Some ()"
    "tf_deserialize_client_key lab_tfhe bs n = Some ()"
  by (simp_all add: lab_tfhe_def clear_tfhe_def)

lemma session_json_simps:
  "cj_read_bytes session_json = Ok" "cj_write_bytes session_json = Ok"
  "cj_read_params session_json t = Ok \<lparr>pm_params_hash = hex_text (replicate 32 8), pm_key_version = 1\<rparr>"
  "cj_write_params session_json p = Ok [4]"
  "cj_read_request session_json t = Ok (request_to_file tail_crates session_binding)"
  "cj_write_result session_json (result_file tail_crates binding1 (fill 9) lab_operator) = Ok [3]"
  by (simp_all add: session_json_def)

lemma lab_host_simps: "ho_keypair_try_from lab_host (raw k) = Ok k" "ho_pubkey lab_host k = k"
  by (simp_all add: lab_host_def)

text \<open>The worker of the session answers with the result of the run, on any disk that holds the operands.\<close>

lemma lab_session_worker:
  assumes "\<And>v. v \<in> {21, 22, 23} \<Longrightarrow> operand tail_crates lab_tfhe (lab_blobs ''lab'') d () 1 (fill 8) (fill (ucast v)) v"
    and "dk_faults d = []"
  obtains d' where "process_request tail_crates lab_tfhe lab_host (lab_blobs ''lab'') session_binding () lab_operator
      d = (Ok (binding1, fill 9), d')" "dk_faults d' = []"
proof -
  obtain b sig d' where run: "process_request tail_crates lab_tfhe lab_host (lab_blobs ''lab'') session_binding () lab_operator
      d = (Ok (b, sig), d')" and hash: "rs_result_hash b = fill 30"
    using lab_worker_at [OF assms, of lab_operator] by (auto simp: session_binding_def)
  have sha: "cr_sha256 tail_crates = lab_sha256"
    by (simp add: tail_crates_def lab_sha256_def fun_eq_iff)
  have fields: "rs_request b = session_binding" "rs_request_digest b = request_digest lab_sha256 session_binding"
      "rs_result_type b = RESULT_TYPE_FHE_BOOL" "rs_circuit_id b = CIRCUIT_POLICY_V1"
      "raw sig = ho_sign_message lab_host lab_operator (encode_result b)"
    by (rule process_request_Ok [OF run], simp add: sha)+
  have "rs_request binding1 = session_binding"
    by (simp add: binding1_def result_of_def session_binding_def request_binding_def)
  moreover have "rs_request_digest binding1 = request_digest lab_sha256 session_binding"
    unfolding session_binding_def request_digest0 by (simp add: binding1_def result_of_def)
  moreover have "rs_result_hash binding1 = fill 30" "rs_result_type binding1 = RESULT_TYPE_FHE_BOOL"
      "rs_circuit_id binding1 = CIRCUIT_POLICY_V1"
    by (simp_all add: binding1_def result_of_def config0_def RESULT_TYPE_FHE_BOOL_def CIRCUIT_POLICY_V1_def)
  ultimately have "b = binding1"
    using fields hash by (intro ResultBinding.equality) simp_all
  moreover have "sig = fill 9" using fields(5) by (simp add: lab_host_def flip: raw_inject)
  moreover have "dk_faults d' = []"
    using calm_worker(2) run assms(2) unfolding calm_def by metis
  ultimately show thesis using that run by simp
qed

lemma lab_evaluates_at:
  assumes "\<And>v. v \<in> {21, 22, 23} \<Longrightarrow> operand tail_crates lab_tfhe (lab_blobs ''lab'') d () 1 (fill 8) (fill (ucast v)) v"
    and now: "dk_faults d = []" "dk_files d ''lab/request.json'' = Some q" "dk_files d ''lab/keys/params.json'' = Some pb"
      "dk_files d ''lab/keys/server.bin'' = Some kb" "dk_files d ''lab/keys/operator.json'' = Some (raw lab_operator)"
  shows "\<exists>d'. cmd_evaluate demo_lab ''lab'' d = (Ok (fill 30), d') \<and> dk_faults d' = [] \<and>
    dk_files d' ''lab/result.json'' = Some [3]"
proof -
  obtain d' where ran: "process_request tail_crates lab_tfhe lab_host (lab_blobs ''lab'') session_binding () lab_operator
      d = (Ok (binding1, fill 9), d')" and later: "dk_faults d' = []"
    using lab_session_worker [OF assms(1) now(1)] by blast
  have parts: "request_from_file tail_crates (request_to_file tail_crates session_binding) = Ok session_binding"
      "parse_hex32 tail_crates (hex_text (replicate 32 8)) = Ok (fill 8)"
      "new_store ''lab/ciphertexts'' d = (Ok (lab_blobs ''lab''), d)"
      "load_server_material tail_crates lab_tfhe ''lab/keys/server.bin'' (fill 8) d
        = (Ok \<lparr>sm_compressed_server_key = (), sm_params_hash = fill 8\<rparr>, d)"
    using now lab_key lab_server_key
    by (simp_all add: request_from_file_def request_to_file_def parse_hex32_encode [OF tail_hex_law] lab_hex8
        new_store_Ok fs_create_dir_all_def fs_op_def lab_blobs_def lab_data_paths load_server_material_def
        read_compressed_server_key_def wbind_simp fs_read_now require_server_key_commitment_def)
  show ?thesis
    using now later
    by (simp add: cmd_evaluate_def Let_def nbind_def nlift_def io_def worker_def wmap_err_def text_err_def fs_read_now
        lab_data_paths read_request_file_def read_params_file_def read_operator_file_def parts ran session_json_simps
        lab_host_simps fs_write_def fs_op_def)
      (simp add: binding1_def result_of_def)
qed

end
