(* ===== verification/DemoRun.thy ===== *)
theory DemoRun
  imports LabScenario
begin

text \<open>
  What the demo and the command line do, end to end: the request the demo describes to the worker
  is the one the program has recorded, its finalization is what the machine's ledger holds in the
  end, and the answer that is decrypted is the policy.
\<close>

section \<open>Evaluating and decrypting\<close>

text \<open>
  What the lab evaluates, it decrypts to the policy. Let \<open>evaluate\<close> succeed on a data
  directory whose request names stored encryptions, under the client key on the disk, of a
  balance, an amount and a limit, and whose evaluation key belongs to that client key. Then
  \<open>decrypt\<close>, on the same files, prints "the amount is at most the balance and at most the limit".
\<close>

lemma evaluated_result_decrypts:
  assumes crates: "hex_law (lb_crates lb)" "serial_law (lb_tfhe lb)" "tfhe_law (lb_tfhe lb) ck csk"
      "\<forall>f t. cj_write_result (lb_json lb) f = Ok t \<longrightarrow> cj_read_result (lb_json lb) t = Ok f"
    and ran: "cmd_evaluate lb dir d = (Ok h, d')"
    and request: "dk_files d (dp_request (data_paths dir)) = Some rbytes"
      "cj_read_request (lb_json lb) rbytes = Ok rf" "request_from_file (lb_crates lb) rf = Ok request"
    and params: "dk_files d (dp_params (data_paths dir)) = Some pbytes"
      "cj_read_params (lb_json lb) pbytes = Ok params" "pm_key_version params = rb_key_version request"
    and keys: "dk_files d (dp_client_key (data_paths dir)) = Some ckbytes"
      "tf_deserialize_client_key (lb_tfhe lb) ckbytes CLIENT_KEY_LIMIT = Some ck"
      "dk_files d (dp_server_key (data_paths dir)) = Some skbytes"
      "tf_deserialize_compressed (lb_tfhe lb) skbytes SERVER_KEY_LIMIT = Some csk"
    and operands: "\<forall>(hash, v) \<in> {(rb_balance_hash request, balance), (rb_amount_hash request, amount), (rb_limit_hash request, limit)}.
      operand (lb_crates lb) (lb_tfhe lb) (lab_blobs dir) d ck (rb_key_version request) (rb_params_hash request) hash v"
    and fresh: "vacant (lb_crates lb) (lab_blobs dir) d h"
    and later: "dk_files d2 = dk_files d'" "dk_faults d2 = []"
  shows "cmd_decrypt lb dir d2 = (Ok (amount \<le> balance \<and> amount \<le> limit), d2)"
proof -
  let ?cr = "lb_crates lb" and ?tf = "lb_tfhe lb" and ?kv = "rb_key_version request" and ?ph = "rb_params_hash request"
  obtain ph operator b sig d1 d3 out where
    hash: "parse_hex32 ?cr (pm_params_hash params) = Ok ph" "hash_compressed_server_key ?cr ?tf csk = Ok ph"
    and d1: "dk_files d1 = dk_files d"
    and process: "process_request ?cr ?tf (lb_host lb) (lab_blobs dir) request csk operator d1 = (Ok (b, sig), d3)"
    and out: "cj_write_result (lb_json lb) (result_file ?cr b sig (ho_pubkey (lb_host lb) operator)) = Ok out"
      "dk_files d' = (dk_files d3)(dp_result (data_paths dir) \<mapsto> out)" "h = rs_result_hash b"
    by (rule cmd_evaluate_Ok [OF ran]) (use request params(1,2) keys(3,4) in auto)
  have ph: "ph = ?ph" using process_request_Ok [OF process] hash(2) by auto
  have kept: "dk_files d2 p = dk_files d p" if "\<not> in_store dir p" "p \<noteq> dp_result (data_paths dir)" for p
    using process_inside [of dir ?cr ?tf "lb_host lb" request csk operator] process that out(2) d1 later(1)
    by (auto simp: preserves_def same_on_def)
  have files: "dk_files d2 (dp_params (data_paths dir)) = Some pbytes"
      "dk_files d2 (dp_client_key (data_paths dir)) = Some ckbytes"
      "dk_files d2 (dp_server_key (data_paths dir)) = Some skbytes"
    using kept data_files_outside params(1) keys(1,3) by (simp_all add: data_paths_def path_join_name)
  have result: "cj_read_result (lb_json lb) out = Ok (result_file ?cr b sig (ho_pubkey (lb_host lb) operator))"
      "dk_files d2 (dp_result (data_paths dir)) = Some out"
    using crates(4) out(1,2) later(1) by simp_all
  have hex: "parse_hex32 ?cr (rr_result_hash (result_file ?cr b sig (ho_pubkey (lb_host lb) operator))) = Ok h"
    using crates(1) by (simp add: result_file_def parse_hex32_encode out(3))
  have "in_store dir p \<Longrightarrow> dk_files d2 p = dk_files d3 p" for p
    using data_files_outside(6) [of dir] out(2) later(1) by auto
  then have same: "stored ?cr (lab_blobs dir) d2 = stored ?cr (lab_blobs dir) d3"
    by (rule same_entries)
  have ops: "operand ?cr ?tf (lab_blobs dir) d1 ck ?kv ?ph (rb_balance_hash request) balance"
      "operand ?cr ?tf (lab_blobs dir) d1 ck ?kv ?ph (rb_amount_hash request) amount"
      "operand ?cr ?tf (lab_blobs dir) d1 ck ?kv ?ph (rb_limit_hash request) limit"
      "vacant ?cr (lab_blobs dir) d1 (rs_result_hash b)"
    using operands fresh out(3) by (simp_all add: operand_cong [OF d1] vacant_cong [OF d1])
  obtain ct payload where ct: "tf_decrypt_bool ?tf ct ck = (amount \<le> balance \<and> amount \<le> limit)"
      "tf_serialize_bool ?tf ct BOOL_LIMIT = Some payload"
      "stored ?cr (lab_blobs dir) d2 h = Some (wrap_blob CT_KIND_BOOL ?kv ?ph payload)"
    using worker_result_stored [OF process crates(3,2) ops] same out(3) by metis
  have "load_bool ?cr ?tf (lab_blobs dir) h (pm_key_version params) ph d2 = (Ok ct, d2)"
    using load_stored_bool [OF ct(3) later(2) ct(2) crates(2)] by (simp add: params(3) ph)
  from cmd_decrypt_now [OF later(2) result(2,1) hex files(1) params(2) hash(1)
      load_material_now [OF later(2) files(2) keys(2) files(3) keys(4) hash(2)] this]
  show ?thesis using ct(1) by simp
qed

section \<open>A machine that runs the program\<close>

text \<open>LiteSVM: a transaction that succeeds has run the program's instructions on the ledger, which
  \<open>view\<close> reads off the machine, at the slot of the clock; the clock stays.\<close>

definition svm_law ::
    "('ck, 'sk, 'csk, 'ct, 'cb, 'kp, 'tx, 'svm) Lab \<Rightarrow> ('svm \<Rightarrow> ledger) \<Rightarrow> bool" where
  "svm_law lb view \<longleftrightarrow>
     (\<forall>payer ixs key bh svm cu svm'.
        sv_send_transaction (lb_svm lb) (tx_sign (lb_txs lb) payer ixs key bh) svm = (Ok cu, svm') \<longrightarrow>
        run_tx (sd_runtime (lb_sdk lb)) (sv_clock_slot (lb_svm lb) svm) ixs (view svm) = Ok (view svm') \<and>
        sv_clock_slot (lb_svm lb) svm' = sv_clock_slot (lb_svm lb) svm)"

lemma send_runs:
  assumes "svm_law lb view" and "send lb payer ixs svm = (Ok cu, svm')"
  shows "run_tx (sd_runtime (lb_sdk lb)) (sv_clock_slot (lb_svm lb) svm) ixs (view svm) = Ok (view svm')"
    and "sv_clock_slot (lb_svm lb) svm' = sv_clock_slot (lb_svm lb) svm"
  using assms by (auto simp: svm_law_def send_def Let_def machine_def split: prod.splits)

lemma run_built:
  assumes "anchor_law sd"
  shows "run_tx (sd_runtime sd) slot [program_ix sd metas call] L
    = run_call (sd_runtime sd) (tx_env slot [program_ix sd metas call] 0) L metas call"
  using process_built [OF assms]
  by (simp add: run_tx_def) (simp add: program_ix_def and_then_def split: sum.splits)

lemma env_slot_tx [simp]: "env_slot (tx_env slot ixs i) = slot"
  by (simp add: tx_env_def)

section \<open>The demo on chain\<close>

definition demo_config :: "Sdk \<Rightarrow> pubkey \<Rightarrow> pubkey \<Rightarrow> pubkey \<Rightarrow> bytes32 \<Rightarrow> Config" where
  "demo_config sd authority mint operator params_hash =
    \<lparr>cfg_authority = authority, cfg_mint = mint, cfg_domain_id = local_domain_id (rt_sha256 (sd_runtime sd)),
     cfg_operator = operator, cfg_operator_epoch = 1, cfg_key_version = 1, cfg_params_hash = params_hash,
     cfg_operation = OPERATION_POLICY_CHECK, cfg_circuit_id = CIRCUIT_POLICY_V1,
     cfg_protocol_version = PROTOCOL_VERSION, cfg_max_request_lifetime_slots = 1000, cfg_paused = False,
     cfg_bump = snd (rt_find_program_address (sd_runtime sd) (config_seeds mint) ID)\<rparr>"

definition demo_account :: "Sdk \<Rightarrow> pubkey \<Rightarrow> pubkey \<Rightarrow> pubkey \<Rightarrow> EncryptedRefs \<Rightarrow> ConfidentialAccount" where
  "demo_account sd mint config owner refs =
    \<lparr>acc_config = config, acc_mint = mint, acc_owner = owner, acc_balance_ref = er_balance_hash refs,
     acc_limit_ref = er_limit_hash refs, acc_state_version = 0, acc_request_nonce = 0,
     acc_pending_request = 0, acc_key_version = 1,
     acc_bump = snd (rt_find_program_address (sd_runtime sd) (account_seeds mint owner) ID)\<rparr>"

lemma initialize_runs:
  assumes "anchor_law sd"
    and "run_tx (sd_runtime sd) slot [initialize_ix sd authority mint ck operator ph 1000] L = Ok L'"
  shows "L' = L(ck \<mapsto> ConfigAccount (demo_config sd authority mint operator ph))"
  using assms(2)
  by (auto simp: initialize_ix_def run_built [OF assms(1)] and_then_eq_Ok initialize_config_Ok
      InitializeConfig_accounts_def InitializeConfig_metas_def init_pda_Ok demo_config_def)

lemma create_account_runs:
  assumes "anchor_law sd" and "L ck = Some (ConfigAccount (demo_config sd authority mint operator ph))"
    and "run_tx (sd_runtime sd) slot [create_account_ix sd owner ck ak (er_balance_hash refs) (er_limit_hash refs)] L = Ok L'"
  shows "L' = L(ak \<mapsto> BalanceAccount (demo_account sd mint ck owner refs))"
  using assms(2,3)
  by (auto simp: create_account_ix_def run_built [OF assms(1)] and_then_eq_Ok create_account_Ok
      CreateAccount_accounts_def CreateAccount_metas_def init_pda_Ok demo_config_def demo_account_def)

lemma submit_runs:
  assumes "anchor_law sd" and "L ck = Some (ConfigAccount c)" and "L ak = Some (BalanceAccount a)"
    and "run_tx (sd_runtime sd) slot [submit_ix sd owner ck ak rk amount 0 nonce] L = Ok L'"
  shows "L' = L(ak \<mapsto> BalanceAccount (locked a (derive_request sd ak nonce)),
    derive_request sd ak nonce \<mapsto> RequestAccount (submitted (rt_sha256 (sd_runtime sd)) slot
      (submit_ctx sd owner ck c ak a nonce) (submit_args amount 0 nonce)))"
proof -
  obtain ctx where ctx: "Submit_accounts (sd_runtime sd) L (Submit_metas owner ck ak rk SYSTEM_PROGRAM_ID)
      (submit_args amount 0 nonce) = Ok ctx"
    and L': "and_then (submit (rt_sha256 (sd_runtime sd)) slot ctx (submit_args amount 0 nonce))
      (\<lambda>(acc, req). Ok (L(sbx_account_key ctx \<mapsto> BalanceAccount acc, sbx_request_key ctx \<mapsto> RequestAccount req))) = Ok L'"
    using assms(4) by (auto simp: submit_ix_def run_built [OF assms(1)] and_then_eq_Ok)
  show ?thesis
    using L' submit_metas_accounts [OF ctx assms(2,3)] by (auto simp: and_then_eq_Ok submit_Ok)
qed

lemma finalize_runs:
  assumes "anchor_law sd" and "ed25519_builder_law sd" and "L rk = Some (RequestAccount r)"
    and "L ck = Some (ConfigAccount c)"
    and "finalize_ixs sd ho payer ck ak rk operator b = Some ixs"
    and "run_tx (sd_runtime sd) slot ixs L = Ok L'"
  shows "\<exists>h. L' rk = Some (RequestAccount (r\<lparr>req_status := STATUS_FINALIZED, req_result_hash := rs_result_hash b,
      req_result_digest := h\<rparr>)) \<and> L' ck = Some (ConfigAccount c)"
proof -
  obtain sig where ixs: "ixs = [sd_ed25519_instruction sd (encode_result b) sig (ho_pubkey ho operator),
      finalize_ix sd payer ck ak rk b]"
    using assms(5) by (auto simp: finalize_ixs_def Let_def split: option.splits)
  have other: "ix_program_id (sd_ed25519_instruction sd m s k) \<noteq> PROGRAM_ID" for m s k
    using assms(2) coordinator_is_not_ed25519 by (simp add: ed25519_builder_law_def)
  have "ix_program_id (finalize_ix sd payer ck ak rk b) = PROGRAM_ID"
    by (simp add: finalize_ix_def program_ix_def)
  then have "process_instruction (sd_runtime sd) (tx_env slot ixs 1) L (finalize_ix sd payer ck ak rk b) = Ok L'"
    using assms(6) other by (auto simp: run_tx_def ixs and_then_eq_Ok)
  then have "run_call (sd_runtime sd) (tx_env slot ixs 1) L
      (Finalize_metas payer ck ak rk INSTRUCTIONS_ID) (FinalizeCall (finalize_args b)) = Ok L'"
    by (simp add: finalize_ix_def process_built [OF assms(1)])
  then obtain ctx a' r' where ctx: "Finalize_accounts (sd_runtime sd) (tx_env slot ixs 1) L
        (Finalize_metas payer ck ak rk INSTRUCTIONS_ID) = Ok ctx"
      "finalize (rt_sha256 (sd_runtime sd)) slot ctx (finalize_args b) = Ok (a', r')"
      "L' = L(fnx_account_key ctx \<mapsto> BalanceAccount a', fnx_request_key ctx \<mapsto> RequestAccount r')"
    by (auto simp: and_then_eq_Ok)
  have keys: "fnx_request_key ctx = rk" "fnx_account_key ctx = ak" "fnx_request ctx = r"
    using ctx(1) assms(3) by (auto simp: Finalize_accounts_def Finalize_metas_def and_then_eq_Ok)
  have "ck \<noteq> ak" "ck \<noteq> rk" using Finalize_accounts_Ok(2,3) [OF ctx(1)] keys assms(4) by auto
  then show ?thesis
    using ctx(2,3) keys assms(4) by (auto simp: finalize_Ok finalized_def)
qed

text \<open>After the three transactions before the worker runs, the request on the ledger is the one the
  demo describes.\<close>

lemma demo_submit_recorded:
  fixes lb :: "('ck, 'sk, 'csk, 'ct, 'cb, 'kp, 'tx, 'svm) Lab"
  assumes "sdk_law (lb_sdk lb)" and "svm_law lb view"
    and "demo_submit lb local ph refs svm = (Ok cu, svm1)"
    and "rk = request_pda (lb_sdk lb) (lv_account local) 1"
  shows "\<exists>c r. view svm1 (lv_config local) = Some (ConfigAccount c) \<and> view svm1 rk = Some (RequestAccount r) \<and>
    request_binding c r rk = demo_binding lb local ph refs rk (sv_clock_slot (lb_svm lb) svm1) \<and>
    req_request_digest r = request_digest (rt_sha256 (sd_runtime (lb_sdk lb))) (request_binding c r rk) \<and>
    req_config r = lv_config local"
proof -
  let ?sd = "lb_sdk lb" and ?key = "ho_pubkey (lb_host lb)" and ?ck = "lv_config local" and ?ak = "lv_account local"
  have anchor: "anchor_law ?sd" using assms(1) by (simp add: sdk_law_def)
  obtain x s1 y s2 where sends: "send lb (lv_authority local) [initialize_ix ?sd (?key (lv_authority local))
        (?key (lv_mint local)) ?ck (?key (lv_operator local)) ph 1000] svm = (Ok x, s1)"
      "send lb (lv_owner local) [create_account_ix ?sd (?key (lv_owner local)) ?ck ?ak
        (er_balance_hash refs) (er_limit_hash refs)] s1 = (Ok y, s2)"
      "send lb (lv_owner local) [submit_ix ?sd (?key (lv_owner local)) ?ck ?ak rk (er_amount_hash refs) 0 1] s2
        = (Ok cu, svm1)"
    using assms(3,4) by (auto simp: demo_submit_def Let_def nbind_Ok)
  let ?c = "demo_config ?sd (?key (lv_authority local)) (?key (lv_mint local)) (?key (lv_operator local)) ph"
  let ?a = "demo_account ?sd (?key (lv_mint local)) ?ck (?key (lv_owner local)) refs"
  have s1: "view s1 = (view svm)(?ck \<mapsto> ConfigAccount ?c)"
    by (rule initialize_runs [OF anchor send_runs(1) [OF assms(2) sends(1)]])
  then have ck: "view s1 ?ck = Some (ConfigAccount ?c)" by simp
  have s2: "view s2 = (view s1)(?ak \<mapsto> BalanceAccount ?a)"
    by (rule create_account_runs [OF anchor ck send_runs(1) [OF assms(2) sends(2)]])
  have free: "view s1 ?ak = None"
    using send_runs(1) [OF assms(2) sends(2)]
    by (auto simp: create_account_ix_def run_built [OF anchor] and_then_eq_Ok CreateAccount_accounts_def
        CreateAccount_metas_def init_pda_Ok)
  then have "?ak \<noteq> ?ck" using ck by auto
  then have held: "view s2 ?ck = Some (ConfigAccount ?c)" "view s2 ?ak = Some (BalanceAccount ?a)"
    using ck s2 by simp_all
  let ?slot = "sv_clock_slot (lb_svm lb) s2"
  let ?r = "submitted (rt_sha256 (sd_runtime ?sd)) ?slot (submit_ctx ?sd (?key (lv_owner local)) ?ck ?c ?ak ?a 1)
    (submit_args (er_amount_hash refs) 0 1)"
  have run: "run_tx (sd_runtime ?sd) ?slot [submit_ix ?sd (?key (lv_owner local)) ?ck ?ak rk (er_amount_hash refs) 0 1]
      (view s2) = Ok (view svm1)"
    by (rule send_runs(1) [OF assms(2) sends(3)])
  have rk: "derive_request ?sd ?ak 1 = rk" by (simp add: derive_request_def assms(4))
  have svm1: "view svm1 = (view s2)(?ak \<mapsto> BalanceAccount (locked ?a rk), rk \<mapsto> RequestAccount ?r)"
    using submit_runs [OF anchor held run] by (simp add: rk)
  have "view s2 rk = None"
    using run by (auto simp: submit_ix_def run_built [OF anchor] and_then_eq_Ok Submit_accounts_def
        Submit_metas_def init_pda_Ok)
  then have "rk \<noteq> ?ck" "?ak \<noteq> ?ck" using held \<open>?ak \<noteq> ?ck\<close> by auto
  then have "view svm1 ?ck = Some (ConfigAccount ?c)" "view svm1 rk = Some (RequestAccount ?r)"
    using svm1 held by simp_all
  moreover have slot: "sv_clock_slot (lb_svm lb) svm1 = ?slot"
    by (rule send_runs(2) [OF assms(2) sends(3)])
  have "request_binding ?c ?r rk = demo_binding lb local ph refs rk ?slot"
    by (simp add: request_binding_def submitted_def Let_def demo_binding_def demo_config_def demo_account_def)
  moreover have "req_request_digest ?r = request_digest (rt_sha256 (sd_runtime ?sd)) (request_binding ?c ?r rk)"
    by (simp add: submitted_def Let_def rk) (simp add: request_binding_def)
  moreover have "req_config ?r = ?ck" by (simp add: submitted_def Let_def)
  ultimately show ?thesis unfolding slot by blast
qed

section \<open>The whole demo\<close>

lemma demo_rounds_Ok:
  fixes lb :: "('ck, 'sk, 'csk, 'ct, 'cb, 'kp, 'tx, 'svm) Lab"
  assumes "demo_rounds lb root material refs operator local (d, svm) = (Ok report, (d', svm'))"
    and "rk = request_pda (lb_sdk lb) (lv_account local) 1"
  obtains cu svm1 d1 d2 b sig d3 cu' ct where
    "demo_submit lb local (fm_params_hash material) refs svm = (Ok cu, svm1)"
    "\<And>p. in_store root p \<Longrightarrow> dk_files d1 p = dk_files d p"
    "process_request (lb_crates lb) (lb_tfhe lb) (lb_host lb) (lab_blobs root)
       (demo_binding lb local (fm_params_hash material) refs rk (sv_clock_slot (lb_svm lb) svm1))
       (fm_compressed_server_key material) operator d1 = (Ok (b, sig), d2)"
    "\<And>p. in_store root p \<Longrightarrow> dk_files d3 p = dk_files d2 p"
    "demo_finalize lb local rk operator b svm1 = (Ok cu', svm')"
    "load_bool (lb_crates lb) (lb_tfhe lb) (lab_blobs root) (rs_result_hash b) 1 (fm_params_hash material) d3 = (Ok ct, d')"
    "report = \<lparr>dr_allowed = tf_decrypt_bool (lb_tfhe lb) ct (fm_client_key material), dr_result_hash = rs_result_hash b,
       dr_submit_cu = cu, dr_finalize_cu = cu'\<rparr>"
proof -
  obtain cu svm1 bytes da db b sig d2 bytes' d3 cu' ct where steps:
    "demo_submit lb local (fm_params_hash material) refs svm = (Ok cu, svm1)"
    "fs_write (dp_request (data_paths root)) bytes d = (Ok (), da)"
    "fs_create_dir_all (dp_ciphertexts (data_paths root)) da = (Ok (), db)"
    "process_request (lb_crates lb) (lb_tfhe lb) (lb_host lb) (lab_blobs root)
       (demo_binding lb local (fm_params_hash material) refs rk (sv_clock_slot (lb_svm lb) svm1))
       (fm_compressed_server_key material) operator db = (Ok (b, sig), d2)"
    "fs_write (dp_result (data_paths root)) bytes' d2 = (Ok (), d3)"
    "demo_finalize lb local rk operator b svm1 = (Ok cu', svm')"
    "load_bool (lb_crates lb) (lb_tfhe lb) (lab_blobs root) (rs_result_hash b) 1 (fm_params_hash material) d3 = (Ok ct, d')"
    "report = \<lparr>dr_allowed = tf_decrypt_bool (lb_tfhe lb) ct (fm_client_key material), dr_result_hash = rs_result_hash b,
       dr_submit_cu = cu, dr_finalize_cu = cu'\<rparr>"
    using assms unfolding demo_rounds_def Let_def lab_blobs_def
    by (clarsimp simp: nbind_Ok command_Ok new_store_Ok nlift_Ok split_paired_Ex decrypt_bool_def simp del: nlift_eq
        split: prod.splits)
  have first: "dk_files db p = dk_files d p" if "in_store root p" for p
    using that data_files_outside(5) [of root] fs_write_Ok [OF steps(2)] fs_create_dir_all_files [OF steps(3)] by auto
  have second: "dk_files d3 p = dk_files d2 p" if "in_store root p" for p
    using that data_files_outside(6) [of root] fs_write_Ok [OF steps(5)] by auto
  show thesis by (rule that [OF steps(1) first steps(4) second steps(6-8)])
qed

text \<open>The blobs of one demo, with the randomness it is given.\<close>

definition demo_blobs ::
    "('ck, 'sk, 'csk, 'ct, 'cb) Tfhe \<Rightarrow> nat \<times> nat \<times> nat \<Rightarrow> 'ck \<Rightarrow> 'csk \<Rightarrow> bytes32 \<Rightarrow> u64 \<Rightarrow> u64 \<Rightarrow> u64 \<Rightarrow> u8 list set" where
  "demo_blobs tf entropy ck csk ph balance amount limit =
    (case entropy of (e1, e2, e3) \<Rightarrow>
     let x = tf_encrypt tf e1 balance ck; y = tf_encrypt tf e2 amount ck; z = tf_encrypt tf e3 limit ck in
     u64_blobs tf 1 ph x \<union> u64_blobs tf 1 ph y \<union> u64_blobs tf 1 ph z \<union>
     bool_blobs tf 1 ph (evaluate_policy tf (tf_decompress tf csk) x y z))"

lemma read_operator_files: "read_operator_file ho cj path d = (Ok kp, d') \<Longrightarrow> dk_files d' = dk_files d"
  by (auto simp: read_operator_file_def nbind_Ok command_Ok dest: fs_read_files)

lemma first_existing_files: "first_existing paths d = (Ok b, d') \<Longrightarrow> dk_files d' = dk_files d"
proof (induction paths arbitrary: d)
  case (Cons path rest)
  then show ?case
    by (auto simp: nbind_Ok command_Ok fs_exists_def dest: fs_read_files split: if_splits)
qed simp

lemma boot_svm_files: "boot_svm lb en operator d = (Ok local, d') \<Longrightarrow> dk_files d' = dk_files d"
  by (cases en) (clarsimp simp: boot_svm_def program_bytes_def Let_def nbind_Ok,
    auto dest!: first_existing_files split: prod.split_asm sum.split_asm)

text \<open>The answer of the rounds, on a store that holds the three encryptions.\<close>

lemma demo_rounds_answer:
  fixes lb :: "('ck, 'sk, 'csk, 'ct, 'cb, 'kp, 'tx, 'svm) Lab" and material :: "('ck, 'sk, 'csk) FheMaterial"
  assumes "demo_rounds lb root material refs operator local (d, svm) = (Ok report, s)"
    and "serial_law (lb_tfhe lb)" and "inj_on (cr_sha256 (lb_crates lb)) B" and "holds_only (lb_crates lb) (lab_blobs root) B d"
    and "ph = fm_params_hash material" and "csk = fm_compressed_server_key material"
    and "bool_blobs (lb_tfhe lb) 1 ph (evaluate_policy (lb_tfhe lb) (tf_decompress (lb_tfhe lb) csk) x y z) \<subseteq> B"
    and "encrypted_at (lb_crates lb) (lb_tfhe lb) (lab_blobs root) d 1 ph (er_balance_hash refs) x"
    and "encrypted_at (lb_crates lb) (lb_tfhe lb) (lab_blobs root) d 1 ph (er_amount_hash refs) y"
    and "encrypted_at (lb_crates lb) (lb_tfhe lb) (lab_blobs root) d 1 ph (er_limit_hash refs) z"
  shows "dr_allowed report = tf_decrypt_bool (lb_tfhe lb)
     (evaluate_policy (lb_tfhe lb) (tf_decompress (lb_tfhe lb) csk) x y z) (fm_client_key material)"
proof -
  let ?cr = "lb_crates lb" and ?tf = "lb_tfhe lb" and ?store = "lab_blobs root"
  obtain d' svm' where "s = (d', svm')" by (cases s)
  then have run: "demo_rounds lb root material refs operator local (d, svm) = (Ok report, (d', svm'))"
    using assms(1) by simp
  show ?thesis
  proof (rule demo_rounds_Ok [OF run refl])
    fix svm1 d1 d2 b sig d3 ct cu cu'
    let ?b = "demo_binding lb local (fm_params_hash material) refs
        (request_pda (lb_sdk lb) (lv_account local) 1) (sv_clock_slot (lb_svm lb) svm1)"
    assume d1: "\<And>p. in_store root p \<Longrightarrow> dk_files d1 p = dk_files d p"
      and process: "process_request ?cr ?tf (lb_host lb) ?store ?b (fm_compressed_server_key material) operator d1
        = (Ok (b, sig), d2)"
      and d3: "\<And>p. in_store root p \<Longrightarrow> dk_files d3 p = dk_files d2 p"
      and load: "load_bool ?cr ?tf ?store (rs_result_hash b) 1 (fm_params_hash material) d3 = (Ok ct, d')"
      and report: "report = \<lparr>dr_allowed = tf_decrypt_bool ?tf ct (fm_client_key material),
        dr_result_hash = rs_result_hash b, dr_submit_cu = cu, dr_finalize_cu = cu'\<rparr>"
    have fields: "rb_key_version ?b = 1" "rb_params_hash ?b = ph" "rb_balance_hash ?b = er_balance_hash refs"
        "rb_amount_hash ?b = er_amount_hash refs" "rb_limit_hash ?b = er_limit_hash refs"
      by (simp_all add: demo_binding_def assms(5))
    have at: "encrypted_at ?cr ?tf ?store d1 kv ph h w = encrypted_at ?cr ?tf ?store d kv ph h w" for kv h w
      by (simp add: encrypted_at_def same_entries(1) [OF d1])
    have holds: "holds_only ?cr ?store B d1" using assms(4) holds_only_agree [OF d1] by simp
    obtain payload where payload: "tf_serialize_bool ?tf (evaluate_policy ?tf (tf_decompress ?tf csk) x y z) BOOL_LIMIT = Some payload"
        "stored ?cr ?store d2 (rs_result_hash b) = Some (wrap_blob CT_KIND_BOOL 1 ph payload)"
      using process_exact [OF process assms(2), unfolded fields at, OF assms(8-10) holds assms(3)] assms(6,7) by auto
    have "stored ?cr ?store d3 (rs_result_hash b) = Some (wrap_blob CT_KIND_BOOL 1 ph payload)"
      using payload(2) same_entries(1) [OF d3] by simp
    then have "ct = evaluate_policy ?tf (tf_decompress ?tf csk) x y z"
      using load_bool_stored [OF load] payload(1) assms(2,5) by blast
    then show ?thesis by (simp add: report)
  qed
qed

text \<open>What the rounds leave on the ledger.\<close>

lemma demo_rounds_settle:
  fixes lb :: "('ck, 'sk, 'csk, 'ct, 'cb, 'kp, 'tx, 'svm) Lab" and material :: "('ck, 'sk, 'csk) FheMaterial"
  assumes "sdk_law (lb_sdk lb)" and "svm_law lb view"
    and "demo_rounds lb root material refs operator local (d, svm) = (Ok report, (d', svm'))"
  shows "\<exists>rk r c. view svm' rk = Some (RequestAccount r) \<and> view svm' (req_config r) = Some (ConfigAccount c) \<and>
    req_status r = STATUS_FINALIZED \<and> req_result_hash r = dr_result_hash report \<and>
    req_request_digest r = request_digest (rt_sha256 (sd_runtime (lb_sdk lb))) (request_binding c r rk) \<and>
    (\<exists>operator d1 b sig d2. process_request (lb_crates lb) (lb_tfhe lb) (lb_host lb) (lab_blobs root)
       (request_binding c r rk) (fm_compressed_server_key material) operator d1 = (Ok (b, sig), d2) \<and>
       rs_result_hash b = dr_result_hash report)"
proof -
  let ?cr = "lb_crates lb" and ?tf = "lb_tfhe lb" and ?store = "lab_blobs root" and ?sd = "lb_sdk lb"
    and ?ph = "fm_params_hash material"
  obtain cu svm1 d1 b sig d2 d3 cu' ct where rounds:
    "demo_submit lb local ?ph refs svm = (Ok cu, svm1)"
    "process_request ?cr ?tf (lb_host lb) ?store (demo_binding lb local ?ph refs
        (request_pda ?sd (lv_account local) 1) (sv_clock_slot (lb_svm lb) svm1)) (fm_compressed_server_key material) operator d1 = (Ok (b, sig), d2)"
    "demo_finalize lb local (request_pda ?sd (lv_account local) 1) operator b svm1 = (Ok cu', svm')"
    "dr_result_hash report = rs_result_hash b"
    by (rule demo_rounds_Ok [OF assms(3) refl]) simp
  let ?rk = "request_pda ?sd (lv_account local) 1"
  obtain c r where recorded: "view svm1 (lv_config local) = Some (ConfigAccount c)" "view svm1 ?rk = Some (RequestAccount r)"
      "request_binding c r ?rk = demo_binding lb local ?ph refs ?rk (sv_clock_slot (lb_svm lb) svm1)"
      "req_request_digest r = request_digest (rt_sha256 (sd_runtime ?sd)) (request_binding c r ?rk)"
      "req_config r = lv_config local"
    using demo_submit_recorded [OF assms(1,2) rounds(1) refl] by blast
  obtain ixs where ixs: "finalize_ixs ?sd (lb_host lb) (ho_pubkey (lb_host lb) (lv_owner local)) (lv_config local)
        (lv_account local) ?rk operator b = Some ixs"
      "send lb (lv_owner local) ixs svm1 = (Ok cu', svm')"
    using rounds(3) by (auto simp: demo_finalize_def nbind_Ok nlift_Ok simp del: nlift_eq)
  have "anchor_law ?sd" "ed25519_builder_law ?sd" using assms(1) by (simp_all add: sdk_law_def)
  from finalize_runs [OF this recorded(2,1) ixs(1) send_runs(1) [OF assms(2) ixs(2)]]
  obtain h where final: "view svm' ?rk = Some (RequestAccount (r\<lparr>req_status := STATUS_FINALIZED,
      req_result_hash := rs_result_hash b, req_result_digest := h\<rparr>))" (is "_ = Some (RequestAccount ?r)")
      "view svm' (lv_config local) = Some (ConfigAccount c)"
    by blast
  have "request_binding c ?r ?rk = request_binding c r ?rk" by (simp add: request_binding_def)
  then show ?thesis
    using final rounds(2,4) recorded(3-5)
    by (intro conjI exI [of _ ?rk] exI [of _ ?r] exI [of _ c] exI [of _ operator] exI [of _ d1] exI [of _ b]
        exI [of _ sig] exI [of _ d2]) simp_all
qed

text \<open>
  C8: the demo answers the policy and settles it. On a store with nothing in it and as long as
  the hash does not collide on the blobs of the run, a demo that ends well reports "the amount
  is at most the balance and at most the limit"; and the machine's ledger then holds a request
  that is finalized with the reported result hash, whose digest covers exactly the binding that
  the worker was given, and under which it made this result.
\<close>

theorem demo_answers_and_settles:
  fixes lb :: "('ck, 'sk, 'csk, 'ct, 'cb, 'kp, 'tx, 'svm) Lab"
  assumes laws: "sdk_law (lb_sdk lb)" "svm_law lb view" "hex_law (lb_crates lb)" "serial_law (lb_tfhe lb)"
    and keys: "en_setup en = (g1, g2, g3)" "ck = fst (tf_generate_keys (lb_tfhe lb) g1)"
      "csk = tf_compressed_key (lb_tfhe lb) g2 ck" "tfhe_law (lb_tfhe lb) ck csk"
      "hash_compressed_server_key (lb_crates lb) (lb_tfhe lb) csk = Ok ph"
    and store: "\<forall>h. vacant (lb_crates lb) (lab_blobs root) d h"
      "inj_on (cr_sha256 (lb_crates lb)) (demo_blobs (lb_tfhe lb) (en_encrypt en) ck csk ph balance amount limit)"
    and run: "run_demo lb en root balance amount limit d = (Ok (report, svm'), d')"
  shows "dr_allowed report = (amount \<le> balance \<and> amount \<le> limit) \<and>
    (\<exists>rk r c. view svm' rk = Some (RequestAccount r) \<and> view svm' (req_config r) = Some (ConfigAccount c) \<and>
       req_status r = STATUS_FINALIZED \<and> req_result_hash r = dr_result_hash report \<and>
       req_request_digest r = request_digest (rt_sha256 (sd_runtime (lb_sdk lb))) (request_binding c r rk) \<and>
       (\<exists>operator d1 b sig d2. process_request (lb_crates lb) (lb_tfhe lb) (lb_host lb) (lab_blobs root)
          (request_binding c r rk) csk operator d1 = (Ok (b, sig), d2) \<and> rs_result_hash b = dr_result_hash report))"
proof -
  let ?cr = "lb_crates lb" and ?tf = "lb_tfhe lb" and ?store = "lab_blobs root" and ?sd = "lb_sdk lb"
  obtain e1 e2 e3 where e: "en_encrypt en = (e1, e2, e3)" by (cases "en_encrypt en")
  let ?x = "tf_encrypt ?tf e1 balance ck" and ?y = "tf_encrypt ?tf e2 amount ck" and ?z = "tf_encrypt ?tf e3 limit ck"
  let ?B = "demo_blobs ?tf (en_encrypt en) ck csk ph balance amount limit"
  obtain material :: "('ck, 'sk, 'csk) FheMaterial" and da refs db operator dc local dd where steps:
    "setup_lab ?cr ?tf (lb_keys lb) (lb_json lb) (g1, g2, g3) root d = (Ok material, da)"
    "encrypt_inputs ?cr ?tf (e1, e2, e3) root material balance amount limit da = (Ok refs, db)"
    "read_operator_file (lb_host lb) (lb_json lb) (dp_operator (data_paths root)) db = (Ok operator, dc)"
    "boot_svm lb (en_boot en) operator dc = (Ok local, dd)"
    "demo_rounds lb root material refs operator local (dd, lv_svm local) = (Ok report, (d', svm'))"
    using run by (clarsimp simp: run_demo_def Let_def nbind_Ok keys(1) e) (auto split: prod.split_asm sum.split_asm)
  have material: "fm_client_key material = ck" "fm_compressed_server_key material = csk" "fm_params_hash material = ph"
    using steps(1) keys(2,3,5)
    by (auto simp: setup_lab_def Let_def nbind_Ok command_Ok generate_material_def and_then_eq_Ok split: prod.splits)
  have da: "dk_files da p = dk_files d p" if "in_store root p" for p
    using setup_outside [of root ?cr ?tf "lb_keys lb" "lb_json lb" "(g1, g2, g3)"] steps(1) that
    by (auto simp: preserves_def same_on_def)
  have blobs: "u64_blobs ?tf 1 ph ?x \<union> u64_blobs ?tf 1 ph ?y \<union> u64_blobs ?tf 1 ph ?z \<subseteq> ?B"
      "bool_blobs ?tf 1 ph (evaluate_policy ?tf (tf_decompress ?tf csk) ?x ?y ?z) \<subseteq> ?B"
    by (auto simp: demo_blobs_def e Let_def)
  have "holds_only ?cr ?store ?B d" using store(1) by (simp add: holds_only_def vacant_def)
  then have "holds_only ?cr ?store ?B da" using holds_only_agree [OF da] by simp
  then have db: "encrypted_at ?cr ?tf ?store db 1 ph (er_balance_hash refs) ?x"
      "encrypted_at ?cr ?tf ?store db 1 ph (er_amount_hash refs) ?y"
      "encrypted_at ?cr ?tf ?store db 1 ph (er_limit_hash refs) ?z" "holds_only ?cr ?store ?B db"
    using encrypt_inputs_stores [OF laws(3) store(2) _ steps(2) material(1,3) [symmetric] blobs(1)] by blast+
  have "dk_files dc = dk_files db" "dk_files dd = dk_files dc"
    using read_operator_files [OF steps(3)] boot_svm_files [OF steps(4)] by simp_all
  then have dd: "dk_files dd = dk_files db" by simp
  have at: "encrypted_at ?cr ?tf ?store dd 1 ph (er_balance_hash refs) ?x"
      "encrypted_at ?cr ?tf ?store dd 1 ph (er_amount_hash refs) ?y"
      "encrypted_at ?cr ?tf ?store dd 1 ph (er_limit_hash refs) ?z" "holds_only ?cr ?store ?B dd"
    using db by (simp_all add: encrypted_cong [OF dd] holds_only_agree [of root dd db] dd)
  have "dr_allowed report = tf_decrypt_bool ?tf (evaluate_policy ?tf (tf_decompress ?tf csk) ?x ?y ?z) (fm_client_key material)"
    by (rule demo_rounds_answer [OF steps(5) laws(4) store(2) at(4) material(3,2) [symmetric] blobs(2) at(1-3)])
  then have answer: "dr_allowed report = (amount \<le> balance \<and> amount \<le> limit)"
    by (simp add: material(1) evaluate_policy_correct [OF keys(4)])
  show ?thesis
    using answer demo_rounds_settle [OF laws(1,2) steps(5)] by (simp add: material)
qed

section \<open>A demo that runs\<close>

definition open_json :: CliJson where
  "open_json = session_json\<lparr>cj_write_request := (\<lambda>_. Ok [1]), cj_write_result := (\<lambda>_. Ok [3])\<rparr>"

definition full_lab :: "(unit, unit, unit, u64, bool, pubkey, Instruction list, ledger) Lab" where
  "full_lab = demo_lab\<lparr>lb_json := open_json\<rparr>"

definition demo_disk :: Disk where
  "demo_disk = \<lparr>dk_files = [''target/deploy/confidential_coordinator.so'' \<mapsto> [0]], dk_faults = []\<rparr>"

definition demo_refs :: EncryptedRefs where
  "demo_refs = \<lparr>er_balance_hash = fill 21, er_amount_hash = fill 23, er_limit_hash = fill 22\<rparr>"

definition demo_local :: "(pubkey, ledger) LocalSvm" where
  "demo_local = \<lparr>lv_svm = [0 \<mapsto> ForeignAccount], lv_authority = lab_authority, lv_owner = lab_owner,
     lv_operator = lab_operator, lv_mint = lab_mint, lv_config = lab_config, lv_account = lab_account\<rparr>"

lemma full_lab_simps [simp]:
  "lb_sdk full_lab = lab_sdk" "lb_crates full_lab = tail_crates" "lb_tfhe full_lab = lab_tfhe"
  "lb_host full_lab = lab_host" "lb_json full_lab = open_json" "lb_svm full_lab = lab_svm"
  "tx_sign (lb_txs full_lab) payer ixs key bh = ixs"
  by (simp_all add: full_lab_def demo_lab_def)

lemma lab_svm_law: "svm_law full_lab (\<lambda>L. L)"
  by (simp add: svm_law_def lab_svm_def split: sum.splits)

lemma lab_send:
  "run_tx client_runtime 6 ixs L = Ok L' \<Longrightarrow> send full_lab payer ixs L = (Ok 1, L')"
  by (simp add: send_def machine_def lab_svm_def)

abbreviation demo_config0 :: Config where
  "demo_config0 \<equiv> demo_config lab_sdk lab_authority lab_mint lab_operator (fill 8)"

abbreviation demo_account0 :: ConfidentialAccount where
  "demo_account0 \<equiv> demo_account lab_sdk lab_mint lab_config lab_owner demo_refs"

lemma lab_anchor: "anchor_law lab_sdk"
  using lab_sdk_law by (simp add: sdk_law_def)

lemma demo_initialize:
  "run_tx client_runtime 6 [initialize_ix lab_sdk lab_authority lab_mint lab_config lab_operator (fill 8) 1000]
     [0 \<mapsto> ForeignAccount] = Ok [0 \<mapsto> ForeignAccount, lab_config \<mapsto> ConfigAccount demo_config0]"
proof -
  have "initialize_config \<lparr>icx_authority = lab_authority, icx_mint = lab_mint, icx_config_key = lab_config,
      icx_config_bump = 255\<rparr> \<lparr>ica_domain_id = local_domain_id lab_sha256, ica_operator = lab_operator,
      ica_key_version = 1, ica_params_hash = fill 8, ica_max_request_lifetime_slots = 1000\<rparr> = Ok demo_config0"
    by (simp add: initialize_config_Ok demo_config_def lab_operator_def)
  then show ?thesis
    by (simp add: initialize_ix_def run_built [OF lab_anchor, unfolded lab_sdk_runtime] InitializeConfig_accounts_def
        InitializeConfig_metas_def check_signer_def check_mut_def check_system_program_def SYSTEM_PROGRAM_ID_def
        init_pda_def require_def fun_upd_twist)
qed

definition demo_ready :: ledger where
  "demo_ready = [0 \<mapsto> ForeignAccount, lab_config \<mapsto> ConfigAccount demo_config0,
     lab_account \<mapsto> BalanceAccount demo_account0]"

definition demo_request :: Request where
  "demo_request = submitted lab_sha256 6 (submit_ctx lab_sdk lab_owner lab_config demo_config0 lab_account demo_account0 1)
     (submit_args (fill 23) 0 1)"

definition demo_pending :: ledger where
  "demo_pending = demo_ready(lab_account \<mapsto> BalanceAccount (locked demo_account0 lab_request),
     lab_request \<mapsto> RequestAccount demo_request)"

lemma demo_fields:
  "cfg_mint demo_config0 = lab_mint" "cfg_bump demo_config0 = 255" "\<not> cfg_paused demo_config0"
  "cfg_key_version demo_config0 = 1" "cfg_max_request_lifetime_slots demo_config0 = 1000"
  "acc_mint demo_account0 = lab_mint" "acc_owner demo_account0 = lab_owner" "acc_config demo_account0 = lab_config"
  "acc_bump demo_account0 = 255" "acc_pending_request demo_account0 = 0" "acc_key_version demo_account0 = 1"
  "acc_state_version demo_account0 = 0" "acc_request_nonce demo_account0 = 0"
  "acc_balance_ref demo_account0 = fill 21" "acc_limit_ref demo_account0 = fill 22"
  by (simp_all add: demo_config_def demo_account_def demo_refs_def)

lemma demo_create:
  "run_tx client_runtime 6 [create_account_ix lab_sdk lab_owner lab_config lab_account (fill 21) (fill 22)]
     [0 \<mapsto> ForeignAccount, lab_config \<mapsto> ConfigAccount demo_config0] = Ok demo_ready"
proof -
  have "create_account \<lparr>cax_owner = lab_owner, cax_config_key = lab_config, cax_config = demo_config0,
      cax_account_key = lab_account, cax_account_bump = 255\<rparr>
      \<lparr>caa_balance_hash = fill 21, caa_limit_hash = fill 22\<rparr> = Ok demo_account0"
    by (simp add: create_account_Ok demo_fields demo_account_def demo_refs_def)
  then show ?thesis
    by (simp add: create_account_ix_def run_built [OF lab_anchor, unfolded lab_sdk_runtime] CreateAccount_accounts_def
        CreateAccount_metas_def check_signer_def check_mut_def check_system_program_def SYSTEM_PROGRAM_ID_def
        init_pda_def require_def load_defs demo_fields check_seeds_def demo_ready_def)
qed

lemma demo_lookups:
  "demo_ready lab_config = Some (ConfigAccount demo_config0)" "demo_ready lab_account = Some (BalanceAccount demo_account0)"
  "demo_ready lab_request = None" "demo_pending lab_config = Some (ConfigAccount demo_config0)"
  "demo_pending lab_account = Some (BalanceAccount (locked demo_account0 lab_request))"
  "demo_pending lab_request = Some (RequestAccount demo_request)"
  by (simp_all add: demo_ready_def demo_pending_def)

lemma demo_submits:
  "run_tx client_runtime 6 [submit_ix lab_sdk lab_owner lab_config lab_account lab_request (fill 23) 0 1] demo_ready
     = Ok demo_pending"
proof -
  let ?ctx = "submit_ctx lab_sdk lab_owner lab_config demo_config0 lab_account demo_account0 1"
  have rk: "derive_request lab_sdk lab_account 1 = lab_request"
    by (simp add: derive_request_def request_pda_def flip: request_seeds_def)
  have accounts: "Submit_accounts client_runtime demo_ready (Submit_metas lab_owner lab_config lab_account lab_request
      SYSTEM_PROGRAM_ID) (submit_args (fill 23) 0 1) = Ok ?ctx"
    by (simp add: Submit_accounts_def Submit_metas_def check_signer_def check_mut_def check_system_program_def
        SYSTEM_PROGRAM_ID_def init_pda_def require_def load_defs demo_fields check_seeds_def demo_lookups submit_ctx_def)
  have "submit_ready 6 ?ctx (submit_args (fill 23) 0 1)"
    by (simp add: submit_ready_def demo_fields)
  then have "submit lab_sha256 6 ?ctx (submit_args (fill 23) 0 1) = Ok (locked demo_account0 lab_request, demo_request)"
    by (simp add: submit_Ok demo_request_def rk)
  then show ?thesis
    using accounts rk
    by (simp add: submit_ix_def run_built [OF lab_anchor, unfolded lab_sdk_runtime] demo_pending_def)
qed

lemma demo_submit_lab:
  "demo_submit full_lab demo_local (fill 8) demo_refs [0 \<mapsto> ForeignAccount] = (Ok 1, demo_pending)"
proof -
  have rk: "request_pda lab_sdk lab_account 1 = lab_request"
    by (simp add: request_pda_def flip: request_seeds_def)
  show ?thesis
    by (simp add: demo_submit_def Let_def nbind_def demo_local_def lab_host_simps demo_refs_def rk
        lab_send [OF demo_initialize] lab_send [OF demo_create] lab_send [OF demo_submits])
qed

lemma calm_fs:
  assumes "dk_faults d = []"
  shows "fs_write p b d = (Ok (), d\<lparr>dk_files := (dk_files d)(p \<mapsto> b)\<rparr>)" "fs_create_dir_all p d = (Ok (), d)"
    "create_parent p d = (Ok (), d)"
  using assms
  by (simp_all add: fs_write_def fs_create_dir_all_def fs_op_def create_parent_def wlift_def split: option.splits)

lemma demo_setup:
  "\<exists>d. setup_lab tail_crates lab_tfhe (lb_keys full_lab) open_json (0, 0, 3) ''lab'' demo_disk
     = (Ok \<lparr>fm_client_key = (), fm_server_key = (), fm_compressed_server_key = (), fm_params_hash = fill 8\<rparr>, d) \<and>
     dk_faults d = [] \<and> dk_files d ''lab/keys/operator.json'' = Some (raw lab_operator) \<and>
     dk_files d ''target/deploy/confidential_coordinator.so'' = Some [0] \<and>
     dk_files d ''m/../../target/deploy/confidential_coordinator.so'' = None"
proof -
  have new: "fst (tf_generate_keys lab_tfhe 0) = ()" "tf_compressed_key lab_tfhe 0 () = ()"
      "tf_serialize_client_key lab_tfhe () CLIENT_KEY_LIMIT = Some [0]"
      "tf_serialize_compressed lab_tfhe () SERVER_KEY_LIMIT = Some (replicate 32 8)"
      "generate_material tail_crates lab_tfhe 0 0
        = Ok \<lparr>fm_client_key = (), fm_server_key = (), fm_compressed_server_key = (), fm_params_hash = fill 8\<rparr>"
    by (simp_all add: generate_material_def lab_key split: prod.split) (simp_all add: lab_tfhe_def clear_tfhe_def)
  have keys: "ke_new (lb_keys full_lab) 3 = lab_operator" "ke_to_bytes (lb_keys full_lab) k = raw k"
      "cj_write_bytes open_json = Ok" "cj_write_params open_json p = Ok [4]" for k p
    by (simp_all add: full_lab_def demo_lab_def open_json_def session_json_def)
  show ?thesis
    by (simp add: setup_lab_def lab_data_paths Let_def nbind_def nlift_def io_def worker_def wmap_err_def text_err_def
        calm_fs demo_disk_def new keys write_client_key_def write_server_key_def wbind_simp wlift_def)
qed

lemma lab_store_u64:
  assumes "v \<in> {21, 22, 23}" and "dk_faults d = []"
  obtains d' where "store_u64 tail_crates lab_tfhe (lab_blobs ''lab'') v 1 (fill 8) d = (Ok (fill (ucast v)), d')"
    "dk_faults d' = []" "\<And>p. \<not> in_store ''lab'' p \<Longrightarrow> dk_files d' p = dk_files d p"
proof -
  obtain d' where d': "put tail_crates (lab_blobs ''lab'') (lab_blob_of (ucast v)) d
      = (Ok (cr_sha256 tail_crates (lab_blob_of (ucast v))), d')"
    using put_without_faults [OF tail_hex_law assms(2)] .
  have "cr_sha256 tail_crates (lab_blob_of (ucast v)) = fill (ucast v)"
    using assms(1) by (intro lab_blob_hash) auto
  moreover have "dk_faults d' = []" using calm_put d' assms(2) unfolding calm_def by blast
  moreover have "\<not> in_store ''lab'' p \<Longrightarrow> dk_files d' p = dk_files d p" for p
    using put_inside [of "''lab''"] d' unfolding preserves_def same_on_def by blast
  moreover have "serialize_u64 lab_tfhe v = Ok (replicate 32 (ucast v))"
    using assms(1) by (auto simp: serialize_u64_def lab_tfhe_def)
  ultimately show thesis
    using that d' by (simp add: store_u64_def wbind_simp lab_blob_of_def)
qed
lemma demo_encrypt:
  assumes "dk_faults d = []" and "fm_params_hash material = fill 8"
  obtains d' where "encrypt_inputs tail_crates lab_tfhe (0, 0, 0) ''lab'' material 21 23 22 d = (Ok demo_refs, d')"
    "dk_faults d' = []" "\<And>p. \<not> in_store ''lab'' p \<Longrightarrow> dk_files d' p = dk_files d p"
proof -
  obtain d1 where d1: "store_u64 tail_crates lab_tfhe (lab_blobs ''lab'') 21 1 (fill 8) d = (Ok (fill 21), d1)"
      "dk_faults d1 = []" "\<And>p. \<not> in_store ''lab'' p \<Longrightarrow> dk_files d1 p = dk_files d p"
    using lab_store_u64 [of 21 d] assms(1) by auto
  obtain d2 where d2: "store_u64 tail_crates lab_tfhe (lab_blobs ''lab'') 23 1 (fill 8) d1 = (Ok (fill 23), d2)"
      "dk_faults d2 = []" "\<And>p. \<not> in_store ''lab'' p \<Longrightarrow> dk_files d2 p = dk_files d1 p"
    using lab_store_u64 [of 23 d1] d1(2) by auto
  obtain d3 where d3: "store_u64 tail_crates lab_tfhe (lab_blobs ''lab'') 22 1 (fill 8) d2 = (Ok (fill 22), d3)"
      "dk_faults d3 = []" "\<And>p. \<not> in_store ''lab'' p \<Longrightarrow> dk_files d3 p = dk_files d2 p"
    using lab_store_u64 [of 22 d2] d2(2) by auto
  have encrypt: "encrypt_u64 lab_tfhe 0 v k = v" for v k
    by (simp add: encrypt_u64_def lab_tfhe_def clear_tfhe_def)
  have store: "new_store (dp_ciphertexts (data_paths ''lab'')) d = (Ok (lab_blobs ''lab''), d)"
    by (simp add: new_store_Ok calm_fs assms(1) lab_blobs_def)
  show thesis
    by (rule that [of d3])
      (simp_all add: encrypt_inputs_def Let_def nbind_def nlift_def worker_def wmap_err_def store encrypt assms(2)
        d1 d2 d3 demo_refs_def)
qed

lemma demo_boot:
  assumes "dk_faults d = []" and "dk_files d ''target/deploy/confidential_coordinator.so'' = Some [0]"
    and "dk_files d ''m/../../target/deploy/confidential_coordinator.so'' = None"
  shows "boot_svm full_lab (0, 1, 2) lab_operator d = (Ok demo_local, d)"
proof -
  have bytes: "program_bytes (lb_manifest_dir full_lab) (lb_current_dir full_lab) d = (Ok [0], d)"
    using assms by (simp add: full_lab_def demo_lab_def program_bytes_def path_join_def path_base_def nbind_def io_def
        wmap_err_def fs_exists_def fs_read_now)
  have keys: "ke_new (lb_keys full_lab) 0 = lab_authority" "ke_new (lb_keys full_lab) (Suc 0) = lab_owner"
      "ke_new (lb_keys full_lab) 2 = lab_mint" "clone_keypair lab_host (lb_keys full_lab) k = Ok k" for k
    by (simp_all add: full_lab_def demo_lab_def clone_keypair_def lab_host_simps)
  have pdas: "rt_find_program_address client_runtime (config_seeds lab_mint) ID = (lab_config, 255)"
      "rt_find_program_address client_runtime (account_seeds lab_mint lab_owner) ID = (lab_account, 255)"
    by simp_all
  show ?thesis
    by (simp add: boot_svm_def Let_def nbind_def bytes machine_def nlift_def keys lab_host_simps lab_svm_def
        demo_local_def)
qed

lemma demo_recorded:
  "request_binding demo_config0 demo_request lab_request = demo_binding full_lab demo_local (fill 8) demo_refs lab_request 6"
  "req_request_digest demo_request
     = request_digest lab_sha256 (request_binding demo_config0 demo_request lab_request)"
proof -
  have rk: "lab_request = request_pda (lb_sdk full_lab) (lv_account demo_local) 1"
    by (simp add: request_pda_def demo_local_def flip: request_seeds_def)
  have keys: "lv_config demo_local = lab_config" "sv_clock_slot lab_svm L = 6" for L
    by (simp_all add: demo_local_def lab_svm_def)
  from demo_submit_recorded [OF _ lab_svm_law demo_submit_lab rk]
  show "request_binding demo_config0 demo_request lab_request = demo_binding full_lab demo_local (fill 8) demo_refs lab_request 6"
    "req_request_digest demo_request = request_digest lab_sha256 (request_binding demo_config0 demo_request lab_request)"
    using lab_sdk_law by (simp_all add: keys demo_lookups)
qed

lemma demo_request_fields:
  "req_confidential_account demo_request = lab_account" "req_config demo_request = lab_config"
  "req_status demo_request = STATUS_PENDING" "req_request_nonce demo_request = 1" "req_state_version demo_request = 0"
  "req_expiry_slot demo_request = 1006" "req_bump demo_request = 255" "req_operator_epoch demo_request = 1"
  "req_key_version demo_request = 1" "req_mint demo_request = lab_mint" "req_requester demo_request = lab_owner"
  "req_balance_hash demo_request = fill 21" "req_limit_hash demo_request = fill 22" "req_params_hash demo_request = fill 8"
  "req_operation demo_request = OPERATION_POLICY_CHECK"
  by (simp_all add: demo_request_def submitted_def Let_def submit_ctx_def demo_fields)
    (simp_all add: demo_config_def)

lemma demo_settling:
  "settling client_runtime demo_pending lab_request demo_request (locked demo_account0 lab_request) demo_config0"
proof -
  have "request_of client_runtime lab_request demo_request (locked demo_account0 lab_request) demo_config0"
    using demo_recorded(2)
    by (simp add: request_of_def demo_request_fields locked_def demo_fields; simp add: demo_config_def)
  then show ?thesis
    by (simp add: settling_def demo_lookups demo_request_fields demo_fields; simp add: locked_def demo_fields)
qed

lemma mk_fill: "mk_bytes (replicate 64 9) = (fill 9 :: bytes64)"
  by (rule raw_inject [THEN iffD1]) (simp add: raw_mk_bytes)

lemma demo_settles:
  assumes "binds demo_config0 demo_request lab_request b" and "rs_result_hash b \<noteq> 0"
  shows "\<exists>L. demo_finalize full_lab demo_local lab_request lab_operator b demo_pending = (Ok 1, L)"
proof -
  let ?r = demo_request and ?a = "locked demo_account0 lab_request" and ?c = demo_config0
  let ?ixs = "pair_for lab_sdk lab_owner ?c ?r lab_request (fill 9) b"
  let ?L = "settled_ledger lab_sdk demo_pending lab_request ?r ?a b"
  have operator: "cfg_operator ?c = lab_operator" by (simp add: demo_config_def)
  have "process_instruction client_runtime (tx_env 6 ?ixs 1) demo_pending (?ixs ! 1) = Ok ?L"
  proof (rule iffD2 [OF pair_runs [OF lab_sdk_law, unfolded lab_sdk_runtime, OF demo_settling assms(1) _ _ _ _ refl]])
    show "pending_lock ?a (req_confidential_account ?r) ?r lab_request" "version_room ?a"
        "acc_request_nonce ?a = req_request_nonce ?r" "acc_state_version ?a = req_state_version ?r"
      by (simp_all add: pending_lock_def version_room_def locked_def demo_fields demo_request_fields)
    show "may_settle 6 ?c ?r b \<and> ?L = ?L"
      using assms(2) by (simp add: may_settle_def demo_fields demo_request_fields; simp add: demo_config_def)
  qed
  moreover have "ix_program_id (?ixs ! 0) \<noteq> PROGRAM_ID" "ix_program_id (?ixs ! 1) = PROGRAM_ID" "length ?ixs = 2"
    using coordinator_is_not_ed25519
    by (simp_all add: pair_for_def finalize_ixs_with_signature_def Let_def finalize_ix_def program_ix_def lab_sdk_def)
  ultimately have "run_tx client_runtime 6 ?ixs demo_pending = Ok ?L"
    by (simp add: run_tx_def upt_rec numeral_2_eq_2)
  moreover have "finalize_ixs lab_sdk lab_host lab_owner lab_config lab_account lab_request lab_operator b = Some ?ixs"
    by (simp add: finalize_ixs_def pair_for_def finalize_ixs_with_signature_def Let_def lab_host_def try_bytes_def
        demo_request_fields operator mk_fill)
  ultimately show ?thesis
    by (simp add: demo_finalize_def nbind_def nlift_def ok_or_def demo_local_def lab_host_simps lab_send)
qed

lemma lab_blobs_of_run:
  "demo_blobs lab_tfhe (0, 0, 0) () () (fill 8) 21 23 22
     = {lab_blob_of 21, lab_blob_of 23, lab_blob_of 22, wrap_blob CT_KIND_BOOL 1 (fill 8) (replicate 32 30)}"
  by (simp add: demo_blobs_def Let_def u64_blobs_def bool_blobs_def lab_blob_of_def lab_tfhe_def clear_tfhe_def
      evaluate_policy_def insert_commute)

lemma lab_no_collision:
  "inj_on (cr_sha256 tail_crates) (demo_blobs lab_tfhe (0, 0, 0) () () (fill 8) 21 23 22)"
  by (simp add: lab_blobs_of_run inj_on_def lab_blob_hash lab_result_hash)

text \<open>The rounds, on a store that holds the three inputs.\<close>

abbreviation demo_request_binding :: RequestBinding where
  "demo_request_binding \<equiv> demo_binding full_lab demo_local (fill 8) demo_refs lab_request 6"

lemma demo_worker:
  assumes "dk_faults d = []"
    and "holds_only tail_crates (lab_blobs ''lab'') (demo_blobs lab_tfhe (0, 0, 0) () () (fill 8) 21 23 22) d"
    and at: "\<And>v. v \<in> {21, 22, 23} \<Longrightarrow> encrypted_at tail_crates lab_tfhe (lab_blobs ''lab'') d 1 (fill 8) (fill (ucast v)) v"
  obtains b sig d' where
    "process_request tail_crates lab_tfhe lab_host (lab_blobs ''lab'') demo_request_binding () lab_operator d = (Ok (b, sig), d')"
    "binds demo_config0 demo_request lab_request b" "rs_result_hash b \<noteq> 0" "dk_faults d' = []"
    "stored tail_crates (lab_blobs ''lab'') d' (rs_result_hash b) = Some (wrap_blob CT_KIND_BOOL 1 (fill 8) (replicate 32 30))"
proof -
  let ?q = demo_request_binding and ?B = "demo_blobs lab_tfhe (0, 0, 0) () () (fill 8) 21 23 22"
  have q: "rb_operation ?q = OPERATION_POLICY_CHECK" "rb_protocol_version ?q = PROTOCOL_VERSION"
      "rb_params_hash ?q = fill 8" "rb_key_version ?q = 1" "rb_balance_hash ?q = fill 21"
      "rb_amount_hash ?q = fill 23" "rb_limit_hash ?q = fill 22"
    by (simp_all add: demo_binding_def demo_refs_def)
  have enc: "encrypted_at tail_crates lab_tfhe (lab_blobs ''lab'') d 1 (fill 8) (fill 21) 21"
      "encrypted_at tail_crates lab_tfhe (lab_blobs ''lab'') d 1 (fill 8) (fill 23) 23"
      "encrypted_at tail_crates lab_tfhe (lab_blobs ''lab'') d 1 (fill 8) (fill 22) 22"
    using at [of 21] at [of 23] at [of 22] by simp_all
  have plain: "tf_encrypt lab_tfhe 0 v ck = v" for v ck by (simp add: lab_tfhe_def clear_tfhe_def)
  have ops: "operand tail_crates lab_tfhe (lab_blobs ''lab'') d () 1 (fill 8) h v"
    if "encrypted_at tail_crates lab_tfhe (lab_blobs ''lab'') d 1 (fill 8) h v" for h v
    using encrypted_operand [of tail_crates lab_tfhe "lab_blobs ''lab''" d 1 "fill 8" h 0 v "()"] that by (simp add: plain)
  have host: "length (ho_sign_message lab_host key m) = 64" for key m by (simp add: lab_host_def)
  obtain b sig d' where run: "process_request tail_crates lab_tfhe lab_host (lab_blobs ''lab'') ?q () lab_operator d = (Ok (b, sig), d')"
    using process_request_runs [where ck = "()" and balance = 21 and amount = 23 and limit = 22,
        of ?q tail_crates lab_tfhe "()" d lab_host lab_operator "lab_blobs ''lab''"]
      q ops [OF enc(1)] ops [OF enc(2)] ops [OF enc(3)] host lab_key lab_tfhe_laws tail_hex_law assms(1) by auto
  have answer: "tf_serialize_bool lab_tfhe (evaluate_policy lab_tfhe () 21 23 22) BOOL_LIMIT
      = Some (replicate 32 30)"
    by (simp add: evaluate_policy_def lab_tfhe_def clear_tfhe_def)
  have "bool_blobs lab_tfhe 1 (fill 8) (evaluate_policy lab_tfhe (tf_decompress lab_tfhe ()) 21 23 22) \<subseteq> ?B"
    by (simp add: bool_blobs_def answer lab_blobs_of_run)
  then have stored: "stored tail_crates (lab_blobs ''lab'') d' (rs_result_hash b)
      = Some (wrap_blob CT_KIND_BOOL 1 (fill 8) (replicate 32 30))"
    using process_exact [OF run lab_tfhe_laws(2), unfolded q, OF enc assms(2) lab_no_collision] answer by simp
  then have "rs_result_hash b = fill 30" using blob_store.view_digest lab_result_hash by metis
  then have "rs_result_hash b \<noteq> 0" by simp
  moreover have sha: "cr_sha256 tail_crates = lab_sha256"
    by (simp add: tail_crates_def lab_sha256_def fun_eq_iff)
  have "binds demo_config0 demo_request lab_request b"
    by (rule process_request_Ok [OF run], simp only: binds_def sha demo_recorded) (simp add: demo_config_def)
  moreover have "dk_faults d' = []"
    using calm_worker(2) [of tail_crates lab_tfhe lab_host "lab_blobs ''lab''" ?q "()" lab_operator] run assms(1)
    by (simp add: calm_def)
  ultimately show thesis using that [OF run] stored by blast
qed

lemma demo_rounds_run:
  fixes material :: "(unit, unit, unit) FheMaterial"
  assumes "dk_faults d = []" and "fm_params_hash material = fill 8"
    and "holds_only tail_crates (lab_blobs ''lab'') (demo_blobs lab_tfhe (0, 0, 0) () () (fill 8) 21 23 22) d"
    and at: "\<And>v. v \<in> {21, 22, 23} \<Longrightarrow> encrypted_at tail_crates lab_tfhe (lab_blobs ''lab'') d 1 (fill 8) (fill (ucast v)) v"
  shows "\<exists>report d' L. demo_rounds full_lab ''lab'' material demo_refs lab_operator demo_local (d, [0 \<mapsto> ForeignAccount])
    = (Ok report, (d', L))"
proof -
  let ?d = "d\<lparr>dk_files := (dk_files d)(dp_request (data_paths ''lab'') \<mapsto> [1])\<rparr>"
  let ?store = "lab_blobs ''lab''"
  have outside: "dk_files ?d p = dk_files d p" if "in_store ''lab'' p" for p
    using that data_files_outside(5) [of "''lab''"] by auto
  have at': "encrypted_at tail_crates lab_tfhe ?store ?d 1 (fill 8) (fill (ucast v)) v" if "v \<in> {21, 22, 23}" for v
    using at [OF that] unfolding encrypted_at_def by (simp only: same_entries(1) [OF outside])
  have "holds_only tail_crates ?store (demo_blobs lab_tfhe (0, 0, 0) () () (fill 8) 21 23 22) ?d"
    using assms(3) by (simp only: holds_only_agree [OF outside])
  then obtain b sig d1 where run:
    "process_request tail_crates lab_tfhe lab_host ?store demo_request_binding () lab_operator ?d = (Ok (b, sig), d1)"
    "binds demo_config0 demo_request lab_request b" "rs_result_hash b \<noteq> 0" "dk_faults d1 = []"
    "stored tail_crates ?store d1 (rs_result_hash b) = Some (wrap_blob CT_KIND_BOOL 1 (fill 8) (replicate 32 30))"
    using demo_worker [of ?d] at' assms(1) by auto
  obtain L where L: "demo_finalize full_lab demo_local lab_request lab_operator b demo_pending = (Ok 1, L)"
    using demo_settles [OF run(2,3)] by blast
  let ?d2 = "d1\<lparr>dk_files := (dk_files d1)(dp_result (data_paths ''lab'') \<mapsto> [3])\<rparr>"
  have outside2: "dk_files ?d2 p = dk_files d1 p" if "in_store ''lab'' p" for p
    using that data_files_outside(6) [of "''lab''"] by auto
  have "load_bool tail_crates lab_tfhe ?store (rs_result_hash b) 1 (fill 8) ?d2 = (Ok False, ?d2)"
    using run(4,5) lab_tfhe_laws(2)
    by (intro load_stored_bool [where payload = "replicate 32 30"])
      (simp_all only: same_entries(1) [OF outside2], simp_all add: lab_tfhe_def clear_tfhe_def)
  moreover have "request_pda lab_sdk (lv_account demo_local) 1 = lab_request"
    by (simp add: request_pda_def demo_local_def flip: request_seeds_def)
  moreover have "new_store (dp_ciphertexts (data_paths ''lab'')) ?d = (Ok ?store, ?d)"
    using assms(1) by (simp add: new_store_Ok calm_fs lab_blobs_def)
  moreover have "cj_write_request open_json f = Ok [1]" "cj_write_result open_json g = Ok [3]" for f g
    by (simp_all add: open_json_def)
  moreover have "sv_clock_slot lab_svm s = 6" for s by (simp add: lab_svm_def)
  ultimately show ?thesis
    using assms(1,2) run(1,4) L
    by (simp add: demo_rounds_def Let_def nbind_def nlift_def on_disk_def on_world_def io_def worker_def wmap_err_def
        text_err_def calm_fs demo_submit_lab)
qed

lemma lab_outside:
  "\<not> in_store ''lab'' ''lab/keys/operator.json''"
  "\<not> in_store ''lab'' ''target/deploy/confidential_coordinator.so''"
  "\<not> in_store ''lab'' ''m/../../target/deploy/confidential_coordinator.so''"
  by (simp_all add: in_store_def path_base_def)

lemma demo_disk_vacant: "vacant tail_crates (lab_blobs ''lab'') demo_disk h"
proof -
  have "dk_files demo_disk p = None" if "in_store ''lab'' p" for p
    using that by (auto simp: demo_disk_def in_store_def path_base_def)
  then show ?thesis using store_paths [of tail_crates "''lab''"]
    by (auto simp: vacant_def stored_def corrupted_def split: sum.splits)
qed

theorem demo_answers_and_settles_witness:
  "\<exists>report L d'. run_demo full_lab \<lparr>en_setup = (0, 0, 3), en_encrypt = (0, 0, 0), en_boot = (0, 1, 2)\<rparr>
     ''lab'' 21 23 22 demo_disk = (Ok (report, L), d') \<and> \<not> dr_allowed report"
proof -
  let ?m = "\<lparr>fm_client_key = (), fm_server_key = (), fm_compressed_server_key = (), fm_params_hash = fill 8\<rparr>"
  let ?en = "\<lparr>en_setup = (0, 0, 3), en_encrypt = (0, 0, 0), en_boot = (0, 1, 2)\<rparr>"
  let ?B = "demo_blobs lab_tfhe (0, 0, 0) () () (fill 8) 21 23 22" and ?store = "lab_blobs ''lab''"
  obtain d1 where d1: "setup_lab tail_crates lab_tfhe (lb_keys full_lab) open_json (0, 0, 3) ''lab'' demo_disk = (Ok ?m, d1)"
      "dk_faults d1 = []" "dk_files d1 ''lab/keys/operator.json'' = Some (raw lab_operator)"
      "dk_files d1 ''target/deploy/confidential_coordinator.so'' = Some [0]"
      "dk_files d1 ''m/../../target/deploy/confidential_coordinator.so'' = None"
    using demo_setup by blast
  obtain d2 where d2: "encrypt_inputs tail_crates lab_tfhe (0, 0, 0) ''lab'' ?m 21 23 22 d1 = (Ok demo_refs, d2)"
      "dk_faults d2 = []" "\<And>p. \<not> in_store ''lab'' p \<Longrightarrow> dk_files d2 p = dk_files d1 p"
    using demo_encrypt [OF d1(2), of ?m] by auto
  have "dk_files d1 p = dk_files demo_disk p" if "in_store ''lab'' p" for p
    using setup_outside [of "''lab''" tail_crates lab_tfhe "lb_keys full_lab" open_json "(0, 0, 3)"] d1(1) that
    by (simp add: preserves_def same_on_def)
  then have "holds_only tail_crates ?store ?B d1"
    using demo_disk_vacant holds_only_agree [of "''lab''" d1 demo_disk] by (simp add: holds_only_def vacant_def)
  have plain: "tf_encrypt lab_tfhe e v ck = v" for e v ck by (simp add: lab_tfhe_def clear_tfhe_def)
  have "u64_blobs lab_tfhe 1 (fill 8) 21 \<union> u64_blobs lab_tfhe 1 (fill 8) 23 \<union> u64_blobs lab_tfhe 1 (fill 8) 22 \<subseteq> ?B"
    by (simp add: demo_blobs_def Let_def plain)
  note stores = encrypt_inputs_stores [OF tail_hex_law lab_no_collision \<open>holds_only tail_crates ?store ?B d1\<close> d2(1),
      of "()" "fill 8", unfolded plain FheMaterial.simps, OF refl refl this]
  have rounds: "\<exists>report d' L. demo_rounds full_lab ''lab'' ?m demo_refs lab_operator demo_local (d2, [0 \<mapsto> ForeignAccount])
    = (Ok report, (d', L))"
    using stores by (intro demo_rounds_run [OF d2(2)]) (auto simp: demo_refs_def)
  then obtain report d' L where rounds: "demo_rounds full_lab ''lab'' ?m demo_refs lab_operator demo_local
      (d2, lv_svm demo_local) = (Ok report, (d', L))"
    by (auto simp: demo_local_def)
  have files: "dk_files d2 ''lab/keys/operator.json'' = Some (raw lab_operator)"
      "dk_files d2 ''target/deploy/confidential_coordinator.so'' = Some [0]"
      "dk_files d2 ''m/../../target/deploy/confidential_coordinator.so'' = None"
    using d1(3-5) d2(3) lab_outside by simp_all
  have operator: "read_operator_file lab_host open_json (dp_operator (data_paths ''lab'')) d2 = (Ok lab_operator, d2)"
    by (simp add: read_operator_file_def lab_data_paths nbind_def nlift_def io_def wmap_err_def text_err_def
        fs_read_now d2(2) files lab_host_simps open_json_def session_json_def)
  have run: "run_demo full_lab ?en ''lab'' 21 23 22 demo_disk = (Ok (report, L), d')"
    by (simp add: run_demo_def Let_def nbind_def d1(1) d2(1) operator
        demo_boot [OF d2(2) files(2,3), unfolded One_nat_def] rounds)
  have laws: "sdk_law (lb_sdk full_lab)" "hex_law (lb_crates full_lab)" "serial_law (lb_tfhe full_lab)"
      "tfhe_law (lb_tfhe full_lab) () ()" "hash_compressed_server_key (lb_crates full_lab) (lb_tfhe full_lab) () = Ok (fill 8)"
    using lab_sdk_law tail_hex_law lab_tfhe_laws lab_key by simp_all
  have "dr_allowed report = ((23 :: u64) \<le> 21 \<and> (23 :: u64) \<le> 22)"
    using demo_answers_and_settles [OF laws(1) lab_svm_law laws(2,3), of ?en 0 0 3 "()" "()" "fill 8" "''lab''" demo_disk 21 23 22
      report L d'] laws(4,5) demo_disk_vacant lab_no_collision run by simp
  then show ?thesis using run by (intro exI conjI) simp_all
qed

end
