(* ===== verification/Session.thy ===== *)
theory Session
  imports DemoRun
begin

text \<open>
  The commands of the lab one after another: \<open>setup\<close> makes the keys and the parameters, \<open>encrypt\<close>
  stores three ciphertexts, \<open>evaluate\<close> answers the request that names them, and \<open>decrypt\<close> prints
  the answer. The commands share nothing but the files of the data directory.
\<close>

section \<open>A data directory that is set up\<close>

text \<open>What the file formats have to keep: keys and the parameters read back as they were written.\<close>

definition key_law :: "('ck, 'sk, 'csk, 'ct, 'cb) Tfhe \<Rightarrow> 'ck \<Rightarrow> 'csk \<Rightarrow> bool" where
  "key_law tf ck csk \<longleftrightarrow>
     (\<forall>b. tf_serialize_client_key tf ck CLIENT_KEY_LIMIT = Some b \<longrightarrow>
        tf_deserialize_client_key tf b CLIENT_KEY_LIMIT = Some ck) \<and>
     (\<forall>b. tf_serialize_compressed tf csk SERVER_KEY_LIMIT = Some b \<longrightarrow>
        tf_deserialize_compressed tf b SERVER_KEY_LIMIT = Some csk)"

definition lab_params :: "Crates \<Rightarrow> bytes32 \<Rightarrow> ParamsFile" where
  "lab_params cr ph = \<lparr>pm_params_hash = cr_hex_encode cr (raw ph), pm_key_version = 1\<rparr>"

definition params_law :: "Crates \<Rightarrow> CliJson \<Rightarrow> bytes32 \<Rightarrow> bool" where
  "params_law cr cj ph \<longleftrightarrow>
     (\<forall>t. cj_write_params cj (lab_params cr ph) = Ok t \<longrightarrow> cj_read_params cj t = Ok (lab_params cr ph))"

text \<open>The directory holds the client key, the evaluation key and the parameters that go with it.\<close>

definition set_up ::
    "('ck, 'sk, 'csk, 'ct, 'cb, 'kp, 'tx, 'svm) Lab \<Rightarrow> string \<Rightarrow> 'ck \<Rightarrow> 'csk \<Rightarrow> bytes32 \<Rightarrow> (string \<rightharpoonup> u8 list) \<Rightarrow> bool" where
  "set_up lb dir ck csk ph files \<longleftrightarrow>
     (\<exists>ckb skb pb. files (dp_client_key (data_paths dir)) = Some ckb \<and>
        tf_deserialize_client_key (lb_tfhe lb) ckb CLIENT_KEY_LIMIT = Some ck \<and>
        files (dp_server_key (data_paths dir)) = Some skb \<and>
        tf_deserialize_compressed (lb_tfhe lb) skb SERVER_KEY_LIMIT = Some csk \<and>
        files (dp_params (data_paths dir)) = Some pb \<and>
        cj_read_params (lb_json lb) pb = Ok (lab_params (lb_crates lb) ph)) \<and>
     hash_compressed_server_key (lb_crates lb) (lb_tfhe lb) csk = Ok ph"

lemma data_files_distinct:
  "dp_client_key (data_paths dir) \<noteq> dp_server_key (data_paths dir)"
  "dp_client_key (data_paths dir) \<noteq> dp_operator (data_paths dir)"
  "dp_client_key (data_paths dir) \<noteq> dp_params (data_paths dir)"
  "dp_server_key (data_paths dir) \<noteq> dp_operator (data_paths dir)"
  "dp_server_key (data_paths dir) \<noteq> dp_params (data_paths dir)"
  "dp_operator (data_paths dir) \<noteq> dp_params (data_paths dir)"
  "dp_request (data_paths dir) \<notin> {dp_client_key (data_paths dir), dp_server_key (data_paths dir), dp_params (data_paths dir)}"
  "dp_result (data_paths dir) \<notin> {dp_client_key (data_paths dir), dp_server_key (data_paths dir), dp_params (data_paths dir)}"
  by (simp_all add: data_paths_def path_join_name)

text \<open>It stays set up as long as these three files stay.\<close>

lemma set_up_stays:
  assumes "set_up lb dir ck csk ph f"
    and "\<And>p. p \<in> {dp_client_key (data_paths dir), dp_server_key (data_paths dir), dp_params (data_paths dir)} \<Longrightarrow> f' p = f p"
  shows "set_up lb dir ck csk ph f'"
  using assms by (simp add: set_up_def)

text \<open>The files that the answer depends on: the ciphertexts, the keys, the parameters, and some more.\<close>

definition lab_files :: "string \<Rightarrow> string set \<Rightarrow> string \<Rightarrow> bool" where
  "lab_files dir extra p \<longleftrightarrow> in_store dir p \<or>
     p \<in> {dp_client_key (data_paths dir), dp_server_key (data_paths dir), dp_params (data_paths dir)} \<union> extra"

lemma lab_files_stay:
  assumes "same_on (lab_files dir extra) (dk_files d) (dk_files d')"
  shows "set_up lb dir ck csk ph (dk_files d) \<Longrightarrow> set_up lb dir ck csk ph (dk_files d')"
    and "holds_only cr (lab_blobs dir) B d' = holds_only cr (lab_blobs dir) B d"
    and "encrypted_at cr tf (lab_blobs dir) d' kv ph' g ct = encrypted_at cr tf (lab_blobs dir) d kv ph' g ct"
    and "stored cr (lab_blobs dir) d' g = stored cr (lab_blobs dir) d g"
    and "p \<in> extra \<Longrightarrow> dk_files d' p = dk_files d p"
proof -
  have entries: "dk_files d' p = dk_files d p" if "in_store dir p" for p
    using assms that by (simp add: same_on_def lab_files_def)
  show "set_up lb dir ck csk ph (dk_files d) \<Longrightarrow> set_up lb dir ck csk ph (dk_files d')"
    using assms by (erule_tac set_up_stays) (auto simp: same_on_def lab_files_def)
  show "holds_only cr (lab_blobs dir) B d' = holds_only cr (lab_blobs dir) B d"
    by (rule holds_only_agree [OF entries])
  show "encrypted_at cr tf (lab_blobs dir) d' kv ph' g ct = encrypted_at cr tf (lab_blobs dir) d kv ph' g ct"
    "stored cr (lab_blobs dir) d' g = stored cr (lab_blobs dir) d g"
    by (simp_all add: encrypted_at_def same_entries(1) [OF entries])
  show "p \<in> extra \<Longrightarrow> dk_files d' p = dk_files d p"
    using assms by (simp add: same_on_def lab_files_def)
qed

lemma lab_files_same:
  "same_on (lab_files dir extra) f f' \<Longrightarrow> same_on (lab_files dir {}) f f'"
  by (auto simp: same_on_def lab_files_def)

lemma same_on_refl: "same_on P f f"
  by (simp add: same_on_def)

lemma lab_params_hash: "hex_law cr \<Longrightarrow> parse_hex32 cr (pm_params_hash (lab_params cr ph)) = Ok ph"
  by (simp add: lab_params_def parse_hex32_encode)

section \<open>setup\<close>

lemma create_parent_files: "create_parent p d = (Ok u, d') \<Longrightarrow> dk_files d' = dk_files d"
  by (auto simp: create_parent_def wlift_def dest: fs_create_dir_all_files split: option.splits)

lemma setup_sets_up:
  fixes lb :: "('ck, 'sk, 'csk, 'ct, 'cb, 'kp, 'tx, 'svm) Lab"
  assumes "cmd_setup lb en dir d = (Ok u, d')" and "en_setup en = (g1, g2, g3)"
    and "ck = fst (tf_generate_keys (lb_tfhe lb) g1)" and "csk = tf_compressed_key (lb_tfhe lb) g2 ck"
    and "hash_compressed_server_key (lb_crates lb) (lb_tfhe lb) csk = Ok ph"
    and "key_law (lb_tfhe lb) ck csk" and "params_law (lb_crates lb) (lb_json lb) ph"
  shows "set_up lb dir ck csk ph (dk_files d')" and "\<And>p. in_store dir p \<Longrightarrow> dk_files d' p = dk_files d p"
proof -
  obtain m :: "('ck, 'sk, 'csk) FheMaterial" where
    run: "setup_lab (lb_crates lb) (lb_tfhe lb) (lb_keys lb) (lb_json lb) (g1, g2, g3) dir d = (Ok m, d')"
    using assms(1,2) by (auto simp: cmd_setup_def nbind_Ok nlift_Ok)
  show "dk_files d' p = dk_files d p" if "in_store dir p" for p
    using setup_outside [of dir "lb_crates lb" "lb_tfhe lb" "lb_keys lb" "lb_json lb" "(g1, g2, g3)"] run that
    by (auto simp: preserves_def same_on_def)
  have m: "fm_client_key m = ck" "fm_compressed_server_key m = csk" "fm_params_hash m = ph"
    using run assms(3-5)
    by (auto simp: setup_lab_def Let_def nbind_Ok command_Ok generate_material_def and_then_eq_Ok split: prod.splits)
  obtain da db dc dd ckb skb op pt where steps:
    "write_client_key (lb_tfhe lb) (dp_client_key (data_paths dir)) ck da = (Ok (), db)"
    "write_server_key (lb_tfhe lb) (dp_server_key (data_paths dir)) csk db = (Ok (), dc)"
    "fs_write (dp_operator (data_paths dir)) op dc = (Ok (), dd)"
    "cj_write_params (lb_json lb) (lab_params (lb_crates lb) ph) = Ok pt"
    "fs_write (dp_params (data_paths dir)) pt dd = (Ok (), d')"
    using run m by (auto simp: setup_lab_def Let_def nbind_Ok command_Ok nlift_Ok lab_params_def)
  have client: "\<exists>ckb. tf_serialize_client_key (lb_tfhe lb) ck CLIENT_KEY_LIMIT = Some ckb \<and>
      dk_files db (dp_client_key (data_paths dir)) = Some ckb"
    using steps(1) by (auto simp: write_client_key_def wbind_Ok_iff dest!: fs_write_Ok)
  have server: "\<exists>skb. tf_serialize_compressed (lb_tfhe lb) csk SERVER_KEY_LIMIT = Some skb \<and>
      dk_files dc = (dk_files db)(dp_server_key (data_paths dir) \<mapsto> skb)"
    using steps(2) by (auto simp: write_server_key_def wbind_Ok_iff dest!: fs_write_Ok create_parent_files)
  have rest: "dk_files dd = (dk_files dc)(dp_operator (data_paths dir) \<mapsto> op)"
      "dk_files d' = (dk_files dd)(dp_params (data_paths dir) \<mapsto> pt)"
    using steps(3,5) by (auto dest!: fs_write_Ok)
  show "set_up lb dir ck csk ph (dk_files d')"
    using client server rest data_files_distinct(1-6) [of dir] assms(5-7) steps(4)
    by (auto simp: set_up_def key_law_def params_law_def)
qed

section \<open>encrypt\<close>

lemma load_material_Ok:
  assumes "load_material cr tf ckp skp ph d = (Ok m, d')" and "dk_files d ckp = Some ckb"
    and "tf_deserialize_client_key tf ckb CLIENT_KEY_LIMIT = Some ck" and "dk_files d skp = Some skb"
    and "tf_deserialize_compressed tf skb SERVER_KEY_LIMIT = Some csk"
  shows "fm_client_key m = ck" "fm_compressed_server_key m = csk" "fm_params_hash m = ph" "dk_files d' = dk_files d"
proof -
  obtain d1 b b' where r: "fs_read ckp d = (Ok b, d1)" "fs_read skp d1 = (Ok b', d')"
    and m: "tf_deserialize_client_key tf b CLIENT_KEY_LIMIT = Some (fm_client_key m)"
      "tf_deserialize_compressed tf b' SERVER_KEY_LIMIT = Some (fm_compressed_server_key m)" "fm_params_hash m = ph"
    using assms(1)
    by (auto simp: load_material_def read_client_key_def read_compressed_server_key_def wbind_Ok_iff)
  have "b = ckb" "b' = skb" "dk_files d1 = dk_files d" "dk_files d' = dk_files d"
    using r assms(2,4) fs_read_files [OF r(1)] fs_read_files [OF r(2)] by (auto dest!: fs_read_Ok)
  then show "fm_client_key m = ck" "fm_compressed_server_key m = csk" "fm_params_hash m = ph" "dk_files d' = dk_files d"
    using m assms(3,5) by simp_all
qed

lemma store_u64_inside:
  "store_u64 cr tf (lab_blobs root) ct kv ph d = (r, d') \<Longrightarrow> \<not> in_store root p \<Longrightarrow> dk_files d' p = dk_files d p"
proof -
  have "untouched (\<lambda>p. \<not> in_store root p) (store_u64 cr tf (lab_blobs root) ct kv ph)"
    unfolding store_u64_def by (intro untouched_intros put_inside)
  then show "store_u64 cr tf (lab_blobs root) ct kv ph d = (r, d') \<Longrightarrow> \<not> in_store root p \<Longrightarrow> dk_files d' p = dk_files d p"
    by (simp add: preserves_def same_on_def)
qed

lemma encrypt_inside:
  assumes "encrypt_inputs cr tf (e1, e2, e3) root m balance amount limit d = (Ok refs, d')" and "\<not> in_store root p"
  shows "dk_files d' p = dk_files d p"
proof -
  obtain x y z h1 h2 h3 and kv :: u32 and ph d1 d2 d3 where
    "fs_create_dir_all (dp_ciphertexts (data_paths root)) d = (Ok (), d1)"
    "store_u64 cr tf (lab_blobs root) x kv ph d1 = (Ok h1, d2)"
    "store_u64 cr tf (lab_blobs root) y kv ph d2 = (Ok h2, d3)"
    "store_u64 cr tf (lab_blobs root) z kv ph d3 = (Ok h3, d')"
    using assms(1) by (auto simp: encrypt_inputs_def Let_def nbind_Ok command_Ok new_store_Ok lab_blobs_def)
  then show ?thesis using store_u64_inside assms(2) fs_create_dir_all_files by metis
qed

text \<open>The three ciphertexts that \<open>encrypt\<close> leaves, and the directory as it was.\<close>

lemma encrypt_command_stores:
  fixes lb :: "('ck, 'sk, 'csk, 'ct, 'cb, 'kp, 'tx, 'svm) Lab"
  assumes "cmd_encrypt lb en dir args d = (Ok refs, d')" and "set_up lb dir ck csk ph (dk_files d)"
    and "parse_u64_flag args ''--balance'' = Ok balance" and "parse_u64_flag args ''--amount'' = Ok amount"
    and "parse_u64_flag args ''--limit'' = Ok limit" and "en_encrypt en = (e1, e2, e3)" and "hex_law (lb_crates lb)"
    and "B = demo_blobs (lb_tfhe lb) (e1, e2, e3) ck csk ph balance amount limit"
    and "inj_on (cr_sha256 (lb_crates lb)) B" and "holds_only (lb_crates lb) (lab_blobs dir) B d"
  shows "encrypted_at (lb_crates lb) (lb_tfhe lb) (lab_blobs dir) d' 1 ph (er_balance_hash refs) (tf_encrypt (lb_tfhe lb) e1 balance ck)"
    and "encrypted_at (lb_crates lb) (lb_tfhe lb) (lab_blobs dir) d' 1 ph (er_amount_hash refs) (tf_encrypt (lb_tfhe lb) e2 amount ck)"
    and "encrypted_at (lb_crates lb) (lb_tfhe lb) (lab_blobs dir) d' 1 ph (er_limit_hash refs) (tf_encrypt (lb_tfhe lb) e3 limit ck)"
    and "holds_only (lb_crates lb) (lab_blobs dir) B d'" and "set_up lb dir ck csk ph (dk_files d')"
proof -
  let ?cr = "lb_crates lb" and ?tf = "lb_tfhe lb" and ?paths = "data_paths dir"
  obtain ckb skb pb where files: "dk_files d (dp_client_key ?paths) = Some ckb"
      "tf_deserialize_client_key ?tf ckb CLIENT_KEY_LIMIT = Some ck"
      "dk_files d (dp_server_key ?paths) = Some skb" "tf_deserialize_compressed ?tf skb SERVER_KEY_LIMIT = Some csk"
      "dk_files d (dp_params ?paths) = Some pb" "cj_read_params (lb_json lb) pb = Ok (lab_params ?cr ph)"
    using assms(2) by (auto simp: set_up_def)
  obtain pb' params ph' d1 d2 and m :: "('ck, 'sk, 'csk) FheMaterial" where steps:
    "fs_read (dp_params ?paths) d = (Ok pb', d1)" "cj_read_params (lb_json lb) pb' = Ok params"
    "parse_hex32 ?cr (pm_params_hash params) = Ok ph'"
    "load_material ?cr ?tf (dp_client_key ?paths) (dp_server_key ?paths) ph' d1 = (Ok m, d2)"
    "encrypt_inputs ?cr ?tf (e1, e2, e3) dir m balance amount limit d2 = (Ok refs, d')"
    using assms(1,3-6)
    by (clarsimp simp: cmd_encrypt_def Let_def nbind_Ok command_Ok nlift_Ok read_params_file_def simp del: nlift_eq)
  have d1: "dk_files d1 = dk_files d" using steps(1) fs_read_files by blast
  have "pb' = pb" using steps(1) files(5) by (auto dest!: fs_read_Ok)
  then have "ph' = ph" using steps(2,3) files(6) lab_params_hash [OF assms(7), of ph] by auto
  note m = load_material_Ok [OF steps(4) _ files(2) _ files(4), unfolded d1, OF files(1,3), unfolded this]
  have d2: "holds_only ?cr (lab_blobs dir) B d2"
    using assms(10) holds_only_agree [of dir d2 d] by (simp add: m(4))
  have sub: "u64_blobs ?tf 1 ph (tf_encrypt ?tf e1 balance ck) \<union> u64_blobs ?tf 1 ph (tf_encrypt ?tf e2 amount ck) \<union>
      u64_blobs ?tf 1 ph (tf_encrypt ?tf e3 limit ck) \<subseteq> B"
    by (auto simp: assms(8) demo_blobs_def Let_def)
  note stores = encrypt_inputs_stores [OF assms(7,9) d2 steps(5) m(1,3) [symmetric] sub]
  show "encrypted_at ?cr ?tf (lab_blobs dir) d' 1 ph (er_balance_hash refs) (tf_encrypt ?tf e1 balance ck)"
    "encrypted_at ?cr ?tf (lab_blobs dir) d' 1 ph (er_amount_hash refs) (tf_encrypt ?tf e2 amount ck)"
    "encrypted_at ?cr ?tf (lab_blobs dir) d' 1 ph (er_limit_hash refs) (tf_encrypt ?tf e3 limit ck)"
    "holds_only ?cr (lab_blobs dir) B d'"
    using stores by blast+
  show "set_up lb dir ck csk ph (dk_files d')"
  proof (rule set_up_stays [OF assms(2)])
    fix p assume "p \<in> {dp_client_key ?paths, dp_server_key ?paths, dp_params ?paths}"
    then have "\<not> in_store dir p" using data_files_outside by auto
    then show "dk_files d' p = dk_files d p"
      using encrypt_inside [OF steps(5)] m(4) by simp
  qed
qed

text \<open>\<open>setup\<close> over an empty store, then \<open>encrypt\<close>.\<close>

lemma encrypted_session:
  fixes lb :: "('ck, 'sk, 'csk, 'ct, 'cb, 'kp, 'tx, 'svm) Lab"
  assumes laws: "hex_law (lb_crates lb)" "key_law (lb_tfhe lb) ck csk" "params_law (lb_crates lb) (lb_json lb) ph"
    and keys: "en_setup en = (g1, g2, g3)" "ck = fst (tf_generate_keys (lb_tfhe lb) g1)"
      "csk = tf_compressed_key (lb_tfhe lb) g2 ck" "hash_compressed_server_key (lb_crates lb) (lb_tfhe lb) csk = Ok ph"
    and store: "\<And>h. vacant (lb_crates lb) (lab_blobs dir) d0 h"
      "inj_on (cr_sha256 (lb_crates lb)) (demo_blobs (lb_tfhe lb) (e1, e2, e3) ck csk ph balance amount limit)"
    and inputs: "parse_u64_flag args ''--balance'' = Ok balance" "parse_u64_flag args ''--amount'' = Ok amount"
      "parse_u64_flag args ''--limit'' = Ok limit"
    and run: "cmd_setup lb en dir d0 = (Ok u, d1)" "cmd_encrypt lb en' dir args d1 = (Ok refs, d2)"
      "en_encrypt en' = (e1, e2, e3)"
  shows "set_up lb dir ck csk ph (dk_files d2)"
    and "encrypted_at (lb_crates lb) (lb_tfhe lb) (lab_blobs dir) d2 1 ph (er_balance_hash refs) (tf_encrypt (lb_tfhe lb) e1 balance ck)"
    and "encrypted_at (lb_crates lb) (lb_tfhe lb) (lab_blobs dir) d2 1 ph (er_amount_hash refs) (tf_encrypt (lb_tfhe lb) e2 amount ck)"
    and "encrypted_at (lb_crates lb) (lb_tfhe lb) (lab_blobs dir) d2 1 ph (er_limit_hash refs) (tf_encrypt (lb_tfhe lb) e3 limit ck)"
    and "holds_only (lb_crates lb) (lab_blobs dir) (demo_blobs (lb_tfhe lb) (e1, e2, e3) ck csk ph balance amount limit) d2"
proof -
  let ?B = "demo_blobs (lb_tfhe lb) (e1, e2, e3) ck csk ph balance amount limit"
  note one = setup_sets_up [OF run(1) keys laws(2,3)]
  have "holds_only (lb_crates lb) (lab_blobs dir) ?B d0" using store(1) by (simp add: holds_only_def vacant_def)
  then have "holds_only (lb_crates lb) (lab_blobs dir) ?B d1" using holds_only_agree [of dir d1 d0] one(2) by blast
  note two = encrypt_command_stores [OF run(2) one(1) inputs run(3) laws(1) refl store(2) this]
  show "set_up lb dir ck csk ph (dk_files d2)"
    "encrypted_at (lb_crates lb) (lb_tfhe lb) (lab_blobs dir) d2 1 ph (er_balance_hash refs) (tf_encrypt (lb_tfhe lb) e1 balance ck)"
    "encrypted_at (lb_crates lb) (lb_tfhe lb) (lab_blobs dir) d2 1 ph (er_amount_hash refs) (tf_encrypt (lb_tfhe lb) e2 amount ck)"
    "encrypted_at (lb_crates lb) (lb_tfhe lb) (lab_blobs dir) d2 1 ph (er_limit_hash refs) (tf_encrypt (lb_tfhe lb) e3 limit ck)"
    "holds_only (lb_crates lb) (lab_blobs dir) ?B d2"
    using two by blast+
qed

section \<open>evaluate and decrypt\<close>

lemma evaluate_outside:
  assumes "cmd_evaluate lb dir d = (Ok h, d')" and "\<not> in_store dir p" and "p \<noteq> dp_result (data_paths dir)"
  shows "dk_files d' p = dk_files d p"
  by (rule cmd_evaluate_Ok [OF assms(1)])
    (use process_inside [of dir "lb_crates lb" "lb_tfhe lb" "lb_host lb"] assms(2,3) in
      \<open>fastforce simp: preserves_def same_on_def\<close>)

text \<open>What stands under the result hash after an evaluation over exactly known ciphertexts.\<close>

lemma evaluate_command_stores:
  fixes lb :: "('ck, 'sk, 'csk, 'ct, 'cb, 'kp, 'tx, 'svm) Lab"
  assumes "cmd_evaluate lb dir d = (Ok h, d')" and "set_up lb dir ck csk ph (dk_files d)"
    and "dk_files d (dp_request (data_paths dir)) = Some rbytes" and "cj_read_request (lb_json lb) rbytes = Ok rf"
    and "request_from_file (lb_crates lb) rf = Ok request"
    and "encrypted_at (lb_crates lb) (lb_tfhe lb) (lab_blobs dir) d 1 ph (rb_balance_hash request) x"
    and "encrypted_at (lb_crates lb) (lb_tfhe lb) (lab_blobs dir) d 1 ph (rb_amount_hash request) y"
    and "encrypted_at (lb_crates lb) (lb_tfhe lb) (lab_blobs dir) d 1 ph (rb_limit_hash request) z"
    and "holds_only (lb_crates lb) (lab_blobs dir) B d" and "inj_on (cr_sha256 (lb_crates lb)) B"
    and "bool_blobs (lb_tfhe lb) 1 ph (evaluate_policy (lb_tfhe lb) (tf_decompress (lb_tfhe lb) csk) x y z) \<subseteq> B"
    and "serial_law (lb_tfhe lb)" and "hex_law (lb_crates lb)"
    and "\<And>f t. cj_write_result (lb_json lb) f = Ok t \<Longrightarrow> cj_read_result (lb_json lb) t = Ok f"
  obtains payload out rf' where
    "tf_serialize_bool (lb_tfhe lb) (evaluate_policy (lb_tfhe lb) (tf_decompress (lb_tfhe lb) csk) x y z) BOOL_LIMIT = Some payload"
    "stored (lb_crates lb) (lab_blobs dir) d' h = Some (wrap_blob CT_KIND_BOOL 1 ph payload)"
    "dk_files d' (dp_result (data_paths dir)) = Some out" "cj_read_result (lb_json lb) out = Ok rf'"
    "parse_hex32 (lb_crates lb) (rr_result_hash rf') = Ok h" "set_up lb dir ck csk ph (dk_files d')"
proof -
  let ?cr = "lb_crates lb" and ?tf = "lb_tfhe lb" and ?store = "lab_blobs dir"
  obtain operator b sig d1 d2 out where d1: "dk_files d1 = dk_files d"
    and process: "process_request ?cr ?tf (lb_host lb) ?store request csk operator d1 = (Ok (b, sig), d2)"
    and out: "cj_write_result (lb_json lb) (result_file ?cr b sig (ho_pubkey (lb_host lb) operator)) = Ok out"
      "dk_files d' = (dk_files d2)(dp_result (data_paths dir) \<mapsto> out)" "h = rs_result_hash b"
    by (rule cmd_evaluate_Ok [OF assms(1)]) (use assms(2-5) in \<open>auto simp: set_up_def\<close>)
  have holds: "holds_only ?cr ?store B d1" using assms(9) holds_only_agree [of dir d1 d] by (simp add: d1)
  have header: "rb_key_version request = 1" "rb_params_hash request = ph"
    using process_header [OF process] assms(6) by (simp_all add: encrypted_cong [OF d1])
  obtain payload where payload:
      "tf_serialize_bool ?tf (evaluate_policy ?tf (tf_decompress ?tf csk) x y z) BOOL_LIMIT = Some payload"
      "stored ?cr ?store d2 h = Some (wrap_blob CT_KIND_BOOL 1 ph payload)"
    using process_exact [OF process assms(12), unfolded header encrypted_cong [OF d1], OF assms(6-8) holds assms(10)]
      assms(11) out(3) by auto
  show thesis
  proof (rule that [OF payload(1)])
    have "in_store dir p \<Longrightarrow> dk_files d' p = dk_files d2 p" for p
      using data_files_outside(6) [of dir] out(2) by auto
    then show "stored ?cr ?store d' h = Some (wrap_blob CT_KIND_BOOL 1 ph payload)"
      using same_entries(1) payload(2) by metis
    show "dk_files d' (dp_result (data_paths dir)) = Some out" by (simp add: out(2))
    show "cj_read_result (lb_json lb) out = Ok (result_file ?cr b sig (ho_pubkey (lb_host lb) operator))"
      using assms(14) out(1) .
    show "parse_hex32 ?cr (rr_result_hash (result_file ?cr b sig (ho_pubkey (lb_host lb) operator))) = Ok h"
      using assms(13) by (simp add: result_file_def parse_hex32_encode out(3))
    show "set_up lb dir ck csk ph (dk_files d')"
    proof (rule set_up_stays [OF assms(2)])
      fix p assume "p \<in> {dp_client_key (data_paths dir), dp_server_key (data_paths dir), dp_params (data_paths dir)}"
      then show "dk_files d' p = dk_files d p"
        using evaluate_outside [OF assms(1), of p] data_files_outside(1,2,4) [of dir] data_files_distinct(8) [of dir] by auto
    qed
  qed
qed

lemma decrypt_set_up:
  assumes "dk_faults d = []" and "set_up lb dir ck csk ph (dk_files d)"
    and "dk_files d (dp_result (data_paths dir)) = Some out" and "cj_read_result (lb_json lb) out = Ok rf"
    and "parse_hex32 (lb_crates lb) (rr_result_hash rf) = Ok h"
    and "stored (lb_crates lb) (lab_blobs dir) d h = Some (wrap_blob CT_KIND_BOOL 1 ph payload)"
    and "tf_serialize_bool (lb_tfhe lb) ct BOOL_LIMIT = Some payload" and "serial_law (lb_tfhe lb)" and "hex_law (lb_crates lb)"
  shows "cmd_decrypt lb dir d = (Ok (tf_decrypt_bool (lb_tfhe lb) ct ck), d)"
proof -
  let ?paths = "data_paths dir"
  obtain ckb skb pb where files: "dk_files d (dp_client_key ?paths) = Some ckb"
      "tf_deserialize_client_key (lb_tfhe lb) ckb CLIENT_KEY_LIMIT = Some ck"
      "dk_files d (dp_server_key ?paths) = Some skb" "tf_deserialize_compressed (lb_tfhe lb) skb SERVER_KEY_LIMIT = Some csk"
      "dk_files d (dp_params ?paths) = Some pb" "cj_read_params (lb_json lb) pb = Ok (lab_params (lb_crates lb) ph)"
    and hash: "hash_compressed_server_key (lb_crates lb) (lb_tfhe lb) csk = Ok ph"
    using assms(2) by (auto simp: set_up_def)
  have "load_bool (lb_crates lb) (lb_tfhe lb) (lab_blobs dir) h (pm_key_version (lab_params (lb_crates lb) ph)) ph d = (Ok ct, d)"
    using load_stored_bool [OF assms(6,1,7,8)] by (simp add: lab_params_def)
  from cmd_decrypt_now [OF assms(1,3,4,5) files(5,6) lab_params_hash [OF assms(9)]
      load_material_now [OF assms(1) files(1-4) hash] this]
  show ?thesis by simp
qed

text \<open>From the encryption to the decryption: whatever request names the three ciphertexts, once it is
  evaluated, its answer is decrypted.\<close>

lemma evaluated_session_decrypts:
  fixes lb :: "('ck, 'sk, 'csk, 'ct, 'cb, 'kp, 'tx, 'svm) Lab"
  assumes laws: "hex_law (lb_crates lb)" "serial_law (lb_tfhe lb)" "tfhe_law (lb_tfhe lb) ck csk"
      "\<And>f t. cj_write_result (lb_json lb) f = Ok t \<Longrightarrow> cj_read_result (lb_json lb) t = Ok f"
    and lab: "set_up lb dir ck csk ph (dk_files d)"
      "encrypted_at (lb_crates lb) (lb_tfhe lb) (lab_blobs dir) d 1 ph (rb_balance_hash request) (tf_encrypt (lb_tfhe lb) e1 balance ck)"
      "encrypted_at (lb_crates lb) (lb_tfhe lb) (lab_blobs dir) d 1 ph (rb_amount_hash request) (tf_encrypt (lb_tfhe lb) e2 amount ck)"
      "encrypted_at (lb_crates lb) (lb_tfhe lb) (lab_blobs dir) d 1 ph (rb_limit_hash request) (tf_encrypt (lb_tfhe lb) e3 limit ck)"
      "holds_only (lb_crates lb) (lab_blobs dir) B d" "inj_on (cr_sha256 (lb_crates lb)) B"
      "B = demo_blobs (lb_tfhe lb) (e1, e2, e3) ck csk ph balance amount limit"
    and request: "dk_files d (dp_request (data_paths dir)) = Some rbytes" "cj_read_request (lb_json lb) rbytes = Ok rf"
      "request_from_file (lb_crates lb) rf = Ok request"
    and run: "cmd_evaluate lb dir d = (Ok h, d1)"
  obtains out rf' where "dk_files d1 (dp_result (data_paths dir)) = Some out" "cj_read_result (lb_json lb) out = Ok rf'"
    "parse_hex32 (lb_crates lb) (rr_result_hash rf') = Ok h"
    "\<And>d2. same_on (lab_files dir {dp_result (data_paths dir)}) (dk_files d1) (dk_files d2) \<Longrightarrow> dk_faults d2 = [] \<Longrightarrow>
       cmd_decrypt lb dir d2 = (Ok (amount \<le> balance \<and> amount \<le> limit), d2)"
proof -
  let ?cr = "lb_crates lb" and ?tf = "lb_tfhe lb"
  let ?x = "tf_encrypt ?tf e1 balance ck" and ?y = "tf_encrypt ?tf e2 amount ck" and ?z = "tf_encrypt ?tf e3 limit ck"
  let ?answer = "evaluate_policy ?tf (tf_decompress ?tf csk) ?x ?y ?z"
  have result: "bool_blobs ?tf 1 ph ?answer \<subseteq> B"
    by (auto simp: lab(7) demo_blobs_def Let_def)
  obtain payload out rf' where after: "tf_serialize_bool ?tf ?answer BOOL_LIMIT = Some payload"
    "stored ?cr (lab_blobs dir) d1 h = Some (wrap_blob CT_KIND_BOOL 1 ph payload)"
    "dk_files d1 (dp_result (data_paths dir)) = Some out" "cj_read_result (lb_json lb) out = Ok rf'"
    "parse_hex32 ?cr (rr_result_hash rf') = Ok h" "set_up lb dir ck csk ph (dk_files d1)"
    by (rule evaluate_command_stores [OF run lab(1) request lab(2-6) result laws(2,1,4)])
  show thesis
  proof (rule that [OF after(3-5)])
    fix d2 :: Disk
    assume stay: "same_on (lab_files dir {dp_result (data_paths dir)}) (dk_files d1) (dk_files d2)"
      and calm: "dk_faults d2 = []"
    have "tf_decrypt_bool ?tf ?answer ck = (amount \<le> balance \<and> amount \<le> limit)"
      using evaluate_policy_correct [OF laws(3)] by simp
    then show "cmd_decrypt lb dir d2 = (Ok (amount \<le> balance \<and> amount \<le> limit), d2)"
      using decrypt_set_up [OF calm lab_files_stay(1) [OF stay after(6)] _ after(4,5) _ after(1) laws(2,1)]
        lab_files_stay(4,5) [OF stay] after(2,3) by simp
  qed
qed

text \<open>
  C9: a session of the lab answers the policy. Let \<open>setup\<close> succeed over an empty store, then
  \<open>encrypt\<close> with a balance, an amount and a limit; let the directory then receive a request that
  names the three ciphertexts, and let \<open>evaluate\<close> succeed. Then \<open>decrypt\<close> prints "the amount is at
  most the balance and at most the limit". Between the commands the ciphertexts, the keys, the
  parameters and, at last, the result file have to stay; everything else may change. Nothing is
  assumed of what the commands leave on the disk, nor of the key version and parameters in the
  request; the hash must not collide on the four blobs of the session.
\<close>

theorem session_answers_policy:
  fixes lb :: "('ck, 'sk, 'csk, 'ct, 'cb, 'kp, 'tx, 'svm) Lab"
  assumes laws: "hex_law (lb_crates lb)" "serial_law (lb_tfhe lb)" "key_law (lb_tfhe lb) ck csk"
      "params_law (lb_crates lb) (lb_json lb) ph" "tfhe_law (lb_tfhe lb) ck csk"
      "\<And>f t. cj_write_result (lb_json lb) f = Ok t \<Longrightarrow> cj_read_result (lb_json lb) t = Ok f"
    and keys: "en_setup en = (g1, g2, g3)" "ck = fst (tf_generate_keys (lb_tfhe lb) g1)"
      "csk = tf_compressed_key (lb_tfhe lb) g2 ck" "hash_compressed_server_key (lb_crates lb) (lb_tfhe lb) csk = Ok ph"
    and store: "\<And>h. vacant (lb_crates lb) (lab_blobs dir) d0 h"
      "inj_on (cr_sha256 (lb_crates lb)) (demo_blobs (lb_tfhe lb) (en_encrypt en') ck csk ph balance amount limit)"
    and inputs: "parse_u64_flag args ''--balance'' = Ok balance" "parse_u64_flag args ''--amount'' = Ok amount"
      "parse_u64_flag args ''--limit'' = Ok limit"
    and run: "cmd_setup lb en dir d0 = (Ok u, d1)" "cmd_encrypt lb en' dir args d1 = (Ok refs, d2)"
      "cmd_evaluate lb dir d3 = (Ok h, d4)"
    and request: "same_on (lab_files dir {}) (dk_files d2) (dk_files d3)" "dk_files d3 (dp_request (data_paths dir)) = Some rbytes"
      "cj_read_request (lb_json lb) rbytes = Ok rf" "request_from_file (lb_crates lb) rf = Ok request"
      "rb_balance_hash request = er_balance_hash refs" "rb_amount_hash request = er_amount_hash refs"
      "rb_limit_hash request = er_limit_hash refs"
    and now: "same_on (lab_files dir {dp_result (data_paths dir)}) (dk_files d4) (dk_files d5)" "dk_faults d5 = []"
  shows "cmd_decrypt lb dir d5 = (Ok (amount \<le> balance \<and> amount \<le> limit), d5)"
proof -
  obtain e1 e2 e3 where e: "en_encrypt en' = (e1, e2, e3)" by (cases "en_encrypt en'")
  note two = encrypted_session [OF laws(1,3,4) keys store(1) store(2) [unfolded e] inputs run(1,2) e]
  note stay = lab_files_stay [OF request(1)]
  show ?thesis
    by (rule evaluated_session_decrypts [OF laws(1,2,5,6) stay(1) [OF two(1)] _ _ _ _ store(2) [unfolded e] refl
          request(2-4) run(3)])
      (use two(2-5) now in \<open>simp_all add: request(5-7) stay(2,3)\<close>)
qed

section \<open>A session that runs\<close>

abbreviation session_entropy :: Entropy where
  "session_entropy \<equiv> \<lparr>en_setup = (0, 0, 3), en_encrypt = (0, 0, 0), en_boot = (0, 1, 2)\<rparr>"

definition encrypt_args :: "string list" where
  "encrypt_args = [''--balance'', ''21'', ''--amount'', ''23'', ''--limit'', ''22'']"

lemma session_inputs:
  "parse_u64_flag encrypt_args ''--balance'' = Ok 21" "parse_u64_flag encrypt_args ''--amount'' = Ok 23"
  "parse_u64_flag encrypt_args ''--limit'' = Ok 22"
  by code_simp+

lemma session_laws:
  "hex_law (lb_crates demo_lab)" "serial_law (lb_tfhe demo_lab)" "key_law (lb_tfhe demo_lab) () ()"
  "params_law (lb_crates demo_lab) (lb_json demo_lab) (fill 8)" "tfhe_law (lb_tfhe demo_lab) () ()"
  "hash_compressed_server_key (lb_crates demo_lab) (lb_tfhe demo_lab) () = Ok (fill 8)"
  using tail_hex_law lab_tfhe_laws lab_key
  by (simp_all add: key_law_def lab_server_key params_law_def session_json_simps lab_params_def tail_crates_def)

lemma session_generated:
  "en_setup session_entropy = (0, 0, 3)" "() = fst (tf_generate_keys (lb_tfhe demo_lab) 0)"
  "() = tf_compressed_key (lb_tfhe demo_lab) 0 ()"
  by simp_all

lemma session_store:
  "vacant (lb_crates demo_lab) (lab_blobs ''lab'') demo_disk h"
  "inj_on (cr_sha256 (lb_crates demo_lab)) (demo_blobs (lb_tfhe demo_lab) (en_encrypt session_entropy) () () (fill 8) 21 23 22)"
  using demo_disk_vacant lab_no_collision by simp_all

lemma session_setup:
  "\<exists>d. cmd_setup demo_lab session_entropy ''lab'' demo_disk = (Ok (), d) \<and> dk_faults d = [] \<and>
     dk_files d ''lab/keys/operator.json'' = Some (raw lab_operator)"
proof -
  have new: "tf_serialize_client_key lab_tfhe () CLIENT_KEY_LIMIT = Some [0]"
      "tf_serialize_compressed lab_tfhe () SERVER_KEY_LIMIT = Some (replicate 32 8)"
      "generate_material tail_crates lab_tfhe 0 0
        = Ok \<lparr>fm_client_key = (), fm_server_key = (), fm_compressed_server_key = (), fm_params_hash = fill 8\<rparr>"
    by (simp_all add: generate_material_def lab_key split: prod.split) (simp_all add: lab_tfhe_def clear_tfhe_def)
  have keys: "ke_new (lb_keys demo_lab) 3 = lab_operator" "ke_to_bytes (lb_keys demo_lab) k = raw k" for k
    by (simp_all add: demo_lab_def)
  show ?thesis
    by (simp add: cmd_setup_def setup_lab_def lab_data_paths Let_def nbind_def nlift_def io_def worker_def wmap_err_def
        text_err_def calm_fs demo_disk_def new keys write_client_key_def write_server_key_def wbind_simp wlift_def
        session_json_simps)
qed

lemma session_encrypt:
  assumes "dk_faults d = []" and "set_up demo_lab ''lab'' () () (fill 8) (dk_files d)"
  shows "\<exists>d'. cmd_encrypt demo_lab session_entropy ''lab'' encrypt_args d = (Ok demo_refs, d') \<and> dk_faults d' = [] \<and>
    (\<forall>p. \<not> in_store ''lab'' p \<longrightarrow> dk_files d' p = dk_files d p)"
proof -
  obtain ckb skb pb where files: "dk_files d ''lab/keys/client.bin'' = Some ckb"
      "dk_files d ''lab/keys/server.bin'' = Some skb" "dk_files d ''lab/keys/params.json'' = Some pb"
    using assms(2) by (auto simp: set_up_def lab_data_paths)
  note load = load_material_now [OF assms(1) files(1) lab_server_key(2) files(2) lab_server_key(1) lab_key]
  obtain d' where "encrypt_inputs tail_crates lab_tfhe (0, 0, 0) ''lab'' \<lparr>fm_client_key = (),
      fm_server_key = tf_decompress lab_tfhe (), fm_compressed_server_key = (), fm_params_hash = fill 8\<rparr> 21 23 22 d
      = (Ok demo_refs, d')" "dk_faults d' = []" "\<And>p. \<not> in_store ''lab'' p \<Longrightarrow> dk_files d' p = dk_files d p"
    using demo_encrypt [OF assms(1), of "\<lparr>fm_client_key = (), fm_server_key = tf_decompress lab_tfhe (),
      fm_compressed_server_key = (), fm_params_hash = fill 8\<rparr>"] by auto
  then show ?thesis
    using files(3)
    by (simp add: cmd_encrypt_def Let_def session_inputs lab_data_paths read_params_file_def nbind_def nlift_def io_def
        worker_def wmap_err_def text_err_def fs_read_now assms(1) session_json_simps lab_hex8 load)
qed

text \<open>\<open>setup\<close> and \<open>encrypt\<close>, and \<open>evaluate\<close> on what they leave.\<close>

lemma session_encrypted:
  obtains d1 d2 where "cmd_setup demo_lab session_entropy ''lab'' demo_disk = (Ok (), d1)"
    "cmd_encrypt demo_lab session_entropy ''lab'' encrypt_args d1 = (Ok demo_refs, d2)" "dk_faults d2 = []"
    "dk_files d2 ''lab/keys/operator.json'' = Some (raw lab_operator)" "set_up demo_lab ''lab'' () () (fill 8) (dk_files d2)"
    "\<And>v. v \<in> {21, 22, 23} \<Longrightarrow>
       encrypted_at tail_crates lab_tfhe (lab_blobs ''lab'') d2 1 (fill 8) (fill (ucast v)) (tf_encrypt lab_tfhe 0 v ())"
proof -
  obtain d1 where d1: "cmd_setup demo_lab session_entropy ''lab'' demo_disk = (Ok (), d1)" "dk_faults d1 = []"
      "dk_files d1 ''lab/keys/operator.json'' = Some (raw lab_operator)"
    using session_setup by blast
  note up = setup_sets_up [OF d1(1) session_generated session_laws(6,3,4)]
  obtain d2 where d2: "cmd_encrypt demo_lab session_entropy ''lab'' encrypt_args d1 = (Ok demo_refs, d2)" "dk_faults d2 = []"
      "\<And>p. \<not> in_store ''lab'' p \<Longrightarrow> dk_files d2 p = dk_files d1 p"
    using session_encrypt [OF d1(2) up(1)] by auto
  note two = encrypted_session [OF session_laws(1,3,4) session_generated session_laws(6) session_store(1) _ session_inputs d1(1)
      d2(1), of 0 0 0, simplified, OF lab_no_collision]
  have "encrypted_at tail_crates lab_tfhe (lab_blobs ''lab'') d2 1 (fill 8) (fill (ucast v)) (tf_encrypt lab_tfhe 0 v ())"
    if "v \<in> {21, 22, 23}" for v
    using two(2-4) that by (auto simp: demo_refs_def)
  then show thesis using that [OF d1(1) d2(1,2) _ two(1)] d1(3) d2(3) lab_outside(1) by simp
qed

lemma session_evaluates:
  assumes "set_up demo_lab ''lab'' () () (fill 8) (dk_files d)" and "dk_faults d = []"
    and "\<And>v. v \<in> {21, 22, 23} \<Longrightarrow>
       encrypted_at tail_crates lab_tfhe (lab_blobs ''lab'') d 1 (fill 8) (fill (ucast v)) (tf_encrypt lab_tfhe 0 v ())"
    and "dk_files d ''lab/keys/operator.json'' = Some (raw lab_operator)" and "dk_files d (dp_request (data_paths ''lab'')) = Some [1]"
  shows "\<exists>d'. cmd_evaluate demo_lab ''lab'' d = (Ok (fill 30), d') \<and> dk_faults d' = [] \<and>
    dk_files d' (dp_result (data_paths ''lab'')) = Some [3]"
proof -
  have ops: "operand tail_crates lab_tfhe (lab_blobs ''lab'') d () 1 (fill 8) (fill (ucast v)) v" if "v \<in> {21, 22, 23}" for v
    by (rule encrypted_operand) (rule assms(3) [OF that])
  obtain pb kb where "dk_files d ''lab/keys/params.json'' = Some pb" "dk_files d ''lab/keys/server.bin'' = Some kb"
    using assms(1) by (auto simp: set_up_def lab_data_paths)
  then show ?thesis
    using lab_evaluates_at [OF ops assms(2)] assms(4,5) by (simp add: lab_data_paths)
qed

theorem session_answers_policy_witness:
  "\<exists>d1 d2 d3 d4. cmd_setup demo_lab session_entropy ''lab'' demo_disk = (Ok (), d1) \<and>
     cmd_encrypt demo_lab session_entropy ''lab'' encrypt_args d1 = (Ok demo_refs, d2) \<and>
     cmd_evaluate demo_lab ''lab'' d3 = (Ok (fill 30), d4) \<and> cmd_decrypt demo_lab ''lab'' d4 = (Ok False, d4)"
proof -
  obtain d1 d2 where two: "cmd_setup demo_lab session_entropy ''lab'' demo_disk = (Ok (), d1)"
    "cmd_encrypt demo_lab session_entropy ''lab'' encrypt_args d1 = (Ok demo_refs, d2)" "dk_faults d2 = []"
    "dk_files d2 ''lab/keys/operator.json'' = Some (raw lab_operator)" "set_up demo_lab ''lab'' () () (fill 8) (dk_files d2)"
    "\<And>v. v \<in> {21, 22, 23} \<Longrightarrow>
       encrypted_at tail_crates lab_tfhe (lab_blobs ''lab'') d2 1 (fill 8) (fill (ucast v)) (tf_encrypt lab_tfhe 0 v ())"
    using session_encrypted by blast
  let ?d3 = "d2\<lparr>dk_files := (dk_files d2)(dp_request (data_paths ''lab'') \<mapsto> [1])\<rparr>"
  have same: "same_on (lab_files ''lab'' {''lab/keys/operator.json''}) (dk_files d2) (dk_files ?d3)"
    using data_files_outside(5) [of "''lab''"] data_files_distinct(7) [of "''lab''"]
    by (auto simp: same_on_def lab_files_def lab_data_paths)
  note stay = lab_files_stay [OF same]
  obtain d4 where d4: "cmd_evaluate demo_lab ''lab'' ?d3 = (Ok (fill 30), d4)" "dk_faults d4 = []"
    using session_evaluates [OF stay(1) [OF two(5)]] two(3,4,6) stay(5) by (auto simp: stay(3))
  have request: "cj_read_request (lb_json demo_lab) [1] = Ok (request_to_file tail_crates session_binding)"
      "request_from_file (lb_crates demo_lab) (request_to_file tail_crates session_binding) = Ok session_binding"
      "rb_balance_hash session_binding = er_balance_hash demo_refs" "rb_amount_hash session_binding = er_amount_hash demo_refs"
      "rb_limit_hash session_binding = er_limit_hash demo_refs"
    by (simp_all add: session_json_simps request_from_file_def request_to_file_def parse_hex32_encode [OF tail_hex_law])
      (simp_all add: session_binding_def request_binding_def request1_def demo_refs_def)
  have "cmd_decrypt demo_lab ''lab'' d4 = (Ok ((23 :: u64) \<le> 21 \<and> (23 :: u64) \<le> 22), d4)"
    by (rule session_answers_policy [OF session_laws(1-5) _ session_generated session_laws(6) session_store session_inputs
          two(1,2) d4(1) lab_files_same [OF same] _ request same_on_refl d4(2)])
      (simp_all add: session_json_law(2))
  then show ?thesis using two(1,2) d4(1) by auto
qed

end
