(* ===== verification/DevnetSession.thy ===== *)
theory DevnetSession
  imports Session
begin

text \<open>
  The lab's commands and the devnet commands in one session: \<open>setup\<close> and \<open>encrypt\<close>, then
  \<open>devnet create-account\<close> and \<open>devnet submit\<close> with the hashes that \<open>encrypt\<close> printed, \<open>evaluate\<close>,
  \<open>devnet finalize\<close> and \<open>decrypt\<close>. What they share is the data directory and the chain.
\<close>

section \<open>A world that runs the program\<close>

text \<open>Behind the node is a history of the chain, which \<open>chain\<close> reads off the state of the world: reads
  show its ledger, and a transaction of one instruction of the program that is confirmed has run
  at some moment between the sending and the confirmation.\<close>

definition program_world :: "Sdk \<Rightarrow> ('kp, 'n) World \<Rightarrow> ('n \<Rightarrow> Chain) \<Rightarrow> bool" where
  "program_world sd wo chain \<longleftrightarrow>
     (\<forall>n. rpc_shows sd (wo_rpc wo n) (ch_ledger (chain n))) \<and>
     (\<forall>payer ix n sig n'. ix_program_id ix = PROGRAM_ID \<longrightarrow> wo_send wo payer [ix] n = (Ok sig, n') \<longrightarrow>
        (\<exists>now env L'. leads_to (sd_runtime sd) (chain n) now \<and> env_slot env = ch_slot now \<and>
           process_instruction (sd_runtime sd) env (ch_ledger now) ix = Ok L' \<and>
           leads_to (sd_runtime sd) (now\<lparr>ch_ledger := L'\<rparr>) (chain n')))"

lemma sent_ran:
  assumes "program_world sd wo chain" and "wo_send wo payer [ix] n = (Ok sig, n')" and "ix_program_id ix = PROGRAM_ID"
    and "reachable (sd_runtime sd) (chain n)"
  obtains env L L' where "process_instruction (sd_runtime sd) env L ix = Ok L'"
    "ledger_evolves (ch_ledger (chain n)) L" "ledger_evolves L' (ch_ledger (chain n'))"
    "reachable (sd_runtime sd) (chain n')"
proof -
  obtain now env L' where run: "leads_to (sd_runtime sd) (chain n) now" "env_slot env = ch_slot now"
      "process_instruction (sd_runtime sd) env (ch_ledger now) ix = Ok L'"
      "leads_to (sd_runtime sd) (now\<lparr>ch_ledger := L'\<rparr>) (chain n')"
    using assms(1-3) unfolding program_world_def by metis
  have now: "reachable (sd_runtime sd) now" using run(1) assms(4) by (rule reachable_leads_to)
  have "chain_step (sd_runtime sd) now (now\<lparr>ch_ledger := L'\<rparr>)"
    using process_step [OF run(3)] run(2) by (cases now) simp
  then have after: "reachable (sd_runtime sd) (now\<lparr>ch_ledger := L'\<rparr>)"
    using now by (rule reachable.Step [rotated])
  show thesis
    using that [OF run(3) leads_to_evolves [OF run(1) assms(4)]] leads_to_evolves [OF run(4) after]
      reachable_leads_to [OF run(4) after] by simp
qed

section \<open>What the instructions write\<close>

lemma create_account_writes:
  assumes "anchor_law sd"
    and "process_instruction (sd_runtime sd) env L (create_account_ix sd owner ck ak balance limit) = Ok L'"
  shows "\<exists>a. L' ak = Some (BalanceAccount a) \<and> acc_balance_ref a = balance \<and> acc_limit_ref a = limit"
  using assms(2)
  by (auto simp: create_account_ix_def process_built [OF assms(1)] and_then_eq_Ok create_account_Ok
      CreateAccount_accounts_def CreateAccount_metas_def)

lemma submit_writes:
  assumes "anchor_law sd" and "L ak = Some (BalanceAccount a)"
    and "process_instruction (sd_runtime sd) env L (submit_ix sd owner ck ak rk amount version nonce) = Ok L'"
  shows "\<exists>r. L' rk = Some (RequestAccount r) \<and> req_balance_hash r = acc_balance_ref a \<and>
    req_amount_hash r = amount \<and> req_limit_hash r = acc_limit_ref a"
  using assms(2,3)
  by (auto simp: submit_ix_def process_built [OF assms(1)] and_then_eq_Ok submit_Ok Submit_accounts_def
      Submit_metas_def load_defs submitted_def Let_def)

section \<open>What the commands leave\<close>

lemma state_file_apart:
  "\<not> in_store dir (state_path dir)" "state_path dir \<noteq> dp_client_key (data_paths dir)"
  "state_path dir \<noteq> dp_server_key (data_paths dir)" "state_path dir \<noteq> dp_params (data_paths dir)"
  by (simp_all add: in_store_def state_path_def data_paths_def path_join_name)

lemma load_state_Ok:
  assumes "dk_files d (state_path dir) = Some t"
  shows "load_state cj dir d = (Ok st, d') \<Longrightarrow> cj_read_state cj t = Ok st"
  using assms
  by (auto simp: load_state_def Let_def nbind_Ok nlift_Ok command_Ok fs_exists_def dest!: fs_read_Ok split: if_splits
      simp del: nlift_eq)

text \<open>\<open>create-account\<close>: the account it recorded stands on chain with the references it was given.\<close>

lemma created:
  fixes cl :: "('kp, 'n) Cli"
  assumes "cmd_create_account cl dir args (d, n) = (Ok u, (d', n'))" and "sdk_law (cl_sdk cl)"
    and "\<And>url. program_world (cl_sdk cl) (cl_world cl url) chain" and "reachable (sd_runtime (cl_sdk cl)) (chain n)"
    and "flag_hex32 (cl_crates cl) args ''--balance-hash'' = Ok balance" and "flag_hex32 (cl_crates cl) args ''--limit-hash'' = Ok limit"
  obtains ak a st t where "ch_ledger (chain n') ak = Some (BalanceAccount a)" "acc_balance_ref a = balance"
    "acc_limit_ref a = limit" "reachable (sd_runtime (cl_sdk cl)) (chain n')"
    "ds_account st = Some (sd_address_to_string (cl_sdk cl) ak)" "cj_write_state (cl_json cl) st = Ok t"
    "dk_files d' = (dk_files d)(state_path dir \<mapsto> t)"
proof -
  let ?sd = "cl_sdk cl"
  have anchor: "anchor_law ?sd" using assms(2) by (simp add: sdk_law_def)
  obtain d0 d1 st0 url path owner ck ak sig ow where
    loads: "load_state (cl_json cl) dir d = (Ok st0, d0)" "read_keypair_file (cl_host cl) (cl_json cl) path d0 = (Ok owner, d1)"
    and sent: "wo_send (cl_world cl url) owner [create_account_ix ?sd (ho_pubkey (cl_host cl) owner) ck ak balance limit] n = (Ok sig, n')"
    and saved: "save_state (cl_json cl) (st0\<lparr>ds_rpc_url := Some url, ds_owner := ow, ds_account := Some (sd_address_to_string ?sd ak),
        ds_owner_keypair_path := Some path\<rparr>) dir d1 = (Ok (), d')"
    using assms(1,5,6)
    by (clarsimp simp: cmd_create_account_def Let_def nbind_Ok nlift_Ok command_Ok split_paired_Ex simp del: nlift_eq)
  let ?st = "st0\<lparr>ds_rpc_url := Some url, ds_owner := ow, ds_account := Some (sd_address_to_string ?sd ak),
      ds_owner_keypair_path := Some path\<rparr>"
  have "dk_files d1 = dk_files d" using loads only_reads_files unfolding only_reads_def by metis
  then obtain t where t: "cj_write_state (cl_json cl) ?st = Ok t" "dk_files d' = (dk_files d)(state_path dir \<mapsto> t)"
    using save_state_files [OF saved] by auto
  have program: "ix_program_id (create_account_ix ?sd x ck ak balance limit) = PROGRAM_ID" for x
    by (simp add: create_account_ix_def program_ix_def)
  obtain env L L' where ran: "process_instruction (sd_runtime ?sd) env L
        (create_account_ix ?sd (ho_pubkey (cl_host cl) owner) ck ak balance limit) = Ok L'"
      "ledger_evolves L' (ch_ledger (chain n'))" "reachable (sd_runtime ?sd) (chain n')"
    by (rule sent_ran [OF assms(3) sent program assms(4)])
  obtain a where "L' ak = Some (BalanceAccount a)" "acc_balance_ref a = balance" "acc_limit_ref a = limit"
    using create_account_writes [OF anchor ran(1)] by blast
  moreover from this obtain b where "ch_ledger (chain n') ak = Some (BalanceAccount b)" "account_evolves a b"
    using ledger_evolvesD(2) [OF ran(2)] by blast
  ultimately show thesis
    using that [of ak b ?st t] ran(3) t by (simp add: account_evolves_def)
qed

text \<open>\<open>submit\<close>: the request it wrote to the request file names the references of the recorded account
  and the amount it was given.\<close>

lemma submitted_names:
  fixes cl :: "('kp, 'n) Cli"
  assumes "cmd_submit cl dir args (d, n) = (Ok u, (d', n'))" and "sdk_law (cl_sdk cl)"
    and "\<And>url. program_world (cl_sdk cl) (cl_world cl url) chain" and "reachable (sd_runtime (cl_sdk cl)) (chain n)"
    and "flag_hex32 (cl_crates cl) args ''--amount-hash'' = Ok amount"
    and "dk_files d (state_path dir) = Some t" and "cj_read_state (cl_json cl) t = Ok st"
    and "ds_account st = Some (sd_address_to_string (cl_sdk cl) ak)" and "ch_ledger (chain n) ak = Some (BalanceAccount a)"
  obtains rk r binding bytes t' where "ch_ledger (chain n') rk = Some (RequestAccount r)"
    "reachable (sd_runtime (cl_sdk cl)) (chain n')" "rb_request_pda binding = rk"
    "rb_balance_hash binding = acc_balance_ref a" "rb_amount_hash binding = amount" "rb_limit_hash binding = acc_limit_ref a"
    "req_balance_hash r = acc_balance_ref a" "req_amount_hash r = amount" "req_limit_hash r = acc_limit_ref a"
    "cj_write_request (cl_json cl) (request_to_file (cl_crates cl) binding) = Ok bytes"
    "dk_files d' = (dk_files d)(dp_request (data_paths dir) \<mapsto> bytes, state_path dir \<mapsto> t')"
proof -
  let ?sd = "cl_sdk cl"
  have anchor: "anchor_law ?sd" "address_law ?sd" using assms(2) by (simp_all add: sdk_law_def)
  obtain d0 d1 d2 st0 url path owner ck ak' version nonce sig v st' e where
    loads: "load_state (cl_json cl) dir d = (Ok st0, d0)" "read_keypair_file (cl_host cl) (cl_json cl) path d0 = (Ok owner, d1)"
      "recorded ?sd (ds_account st0) e = Ok ak'"
    and sent: "wo_send (cl_world cl url) owner [submit_ix ?sd (ho_pubkey (cl_host cl) owner) ck ak'
        (derive_request ?sd ak' nonce) amount version nonce] n = (Ok sig, n')"
    and v: "fetch_and_verify_request ?sd (wo_rpc (cl_world cl url) n') (derive_request ?sd ak' nonce) = Ok v"
    and files: "write_request_file (cl_crates cl) (cl_json cl) (dp_request (data_paths dir)) (vr_binding v) d1 = (Ok (), d2)"
      "save_state (cl_json cl) st' dir d2 = (Ok (), d')"
    using assms(1,5)
    by (clarsimp simp: cmd_submit_def Let_def nbind_Ok nlift_Ok command_Ok split_paired_Ex simp del: nlift_eq)
  have same: "dk_files d1 = dk_files d" using loads(1,2) only_reads_files unfolding only_reads_def by metis
  have "st0 = st" using loads(1) assms(7) load_state_Ok [OF assms(6)] by force
  then have "ak' = ak" using loads(3) assms(8) anchor(2) by (simp add: recorded_def parse_address_def address_law_def)
  let ?rk = "derive_request ?sd ak nonce"
  have program: "ix_program_id (submit_ix ?sd x ck ak ?rk amount version nonce) = PROGRAM_ID" for x
    by (simp add: submit_ix_def program_ix_def)
  obtain env L L' where ran: "process_instruction (sd_runtime ?sd) env L
        (submit_ix ?sd (ho_pubkey (cl_host cl) owner) ck ak ?rk amount version nonce) = Ok L'"
      "ledger_evolves (ch_ledger (chain n)) L" "ledger_evolves L' (ch_ledger (chain n'))" "reachable (sd_runtime ?sd) (chain n')"
    by (rule sent_ran [OF assms(3) sent [unfolded \<open>ak' = ak\<close>] program assms(4)])
  obtain b where b: "L ak = Some (BalanceAccount b)" "account_evolves a b"
    using ledger_evolvesD(2) [OF ran(2) assms(9)] by blast
  obtain r0 where r0: "L' ?rk = Some (RequestAccount r0)" "req_balance_hash r0 = acc_balance_ref b"
      "req_amount_hash r0 = amount" "req_limit_hash r0 = acc_limit_ref b"
    using submit_writes [OF anchor(1) b(1) ran(1)] by blast
  obtain r where r: "ch_ledger (chain n') ?rk = Some (RequestAccount r)" "request_evolves r0 r"
    using ledger_evolvesD(3) [OF ran(3) r0(1)] by blast
  have hashes: "req_balance_hash r = acc_balance_ref a" "req_amount_hash r = amount" "req_limit_hash r = acc_limit_ref a"
    using r0(2-4) b(2) request_evolves_fields [OF r(2)] by (simp_all add: account_evolves_def)
  have "rpc_shows ?sd (wo_rpc (cl_world cl url) n') (ch_ledger (chain n'))"
    using assms(3) by (simp add: program_world_def)
  from fetch_shown(3) [OF this r(1)] have "vr_request v = r"
    using fetch_and_verify_Ok(4) [OF v] by (simp add: \<open>ak' = ak\<close>)
  then have binding: "vr_binding v = request_binding (vr_config v) r ?rk"
    using fetch_and_verify_Ok(2) [OF v] by (simp add: \<open>ak' = ak\<close>)
  obtain bytes where bytes: "cj_write_request (cl_json cl) (request_to_file (cl_crates cl) (vr_binding v)) = Ok bytes"
      "dk_files d2 = (dk_files d)(dp_request (data_paths dir) \<mapsto> bytes)"
    using write_request_file_files [OF files(1)] same by auto
  obtain t' where "dk_files d' = (dk_files d2)(state_path dir \<mapsto> t')" using save_state_files [OF files(2)] by blast
  then show thesis
    by (intro that [OF r(1) ran(4) _ _ _ _ hashes bytes(1)]) (simp_all add: binding request_binding_def hashes bytes(2))
qed

text \<open>\<open>finalize\<close>: only the state file changes, and the request of the request file is finalized with the
  hash of the result file.\<close>

lemma finalize_command_files:
  assumes "cmd_finalize fuel js ht cl dir args (d, n) = Some (Ok u, (d', n'))"
  obtains t where "dk_files d' = (dk_files d)(state_path dir \<mapsto> t)"
proof -
  obtain st tr url p d1 n1 where prep: "finalize_prepared cl dir args (d, n) = (Ok (st, tr, url, p), (d1, n1))"
    using assms by (auto simp: cmd_finalize_def split: prod.splits sum.splits)
  have "\<exists>st' d2. dk_files d2 = dk_files d1 \<and> save_state (cl_json cl) st' dir d2 = (Ok (), d')"
  proof (cases tr)
    case Direct
    then have "finalize_direct cl dir args st url p (d1, n1) = (Ok u, (d', n'))"
      using assms prep by (simp add: cmd_finalize_def)
    then show ?thesis
      using only_reads_files(4) unfolding only_reads_def
      by (fastforce simp: finalize_direct_def Let_def nbind_Ok command_Ok split_paired_Ex)
  next
    case (OpenZeppelin relayer_url relayer_id)
    then show ?thesis using assms prep by (auto simp: cmd_finalize_def nbind_Ok command_Ok)
  qed
  then show thesis
    using that save_state_files finalize_prepared_Ok [OF prep] by metis
qed

lemma loaded_as_written:
  assumes "hex_law cr"
  shows "load_cached_request cr cj dir d = (Ok cached, d') \<Longrightarrow> dk_files d (dp_request (data_paths dir)) = Some text \<Longrightarrow>
      cj_read_request cj text = Ok (request_to_file cr binding) \<Longrightarrow> cached = Some binding"
    and "load_parsed_result cr cj dir d = (Ok parsed, d') \<Longrightarrow> dk_files d (dp_result (data_paths dir)) = Some out \<Longrightarrow>
      cj_read_result cj out = Ok rf \<Longrightarrow> parse_hex32 cr (rr_result_hash rf) = Ok h \<Longrightarrow> pr_result_hash parsed = h"
proof -
  show "load_cached_request cr cj dir d = (Ok cached, d') \<Longrightarrow> dk_files d (dp_request (data_paths dir)) = Some text \<Longrightarrow>
      cj_read_request cj text = Ok (request_to_file cr binding) \<Longrightarrow> cached = Some binding"
    using parse_hex32_encode [OF assms]
    by (auto simp: load_cached_request_def Let_def read_request_file_def nbind_Ok nlift_Ok command_Ok fs_exists_def
        request_from_file_def request_to_file_def dest!: fs_read_Ok split: if_splits simp del: nlift_eq)
  show "load_parsed_result cr cj dir d = (Ok parsed, d') \<Longrightarrow> dk_files d (dp_result (data_paths dir)) = Some out \<Longrightarrow>
      cj_read_result cj out = Ok rf \<Longrightarrow> parse_hex32 cr (rr_result_hash rf) = Ok h \<Longrightarrow> pr_result_hash parsed = h"
    by (auto simp: load_parsed_result_def Let_def nbind_Ok nlift_Ok command_Ok parse_result_file_def parse_hex32_field_def
        and_then_eq_Ok dest!: fs_read_Ok split: sum.splits simp del: nlift_eq)
qed

lemma finalized_as_submitted:
  fixes cl :: "('kp, 'n) Cli"
  assumes "cmd_finalize fuel js ht cl dir args (d, n) = Some (Ok u, (d', n'))" and "flag_lookup args ''--request'' = None"
    and "hex_law (cl_crates cl)" and "\<And>url. program_world (cl_sdk cl) (cl_world cl url) chain"
    and "dk_files d (dp_request (data_paths dir)) = Some text" and "cj_read_request (cl_json cl) text = Ok (request_to_file (cl_crates cl) binding)"
    and "dk_files d (dp_result (data_paths dir)) = Some out" and "cj_read_result (cl_json cl) out = Ok rf"
    and "parse_hex32 (cl_crates cl) (rr_result_hash rf) = Ok h"
    and "ch_ledger (chain n') (rb_request_pda binding) = Some (RequestAccount r)"
  shows "req_status r = STATUS_FINALIZED" "req_result_hash r = h"
proof -
  obtain st tr url p v d1 n1 where prep: "finalize_prepared cl dir args (d, n) = (Ok (st, tr, url, p), (d1, n1))"
    and again: "refetch_and_verify_finalized (cl_sdk cl) (wo_rpc (cl_world cl url) n') p = Ok v"
    using cmd_finalize_Ok [OF assms(1)] by blast
  obtain cached parsed rk d2 d3 where loads: "load_parsed_result (cl_crates cl) (cl_json cl) dir d2 = (Ok parsed, d3)"
      "load_cached_request (cl_crates cl) (cl_json cl) dir d3 = (Ok cached, d1)" "dk_files d2 = dk_files d" "dk_files d3 = dk_files d"
      "resolve_request_address (cl_sdk cl) args st cached = Ok rk"
    and p: "prepare_finalize (cl_sdk cl) (wo_rpc (cl_world cl url) n) rk cached parsed = Ok p"
    using finalize_prepared_Ok [OF prep] by blast
  have "cached = Some binding" using loaded_as_written(1) [OF assms(3) loads(2)] assms(5,6) loads(4) by simp
  then have "pf_request_address p = rb_request_pda binding"
    using loads(5) assms(2) prepared_binds_fetched(1) [OF p] by (simp add: resolve_request_address_def)
  then have v: "fetch_and_verify_request (cl_sdk cl) (wo_rpc (cl_world cl url) n') (rb_request_pda binding) = Ok v"
      "verify_authoritative_finalized v p = Ok ()"
    using again by (auto simp: refetch_and_verify_finalized_def and_then_eq_Ok)
  have "rpc_shows (cl_sdk cl) (wo_rpc (cl_world cl url) n') (ch_ledger (chain n'))"
    using assms(4) by (simp add: program_world_def)
  from fetch_shown(3) [OF this assms(10)] have "vr_request v = r" using fetch_and_verify_Ok(4) [OF v(1)] by simp
  moreover have "pf_result_hash p = h"
    using loaded_as_written(2) [OF assms(3) loads(1) _ assms(8,9)] assms(7) loads(3) prepared_binds_fetched(3) [OF p] by simp
  ultimately show "req_status r = STATUS_FINALIZED" "req_result_hash r = h"
    using v(2) by (auto simp: authoritative_Ok)
qed

section \<open>The whole session\<close>

lemma same_files:
  "same_on P f f' \<Longrightarrow> same_on P f' f'' \<Longrightarrow> same_on P f f''"
  "same_on (lab_files dir {}) f (f(dp_request (data_paths dir) \<mapsto> b))"
  "same_on (lab_files dir {}) f (f(state_path dir \<mapsto> b))"
  using data_files_outside(5) [of dir] data_files_distinct(7) [of dir] state_file_apart [of dir]
  by (auto simp: same_on_def lab_files_def)

text \<open>The two commands that write to the chain: the request carries the three hashes they were given.\<close>

lemma created_and_submitted:
  fixes cl :: "('kp, 'n) Cli"
  assumes "sdk_law (cl_sdk cl)" and "\<And>st t. cj_write_state (cl_json cl) st = Ok t \<Longrightarrow> cj_read_state (cl_json cl) t = Ok st"
    and world: "\<And>url. program_world (cl_sdk cl) (cl_world cl url) chain" "reachable (sd_runtime (cl_sdk cl)) (chain n3)"
      "leads_to (sd_runtime (cl_sdk cl)) (chain n4) (chain n5)"
    and flags: "flag_hex32 (cl_crates cl) args3 ''--balance-hash'' = Ok balance"
      "flag_hex32 (cl_crates cl) args3 ''--limit-hash'' = Ok limit" "flag_hex32 (cl_crates cl) args5 ''--amount-hash'' = Ok amount"
    and run: "cmd_create_account cl dir args3 (d3, n3) = (Ok u, (d4, n4))" "cmd_submit cl dir args5 (d5, n5) = (Ok u', (d6, n6))"
    and stays: "dk_files d5 (state_path dir) = dk_files d4 (state_path dir)"
  obtains rk r binding bytes t t' where "ch_ledger (chain n6) rk = Some (RequestAccount r)"
    "reachable (sd_runtime (cl_sdk cl)) (chain n6)" "rb_request_pda binding = rk" "rb_balance_hash binding = balance"
    "rb_amount_hash binding = amount" "rb_limit_hash binding = limit"
    "req_balance_hash r = balance" "req_amount_hash r = amount" "req_limit_hash r = limit"
    "cj_write_request (cl_json cl) (request_to_file (cl_crates cl) binding) = Ok bytes"
    "dk_files d4 = (dk_files d3)(state_path dir \<mapsto> t)"
    "dk_files d6 = (dk_files d5)(dp_request (data_paths dir) \<mapsto> bytes, state_path dir \<mapsto> t')"
proof -
  obtain ak a st t where created: "ch_ledger (chain n4) ak = Some (BalanceAccount a)" "acc_balance_ref a = balance"
      "acc_limit_ref a = limit" "reachable (sd_runtime (cl_sdk cl)) (chain n4)"
      "ds_account st = Some (sd_address_to_string (cl_sdk cl) ak)"
      "cj_write_state (cl_json cl) st = Ok t" "dk_files d4 = (dk_files d3)(state_path dir \<mapsto> t)"
    by (rule created [OF run(1) assms(1) world(1,2) flags(1,2)])
  have five: "reachable (sd_runtime (cl_sdk cl)) (chain n5)" using world(3) created(4) by (rule reachable_leads_to)
  obtain a5 where a5: "ch_ledger (chain n5) ak = Some (BalanceAccount a5)" "account_evolves a a5"
    using ledger_evolvesD(2) [OF leads_to_evolves [OF world(3) created(4)] created(1)] by blast
  then have refs: "acc_balance_ref a5 = balance" "acc_limit_ref a5 = limit"
    using created(2,3) by (simp_all add: account_evolves_def)
  have state: "dk_files d5 (state_path dir) = Some t" using stays created(7) by simp
  show thesis
    by (rule submitted_names [OF run(2) assms(1) world(1) five flags(3) state assms(2) [OF created(6)] created(5) a5(1),
          unfolded refs])
      (rule that [OF _ _ _ _ _ _ _ _ _ _ created(7)])
qed

text \<open>
  C7: the whole session, on and off the chain. Let \<open>setup\<close> succeed over an empty store, \<open>encrypt\<close>
  with a balance, an amount and a limit, \<open>create-account\<close> with the hashes of balance and limit
  that \<open>encrypt\<close> printed, \<open>submit\<close> with the hash of the amount, \<open>evaluate\<close>, and \<open>finalize\<close> without a
  \<open>--request\<close> flag, on whichever transport. Then the chain holds a finalized request that names
  the three ciphertexts and the result that \<open>evaluate\<close> printed, and \<open>decrypt\<close> prints "the amount
  is at most the balance and at most the limit". Between the commands the files that the next ones
  depend on have to stay, and the chain may go on; so it may while a transaction is under way.
  Nothing is assumed of what the commands leave on the disk or the chain.
\<close>

theorem devnet_session_settles:
  fixes lb :: "('ck, 'sk, 'csk, 'ct, 'cb, 'kp, 'tx, 'svm) Lab" and cl :: "('kp, 'n) Cli"
  assumes laws: "hex_law (lb_crates lb)" "serial_law (lb_tfhe lb)" "key_law (lb_tfhe lb) ck csk"
      "params_law (lb_crates lb) (lb_json lb) ph" "tfhe_law (lb_tfhe lb) ck csk" "sdk_law (cl_sdk cl)"
    and json: "\<And>f t. cj_write_result (lb_json lb) f = Ok t \<Longrightarrow> cj_read_result (lb_json lb) t = Ok f"
      "\<And>f t. cj_write_request (lb_json lb) f = Ok t \<Longrightarrow> cj_read_request (lb_json lb) t = Ok f"
      "\<And>st t. cj_write_state (lb_json lb) st = Ok t \<Longrightarrow> cj_read_state (lb_json lb) t = Ok st"
    and crates: "cl_crates cl = lb_crates lb" "cl_json cl = lb_json lb"
    and world: "\<And>url. program_world (cl_sdk cl) (cl_world cl url) chain" "reachable (sd_runtime (cl_sdk cl)) (chain n3)"
      "leads_to (sd_runtime (cl_sdk cl)) (chain n4) (chain n5)" "leads_to (sd_runtime (cl_sdk cl)) (chain n6) (chain n10)"
    and keys: "en_setup en = (g1, g2, g3)" "ck = fst (tf_generate_keys (lb_tfhe lb) g1)"
      "csk = tf_compressed_key (lb_tfhe lb) g2 ck" "hash_compressed_server_key (lb_crates lb) (lb_tfhe lb) csk = Ok ph"
    and store: "\<And>h. vacant (lb_crates lb) (lab_blobs dir) d0 h"
      "inj_on (cr_sha256 (lb_crates lb)) (demo_blobs (lb_tfhe lb) (en_encrypt en') ck csk ph balance amount limit)"
    and inputs: "parse_u64_flag args ''--balance'' = Ok balance" "parse_u64_flag args ''--amount'' = Ok amount"
      "parse_u64_flag args ''--limit'' = Ok limit"
      "flag_hex32 (lb_crates lb) args3 ''--balance-hash'' = Ok (er_balance_hash refs)"
      "flag_hex32 (lb_crates lb) args3 ''--limit-hash'' = Ok (er_limit_hash refs)"
      "flag_hex32 (lb_crates lb) args5 ''--amount-hash'' = Ok (er_amount_hash refs)"
      "flag_lookup args9 ''--request'' = None"
    and run: "cmd_setup lb en dir d0 = (Ok u, d1)" "cmd_encrypt lb en' dir args d1 = (Ok refs, d2)"
      "cmd_create_account cl dir args3 (d3, n3) = (Ok u, (d4, n4))" "cmd_submit cl dir args5 (d5, n5) = (Ok u, (d6, n6))"
      "cmd_evaluate lb dir d7 = (Ok h, d8)" "cmd_finalize fuel js ht cl dir args9 (d9, n9) = Some (Ok u, (d10, n10))"
    and between: "same_on (lab_files dir {}) (dk_files d2) (dk_files d3)"
      "same_on (lab_files dir {state_path dir}) (dk_files d4) (dk_files d5)"
      "same_on (lab_files dir {dp_request (data_paths dir)}) (dk_files d6) (dk_files d7)"
      "same_on (lab_files dir {dp_request (data_paths dir), dp_result (data_paths dir)}) (dk_files d8) (dk_files d9)"
      "same_on (lab_files dir {dp_result (data_paths dir)}) (dk_files d10) (dk_files d11)" "dk_faults d11 = []"
  shows "cmd_decrypt lb dir d11 = (Ok (amount \<le> balance \<and> amount \<le> limit), d11) \<and>
    (\<exists>rk r. ch_ledger (chain n10) rk = Some (RequestAccount r) \<and> req_status r = STATUS_FINALIZED \<and> req_result_hash r = h \<and>
       req_balance_hash r = er_balance_hash refs \<and> req_amount_hash r = er_amount_hash refs \<and>
       req_limit_hash r = er_limit_hash refs)"
proof -
  let ?rt = "sd_runtime (cl_sdk cl)" and ?request = "dp_request (data_paths dir)" and ?result = "dp_result (data_paths dir)"
  obtain e1 e2 e3 where e: "en_encrypt en' = (e1, e2, e3)" by (cases "en_encrypt en'")
  note two = encrypted_session [OF laws(1,3,4) keys store(1) store(2) [unfolded e] inputs(1-3) run(1,2) e]
  have state: "dk_files d5 (state_path dir) = dk_files d4 (state_path dir)" using lab_files_stay(5) [OF between(2)] by simp
  obtain rk r6 binding bytes t t' where submitted: "ch_ledger (chain n6) rk = Some (RequestAccount r6)" "reachable ?rt (chain n6)"
      "rb_request_pda binding = rk" "rb_balance_hash binding = er_balance_hash refs" "rb_amount_hash binding = er_amount_hash refs"
      "rb_limit_hash binding = er_limit_hash refs" "req_balance_hash r6 = er_balance_hash refs"
      "req_amount_hash r6 = er_amount_hash refs" "req_limit_hash r6 = er_limit_hash refs"
      "cj_write_request (lb_json lb) (request_to_file (lb_crates lb) binding) = Ok bytes"
      "dk_files d4 = (dk_files d3)(state_path dir \<mapsto> t)"
      "dk_files d6 = (dk_files d5)(?request \<mapsto> bytes, state_path dir \<mapsto> t')"
    by (rule created_and_submitted [OF laws(6) json(3) [folded crates] world(1-3) inputs(4-6) [folded crates] run(3,4) state,
          unfolded crates])
  have upto: "same_on (lab_files dir {}) (dk_files d2) (dk_files d7)"
    using between(1) same_files(3) [of dir "dk_files d3" t] lab_files_same [OF between(2)] same_files(2) [of dir "dk_files d5" bytes]
      same_files(3) [of dir "(dk_files d5)(?request \<mapsto> bytes)" t'] lab_files_same [OF between(3)]
    unfolding submitted(11,12) by (metis same_files(1))
  note stay = lab_files_stay [OF upto]
  have request: "dk_files d7 ?request = Some bytes"
    using lab_files_stay(5) [OF between(3)] submitted(12) data_files_differ(1) [of dir] by simp
  have binding: "request_from_file (lb_crates lb) (request_to_file (lb_crates lb) binding) = Ok binding"
    using parse_hex32_encode [OF laws(1)] by (simp add: request_from_file_def request_to_file_def)
  obtain out rf' where eight: "dk_files d8 ?result = Some out" "cj_read_result (lb_json lb) out = Ok rf'"
      "parse_hex32 (lb_crates lb) (rr_result_hash rf') = Ok h"
      "\<And>d. same_on (lab_files dir {?result}) (dk_files d8) (dk_files d) \<Longrightarrow> dk_faults d = [] \<Longrightarrow>
         cmd_decrypt lb dir d = (Ok (amount \<le> balance \<and> amount \<le> limit), d)"
    by (rule evaluated_session_decrypts [OF laws(1,2,5) json(1) stay(1) [OF two(1)] _ _ _ _ store(2) [unfolded e] refl
          request json(2) [OF submitted(10)] binding run(5)])
      (use two(2-5) in \<open>simp_all add: submitted(4-6) stay(2,3)\<close>)
  have nine: "dk_files d9 ?request = Some bytes" "dk_files d9 ?result = Some out"
    using lab_files_stay(5) [OF between(4)] eight(1) evaluate_outside [OF run(5), of ?request] request data_files_outside(5) data_files_differ(3) by auto
  obtain t'' where ten: "dk_files d10 = (dk_files d9)(state_path dir \<mapsto> t'')"
    by (rule finalize_command_files [OF run(6)])
  have "same_on (lab_files dir {?result}) (dk_files d8) (dk_files d11)"
    using between(4,5) state_file_apart [of dir] data_files_differ(2) [of dir] by (auto simp: same_on_def lab_files_def ten)
  then have "cmd_decrypt lb dir d11 = (Ok (amount \<le> balance \<and> amount \<le> limit), d11)"
    using between(6) by (rule eight(4))
  moreover obtain r where r: "ch_ledger (chain n10) rk = Some (RequestAccount r)" "request_evolves r6 r"
    using ledger_evolvesD(3) [OF leads_to_evolves [OF world(4) submitted(2)] submitted(1)] by blast
  moreover have "req_status r = STATUS_FINALIZED" "req_result_hash r = h"
    using finalized_as_submitted [OF run(6) inputs(7) laws(1) [folded crates] world(1) nine(1) json(2) [OF submitted(10), folded crates]
        nine(2) eight(2) [folded crates] eight(3) [folded crates]] r(1) submitted(3) by simp_all
  ultimately show ?thesis
    using request_evolves_fields(6-8) [OF r(2)] submitted(7-9) by auto
qed

section \<open>A session that runs\<close>

definition session_chain :: "nat \<Rightarrow> Chain" where
  "session_chain phase = \<lparr>ch_slot = if phase \<le> 1 then 5 else 6, ch_ledger = session_ledger phase\<rparr>"

lemma session_creates:
  "process_instruction client_runtime (at_slot 5) (session_ledger 0) session_create_ix = Ok (session_ledger 1)"
proof -
  have metas: "CreateAccount_metas lab_owner lab_config lab_account SYSTEM_PROGRAM_ID
      = [signer lab_owner, readonly lab_config, writable lab_account, readonly 0]"
    by (simp add: CreateAccount_metas_def signer_def readonly_def writable_def SYSTEM_PROGRAM_ID_def meta_def)
  show ?thesis
    using lab_setup(2) process_built [OF lab_anchor, unfolded lab_sdk_runtime]
    by (simp add: create_account_ix_def metas run_call_client_runtime session_ledger_def lab_calls_def del: run_call.simps)
qed

lemma session_submits:
  "process_instruction client_runtime (at_slot 6) (session_ledger 1) session_submit_ix = Ok (session_ledger 2)"
proof -
  have metas: "Submit_metas lab_owner lab_config lab_account lab_request SYSTEM_PROGRAM_ID = submit_metas"
    by (simp add: Submit_metas_def submit_metas_def signer_def readonly_def writable_def SYSTEM_PROGRAM_ID_def meta_def)
  show ?thesis
    using lab_submit process_built [OF lab_anchor, unfolded lab_sdk_runtime]
    by (simp add: submit_ix_def metas run_call_client_runtime session_ledger_def submit_args0_def del: run_call.simps)
qed

lemma session_program_world: "program_world lab_sdk session_world session_chain"
  unfolding program_world_def
proof (intro conjI allI impI)
  fix n show "rpc_shows lab_sdk (wo_rpc session_world n) (ch_ledger (session_chain n))"
    using session_rpc_shows by (simp add: session_chain_def)
next
  fix payer ix n sig n'
  assume "wo_send session_world payer [ix] n = (Ok sig, n')"
  then consider "n = 0" "n' = 1" "ix = session_create_ix" | "n = 1" "n' = 2" "ix = session_submit_ix"
    by (auto simp: session_send_def split: if_splits)
  then show "\<exists>now env L'. leads_to (sd_runtime lab_sdk) (session_chain n) now \<and> env_slot env = ch_slot now \<and>
      process_instruction (sd_runtime lab_sdk) env (ch_ledger now) ix = Ok L' \<and>
      leads_to (sd_runtime lab_sdk) (now\<lparr>ch_ledger := L'\<rparr>) (session_chain n')"
  proof cases
    case 1
    then show ?thesis
      by (intro exI [of _ "session_chain 0"] exI [of _ "at_slot 5"] exI [of _ "session_ledger 1"])
        (simp add: session_creates [unfolded One_nat_def] session_chain_def)
  next
    case 2
    have "leads_to client_runtime (session_chain 1) \<lparr>ch_slot = 6, ch_ledger = session_ledger 1\<rparr>"
      by (rule leads_to_step [OF leads_to_refl]) (simp add: session_chain_def chain_step.Tick)
    then show ?thesis
      using 2
      by (intro exI [of _ "\<lparr>ch_slot = 6, ch_ledger = session_ledger 1\<rparr>"] exI [of _ "at_slot 6"] exI [of _ "session_ledger 2"])
        (simp add: session_submits [unfolded One_nat_def] session_chain_def)
  qed
qed

lemma session_history:
  "reachable client_runtime (session_chain 0)" "leads_to client_runtime (session_chain 2) (session_chain 3)"
proof -
  have "reachable lab_runtime \<lparr>ch_slot = 0, ch_ledger = [0 \<mapsto> ForeignAccount]\<rparr>"
    using reachable.Genesis by (simp add: genesis_def del: fun_upd_apply)
  from reachable_call [OF this _ lab_setup(1)] show "reachable client_runtime (session_chain 0)"
    using reachable_client_runtime by (simp add: session_chain_def session_ledger_def)
  show "leads_to client_runtime (session_chain 2) (session_chain 3)"
    using leads_to_step [OF leads_to_refl lab_settled_step]
    by (simp add: session_chain_def session_ledger_def pending_chain_def)
qed

theorem devnet_session_settles_witness:
  "\<exists>d d'. (\<forall>js ht. cmd_finalize 1 js ht session_cli ''lab'' payer_args (d, 2) = Some (Ok (), (d', 3))) \<and>
     cmd_decrypt demo_lab ''lab'' d' = (Ok False, d') \<and>
     (\<exists>rk r. session_ledger 3 rk = Some (RequestAccount r) \<and> req_status r = STATUS_FINALIZED \<and> req_result_hash r = fill 30)"
proof -
  obtain d1 d2 where two: "cmd_setup demo_lab session_entropy ''lab'' demo_disk = (Ok (), d1)"
    "cmd_encrypt demo_lab session_entropy ''lab'' encrypt_args d1 = (Ok demo_refs, d2)" "dk_faults d2 = []"
    "dk_files d2 ''lab/keys/operator.json'' = Some (raw lab_operator)" "set_up demo_lab ''lab'' () () (fill 8) (dk_files d2)"
    "\<And>v. v \<in> {21, 22, 23} \<Longrightarrow>
       encrypted_at tail_crates lab_tfhe (lab_blobs ''lab'') d2 1 (fill 8) (fill (ucast v)) (tf_encrypt lab_tfhe 0 v ())"
    using session_encrypted by blast
  let ?with = "\<lambda>files. d2\<lparr>dk_files := files\<rparr>" and ?state = "state_path ''lab''" and ?request = "dp_request (data_paths ''lab'')"
  let ?f3 = "(dk_files d2)(?state \<mapsto> [10], ''key'' \<mapsto> raw lab_owner)"
  let ?f4 = "?f3(?state \<mapsto> [11])"
  let ?f6 = "?f4(?request \<mapsto> [1], ?state \<mapsto> [12])"
  have files: "?state \<noteq> ''key''" "?request \<noteq> ''key''" "?state \<noteq> ?request" "dp_result (data_paths ''lab'') \<noteq> ''key''"
      "\<not> in_store ''lab'' ''key''"
    by (simp_all add: session_paths in_store_def path_base_def)
  have create: "cmd_create_account session_cli ''lab'' create_args (?with ?f3, 0) = (Ok (), (?with ?f4, 1))"
    using session_create [of "?with ?f3"] two(3) files by simp
  have submit: "cmd_submit session_cli ''lab'' session_args (?with ?f4, 1) = (Ok (), (?with ?f6, 2))"
    using session_submit [of "?with ?f4"] two(3) files by simp
  have same: "same_on (lab_files ''lab'' {''lab/keys/operator.json''}) (dk_files d2) (dk_files (?with ?f6))"
    using data_files_outside(5) [of "''lab''"] data_files_distinct(7) [of "''lab''"] state_file_apart [of "''lab''"] files
    by (auto simp: same_on_def lab_files_def lab_data_paths session_paths)
  have start: "same_on (lab_files ''lab'' {}) (dk_files d2) (dk_files (?with ?f3))"
    using state_file_apart [of "''lab''"] files by (auto simp: same_on_def lab_files_def lab_data_paths session_paths)
  note stay = lab_files_stay [OF same]
  obtain d8 where d8: "cmd_evaluate demo_lab ''lab'' (?with ?f6) = (Ok (fill 30), d8)" "dk_faults d8 = []"
      "dk_files d8 (dp_result (data_paths ''lab'')) = Some [3]"
    using session_evaluates [OF stay(1) [OF two(5)] _ two(6) [folded stay(3)], unfolded stay(5) [OF insertI1]] two(3,4) files
    by auto
  have "dk_files d8 p = ?f6 p" if "p \<in> {?state, ?request, ''key''}" for p
    using evaluate_outside [OF d8(1), of p] that files data_files_outside(5) [of "''lab''"] state_file_apart(1) [of "''lab''"]
      data_files_differ(2,3) [of "''lab''"] by auto
  then have finalize: "cmd_finalize 1 js ht session_cli ''lab'' payer_args (d8, 2)
      = Some (Ok (), (d8\<lparr>dk_files := (dk_files d8)(?state \<mapsto> [13])\<rparr>, 3))" for js :: "'v Parsers" and ht
    using session_finalize [of d8] d8(2,3) files by simp
  let ?d10 = "d8\<lparr>dk_files := (dk_files d8)(?state \<mapsto> [13])\<rparr>"
  have hashes: "flag_hex32 (lb_crates demo_lab) create_args ''--balance-hash'' = Ok (er_balance_hash demo_refs)"
      "flag_hex32 (lb_crates demo_lab) create_args ''--limit-hash'' = Ok (er_limit_hash demo_refs)"
      "flag_hex32 (lb_crates demo_lab) session_args ''--amount-hash'' = Ok (er_amount_hash demo_refs)"
      "flag_lookup payer_args ''--request'' = None"
    by (simp_all add: session_flags demo_refs_def payer_args_def)
  have "cmd_decrypt demo_lab ''lab'' ?d10 = (Ok ((23 :: u64) \<le> 21 \<and> (23 :: u64) \<le> 22), ?d10) \<and>
    (\<exists>rk r. ch_ledger (session_chain 3) rk = Some (RequestAccount r) \<and> req_status r = STATUS_FINALIZED \<and>
       req_result_hash r = fill 30 \<and> req_balance_hash r = er_balance_hash demo_refs \<and>
       req_amount_hash r = er_amount_hash demo_refs \<and> req_limit_hash r = er_limit_hash demo_refs)"
    by (rule devnet_session_settles [OF session_laws(1-5) _ _ _ _ _ _ _ _ _ _ session_generated session_laws(6) session_store
          session_inputs hashes two(1,2) create submit d8(1) finalize _ same_on_refl same_on_refl same_on_refl same_on_refl])
      (use start lab_sdk_law session_program_world session_history d8(2) in \<open>simp_all add: session_json_law\<close>)
  then show ?thesis using finalize by (intro exI [of _ d8] exI [of _ ?d10]) (auto simp: session_chain_def)
qed

end
