(* ===== verification/Bootstrap.thy ===== *)
theory Bootstrap
  imports DevnetSession
begin

text \<open>
  From the data directory to the chain: \<open>devnet initialize\<close> publishes what \<open>setup\<close> made
  (\<open>crates/client/src/devnet/commands.rs\<close>), the hash of the evaluation key and the public key of
  the operator. These are what the program holds every later result against.
\<close>

section \<open>The operator's key\<close>

text \<open>The JSON text of a keypair reads back as the keypair that was written.\<close>

definition keypair_law :: "'kp Host \<Rightarrow> 'kp Keys \<Rightarrow> CliJson \<Rightarrow> bool" where
  "keypair_law ho ke cj \<longleftrightarrow>
     (\<forall>b t. cj_write_bytes cj b = Ok t \<longrightarrow> cj_read_bytes cj t = Ok b) \<and>
     (\<forall>k. ho_keypair_try_from ho (ke_to_bytes ke k) = Ok k)"

lemma setup_writes:
  fixes lb :: "('ck, 'sk, 'csk, 'ct, 'cb, 'kp, 'tx, 'svm) Lab"
  assumes "cmd_setup lb en dir d = (Ok u, d')" and "en_setup en = (g1, g2, g3)"
    and "hash_compressed_server_key (lb_crates lb) (lb_tfhe lb)
      (tf_compressed_key (lb_tfhe lb) g2 (fst (tf_generate_keys (lb_tfhe lb) g1))) = Ok ph"
  obtains t pt where "cj_write_bytes (lb_json lb) (ke_to_bytes (lb_keys lb) (ke_new (lb_keys lb) g3)) = Ok t"
    "dk_files d' (dp_operator (data_paths dir)) = Some t"
    "cj_write_params (lb_json lb) (lab_params (lb_crates lb) ph) = Ok pt" "dk_files d' (dp_params (data_paths dir)) = Some pt"
proof -
  obtain m :: "('ck, 'sk, 'csk) FheMaterial" where
    run: "setup_lab (lb_crates lb) (lb_tfhe lb) (lb_keys lb) (lb_json lb) (g1, g2, g3) dir d = (Ok m, d')"
    using assms(1,2) by (auto simp: cmd_setup_def nbind_Ok nlift_Ok)
  have "fm_params_hash m = ph"
    using run assms(3)
    by (auto simp: setup_lab_def Let_def nbind_Ok command_Ok generate_material_def and_then_eq_Ok split: prod.splits)
  then obtain t pt dc dd where steps:
    "cj_write_bytes (lb_json lb) (ke_to_bytes (lb_keys lb) (ke_new (lb_keys lb) g3)) = Ok t"
    "fs_write (dp_operator (data_paths dir)) t dc = (Ok (), dd)"
    "cj_write_params (lb_json lb) (lab_params (lb_crates lb) ph) = Ok pt"
    "fs_write (dp_params (data_paths dir)) pt dd = (Ok (), d')"
    using run by (auto simp: setup_lab_def Let_def nbind_Ok command_Ok nlift_Ok lab_params_def)
  then show thesis using that data_files_distinct(6) [of dir] by (auto dest!: fs_write_Ok)
qed

lemma operator_read_back:
  assumes "keypair_law ho ke cj" and "cj_write_bytes cj (ke_to_bytes ke k) = Ok t" and "dk_files d p = Some t"
    and "read_operator_file ho cj p d = (Ok k', d')"
  shows "k' = k"
  using assms
  by (auto simp: keypair_law_def read_operator_file_def nbind_Ok command_Ok dest!: fs_read_Ok)

section \<open>What initialize writes\<close>

lemma initialize_writes:
  assumes "anchor_law sd"
    and "process_instruction (sd_runtime sd) env L (initialize_ix sd authority mint ck operator ph lifetime) = Ok L'"
  shows "\<exists>c. L' ck = Some (ConfigAccount c) \<and> cfg_params_hash c = ph \<and> cfg_operator c = operator \<and> cfg_operator_epoch c = 1 \<and>
    cfg_authority c = authority \<and> cfg_max_request_lifetime_slots c = lifetime"
  using assms(2)
  by (auto simp: initialize_ix_def process_built [OF assms(1)] and_then_eq_Ok initialize_config_Ok
      InitializeConfig_accounts_def InitializeConfig_metas_def)

text \<open>
  The configuration on chain names the hash and the operator read from the directory, and it is the
  one that the state file records.
\<close>

lemma initialized:
  fixes cl :: "('kp, 'n) Cli"
  assumes "cmd_initialize cl generated dir args (d, n) = (Ok u, (d', n'))" and "sdk_law (cl_sdk cl)"
    and "\<And>url. program_world (cl_sdk cl) (cl_world cl url) chain" and "reachable (sd_runtime (cl_sdk cl)) (chain n)"
  obtains ck c b params ph da db operator st t where "dk_files d (dp_params (data_paths dir)) = Some b"
    "cj_read_params (cl_json cl) b = Ok params" "parse_hex32 (cl_crates cl) (pm_params_hash params) = Ok ph"
    "read_operator_file (cl_host cl) (cl_json cl) (dp_operator (data_paths dir)) da = (Ok operator, db)" "dk_files da = dk_files d"
    "ch_ledger (chain n') ck = Some (ConfigAccount c)" "cfg_params_hash c = ph"
    "cfg_operator_epoch c = 1 \<longrightarrow> cfg_operator c = ho_pubkey (cl_host cl) operator"
    "cj_write_state (cl_json cl) st = Ok t" "dk_files d' (state_path dir) = Some t"
    "ds_config st = Some (sd_address_to_string (cl_sdk cl) ck)"
proof -
  let ?sd = "cl_sdk cl"
  have anchor: "anchor_law ?sd" using assms(2) by (simp add: sdk_law_def)
  obtain st0 url path authority d0 d1 d2 d3 b params ph operator mint lifetime sig p1 p2 p3 p4 p5 p6 p7 p8 where
    loads: "load_state (cl_json cl) dir d = (Ok st0, d0)" "read_keypair_file (cl_host cl) (cl_json cl) path d0 = (Ok authority, d1)"
      "fs_read (dp_params (data_paths dir)) d1 = (Ok b, d2)"
    and params: "cj_read_params (cl_json cl) b = Ok params" "parse_hex32 (cl_crates cl) (pm_params_hash params) = Ok ph"
    and operator: "read_operator_file (cl_host cl) (cl_json cl) (dp_operator (data_paths dir)) d2 = (Ok operator, d3)"
    and sent: "wo_send (cl_world cl url) authority [initialize_ix ?sd (ho_pubkey (cl_host cl) authority) mint (derive_config ?sd mint)
        (ho_pubkey (cl_host cl) operator) ph lifetime] n = (Ok sig, n')"
    and saved: "save_state (cl_json cl) (st0\<lparr>ds_rpc_url := Some url, ds_program_id := p1, ds_mint := p2,
        ds_config := Some (sd_address_to_string ?sd (derive_config ?sd mint)), ds_authority := p3, ds_operator := p4,
        ds_params_hash := p5, ds_key_version := p6, ds_max_request_lifetime_slots := p7,
        ds_authority_keypair_path := p8\<rparr>) dir d3 = (Ok (), d')"
    using assms(1)
    by (clarsimp simp: cmd_initialize_def Let_def nbind_Ok nlift_Ok command_Ok split_paired_Ex simp del: nlift_eq)
  have same: "dk_files d1 = dk_files d" using loads(1,2) only_reads_files unfolding only_reads_def by metis
  let ?ck = "derive_config ?sd mint"
  let ?ix = "initialize_ix ?sd (ho_pubkey (cl_host cl) authority) mint ?ck (ho_pubkey (cl_host cl) operator) ph lifetime"
  have program: "ix_program_id ?ix = PROGRAM_ID" by (simp add: initialize_ix_def program_ix_def)
  obtain env L L' where ran: "process_instruction (sd_runtime ?sd) env L ?ix = Ok L'" "ledger_evolves L' (ch_ledger (chain n'))"
    by (rule sent_ran [OF assms(3) sent program assms(4)])
  obtain c0 where c0: "L' ?ck = Some (ConfigAccount c0)" "cfg_params_hash c0 = ph"
      "cfg_operator c0 = ho_pubkey (cl_host cl) operator" "cfg_operator_epoch c0 = 1"
    using initialize_writes [OF anchor ran(1)] by blast
  obtain c where c: "ch_ledger (chain n') ?ck = Some (ConfigAccount c)" "config_evolves c0 c"
    using ledger_evolvesD(1) [OF ran(2) c0(1)] by blast
  obtain t where t: "cj_write_state (cl_json cl) (st0\<lparr>ds_rpc_url := Some url, ds_program_id := p1, ds_mint := p2,
        ds_config := Some (sd_address_to_string ?sd ?ck), ds_authority := p3, ds_operator := p4,
        ds_params_hash := p5, ds_key_version := p6, ds_max_request_lifetime_slots := p7,
        ds_authority_keypair_path := p8\<rparr>) = Ok t" "dk_files d' = (dk_files d3)(state_path dir \<mapsto> t)"
    using save_state_files [OF saved] by blast
  have "dk_files d (dp_params (data_paths dir)) = Some b" "dk_files d2 = dk_files d"
    using fs_read_Ok [OF loads(3)] same by simp_all
  then show thesis
    using c0(2-4) c(2) by (intro that [OF _ params operator _ c(1) _ _ t(1)]) (simp_all add: config_evolves_def t(2))
qed

section \<open>The configuration is that of the directory\<close>

text \<open>
  C12: \<open>initialize\<close> publishes what \<open>setup\<close> made. Let \<open>setup\<close> succeed and, with the operator's key and
  the parameters still in place, \<open>initialize\<close>. Then the address that the state file records holds
  a configuration that names the hash of the generated evaluation key and, until the authority
  rotates it, the public key of the generated operator. So the program asks for signatures of the
  key that the worker signs with, on requests for the evaluation key that the worker holds.
\<close>

theorem initialize_publishes_setup:
  fixes lb :: "('ck, 'sk, 'csk, 'ct, 'cb, 'kp, 'tx, 'svm) Lab" and cl :: "('kp, 'n) Cli"
  assumes "hex_law (lb_crates lb)" and "params_law (lb_crates lb) (lb_json lb) ph" and "keypair_law (lb_host lb) (lb_keys lb) (lb_json lb)"
    and "sdk_law (cl_sdk cl)" and "\<And>st t. cj_write_state (lb_json lb) st = Ok t \<Longrightarrow> cj_read_state (lb_json lb) t = Ok st"
    and "cl_crates cl = lb_crates lb" and "cl_json cl = lb_json lb" and "cl_host cl = lb_host lb"
    and "\<And>url. program_world (cl_sdk cl) (cl_world cl url) chain" and "reachable (sd_runtime (cl_sdk cl)) (chain n2)"
    and "en_setup en = (g1, g2, g3)" and "hash_compressed_server_key (lb_crates lb) (lb_tfhe lb)
      (tf_compressed_key (lb_tfhe lb) g2 (fst (tf_generate_keys (lb_tfhe lb) g1))) = Ok ph"
    and "cmd_setup lb en dir d0 = (Ok u, d1)" and "cmd_initialize cl generated dir args (d2, n2) = (Ok u, (d3, n3))"
    and "dk_files d2 (dp_operator (data_paths dir)) = dk_files d1 (dp_operator (data_paths dir))"
    and "dk_files d2 (dp_params (data_paths dir)) = dk_files d1 (dp_params (data_paths dir))"
  shows "\<exists>ck c st t. dk_files d3 (state_path dir) = Some t \<and> cj_read_state (lb_json lb) t = Ok st \<and>
    ds_config st = Some (sd_address_to_string (cl_sdk cl) ck) \<and> ch_ledger (chain n3) ck = Some (ConfigAccount c) \<and>
    cfg_params_hash c = ph \<and>
    (cfg_operator_epoch c = 1 \<longrightarrow> cfg_operator c = ho_pubkey (lb_host lb) (ke_new (lb_keys lb) g3))"
proof -
  obtain ot pt where made: "cj_write_bytes (lb_json lb) (ke_to_bytes (lb_keys lb) (ke_new (lb_keys lb) g3)) = Ok ot"
    "dk_files d1 (dp_operator (data_paths dir)) = Some ot"
    "cj_write_params (lb_json lb) (lab_params (lb_crates lb) ph) = Ok pt" "dk_files d1 (dp_params (data_paths dir)) = Some pt"
    by (rule setup_writes [OF assms(13,11,12)])
  obtain ck c b params ph' da db operator st t where run: "dk_files d2 (dp_params (data_paths dir)) = Some b"
    "cj_read_params (cl_json cl) b = Ok params" "parse_hex32 (cl_crates cl) (pm_params_hash params) = Ok ph'"
    "read_operator_file (cl_host cl) (cl_json cl) (dp_operator (data_paths dir)) da = (Ok operator, db)" "dk_files da = dk_files d2"
    "ch_ledger (chain n3) ck = Some (ConfigAccount c)" "cfg_params_hash c = ph'"
    "cfg_operator_epoch c = 1 \<longrightarrow> cfg_operator c = ho_pubkey (cl_host cl) operator"
    "cj_write_state (cl_json cl) st = Ok t" "dk_files d3 (state_path dir) = Some t"
    "ds_config st = Some (sd_address_to_string (cl_sdk cl) ck)"
    by (rule initialized [OF assms(14,4,9,10)])
  have "ph' = ph"
    using run(1-3) made(3,4) assms(2,6,7,16) lab_params_hash [OF assms(1)] by (auto simp: params_law_def)
  moreover have "operator = ke_new (lb_keys lb) g3"
    using operator_read_back [OF assms(3) made(1) _ run(4) [unfolded assms(7,8)]] made(2) assms(15) run(5) by simp
  ultimately show ?thesis
    using run(6-8,10,11) assms(5) [OF run(9) [unfolded assms(7)]] assms(8)
    by (intro exI [of _ ck] exI [of _ c] exI [of _ st] exI [of _ t]) simp
qed

section \<open>A set-up that is published\<close>

definition boot_state :: DevnetState where
  "boot_state = default_state\<lparr>ds_rpc_url := Some DEFAULT_DEVNET_RPC_URL, ds_program_id := Some (lab_text PROGRAM_ID),
     ds_mint := Some (lab_text lab_mint), ds_config := Some (lab_text lab_config),
     ds_authority := Some (lab_text lab_authority), ds_operator := Some (lab_text lab_operator),
     ds_params_hash := Some (hex_text (replicate 32 8)), ds_key_version := Some 1,
     ds_max_request_lifetime_slots := Some 1000, ds_authority_keypair_path := Some ''key''\<rparr>"

definition boot_json :: CliJson where
  "boot_json = session_json\<lparr>cj_read_state := (\<lambda>t. Ok (if t = [14] then boot_state else default_state)),
     cj_write_state := (\<lambda>st. if st = boot_state then Ok [14] else Err ''state'')\<rparr>"

definition boot_lab :: "(unit, unit, unit, u64, bool, pubkey, Instruction list, ledger) Lab" where
  "boot_lab = demo_lab\<lparr>lb_json := boot_json\<rparr>"

definition boot_ledger :: "nat \<Rightarrow> ledger" where
  "boot_ledger phase = (if phase = 0 then [0 \<mapsto> ForeignAccount]
     else [0 \<mapsto> ForeignAccount, lab_config \<mapsto> ConfigAccount demo_config0])"

abbreviation boot_ix :: Instruction where
  "boot_ix \<equiv> initialize_ix lab_sdk lab_authority lab_mint lab_config lab_operator (fill 8) 1000"

definition boot_world :: "(pubkey, nat) World" where
  "boot_world =
    \<lparr>wo_client = Ok (), wo_rpc = (\<lambda>phase s. if phase \<noteq> 0 \<and> s = lab_text lab_config
         then Ok (Some \<lparr>fa_data = [4], fa_owner = lab_text PROGRAM_ID, fa_lamports = 1\<rparr>) else Ok None),
     wo_slot = (\<lambda>_. Ok 6),
     wo_send = (\<lambda>payer ixs phase. if phase = 0 \<and> ixs = [boot_ix] then (Ok ''sig'', 1) else (Err (RpcFailed UnexpectedResult), phase)),
     wo_api_key = None\<rparr>"

definition boot_sdk :: Sdk where
  "boot_sdk = lab_sdk\<lparr>sd_decode_config := (\<lambda>d. if d = [4] then Some demo_config0 else None)\<rparr>"

definition boot_cli :: "(pubkey, nat) Cli" where
  "boot_cli = \<lparr>cl_sdk = boot_sdk, cl_crates = tail_crates, cl_host = lab_host, cl_json = boot_json,
     cl_home = None, cl_world = (\<lambda>_. boot_world)\<rparr>"

definition boot_chain :: "nat \<Rightarrow> Chain" where
  "boot_chain phase = \<lparr>ch_slot = 0, ch_ledger = boot_ledger phase\<rparr>"

definition boot_args :: "string list" where
  "boot_args = [''--authority'', ''key'', ''--max-request-lifetime-slots'', ''1000'']"

lemma boot_sdk_simps [simp]:
  "sd_runtime boot_sdk = client_runtime" "sd_address_to_string boot_sdk = lab_text"
  "sd_decode_config boot_sdk [4] = Some demo_config0" "initialize_ix boot_sdk = initialize_ix lab_sdk"
  "parse_address boot_sdk = parse_address lab_sdk" "derive_config boot_sdk lab_mint = lab_config"
  by (auto simp: boot_sdk_def lab_sdk_simps initialize_ix_def program_ix_def fun_eq_iff parse_address_def derive_config_def
      simp flip: config_seeds_def)

lemma boot_sdk_law: "sdk_law boot_sdk"
  using lab_sdk_law unfolding sdk_law_def
  by (simp add: boot_sdk_def anchor_law_def address_law_def ed25519_builder_law_def)

lemma boot_initializes: "process_instruction client_runtime (at_slot 0) (boot_ledger 0) boot_ix = Ok (boot_ledger 1)"
  using demo_initialize
  by (simp add: initialize_ix_def run_built [OF lab_anchor, unfolded lab_sdk_runtime]
      process_built [OF lab_anchor, unfolded lab_sdk_runtime] boot_ledger_def)

lemma boot_program_world: "program_world boot_sdk boot_world boot_chain"
  unfolding program_world_def
proof (intro conjI allI impI)
  fix n show "rpc_shows boot_sdk (wo_rpc boot_world n) (ch_ledger (boot_chain n))"
    using boot_sdk_law
    by (auto simp: sdk_law_def address_law_def boot_chain_def boot_ledger_def boot_world_def rpc_shows_def shows_as_def
        split: if_splits)
next
  fix payer ix n sig n'
  assume "wo_send boot_world payer [ix] n = (Ok sig, n')"
  then have "n = 0" "n' = 1" "ix = boot_ix" by (auto simp: boot_world_def split: if_splits)
  then show "\<exists>now env L'. leads_to (sd_runtime boot_sdk) (boot_chain n) now \<and> env_slot env = ch_slot now \<and>
      process_instruction (sd_runtime boot_sdk) env (ch_ledger now) ix = Ok L' \<and>
      leads_to (sd_runtime boot_sdk) (now\<lparr>ch_ledger := L'\<rparr>) (boot_chain n')"
    by (intro exI [of _ "boot_chain 0"] exI [of _ "at_slot 0"] exI [of _ "boot_ledger 1"])
      (simp add: boot_chain_def boot_initializes [unfolded One_nat_def])
qed

lemma boot_flags:
  "flag_or boot_args ''--rpc-url'' url = url" "signer_path None boot_args ''--authority'' cached = ''key''"
  "optional_address_flag sd boot_args ''--mint'' = Ok None"
  "flag_u64_or boot_args ''--max-request-lifetime-slots'' v = Ok 1000"
proof -
  have "parse_u64 ''1000'' = Some 1000" by code_simp
  then show "flag_or boot_args ''--rpc-url'' url = url" "signer_path None boot_args ''--authority'' cached = ''key''"
    "optional_address_flag sd boot_args ''--mint'' = Ok None"
    "flag_u64_or boot_args ''--max-request-lifetime-slots'' v = Ok 1000"
    by (simp_all add: boot_args_def flag_or_def signer_path_def expand_tilde_with_home_def optional_address_flag_def
        flag_u64_or_def ok_or_def)
qed

lemma boot_json_simps:
  "cj_read_bytes boot_json = Ok" "cj_read_params boot_json t = Ok \<lparr>pm_params_hash = hex_text (replicate 32 8), pm_key_version = 1\<rparr>"
  "cj_read_state boot_json [10] = Ok default_state" "cj_write_state boot_json boot_state = Ok [14]"
  "cj_write_state boot_json st = Ok t \<Longrightarrow> cj_read_state boot_json t = Ok st"
  by (auto simp: boot_json_def session_json_simps split: if_splits)

lemma boot_run:
  assumes "dk_faults d = []" and "dk_files d (state_path ''lab'') = Some [10]" and "dk_files d ''key'' = Some (raw lab_authority)"
    and "dk_files d (dp_operator (data_paths ''lab'')) = Some (raw lab_operator)" and "dk_files d (dp_params (data_paths ''lab'')) = Some pb"
  shows "cmd_initialize boot_cli lab_mint ''lab'' boot_args (d, 0)
    = (Ok (), (d\<lparr>dk_files := (dk_files d)(state_path ''lab'' \<mapsto> [14])\<rparr>, 1))"
proof -
  note read = fs_read_now [OF assms(1)]
  have loads: "load_state boot_json ''lab'' d = (Ok default_state, d)"
      "read_keypair_file lab_host boot_json ''key'' d = (Ok lab_authority, d)"
      "read_operator_file lab_host boot_json (dp_operator (data_paths ''lab'')) d = (Ok lab_operator, d)"
      "fs_read (dp_params (data_paths ''lab'')) d = (Ok pb, d)"
    using assms(2) read [OF assms(2)] read [OF assms(3)] read [OF assms(4)] read [OF assms(5)]
    by (simp_all add: load_state_def read_keypair_file_def read_operator_file_def Let_def io_def wmap_err_def nbind_def nlift_def
        text_err_def fs_exists_def boot_json_simps lab_host_simps)
  have saved: "save_state boot_json boot_state ''lab'' d = (Ok (), d\<lparr>dk_files := (dk_files d)(state_path ''lab'' \<mapsto> [14])\<rparr>)"
    using assms(1)
    by (simp add: save_state_def Let_def io_def wmap_err_def nbind_def nlift_def text_err_def fs_write_def fs_create_dir_all_def
        fs_op_def boot_json_simps)
  have state: "default_state\<lparr>ds_rpc_url := Some DEFAULT_DEVNET_RPC_URL, ds_program_id := Some (lab_text PROGRAM_ID),
     ds_mint := Some (lab_text lab_mint), ds_config := Some (lab_text lab_config),
     ds_authority := Some (lab_text lab_authority), ds_operator := Some (lab_text lab_operator),
     ds_params_hash := Some (hex_text (replicate 32 8)), ds_key_version := Some 1,
     ds_max_request_lifetime_slots := Some 1000, ds_authority_keypair_path := Some ''key''\<rparr> = boot_state"
    by (simp add: boot_state_def)
  have world: "wo_client boot_world = Ok ()" "account_exists boot_sdk (wo_rpc boot_world 0) lab_config = Ok False"
      "wo_send boot_world payer [boot_ix] 0 = (Ok ''sig'', 1)" for payer
    by (simp_all add: boot_world_def account_exists_def)
  have url: "rpc_url default_state = DEFAULT_DEVNET_RPC_URL" by (simp add: rpc_url_def default_state_def)
  show ?thesis
    by (simp add: cmd_initialize_def boot_cli_def Let_def nbind_def nlift_def on_disk_def on_world_def reading_def sending_def
        refuse_if_def wmap_err_def text_err_def loads boot_flags world url boot_json_simps lab_hex8 lab_host_simps
        state [simplified] saved)
qed

lemma boot_laws:
  "hex_law (lb_crates boot_lab)" "params_law (lb_crates boot_lab) (lb_json boot_lab) (fill 8)"
  "keypair_law (lb_host boot_lab) (lb_keys boot_lab) (lb_json boot_lab)"
  "hash_compressed_server_key (lb_crates boot_lab) (lb_tfhe boot_lab)
     (tf_compressed_key (lb_tfhe boot_lab) 0 (fst (tf_generate_keys (lb_tfhe boot_lab) 0))) = Ok (fill 8)"
  "lb_json boot_lab = boot_json" "lb_host boot_lab = lab_host" "lb_crates boot_lab = tail_crates"
  "ke_new (lb_keys boot_lab) 3 = lab_operator" "cmd_setup boot_lab en dir d = cmd_setup demo_lab en dir d"
  using session_laws
  by (simp_all add: boot_lab_def boot_json_def params_law_def keypair_law_def session_json_simps lab_host_simps cmd_setup_def)
    (simp_all add: demo_lab_def lab_host_simps setup_lab_def)

theorem initialize_publishes_setup_witness:
  "\<exists>d d'. cmd_setup boot_lab session_entropy ''lab'' demo_disk = (Ok (), d) \<and>
     cmd_initialize boot_cli lab_mint ''lab'' boot_args
       (d\<lparr>dk_files := (dk_files d)(state_path ''lab'' \<mapsto> [10], ''key'' \<mapsto> raw lab_authority)\<rparr>, 0) = (Ok (), (d', 1)) \<and>
     (\<exists>ck c. ds_config boot_state = Some (lab_text ck) \<and> boot_ledger 1 ck = Some (ConfigAccount c) \<and>
       cfg_params_hash c = fill 8 \<and> cfg_operator c = lab_operator)"
proof -
  obtain d where d: "cmd_setup boot_lab session_entropy ''lab'' demo_disk = (Ok (), d)" "dk_faults d = []"
      "dk_files d (dp_operator (data_paths ''lab'')) = Some (raw lab_operator)"
    using session_setup by (auto simp: boot_laws(9) lab_data_paths)
  obtain pb where pb: "dk_files d (dp_params (data_paths ''lab'')) = Some pb"
    using setup_sets_up [OF d(1) [unfolded boot_laws(9)] session_generated session_laws(6,3,4)] by (auto simp: set_up_def)
  let ?f = "(dk_files d)(state_path ''lab'' \<mapsto> [10], ''key'' \<mapsto> raw lab_authority)"
  have run: "cmd_initialize boot_cli lab_mint ''lab'' boot_args (d\<lparr>dk_files := ?f\<rparr>, 0)
      = (Ok (), (d\<lparr>dk_files := ?f(state_path ''lab'' \<mapsto> [14])\<rparr>, 1))"
    using boot_run [of "d\<lparr>dk_files := ?f\<rparr>" pb] d(2,3) pb by (simp add: session_paths lab_data_paths)
  have cli: "cl_sdk boot_cli = boot_sdk" "cl_crates boot_cli = tail_crates" "cl_json boot_cli = boot_json" "cl_host boot_cli = lab_host"
      "\<And>url. cl_world boot_cli url = boot_world"
    by (simp_all add: boot_cli_def)
  have "reachable client_runtime (boot_chain 0)"
    using reachable.Genesis by (simp add: boot_chain_def boot_ledger_def genesis_def del: fun_upd_apply)
  then have "\<exists>ck c st t. (?f(state_path ''lab'' \<mapsto> [14])) (state_path ''lab'') = Some t \<and> cj_read_state (lb_json boot_lab) t = Ok st \<and>
      ds_config st = Some (sd_address_to_string (cl_sdk boot_cli) ck) \<and> ch_ledger (boot_chain 1) ck = Some (ConfigAccount c) \<and>
      cfg_params_hash c = fill 8 \<and>
      (cfg_operator_epoch c = 1 \<longrightarrow> cfg_operator c = ho_pubkey (lb_host boot_lab) (ke_new (lb_keys boot_lab) 3))"
    using initialize_publishes_setup [OF boot_laws(1-3) _ _ _ _ _ _ _ session_generated(1) boot_laws(4) d(1) run,
        where chain = boot_chain] boot_program_world boot_sdk_law
    by (simp add: cli boot_laws(5-8) boot_json_simps(5) session_paths lab_data_paths)
  then obtain ck c where "ds_config boot_state = Some (lab_text ck)" "boot_ledger 1 ck = Some (ConfigAccount c)"
      "cfg_params_hash c = fill 8" "cfg_operator_epoch c = 1 \<longrightarrow> cfg_operator c = lab_operator"
    by (auto simp: cli boot_laws(5-8) boot_json_def boot_chain_def lab_host_simps)
  moreover from this(2) have "cfg_operator_epoch c = 1"
    by (auto simp: boot_ledger_def demo_config_def split: if_splits)
  ultimately show ?thesis using d(1) run by blast
qed

end
