(* ===== verification/Recovery.thy ===== *)
theory Recovery
  imports DevnetSession
begin

text \<open>
  A request file that is lost or stale is recovered from the chain: \<open>devnet fetch-request\<close> writes
  what \<open>devnet submit\<close> wrote (\<open>crates/client/src/devnet/commands.rs\<close>), whatever has become of
  the request on chain in the meantime.
\<close>

section \<open>A request keeps its binding\<close>

lemma request_binding_evolves:
  "config_evolves c d \<Longrightarrow> request_evolves r r' \<Longrightarrow> request_binding d r' k = request_binding c r k"
  using request_evolves_fields by (simp add: request_binding_def config_evolves_def)

text \<open>So what the client makes of a request at two moments of one history is the same.\<close>

lemma fetched_later:
  assumes "reachable (sd_runtime sd) ch" and "leads_to (sd_runtime sd) ch ch'" and "ch_ledger ch rk = Some (RequestAccount r)"
    and "rpc_shows sd rpc (ch_ledger ch)" and "rpc_shows sd rpc' (ch_ledger ch')" and "fetch_and_verify_request sd rpc rk = Ok v"
  obtains v' where "fetch_and_verify_request sd rpc' rk = Ok v'" "vr_binding v' = vr_binding v"
proof -
  have later: "reachable (sd_runtime sd) ch'" using assms(2,1) by (rule reachable_leads_to)
  note evolves = ledger_evolvesD [OF leads_to_evolves [OF assms(2,1)]]
  obtain r' where r': "ch_ledger ch' rk = Some (RequestAccount r')" "request_evolves r r'"
    using evolves(3) [OF assms(3)] by blast
  obtain c where c: "ch_ledger ch (req_config r) = Some (ConfigAccount c)" "vr_binding v = request_binding c r rk"
    by (rule fetch_over_Ok [OF assms(1,3) reads_at_once [OF assms(4)] assms(6)]) (use that in simp)
  obtain d where d: "ch_ledger ch' (req_config r) = Some (ConfigAccount d)" "config_evolves c d"
    using evolves(1) [OF c(1)] by blast
  have config: "req_config r' = req_config r" using request_evolves_fields [OF r'(2)] by simp
  obtain v' where v': "fetch_and_verify_request sd rpc' rk = Ok v'" "vr_binding v' = request_binding d r' rk"
    by (rule fetch_over [OF later r'(1) reads_at_once [OF assms(5)]]) (use r'(1) config d(1) that in auto)
  then show thesis using that c(2) request_binding_evolves [OF d(2) r'(2)] by simp
qed

section \<open>What submit leaves behind\<close>

lemma submit_opens:
  assumes "anchor_law sd" and "process_instruction (sd_runtime sd) env L (submit_ix sd owner ck ak rk amount version nonce) = Ok L'"
  shows "\<exists>r. L' rk = Some (RequestAccount r)"
  using assms(2)
  by (auto simp: submit_ix_def process_built [OF assms(1)] and_then_eq_Ok submit_Ok Submit_accounts_def
      Submit_metas_def load_defs submitted_def Let_def)

lemma submit_leaves:
  fixes cl :: "('kp, 'n) Cli"
  assumes "cmd_submit cl dir args (d, n) = (Ok u, (d', n'))" and "sdk_law (cl_sdk cl)"
    and "\<And>url. program_world (cl_sdk cl) (cl_world cl url) chain" and "reachable (sd_runtime (cl_sdk cl)) (chain n)"
  obtains url rk r v st bytes t where "wo_client (cl_world cl url) = Ok ()"
    "ch_ledger (chain n') rk = Some (RequestAccount r)" "reachable (sd_runtime (cl_sdk cl)) (chain n')"
    "fetch_and_verify_request (cl_sdk cl) (wo_rpc (cl_world cl url) n') rk = Ok v"
    "cj_write_request (cl_json cl) (request_to_file (cl_crates cl) (vr_binding v)) = Ok bytes"
    "rpc_url st = url" "ds_latest_request st = Some (sd_address_to_string (cl_sdk cl) rk)"
    "cj_write_state (cl_json cl) st = Ok t" "dk_files d' (dp_request (data_paths dir)) = Some bytes"
    "dk_files d' (state_path dir) = Some t"
proof -
  let ?sd = "cl_sdk cl"
  obtain st0 url ow op ko owner ck ak version nonce amount sig v d1 d2 where
    client: "wo_client (cl_world cl url) = Ok ()"
    and sent: "wo_send (cl_world cl url) owner [submit_ix ?sd (ho_pubkey (cl_host cl) owner) ck ak
        (derive_request ?sd ak nonce) amount version nonce] n = (Ok sig, n')"
    and v: "fetch_and_verify_request ?sd (wo_rpc (cl_world cl url) n') (derive_request ?sd ak nonce) = Ok v"
    and files: "write_request_file (cl_crates cl) (cl_json cl) (dp_request (data_paths dir)) (vr_binding v) d1 = (Ok (), d2)"
      "save_state (cl_json cl) (st0\<lparr>ds_rpc_url := Some url, ds_owner := ow, ds_owner_keypair_path := op,
         ds_latest_request := Some (sd_address_to_string ?sd (derive_request ?sd ak nonce)),
         ds_latest_request_nonce := ko\<rparr>) dir d2 = (Ok (), d')"
    using assms(1)
    by (clarsimp simp: cmd_submit_def Let_def nbind_Ok nlift_Ok command_Ok split_paired_Ex simp del: nlift_eq)
  let ?rk = "derive_request ?sd ak nonce"
  have program: "ix_program_id (submit_ix ?sd x ck ak ?rk amount version nonce) = PROGRAM_ID" for x
    by (simp add: submit_ix_def program_ix_def)
  obtain env L L' where ran: "process_instruction (sd_runtime ?sd) env L
        (submit_ix ?sd (ho_pubkey (cl_host cl) owner) ck ak ?rk amount version nonce) = Ok L'"
      "ledger_evolves L' (ch_ledger (chain n'))" "reachable (sd_runtime ?sd) (chain n')"
    by (rule sent_ran [OF assms(3) sent program assms(4)])
  obtain r where "ch_ledger (chain n') ?rk = Some (RequestAccount r)"
    using submit_opens [OF _ ran(1)] ledger_evolvesD(3) [OF ran(2)] assms(2) unfolding sdk_law_def by blast
  moreover obtain bytes where "cj_write_request (cl_json cl) (request_to_file (cl_crates cl) (vr_binding v)) = Ok bytes"
      "dk_files d2 (dp_request (data_paths dir)) = Some bytes"
    using write_request_file_files [OF files(1)] by auto
  moreover obtain t where "cj_write_state (cl_json cl) (st0\<lparr>ds_rpc_url := Some url, ds_owner := ow, ds_owner_keypair_path := op,
         ds_latest_request := Some (sd_address_to_string ?sd ?rk), ds_latest_request_nonce := ko\<rparr>) = Ok t"
      "dk_files d' = (dk_files d2)(state_path dir \<mapsto> t)"
    using save_state_files [OF files(2)] by blast
  ultimately show thesis
    using data_files_differ(1) [of dir] by (intro that [OF client _ ran(3) v]) (simp_all add: rpc_url_def)
qed

section \<open>fetch-request\<close>

lemma fetch_command_writes:
  assumes "dk_faults d = []" and "dk_files d (state_path dir) = Some t" and "cj_read_state (cl_json cl) t = Ok st"
    and "flag_lookup args ''--request'' = None" and "flag_lookup args ''--rpc-url'' = None"
    and "wo_client (cl_world cl (rpc_url st)) = Ok ()" and "recorded (cl_sdk cl) (ds_latest_request st) (ArgsFailed NoRequestKnown) = Ok rk"
    and "fetch_and_verify_request (cl_sdk cl) (wo_rpc (cl_world cl (rpc_url st)) n) rk = Ok v"
    and "cj_write_request (cl_json cl) (request_to_file (cl_crates cl) (vr_binding v)) = Ok bytes"
  shows "cmd_fetch_request cl dir args (d, n)
    = (Ok (), (d\<lparr>dk_files := (dk_files d)(dp_request (data_paths dir) \<mapsto> bytes)\<rparr>, n))"
proof -
  have read: "load_state (cl_json cl) dir d = (Ok st, d)"
    using assms(1-3) fs_read_now [OF assms(1,2)]
    by (simp add: load_state_def Let_def io_def wmap_err_def nbind_def nlift_def text_err_def fs_exists_def)
  have "write_request_file (cl_crates cl) (cl_json cl) p (vr_binding v) d
      = (Ok (), d\<lparr>dk_files := (dk_files d)(p \<mapsto> bytes)\<rparr>)" for p
    using assms(1,9) by (simp add: write_request_file_def nbind_def text_err_def nlift_def io_def wmap_err_def fs_write_def fs_op_def)
  then show ?thesis
    using assms(4-8) read
    by (simp add: cmd_fetch_request_def Let_def nbind_def nlift_def on_disk_def reading_def flag_or_def optional_address_flag_def)
qed

text \<open>
  C17: \<open>fetch-request\<close> without flags recovers the request file. Let \<open>submit\<close> have succeeded and
  the chain go on in whatever way: the request may be finalized, cancelled or expired, the operator
  rotated and the key version set. With the state file as \<open>submit\<close> left it and whatever there is of
  the request file, the command succeeds on a disk without faults, sends nothing, and makes the
  request file what \<open>submit\<close> wrote, byte for byte; it changes no other file.
\<close>

theorem fetch_request_recovers:
  fixes cl :: "('kp, 'n) Cli"
  assumes "sdk_law (cl_sdk cl)" and "\<And>st t. cj_write_state (cl_json cl) st = Ok t \<Longrightarrow> cj_read_state (cl_json cl) t = Ok st"
    and "\<And>url. program_world (cl_sdk cl) (cl_world cl url) chain" and "reachable (sd_runtime (cl_sdk cl)) (chain n1)"
    and "cmd_submit cl dir args (d1, n1) = (Ok u, (d2, n2))" and "leads_to (sd_runtime (cl_sdk cl)) (chain n2) (chain n3)"
    and "dk_files d3 (state_path dir) = dk_files d2 (state_path dir)" and "dk_faults d3 = []"
    and "flag_lookup args' ''--request'' = None" and "flag_lookup args' ''--rpc-url'' = None"
  shows "cmd_fetch_request cl dir args' (d3, n3) =
    (Ok (), (d3\<lparr>dk_files := (dk_files d3)(dp_request (data_paths dir) := dk_files d2 (dp_request (data_paths dir)))\<rparr>, n3))"
proof -
  obtain url rk r v st bytes t where left: "wo_client (cl_world cl url) = Ok ()"
    "ch_ledger (chain n2) rk = Some (RequestAccount r)" "reachable (sd_runtime (cl_sdk cl)) (chain n2)"
    "fetch_and_verify_request (cl_sdk cl) (wo_rpc (cl_world cl url) n2) rk = Ok v"
    "cj_write_request (cl_json cl) (request_to_file (cl_crates cl) (vr_binding v)) = Ok bytes"
    "rpc_url st = url" "ds_latest_request st = Some (sd_address_to_string (cl_sdk cl) rk)"
    "cj_write_state (cl_json cl) st = Ok t" "dk_files d2 (dp_request (data_paths dir)) = Some bytes"
    "dk_files d2 (state_path dir) = Some t"
    by (rule submit_leaves [OF assms(5,1,3,4)])
  have shown: "rpc_shows (cl_sdk cl) (wo_rpc (cl_world cl url) n) (ch_ledger (chain n))" for n
    using assms(3) by (simp add: program_world_def)
  obtain v' where v': "fetch_and_verify_request (cl_sdk cl) (wo_rpc (cl_world cl url) n3) rk = Ok v'" "vr_binding v' = vr_binding v"
    by (rule fetched_later [OF left(3) assms(6) left(2) shown shown left(4)])
  have "recorded (cl_sdk cl) (ds_latest_request st) e = Ok rk" for e
    using assms(1) left(7) by (simp add: recorded_def ok_or_def parse_address_def sdk_law_def address_law_def)
  then show ?thesis
    using fetch_command_writes [OF assms(8) _ assms(2) [OF left(8)] assms(9,10), where rk = rk and v = v' and n = n3 and dir = dir]
      assms(7) left(1,5,6,9,10) v' by simp
qed

text \<open>The pending request of the session is submitted, finalized on chain, and fetched again, to a
  directory that has lost everything but the state file.\<close>

theorem fetch_request_recovers_witness:
  "\<exists>d. cmd_submit session_cli ''lab'' session_args (session_disk, 1) = (Ok (), (d, 2)) \<and>
     (let d' = \<lparr>dk_files = [state_path ''lab'' \<mapsto> [12]], dk_faults = []\<rparr> in
       cmd_fetch_request session_cli ''lab'' [] (d', 3)
         = (Ok (), (d'\<lparr>dk_files := [state_path ''lab'' \<mapsto> [12], dp_request (data_paths ''lab'') \<mapsto> [1]]\<rparr>, 3)))"
proof -
  let ?d = "session_disk\<lparr>dk_files := (dk_files session_disk)(dp_request (data_paths ''lab'') \<mapsto> [1], state_path ''lab'' \<mapsto> [12])\<rparr>"
  let ?d' = "\<lparr>dk_files = [state_path ''lab'' \<mapsto> [12]], dk_faults = []\<rparr>"
  have submit: "cmd_submit session_cli ''lab'' session_args (session_disk, 1) = (Ok (), (?d, 2))"
    by (rule session_submit) (simp_all add: session_disk_def session_paths)
  have "wo_send session_world 0 [session_create_ix] 0 = (Ok ''sig'', 1)" by simp
  moreover have "ix_program_id session_create_ix = PROGRAM_ID"
    by (simp add: create_account_ix_def program_ix_def)
  ultimately have one: "reachable client_runtime (session_chain 1)"
    by (rule sent_ran [OF session_program_world]) (use session_history(1) in simp_all)
  have "cmd_fetch_request session_cli ''lab'' [] (?d', 3) = (Ok (), (?d'\<lparr>dk_files :=
      (dk_files ?d')(dp_request (data_paths ''lab'') := dk_files ?d (dp_request (data_paths ''lab'')))\<rparr>, 3))"
    by (rule fetch_request_recovers [OF _ _ _ _ submit, where chain = session_chain])
      (use lab_sdk_law session_program_world session_history(2) session_json_law(3) one in \<open>simp_all add: session_paths\<close>)
  then show ?thesis using submit by (intro exI [of _ ?d]) (simp add: session_paths)
qed

end
