(* ===== verification/KeySeparation.thy ===== *)
theory KeySeparation
  imports LabScenario
begin

text \<open>
  Which command works without which secret. A command that commutes with replacing the contents of
  a file neither reads nor writes it: what it returns, what it sends and what it leaves in every
  other file do not depend on what the file holds. This gives the separation of roles: whoever
  evaluates needs no client key, whoever delivers a result needs no operator key.
\<close>

section \<open>Computations that ignore a file\<close>

definition with_file :: "string \<Rightarrow> u8 list option \<Rightarrow> Disk \<Rightarrow> Disk" where
  "with_file p v d = d\<lparr>dk_files := (dk_files d)(p := v)\<rparr>"

definition commutes :: "('s \<Rightarrow> 's) \<Rightarrow> ('s \<Rightarrow> 'a \<times> 's) \<Rightarrow> bool" where
  "commutes g f \<longleftrightarrow> (\<forall>s. f (g s) = map_prod id g (f s))"

named_theorems ignores_intros \<open>computations that ignore a file\<close>

lemma commutesD: "commutes g f \<Longrightarrow> f (g s) = map_prod id g (f s)"
  by (simp add: commutes_def)

lemma cli_ignores:
  "commutes (apfst (with_file p v)) f \<Longrightarrow> f (with_file p v d, n) = map_prod id (apfst (with_file p v)) (f (d, n))"
  using commutesD [of "apfst (with_file p v)" f "(d, n)"] by simp

lemma commutes_nbind [ignores_intros]:
  "commutes g m \<Longrightarrow> (\<And>x. commutes g (f x)) \<Longrightarrow> commutes g (nbind m f)"
  by (auto simp: commutes_def nbind_def split: prod.splits sum.splits)

lemma commutes_wbind [ignores_intros]:
  "commutes g m \<Longrightarrow> (\<And>x. commutes g (f x)) \<Longrightarrow> commutes g (wbind m f)"
  by (auto simp: commutes_def wbind_def split: prod.splits sum.splits)

lemma commutes_lift [ignores_intros]:
  "commutes g (nlift r)" "commutes g' (wlift r')" "commutes g (text_err t)" "commutes g (refuse_if c e)"
  by (simp_all add: commutes_def nlift_def wlift_def text_err_def refuse_if_def)

lemma commutes_wmap_err [ignores_intros]:
  "commutes g m \<Longrightarrow> commutes g (wmap_err h m)"
  "commutes g m \<Longrightarrow> commutes g (io m)" "commutes g m \<Longrightarrow> commutes g (worker m)"
  by (auto simp: commutes_def wmap_err_def io_def worker_def split: prod.splits)

lemma commutes_case_prod [ignores_intros]:
  "(\<And>a b. commutes g (f a b)) \<Longrightarrow> commutes g (case x of (a, b) \<Rightarrow> f a b)"
  by (simp split: prod.splits)

lemma commutes_if [ignores_intros]: "commutes g f \<Longrightarrow> commutes g h \<Longrightarrow> commutes g (if c then f else h)"
  by simp

lemma commutes_fs [ignores_intros]:
  "p \<noteq> q \<Longrightarrow> commutes (with_file p v) (fs_read q)" "p \<noteq> q \<Longrightarrow> commutes (with_file p v) (fs_write q b)"
  "p \<noteq> q \<Longrightarrow> commutes (with_file p v) (fs_exists q)" "commutes (with_file p v) (fs_create_dir_all q')"
  "p \<noteq> q \<Longrightarrow> p \<noteq> r \<Longrightarrow> commutes (with_file p v) (fs_rename q r)"
  by (auto simp: commutes_def with_file_def fs_read_def fs_write_def fs_exists_def fs_create_dir_all_def fs_rename_def
      fs_op_def fun_upd_twist split: list.splits option.splits)

lemma commutes_cli [ignores_intros]:
  "commutes (with_file p v) m \<Longrightarrow> commutes (apfst (with_file p v)) (on_disk m)"
  "commutes (apfst (with_file p v)) (on_world w)" "commutes (apfst (with_file p v)) (sending wo payer ixs)"
  "commutes (apfst (with_file p v)) (reading wo f)" "commutes (apfst (with_file p v)) (chain_slot wo)"
  by (auto simp: commutes_def on_disk_def on_world_def sending_def reading_def chain_slot_def split: prod.splits)

section \<open>The store\<close>

text \<open>A file that is no entry of a store and no entry's temporary file.\<close>

definition foreign_to :: "Crates \<Rightarrow> BlobStore \<Rightarrow> string \<Rightarrow> bool" where
  "foreign_to cr store p \<longleftrightarrow> (\<forall>h path. path_for cr store h = Ok path \<longrightarrow> p \<noteq> path \<and> p \<noteq> tmp_of path)"

lemma outside_foreign: "\<not> in_store root p \<Longrightarrow> foreign_to cr (lab_blobs root) p"
  using store_paths by (fastforce simp: foreign_to_def in_store_def tmp_of_def)

lemma commutes_path_for:
  assumes "\<And>path. path_for cr store h = Ok path \<Longrightarrow> commutes (with_file p v) (f path)"
  shows "commutes (with_file p v) (wbind (wlift (path_for cr store h)) f)"
  using assms by (cases "path_for cr store h") (auto intro: ignores_intros)

lemma commutes_blobs [ignores_intros]:
  assumes "foreign_to cr store p"
  shows "commutes (with_file p v) (get cr store h)" and "commutes (with_file p v) (put cr store b)"
  unfolding get_def put_def Let_def
  by (intro commutes_path_for ignores_intros; use assms in \<open>simp add: foreign_to_def\<close>)+

lemma commutes_ciphertexts [ignores_intros]:
  assumes "foreign_to cr store p"
  shows "commutes (with_file p v) (load_u64 cr tf store h kv ph)"
    and "commutes (with_file p v) (store_bool cr tf store b kv ph)"
  unfolding load_u64_def store_bool_def by (intro ignores_intros assms)+

lemma commutes_process [ignores_intros]:
  assumes "foreign_to cr store p"
  shows "commutes (with_file p v) (process_request cr tf ho store request csk operator)"
  unfolding process_request_def Let_def by (intro ignores_intros assms)

lemma new_store_nbind:
  "nbind (worker (new_store root)) f = nbind (worker (fs_create_dir_all root)) (\<lambda>_. f \<lparr>bs_root = root\<rparr>)"
  "wbind (wmap_err h (new_store root)) g = wbind (wmap_err h (fs_create_dir_all root)) (\<lambda>_. g \<lparr>bs_root = root\<rparr>)"
  by (auto simp: new_store_def wbind_def nbind_def worker_def wmap_err_def wlift_def split: prod.splits sum.splits)

section \<open>Evaluation without the client key\<close>

lemma commutes_files [ignores_intros]:
  "p \<noteq> q \<Longrightarrow> commutes (with_file p v) (read_request_file cr cj q)"
  "p \<noteq> q \<Longrightarrow> commutes (with_file p v) (read_params_file cj q)"
  "p \<noteq> q \<Longrightarrow> commutes (with_file p v) (read_operator_file ho cj q)"
  "p \<noteq> q \<Longrightarrow> commutes (with_file p v) (read_keypair_file ho cj q)"
  "p \<noteq> q \<Longrightarrow> commutes (with_file p v) (write_request_file cr cj q binding)"
  "p \<noteq> q \<Longrightarrow> commutes (with_file p v) (load_server_material cr tf q ph)"
  "p \<noteq> state_path dir \<Longrightarrow> commutes (with_file p v) (load_state cj dir)"
  "p \<noteq> state_path dir \<Longrightarrow> commutes (with_file p v) (save_state cj st dir)"
  "p \<noteq> dp_result (data_paths dir) \<Longrightarrow> commutes (with_file p v) (load_parsed_result cr cj dir)"
  "p \<noteq> dp_request (data_paths dir) \<Longrightarrow> commutes (with_file p v) (load_cached_request cr cj dir)"
  unfolding read_request_file_def read_params_file_def read_operator_file_def read_keypair_file_def
    write_request_file_def load_server_material_def read_compressed_server_key_def load_state_def save_state_def
    load_parsed_result_def load_cached_request_def Let_def
  by (intro ignores_intros; assumption)+

lemma all_data_files_distinct:
  "distinct [dp_client_key (data_paths dir), dp_server_key (data_paths dir), dp_operator (data_paths dir),
     dp_params (data_paths dir), dp_request (data_paths dir), dp_result (data_paths dir), state_path dir]"
  by (simp add: data_paths_def state_path_def path_join_name)

text \<open>
  C10: evaluating needs no client key. Whatever the client key's file holds, or if there is none,
  \<open>evaluate\<close> returns the same hash or error, makes the same result file and the same store, and
  leaves that file as it is. So the answer is computed on ciphertexts alone.
\<close>

theorem evaluate_ignores_client_key:
  "cmd_evaluate lb dir (with_file (dp_client_key (data_paths dir)) v d) =
     map_prod id (with_file (dp_client_key (data_paths dir)) v) (cmd_evaluate lb dir d)"
proof (rule commutesD)
  have "foreign_to (lb_crates lb) (lab_blobs dir) (dp_client_key (data_paths dir))"
    by (intro outside_foreign data_files_outside)
  then show "commutes (with_file (dp_client_key (data_paths dir)) v) (cmd_evaluate lb dir)"
    unfolding cmd_evaluate_def Let_def new_store_nbind lab_blobs_def
    by (intro ignores_intros) (use all_data_files_distinct [of dir] in auto)
qed

text \<open>The worker's own command line, for a file that it is not pointed at.\<close>

lemma worker_ignores:
  assumes "\<And>name. name \<in> {''--request'', ''--server-key'', ''--operator'', ''--out''} \<Longrightarrow> flag args name \<noteq> Ok p"
    and "\<And>root. flag args ''--store'' = Ok root \<Longrightarrow> foreign_to cr \<lparr>bs_root = root\<rparr> p"
  shows "commutes (with_file p v) (evaluate cr tf ho js args)"
proof -
  have operator: "commutes (with_file p v) (read_operator ho q)" if "p \<noteq> q" for q
    unfolding read_operator_def
    by (intro ignores_intros) (use that in \<open>auto intro: ignores_intros split: option.splits\<close>)
  have parent: "commutes (with_file p v) (create_parent q)" for q
    unfolding create_parent_def by (auto intro: ignores_intros split: option.splits)
  have given: "commutes (with_file p v) (wbind (wlift r) f)"
    if "\<And>x. r = Ok x \<Longrightarrow> commutes (with_file p v) (f x)" for r :: "(string, string) result" and f :: "string \<Rightarrow> (unit, string) dio"
    using that by (cases r) (auto intro: ignores_intros)
  show ?thesis
    unfolding evaluate_def Let_def new_store_nbind read_compressed_server_key_def
    by (intro given ignores_intros operator parent) (use assms in auto)
qed

section \<open>Devnet commands without the keys of the lab\<close>

text \<open>The keypair files a devnet command may sign with.\<close>

definition signer_files :: "string option \<Rightarrow> string list \<Rightarrow> DevnetState \<Rightarrow> string set" where
  "signer_files home args st =
    {signer_path home args ''--authority'' (ds_authority_keypair_path st),
     signer_path home args ''--owner'' (ds_owner_keypair_path st),
     signer_path home args ''--payer'' (ds_payer_keypair_path st)}"

lemma state_first:
  assumes "p \<noteq> state_path dir"
    and "\<And>st. fst (load_state cj dir d) = Ok st \<Longrightarrow> commutes (apfst (with_file p v)) (f st)"
  shows "nbind (on_disk (load_state cj dir)) f (with_file p v d, n) =
    map_prod id (apfst (with_file p v)) (nbind (on_disk (load_state cj dir)) f (d, n))"
proof (cases "load_state cj dir d")
  case (Pair r d')
  have "load_state cj dir (with_file p v d) = (r, with_file p v d')"
    using commutes_files(7) [THEN commutesD, OF assms(1)] Pair by simp
  then show ?thesis
    using assms(2) [THEN commutesD, of _ "(d', n)"] Pair by (cases r) (simp_all add: nbind_def on_disk_def)
qed

lemma signing_commands_ignore:
  fixes cl :: "('kp, 'n) Cli"
  assumes "p \<in> {dp_client_key (data_paths dir), dp_server_key (data_paths dir), dp_operator (data_paths dir)}"
    and "\<forall>st. fst (load_state (cl_json cl) dir d) = Ok st \<longrightarrow> p \<notin> signer_files (cl_home cl) args st"
  shows "cmd_create_account cl dir args (with_file p v d, n) =
      map_prod id (apfst (with_file p v)) (cmd_create_account cl dir args (d, n))"
    and "cmd_submit cl dir args (with_file p v d, n) =
      map_prod id (apfst (with_file p v)) (cmd_submit cl dir args (d, n))"
    and "p \<noteq> dp_operator (data_paths dir) \<Longrightarrow> cmd_initialize cl generated dir args (with_file p v d, n) =
      map_prod id (apfst (with_file p v)) (cmd_initialize cl generated dir args (d, n))"
proof -
  have away: "p \<noteq> state_path dir" "p \<noteq> dp_request (data_paths dir)" "p \<noteq> dp_params (data_paths dir)"
    using assms(1) all_data_files_distinct [of dir] by auto
  have signers: "p \<noteq> signer_path (cl_home cl) args ''--authority'' (ds_authority_keypair_path st)"
      "p \<noteq> signer_path (cl_home cl) args ''--owner'' (ds_owner_keypair_path st)"
    if "fst (load_state (cl_json cl) dir d) = Ok st" for st
    using assms(2) that by (auto simp: signer_files_def)
  show "cmd_create_account cl dir args (with_file p v d, n) =
      map_prod id (apfst (with_file p v)) (cmd_create_account cl dir args (d, n))"
    unfolding cmd_create_account_def Let_def
    by (intro state_first ignores_intros signers away) assumption
  show "cmd_submit cl dir args (with_file p v d, n) =
      map_prod id (apfst (with_file p v)) (cmd_submit cl dir args (d, n))"
    unfolding cmd_submit_def Let_def
    by (intro state_first ignores_intros signers away) assumption
  show "cmd_initialize cl generated dir args (with_file p v d, n) =
      map_prod id (apfst (with_file p v)) (cmd_initialize cl generated dir args (d, n))"
    if "p \<noteq> dp_operator (data_paths dir)"
    unfolding cmd_initialize_def Let_def
    by (intro state_first ignores_intros signers away that) assumption
qed

lemma reading_commands_ignore:
  fixes cl :: "('kp, 'n) Cli"
  assumes "p \<in> {dp_client_key (data_paths dir), dp_server_key (data_paths dir), dp_operator (data_paths dir)}"
  shows "commutes (apfst (with_file p v)) (cmd_fetch_request cl dir args)"
    and "commutes (apfst (with_file p v)) (cmd_inspect cl dir args)"
    and "commutes (apfst (with_file p v)) (finalize_prepared cl dir args)"
proof -
  have away: "p \<noteq> state_path dir" "p \<noteq> dp_request (data_paths dir)" "p \<noteq> dp_result (data_paths dir)"
    using assms all_data_files_distinct [of dir] by auto
  have slot: "commutes (apfst (with_file p v))
      (\<lambda>s. (Ok (case fst (chain_slot wo s) of Err _ \<Rightarrow> None | Ok slot \<Rightarrow> Some slot) :: (u64 option, LabError) result, s))"
    for wo :: "('kp, 'n) World"
    by (auto simp: commutes_def chain_slot_def)
  show "commutes (apfst (with_file p v)) (cmd_fetch_request cl dir args)"
    unfolding cmd_fetch_request_def Let_def by (intro ignores_intros away)
  show "commutes (apfst (with_file p v)) (cmd_inspect cl dir args)"
    unfolding cmd_inspect_def Let_def
    by (intro ignores_intros away slot)
  show "commutes (apfst (with_file p v)) (finalize_prepared cl dir args)"
    unfolding finalize_prepared_def Let_def by (intro ignores_intros away)
qed

lemma finalize_ignores:
  fixes cl :: "('kp, 'n) Cli"
  assumes p: "p \<in> {dp_client_key (data_paths dir), dp_server_key (data_paths dir), dp_operator (data_paths dir)}"
    and signers: "\<forall>st. fst (load_state (cl_json cl) dir d) = Ok st \<longrightarrow> p \<notin> signer_files (cl_home cl) args st"
  shows "cmd_finalize fuel js ht cl dir args (with_file p v d, n) =
    map_option (map_prod id (apfst (with_file p v))) (cmd_finalize fuel js ht cl dir args (d, n))"
proof -
  let ?g = "apfst (with_file p v) :: Disk \<times> 'n \<Rightarrow> Disk \<times> 'n"
  have away: "p \<noteq> state_path dir"
    using p all_data_files_distinct [of dir] by auto
  obtain r s' where prep: "finalize_prepared cl dir args (d, n) = (r, s')"
    by (cases "finalize_prepared cl dir args (d, n)")
  then have prep': "finalize_prepared cl dir args (with_file p v d, n) = (r, ?g s')"
    by (simp add: cli_ignores [OF reading_commands_ignore(3) [OF p]])
  show ?thesis
  proof (cases r)
    case (Inl e)
    then show ?thesis using prep prep' by (simp add: cmd_finalize_def)
  next
    case (Inr x)
    obtain st tr url prepared where x: "x = (st, tr, url, prepared)" by (cases x)
    obtain d' n' where s': "s' = (d', n')" by (cases s')
    obtain d1 where "load_state (cl_json cl) dir d = (Ok st, d1)"
      using finalize_prepared_Ok [of cl dir args d n] prep Inr x s' by blast
    then have payer: "p \<noteq> signer_path (cl_home cl) args ''--payer'' (ds_payer_keypair_path st)"
      using signers by (auto simp: signer_files_def)
    show ?thesis
    proof (cases tr)
      case Direct
      have "commutes ?g (finalize_direct cl dir args st url prepared)"
        unfolding finalize_direct_def Let_def by (intro ignores_intros payer away)
      then show ?thesis using Direct prep prep' Inr x by (simp add: cmd_finalize_def commutesD)
    next
      case (OpenZeppelin relayer_url relayer_id)
      have saved: "commutes ?g (nbind (nlift q) (\<lambda>outcome. on_disk (save_state (cl_json cl) (st' outcome) dir)))" for q st'
        by (intro ignores_intros away)
      show ?thesis
        using OpenZeppelin prep prep' Inr x s'
        by (auto simp: cmd_finalize_def option.map_comp comp_def cli_ignores [OF saved] simp del: nlift_eq
            intro!: option.map_cong)
    qed
  qed
qed

lemma printed_ignores:
  "m (with_file p v d, n) = map_prod id (apfst (with_file p v)) (m (d, n)) \<Longrightarrow>
   printed m (with_file p v d, n) = map_option (map_prod id (apfst (with_file p v))) (printed m (d, n))"
  by (auto simp: printed_def nbind_def nlift_def split: prod.splits sum.splits)

text \<open>
  C11: no devnet command depends on the keys of the lab. Let \<open>p\<close> be the file of the client key, of
  the evaluation key or, but for \<open>initialize\<close>, of the operator's key, and not one of the files the
  command is told to sign with. Whatever \<open>p\<close> holds, or if it is missing, a command ends alike, sends
  the same to the chain and the relayer, and leaves the same files, and \<open>p\<close> as it was. In
  particular \<open>finalize\<close> delivers a result without the operator's private key.
\<close>

theorem devnet_ignores_keys:
  fixes cl :: "('kp, 'n) Cli"
  assumes "p \<in> {dp_client_key (data_paths dir), dp_server_key (data_paths dir)} \<or>
      p = dp_operator (data_paths dir) \<and> take 1 args \<noteq> [''initialize'']"
    and "\<forall>st. fst (load_state (cl_json cl) dir d) = Ok st \<longrightarrow> p \<notin> signer_files (cl_home cl) (tl args) st"
  shows "cmd_devnet fuel js ht cl generated dir args (with_file p v d, n) =
    map_option (map_prod id (apfst (with_file p v))) (cmd_devnet fuel js ht cl generated dir args (d, n))"
proof (cases args)
  case Nil
  then show ?thesis by (simp add: cmd_devnet_def printed_def nbind_def nlift_def)
next
  case (Cons sub rest)
  let ?g = "apfst (with_file p v) :: Disk \<times> 'n \<Rightarrow> Disk \<times> 'n"
  have p: "p \<in> {dp_client_key (data_paths dir), dp_server_key (data_paths dir), dp_operator (data_paths dir)}"
    using assms(1) by auto
  have signers: "\<forall>st. fst (load_state (cl_json cl) dir d) = Ok st \<longrightarrow> p \<notin> signer_files (cl_home cl) rest st"
    using assms(2) Cons by simp
  have operator: "sub = ''initialize'' \<Longrightarrow> p \<noteq> dp_operator (data_paths dir)"
    using assms(1) Cons all_data_files_distinct [of dir] by auto
  have unknown: "commutes ?g (nlift (Err e) :: (unit, Disk \<times> 'n) net)" for e
    by (intro ignores_intros)
  note runs = signing_commands_ignore(1,2) [OF p signers, THEN printed_ignores] signing_commands_ignore(3) [OF p signers, THEN printed_ignores]
    reading_commands_ignore(1,2) [OF p, THEN cli_ignores, THEN printed_ignores] unknown [THEN cli_ignores, THEN printed_ignores]
  show ?thesis
    using Cons operator by (simp add: cmd_devnet_def runs finalize_ignores [OF p signers] del: nlift_eq)
qed

theorem devnet_ignores_keys_witness:
  "\<forall>fuel js ht generated v. \<exists>d'. cmd_devnet fuel js ht session_cli generated ''lab'' (''finalize'' # payer_args)
       (with_file (dp_operator (data_paths ''lab'')) v session_submitted, 2)
     = Some (Ok (), (with_file (dp_operator (data_paths ''lab'')) v d', 3))"
proof (intro allI)
  fix fuel :: nat and js :: "'v Parsers" and ht :: "nat Http" and generated :: pubkey and v :: "u8 list option"
  let ?p = "dp_operator (data_paths ''lab'')" and ?args = "''finalize'' # payer_args"
  obtain d' where run: "cmd_finalize fuel js ht session_cli ''lab'' payer_args (session_submitted, 2)
      = Some (Ok (), (d', 3))"
    using session_steps(3) by blast
  have "load_state session_json ''lab'' session_submitted = (Ok session_state2, session_submitted)"
    using session_loads(1) [OF session_files(4,5) session_read_states(2)] by simp
  then have "\<forall>st. fst (load_state (cl_json session_cli) ''lab'' session_submitted) = Ok st \<longrightarrow>
      ?p \<notin> signer_files (cl_home session_cli) (tl ?args) st"
    by (simp add: signer_files_def signer_path_def payer_args_def lab_data_paths expand_tilde_with_home_def
        session_state2_def session_state1_def session_state0_def default_state_def default_keypair_path_with_home_def)
  from devnet_ignores_keys [OF _ this, where fuel = fuel and js = js and ht = ht and generated = generated and v = v and n = 2]
  show "\<exists>d'. cmd_devnet fuel js ht session_cli generated ''lab'' ?args (with_file ?p v session_submitted, 2)
      = Some (Ok (), (with_file ?p v d', 3))"
    using run by (auto simp: cmd_devnet_def)
qed

end
