(* ===== verification/Replay.thy ===== *)
theory Replay
  imports Progress
begin

text \<open>
  Attestations are spent: what an operator has signed settles one request, once.
\<close>

text \<open>An instruction attests one message, for one operator.\<close>

lemma attested_message_unique:
  assumes "verify_operator_message sv operator message = Ok ()"
    and "verify_operator_message sv operator' message' = Ok ()"
  shows "message' = message" and "operator' = operator"
proof -
  obtain current ix where ix: "load_current_index_checked sv = Ok current"
      "load_instruction_at_checked sv (unat (current - 1)) = Ok ix"
      "attests (current - 1) (ix_data ix) operator message"
    using assms(1) by (auto simp: verify_operator_message_unfold and_then_eq_Ok region_checks_attests
        split: if_splits)
  have "attests (current - 1) (ix_data ix) operator' message'"
    using assms(2) ix(1,2) by (auto simp: verify_operator_message_unfold region_checks_attests split: if_splits)
  then show "message' = message" and "operator' = operator"
    using ix(3) raw_inject [of operator' operator] by (auto simp: attests_def)
qed

text \<open>A finalization settles the request that the attested message names.\<close>

lemma finalize_settles:
  assumes "run_call rt env L metas (FinalizeCall args) = Ok L'"
    and "verify_operator_message (env_instructions env) operator message = Ok ()"
  obtains binding r r' where "message = encode_result binding"
    and "L (rb_request_pda (rs_request binding)) = Some (RequestAccount r)" "req_status r = STATUS_PENDING"
    and "L' (rb_request_pda (rs_request binding)) = Some (RequestAccount r')" "req_status r' = STATUS_FINALIZED"
proof -
  obtain ctx a' r' where ctx: "Finalize_accounts rt env L metas = Ok ctx"
    and fin: "finalize (rt_sha256 rt) (env_slot env) ctx args = Ok (a', r')"
    and L': "L' = L(fnx_account_key ctx \<mapsto> BalanceAccount a', fnx_request_key ctx \<mapsto> RequestAccount r')"
    using assms(1) by (auto simp: and_then_eq_Ok)
  note fin = fin [unfolded finalize_Ok]
  have "message = encode_result (result_binding ctx args)"
    using attested_message_unique(1) [OF _ assms(2)] fin Finalize_accounts_Ok(4) [OF ctx] by metis
  moreover have "rb_request_pda (rs_request (result_binding ctx args)) = fnx_request_key ctx"
    by (simp add: result_binding_def request_binding_def)
  ultimately show thesis
    using fin Finalize_accounts_Ok(3) [OF ctx] L'
    by (intro that [of "result_binding ctx args" "fnx_request ctx" r']) (auto simp: pending_lock_def finalized_def)
qed

text \<open>
  C22: no replay. Once a finalization has succeeded with a message an operator attested, the same
  message finalizes nothing again: not this request, and no other request of any account under any
  configuration, neither in the same transaction nor ever after, whoever attests it.
\<close>

theorem attestation_used_once:
  assumes "reachable rt \<lparr>ch_slot = env_slot env, ch_ledger = L\<rparr>"
    and "run_call rt env L metas (FinalizeCall args) = Ok L'"
    and "verify_operator_message (env_instructions env) operator message = Ok ()"
    and "leads_to rt \<lparr>ch_slot = env_slot env, ch_ledger = L'\<rparr> \<lparr>ch_slot = env_slot env', ch_ledger = M\<rparr>"
    and "verify_operator_message (env_instructions env') operator' message = Ok ()"
  shows "run_call rt env' M metas' (FinalizeCall args') \<noteq> Ok M'"
proof
  assume again: "run_call rt env' M metas' (FinalizeCall args') = Ok M'"
  let ?c = "\<lparr>ch_slot = env_slot env, ch_ledger = L'\<rparr>"
  obtain b r' where first: "message = encode_result b"
      "L' (rb_request_pda (rs_request b)) = Some (RequestAccount r')" "req_status r' = STATUS_FINALIZED"
    using finalize_settles [OF assms(2,3)] by metis
  obtain b' s where second: "message = encode_result b'"
      "M (rb_request_pda (rs_request b')) = Some (RequestAccount s)" "req_status s = STATUS_PENDING"
    using finalize_settles [OF again assms(5)] by metis
  have "b' = b" using first(1) second(1) by (simp add: result_eq_iff)
  have "reachable rt ?c"
    using assms(1) chain_step.Instr [OF assms(2) refl] by (rule reachable.Step)
  then have "ledger_evolves L' M"
    using leads_to_evolves [OF assms(4)] by simp
  then obtain t where "M (rb_request_pda (rs_request b)) = Some (RequestAccount t)" "request_evolves r' t"
    using ledger_evolvesD(3) first(2) by metis
  then show False
    using second \<open>b' = b\<close> first(3) by (auto simp: request_evolves_def)
qed

theorem attestation_used_once_witness:
  "\<forall>metas' args' M'. run_call lab_runtime (attested 7 lab_operator (fill 30)) (ch_ledger finalized_chain) metas'
     (FinalizeCall args') \<noteq> Ok M'"
proof (intro allI)
  fix metas' args' M'
  let ?env = "attested 7 lab_operator (fill 30)"
  have slot: "env_slot ?env = 7" by (simp add: attested_def)
  have "chain_step lab_runtime pending_chain \<lparr>ch_slot = 7, ch_ledger = pending_ledger\<rparr>"
    unfolding pending_chain_def by (rule chain_step.Tick) simp
  then have start: "reachable lab_runtime \<lparr>ch_slot = env_slot ?env, ch_ledger = pending_ledger\<rparr>"
    using pending_reachable slot by (metis reachable.Step)
  have signed: "verify_operator_message (env_instructions ?env) lab_operator (encode_result
      (result_of config0 (request1\<lparr>req_result_hash := fill 30\<rparr>) lab_request)) = Ok ()"
    by (simp add: attested_def after_ed25519_verifies encoded_lengths)
  show "run_call lab_runtime ?env (ch_ledger finalized_chain) metas' (FinalizeCall args') \<noteq> Ok M'"
    using attestation_used_once [OF start lab_finalize signed leads_to_refl [unfolded slot] signed]
    by (simp add: slot finalized_chain_def)
qed

end
