(* ===== verification/Reports.thy ===== *)
theory Reports
  imports Settlement
begin

text \<open>
  What the client says of a finalization (\<open>crates/client/src/devnet/finalize.rs\<close>): the lines
  that \<open>print_openzeppelin_success\<close> prints, and the check that the verification instruction of
  a pair names the worker's operator.
\<close>

definition print_openzeppelin_success :: "Sdk \<Rightarrow> Crates \<Rightarrow> FinalizeOutcome \<Rightarrow> string list" where
  "print_openzeppelin_success sd cr out =
    [''OpenZeppelin Relayer transaction/job ID:'',
     (case fo_relayer_transaction_id out of None \<Rightarrow> ''(not reported)'' | Some transaction_id \<Rightarrow> transaction_id),
     '''',
     ''Solana transaction signature:'',
     (case fo_solana_signature out of None \<Rightarrow> ''(not reported)'' | Some signature \<Rightarrow> signature),
     '''',
     ''Request PDA:'',
     sd_address_to_string sd (fo_request_address out),
     '''',
     ''status:'',
     ''Finalized'',
     '''',
     ''result_hash:'',
     cr_hex_encode cr (raw (fo_result_hash out)),
     '''',
     ''result_digest:'',
     cr_hex_encode cr (raw (fo_result_digest out))]"

text \<open>\<open>slice::windows\<close>.\<close>

definition windows :: "nat \<Rightarrow> 'a list \<Rightarrow> 'a list list" where
  "windows n xs = map (\<lambda>i. take n (drop i xs)) [0..<length xs + 1 - n]"

definition ed25519_instruction_contains_operator :: "Sdk \<Rightarrow> Instruction \<Rightarrow> bytes32 \<Rightarrow> bool" where
  "ed25519_instruction_contains_operator sd verify_ix operator \<longleftrightarrow>
     sd_address_to_string sd (ix_program_id verify_ix) = ED25519_PROGRAM_ID_STR \<and>
     list_ex (\<lambda>window. window = raw operator) (windows 32 (ix_data verify_ix))"

lemma windows_append: "length ys = n \<Longrightarrow> ys \<in> set (windows n (xs @ ys @ zs))"
  by (force simp: windows_def intro: image_eqI [where x = "length xs"])

text \<open>The record of the verification names the operator at its place 16.\<close>

lemma record_contains_operator: "raw pk \<in> set (windows 32 (ed25519_record pk sig msg))"
proof -
  have "ed25519_record pk sig msg = ([1, 0] @ le_bytes (48 :: u16) @ [255, 255] @ le_bytes (16 :: u16) @ [255, 255] @
     le_bytes (112 :: u16) @ le_bytes (word_of_nat (length msg) :: u16) @ [255, 255]) @ raw pk @ raw sig @ msg"
    by (simp add: ed25519_record_def)
  then show ?thesis by (simp only:) (rule windows_append, simp)
qed

text \<open>Whoever pays, the pair verifies the key that the result file names.\<close>

lemma pair_contains_operator:
  assumes "sdk_law sd" and "instructions_for_payer sd p payer = Ok ixs"
  shows "ed25519_instruction_contains_operator sd (ixs ! 0) (pr_operator (pf_parsed p))"
proof -
  have laws: "address_law sd" "ed25519_builder_law sd" using assms(1) by (simp_all add: sdk_law_def)
  have "ixs ! 0 = sd_ed25519_instruction sd (encode_result (pf_binding p)) (pr_signature (pf_parsed p)) (pr_operator (pf_parsed p))"
    using assms(2) instructions_for_payer_Ok [OF assms(1), of p payer]
    by (auto simp: finalize_ixs_with_signature_def Let_def)
  then show ?thesis
    using laws record_contains_operator
    by (auto simp: ed25519_instruction_contains_operator_def ed25519_builder_law_def address_law_def list_ex_iff)
qed

text \<open>What is printed after a delivery by the relayer is what the chain holds.\<close>

lemma openzeppelin_report_true:
  assumes "deliver_openzeppelin fuel sd js ht wo p url job poll n = Some (Ok out, n')"
    and "reachable (sd_runtime sd) now" and "reads_over sd (wo_rpc wo n') (fo_request_address out) now now2 now3"
    and "ch_ledger now (fo_request_address out) = Some (RequestAccount r)" and "address_law sd" and "hex_law cr"
  shows "sd_address_from_str sd (print_openzeppelin_success sd cr out ! 7) = Some (pf_request_address p)"
    and "print_openzeppelin_success sd cr out ! 10 = ''Finalized''" "req_status r = STATUS_FINALIZED"
    and "cr_hex_decode cr (print_openzeppelin_success sd cr out ! 13) = Some (raw (req_result_hash r))"
    and "cr_hex_decode cr (print_openzeppelin_success sd cr out ! 16) = Some (raw (req_result_digest r))"
proof -
  obtain sig job_id v where out: "out = outcome p sig job_id" "refetch_and_verify_finalized sd (wo_rpc wo n') p = Ok v"
    using deliver_openzeppelin_Ok [OF assms(1)] by blast
  have "ch_ledger now (pf_request_address p) = Some (RequestAccount r)"
    using assms(4) out(1) by (simp add: outcome_def)
  note settled = refetch_Ok [OF out(2) assms(2) _ this]
  have reads: "reads_over sd (wo_rpc wo n') (pf_request_address p) now now2 now3"
    using assms(3) out(1) by (simp add: outcome_def)
  show "req_status r = STATUS_FINALIZED" by (rule settled(1) [OF reads])
  show "sd_address_from_str sd (print_openzeppelin_success sd cr out ! 7) = Some (pf_request_address p)"
    using assms(5) by (simp add: print_openzeppelin_success_def out(1) outcome_def address_law_def)
  show "print_openzeppelin_success sd cr out ! 10 = ''Finalized''"
    by (simp add: print_openzeppelin_success_def)
  show "cr_hex_decode cr (print_openzeppelin_success sd cr out ! 13) = Some (raw (req_result_hash r))"
    "cr_hex_decode cr (print_openzeppelin_success sd cr out ! 16) = Some (raw (req_result_digest r))"
    using settled(2,3) [OF reads] assms(6) by (simp_all add: print_openzeppelin_success_def out(1) outcome_def hex_law_def)
qed

end
