(* ===== verification/Addresses.thy ===== *)
theory Addresses
  imports Safety
begin

text \<open>
  Where the coordinator's accounts stand. An address derived with the seeds of one kind of
  account holds an account of that kind, for exactly the mint, owner or nonce of the seeds: the
  seeds in \<open>crates/protocol/src/lib.rs\<close> and in the account constraints of the program keep the
  three kinds, and the accounts of each kind, apart.
\<close>

text \<open>The names by which the program and its clients find an account.\<close>

datatype place =
    ConfigAt pubkey
  | AccountAt pubkey pubkey
  | RequestAt pubkey u64

fun place_seeds :: "place \<Rightarrow> u8 list list" where
  "place_seeds (ConfigAt mint) = config_seeds mint"
| "place_seeds (AccountAt mint owner) = account_seeds mint owner"
| "place_seeds (RequestAt account nonce) = request_seeds account nonce"

definition place_address :: "Runtime \<Rightarrow> place \<Rightarrow> pubkey" where
  "place_address rt p = fst (rt_find_program_address rt (place_seeds p) ID)"

fun place_of :: "ChainAccount \<Rightarrow> place option" where
  "place_of (ConfigAccount c) = Some (ConfigAt (cfg_mint c))"
| "place_of (BalanceAccount a) = Some (AccountAt (acc_mint a) (acc_owner a))"
| "place_of (RequestAccount r) = Some (RequestAt (req_confidential_account r) (req_request_nonce r))"
| "place_of ForeignAccount = None"

section \<open>The seeds\<close>

lemma seed_lengths:
  "length SEED_CONFIG = 6" "length SEED_ACCOUNT = 7" "length SEED_REQUEST = 7"
  by (simp_all add: SEED_CONFIG_def SEED_ACCOUNT_def SEED_REQUEST_def ascii_def)

lemma place_bytes_length:
  "length (concat (place_seeds p)) =
    (case p of ConfigAt _ \<Rightarrow> 38 | AccountAt _ _ \<Rightarrow> 71 | RequestAt _ _ \<Rightarrow> 47)"
  by (cases p) (simp_all add: config_seeds_def account_seeds_def request_seeds_def seed_lengths)

text \<open>Joined without separators, as the derivation hashes them, the seeds still tell every
  account from every other.\<close>

lemma place_bytes_inject: "concat (place_seeds p) = concat (place_seeds q) \<longleftrightarrow> p = q"
proof
  assume eq: "concat (place_seeds p) = concat (place_seeds q)"
  then have len: "length (concat (place_seeds p)) = length (concat (place_seeds q))" by (rule arg_cong)
  show "p = q"
    using eq len [unfolded place_bytes_length]
    by (cases p; cases q) (auto simp: config_seeds_def account_seeds_def request_seeds_def dest: u64_le.codec_inj)
qed simp

section \<open>The accounts\<close>

lemma reachable_place:
  assumes "reachable rt ch" and "ch_ledger ch k = Some x" and "place_of x = Some q"
  shows "k = place_address rt q"
  using assms(2,3) reachable_entry(1) [OF assms(1), of k] reachable_entry(2) [OF assms(1), of k]
    reachable_entry(3) [OF assms(1), of k]
  by (cases x) (auto simp: place_address_def config_ok_def account_ok_def request_ok_def)

text \<open>
  C24: addresses are typed. In every reachable state an address derived from the seeds of a
  configuration, an account or a request holds, if it holds an account of the program at all,
  the one of that kind for that mint, that mint and owner, or that account and nonce, unless the
  address derivation itself collides on the two seed strings. So no configuration can pass for
  a request or stand in for another mint's, wherever an account is looked up by its address.
\<close>

theorem addresses_are_typed:
  assumes "reachable rt ch" and "ch_ledger ch k = Some x" and "place_of x = Some q"
    and "place_address rt p = place_address rt q \<Longrightarrow> concat (place_seeds p) = concat (place_seeds q)"
  shows "k = place_address rt p \<longleftrightarrow> q = p"
  using reachable_place [OF assms(1-3)] assms(4) place_bytes_inject [of p q] by auto

theorem addresses_are_typed_witness:
  "lab_request = place_address lab_runtime (RequestAt lab_account 1) \<and>
   lab_request \<noteq> place_address lab_runtime (RequestAt lab_account 2)"
proof -
  have at: "ch_ledger pending_chain lab_request = Some (RequestAccount request1)"
    "place_of (RequestAccount request1) = Some (RequestAt lab_account 1)"
    by (simp_all add: request1_def)
  have other: "lab_address (request_seeds lab_account 2) \<noteq> lab_request"
    by code_simp
  show ?thesis
    using addresses_are_typed [OF pending_reachable at, of "RequestAt lab_account 1"]
      addresses_are_typed [OF pending_reachable at, of "RequestAt lab_account 2"]
      other
    by (simp add: place_address_def)
qed

end
