(* ===== verification/BlobRace.thy ===== *)
theory BlobRace
  imports BlobStore
begin

text \<open>
  Puts that run at the same time. The worker, the demo and the commands of the lab are processes
  of their own over one data directory, so their puts interleave between the operations on the
  file system. Here \<open>put\<close> is cut into these operations; a run takes, in any order, the next
  operation of any process.

  All puts of one blob share one temporary file, so paths are not enough: \<open>fs::write\<close> opens and
  truncates a file and then writes to the open file, wherever that has been moved in between.
  Paths here name files, and files have contents. No operation fails; a process that dies is one
  that takes no more steps.
\<close>

section \<open>Files and names\<close>

record FileSystem =
  fi_names :: "string \<rightharpoonup> nat"
  fi_data :: "nat \<Rightarrow> u8 list"
  fi_next :: nat

text \<open>What a reader finds under a path.\<close>

definition view :: "FileSystem \<Rightarrow> string \<rightharpoonup> u8 list" where
  "view F p = map_option (fi_data F) (fi_names F p)"

definition flat :: "FileSystem \<Rightarrow> Disk" where
  "flat F = \<lparr>dk_files = view F, dk_faults = []\<rparr>"

lemma flat_files [simp]: "dk_files (flat F) = view F"
  by (simp add: flat_def)

text \<open>The first half of \<open>fs::write\<close>: \<open>File::create\<close>, and the second: \<open>write_all\<close> from the start of
  the open file.\<close>

definition fs_create :: "string \<Rightarrow> FileSystem \<Rightarrow> nat \<times> FileSystem" where
  "fs_create path F =
    (case fi_names F path of
       Some i \<Rightarrow> (i, F\<lparr>fi_data := (fi_data F)(i := [])\<rparr>)
     | None \<Rightarrow> (fi_next F, F\<lparr>fi_names := (fi_names F)(path \<mapsto> fi_next F),
         fi_data := (fi_data F)(fi_next F := []), fi_next := fi_next F + 1\<rparr>))"

definition write_all :: "nat \<Rightarrow> u8 list \<Rightarrow> FileSystem \<Rightarrow> FileSystem" where
  "write_all i bytes F = F\<lparr>fi_data := (fi_data F)(i := bytes @ drop (length bytes) (fi_data F i))\<rparr>"

definition fs_move :: "string \<Rightarrow> string \<Rightarrow> FileSystem \<Rightarrow> (unit, WorkerError) result \<times> FileSystem" where
  "fs_move old new F =
    (case fi_names F old of
       None \<Rightarrow> (Err (Io ''not found''), F)
     | Some i \<Rightarrow> (Ok (), F\<lparr>fi_names := (fi_names F)(old := None, new \<mapsto> i)\<rparr>))"

section \<open>The operations of a put\<close>

text \<open>Before the test for the entry, before the temporary file is opened, before it is written,
  before the rename, and returned.\<close>

datatype PutState =
    Entered
  | Absent string
  | Opened string nat
  | Written string
  | Returned "(bytes32, WorkerError) result"

definition put_step :: "Crates \<Rightarrow> BlobStore \<Rightarrow> u8 list \<Rightarrow> PutState \<Rightarrow> FileSystem \<Rightarrow> PutState \<times> FileSystem" where
  "put_step cr self bytes st F =
    (let hash = cr_sha256 cr bytes in
     case st of
       Entered \<Rightarrow> (case path_for cr self hash of
           Err e \<Rightarrow> (Returned (Err e), F)
         | Ok path \<Rightarrow> (if fi_names F path = None then Absent path else Returned (Ok hash), F))
     | Absent path \<Rightarrow> (case fs_create (tmp_of path) F of (i, F') \<Rightarrow> (Opened path i, F'))
     | Opened path i \<Rightarrow> (Written path, write_all i bytes F)
     | Written path \<Rightarrow> (case fs_move (tmp_of path) path F of
           (Err e, F') \<Rightarrow> (Returned (Err e), F')
         | (Ok _, F') \<Rightarrow> (Returned (Ok hash), F'))
     | Returned r \<Rightarrow> (Returned r, F))"

text \<open>A put that runs alone takes at most four operations, and they are the put.\<close>

fun put_alone :: "nat \<Rightarrow> Crates \<Rightarrow> BlobStore \<Rightarrow> u8 list \<Rightarrow> PutState \<times> FileSystem \<Rightarrow> PutState \<times> FileSystem" where
  "put_alone 0 cr self bytes s = s"
| "put_alone (Suc n) cr self bytes (st, F) = put_alone n cr self bytes (put_step cr self bytes st F)"

lemma put_alone_returned: "put_alone n cr self bytes (Returned r, F) = (Returned r, F)"
  by (induction n) (simp_all add: put_step_def)

text \<open>Names lead to files that exist, and no two names to one file.\<close>

definition sane :: "FileSystem \<Rightarrow> bool" where
  "sane F \<longleftrightarrow> (\<forall>p i. fi_names F p = Some i \<longrightarrow> i < fi_next F) \<and>
     (\<forall>p q i. fi_names F p = Some i \<longrightarrow> fi_names F q = Some i \<longrightarrow> p = q)"

lemma saneD:
  assumes "sane F"
  shows "fi_names F p = Some i \<Longrightarrow> i < fi_next F"
    and "fi_names F p = Some i \<Longrightarrow> fi_names F q = Some i \<Longrightarrow> p = q"
  using assms unfolding sane_def by blast+

text \<open>What creating a file does, whether it was there or not.\<close>

lemma fs_create_file:
  assumes "sane F" and "fs_create tmp F = (i, F1)"
  shows "fi_names F1 = (fi_names F)(tmp \<mapsto> i)" "fi_data F1 = (fi_data F)(i := [])"
    "fi_names F q = Some i \<Longrightarrow> q = tmp" "fi_next F \<le> fi_next F1" "i < fi_next F1"
    "fi_names F tmp = Some i \<or> fi_next F \<le> i" "sane F1"
proof -
  have "fi_names F1 = (fi_names F)(tmp \<mapsto> i) \<and> fi_data F1 = (fi_data F)(i := []) \<and>
      (fi_names F q = Some i \<longrightarrow> q = tmp) \<and> fi_next F \<le> fi_next F1 \<and> i < fi_next F1 \<and>
      (fi_names F tmp = Some i \<or> fi_next F \<le> i) \<and> sane F1"
  proof (cases "fi_names F tmp")
    case None
    then have "F1 = F\<lparr>fi_names := (fi_names F)(tmp \<mapsto> fi_next F), fi_data := (fi_data F)(fi_next F := []),
        fi_next := fi_next F + 1\<rparr>" "i = fi_next F"
      using assms(2) by (auto simp: fs_create_def)
    moreover have "fi_names F q = Some j \<Longrightarrow> j < fi_next F" for q j
      using saneD(1) [OF assms(1)] by blast
    ultimately show ?thesis
      using assms(1) by (fastforce simp: sane_def split: if_splits)
  next
    case (Some k)
    then have F1: "F1 = F\<lparr>fi_data := (fi_data F)(k := [])\<rparr>" "i = k"
      using assms(2) by (auto simp: fs_create_def)
    then show ?thesis
      using Some saneD(1) [OF assms(1) Some] saneD(2) [OF assms(1) Some, of q] assms(1)
      by (auto simp: fun_upd_idem sane_def)
  qed
  then show "fi_names F1 = (fi_names F)(tmp \<mapsto> i)" "fi_data F1 = (fi_data F)(i := [])"
    "fi_names F q = Some i \<Longrightarrow> q = tmp" "fi_next F \<le> fi_next F1" "i < fi_next F1"
    "fi_names F tmp = Some i \<or> fi_next F \<le> i" "sane F1"
    by blast+
qed

lemma written_view:
  assumes "sane F" and "fs_create tmp F = (i, F1)" and "fs_move tmp p (write_all i b F1) = (r, F2)" and "tmp \<noteq> p"
  shows "r = Ok () \<and> view F2 = (view F)(tmp := None, p \<mapsto> b)"
proof
  note made = fs_create_file [OF assms(1,2)]
  have moved: "r = Ok ()" "F2 = write_all i b F1\<lparr>fi_names := (fi_names F)(tmp := None, p \<mapsto> i)\<rparr>"
    using assms(3) made(1) by (simp_all add: fs_move_def write_all_def)
  show "r = Ok ()" by (rule moved(1))
  show "view F2 = (view F)(tmp := None, p \<mapsto> b)"
  proof
    fix q
    show "view F2 q = ((view F)(tmp := None, p \<mapsto> b)) q"
      using made(2,3) assms(4) by (auto simp: moved(2) view_def write_all_def map_option_case split: option.splits)
  qed
qed

lemma put_steps:
  assumes "sane F" and "put_alone 4 cr self b (Entered, F) = (st, F')"
  shows "\<exists>r. st = Returned r \<and> put cr self b (flat F) = (r, flat F')"
proof (cases "path_for cr self (cr_sha256 cr b)")
  case (Inl e)
  then show ?thesis
    using assms(2) by (auto simp: numeral_eq_Suc put_step_def put_alone_returned put_def wbind_simp wlift_def)
next
  case (Inr p)
  have tmp: "tmp_of p \<noteq> p" by (simp add: tmp_of_def)
  obtain i F1 where create: "fs_create (tmp_of p) F = (i, F1)" by fastforce
  obtain r F2 where move: "fs_move (tmp_of p) p (write_all i b F1) = (r, F2)" by fastforce
  note moved = written_view [OF assms(1) create move tmp]
  show ?thesis
  proof (cases "fi_names F p")
    case None
    then have "st = Returned (Ok (cr_sha256 cr b))" "F' = F2"
      using assms(2) Inr create move moved by (auto simp: numeral_eq_Suc put_step_def put_alone_returned Let_def)
    then show ?thesis
      using Inr None moved
      by (simp add: put_def wbind_simp Let_def fs_exists_def fs_write_def fs_rename_def fs_op_def flat_def view_def fun_upd_twist tmp)
  next
    case (Some j)
    then show ?thesis
      using assms(2) Inr
      by (auto simp: numeral_eq_Suc put_step_def put_alone_returned put_def wbind_simp fs_exists_def view_def Let_def)
  qed
qed

section \<open>Runs\<close>

type_synonym racers = "(nat \<Rightarrow> PutState) \<times> FileSystem"

inductive race :: "Crates \<Rightarrow> BlobStore \<Rightarrow> (nat \<Rightarrow> u8 list) \<Rightarrow> FileSystem \<Rightarrow> racers \<Rightarrow> bool"
  for cr self blobs F0 where
  start: "race cr self blobs F0 (\<lambda>_. Entered, F0)"
| operation: "race cr self blobs F0 (procs, F) \<Longrightarrow> put_step cr self (blobs i) (procs i) F = (st, F') \<Longrightarrow>
    race cr self blobs F0 (procs(i := st), F')"

text \<open>The processes that have opened a file and not written it yet.\<close>

definition busy :: "(nat \<Rightarrow> PutState) \<Rightarrow> string \<Rightarrow> nat \<Rightarrow> bool" where
  "busy procs p i \<longleftrightarrow> (\<exists>j. procs j = Opened p i)"

definition exclusive :: "(nat \<Rightarrow> PutState) \<Rightarrow> bool" where
  "exclusive procs \<longleftrightarrow> (\<forall>i p q. busy procs p i \<longrightarrow> busy procs q i \<longrightarrow> p = q)"

text \<open>What a put of \<open>b\<close> that has opened its file finds: under the temporary name its blob or a file
  that is busy, or another process has already moved one to the path.\<close>

definition staged :: "FileSystem \<Rightarrow> (string \<Rightarrow> nat \<Rightarrow> bool) \<Rightarrow> u8 list \<Rightarrow> string \<Rightarrow> bool" where
  "staged F B b p \<longleftrightarrow> (fi_names F (tmp_of p) = None \<longrightarrow> fi_names F p \<noteq> None) \<and>
     (\<forall>i. fi_names F (tmp_of p) = Some i \<longrightarrow> fi_data F i = b \<or> B p i)"

text \<open>Where the put stands, given the files at the start and now and what is busy: the file it has
  opened is still under the temporary name, under the path, or under none.\<close>

definition on_course ::
    "Crates \<Rightarrow> BlobStore \<Rightarrow> FileSystem \<Rightarrow> FileSystem \<Rightarrow> (string \<Rightarrow> nat \<Rightarrow> bool) \<Rightarrow> u8 list \<Rightarrow> PutState \<Rightarrow> bool" where
  "on_course cr self F0 F B b st \<longleftrightarrow>
    (case st of
       Entered \<Rightarrow> True
     | Absent p \<Rightarrow> path_for cr self (cr_sha256 cr b) = Ok p \<and> view F0 p = None
     | Opened p i \<Rightarrow> path_for cr self (cr_sha256 cr b) = Ok p \<and> view F0 p = None \<and> staged F B b p \<and>
         i < fi_next F \<and> fi_data F i \<in> {[], b} \<and> (\<forall>n. fi_names F n = Some i \<longrightarrow> n \<in> {tmp_of p, p})
     | Written p \<Rightarrow> path_for cr self (cr_sha256 cr b) = Ok p \<and> view F0 p = None \<and> staged F B b p
     | Returned r \<Rightarrow> (r = Ok (cr_sha256 cr b) \<or> r = Err (Io ''not found'')) \<and>
         (\<exists>p. path_for cr self (cr_sha256 cr b) = Ok p \<and> fi_names F p \<noteq> None))"

text \<open>Entries there were at the start are as they were; entries that are new have their hash or are
  busy.\<close>

definition sound_entries ::
    "Crates \<Rightarrow> BlobStore \<Rightarrow> FileSystem \<Rightarrow> FileSystem \<Rightarrow> (string \<Rightarrow> nat \<Rightarrow> bool) \<Rightarrow> bool" where
  "sound_entries cr self F0 F B \<longleftrightarrow>
     (\<forall>h p x. path_for cr self h = Ok p \<longrightarrow> view F0 p = Some x \<longrightarrow> view F p = Some x) \<and>
     (\<forall>h p i. path_for cr self h = Ok p \<longrightarrow> view F0 p = None \<longrightarrow> fi_names F p = Some i \<longrightarrow>
        cr_sha256 cr (fi_data F i) = h \<or> B p i)"

lemma sound_entriesD:
  assumes "sound_entries cr self F0 F B" and "path_for cr self h = Ok p"
  shows "view F0 p = Some x \<Longrightarrow> view F p = Some x"
    and "view F0 p = None \<Longrightarrow> fi_names F p = Some i \<Longrightarrow> cr_sha256 cr (fi_data F i) = h \<or> B p i"
  using assms unfolding sound_entries_def by blast+

definition orderly :: "Crates \<Rightarrow> BlobStore \<Rightarrow> (nat \<Rightarrow> u8 list) \<Rightarrow> FileSystem \<Rightarrow> racers \<Rightarrow> bool" where
  "orderly cr self blobs F0 = (\<lambda>(procs, F). sane F \<and> exclusive procs \<and>
     sound_entries cr self F0 F (busy procs) \<and>
     (\<forall>i. on_course cr self F0 F (busy procs) (blobs i) (procs i)))"

lemma path_for_inj:
  "hex_law cr \<Longrightarrow> path_for cr self h = Ok p \<Longrightarrow> path_for cr self h' = Ok p \<Longrightarrow> h = h'"
  by (auto simp: path_for_hex hex_law_inj)

lemma tmp_of_inj: "tmp_of p = tmp_of q \<longleftrightarrow> p = q"
  by (simp add: tmp_of_def)

section \<open>The temporary file is opened\<close>

lemma staged_create:
  assumes "sane F" and "fs_create (tmp_of p) F = (k, F1)" and "staged F B c q"
    and "\<And>q i. B q i \<Longrightarrow> B' q i" and "B' p k"
  shows "staged F1 B' c q"
proof (cases "q = p")
  case True
  then show ?thesis using fs_create_file(1) [OF assms(1,2)] assms(5) by (simp add: staged_def)
next
  case False
  note made = fs_create_file [OF assms(1,2)]
  have names: "fi_names F1 (tmp_of q) = fi_names F (tmp_of q)"
    using False by (simp add: made(1) tmp_of_inj)
  have "fi_names F (tmp_of q) \<noteq> Some k" using made(3) [of "tmp_of q"] False by (auto simp: tmp_of_inj)
  then show ?thesis using assms(3,4) names by (auto simp: staged_def made(1,2))
qed

lemma on_course_create:
  assumes "sane F" and "fs_create (tmp_of p) F = (k, F1)" and "on_course cr self F0 F B c st"
    and "\<And>q i. B q i \<Longrightarrow> B' q i" and "B' p k"
  shows "on_course cr self F0 F1 B' c st"
proof -
  note made = fs_create_file [OF assms(1,2)]
  have kept: "staged F1 B' c q" if "staged F B c q" for q
    using that assms(4,5) by (rule staged_create [OF assms(1,2)])
  show ?thesis
  proof (cases st)
    case (Opened q i)
    then have i: "i < fi_next F" "fi_data F i \<in> {[], c}" "\<And>n. fi_names F n = Some i \<Longrightarrow> n \<in> {tmp_of q, q}"
      using assms(3) by (simp_all add: on_course_def)
    have "n \<in> {tmp_of q, q}" if "fi_names F1 n = Some i" for n
      using that i(1) i(3) [of n] made(6) by (auto simp: made(1) split: if_splits)
    then show ?thesis using assms(3) Opened i(1,2) made(4) kept by (auto simp: on_course_def made(2))
  next
    case (Written q)
    then show ?thesis using assms(3) kept by (simp add: on_course_def)
  qed (use assms(3) in \<open>auto simp: on_course_def made(1)\<close>)
qed

lemma sound_entries_create:
  assumes "sane F" and "fs_create (tmp_of p) F = (k, F1)" and "path_for cr self h0 = Ok p"
    and "sound_entries cr self F0 F B" and "\<And>q i. B q i \<Longrightarrow> B' q i"
  shows "sound_entries cr self F0 F1 B'"
proof -
  note made = fs_create_file [OF assms(1,2)]
  have same: "fi_names F1 q = fi_names F q" "fi_names F q = Some i \<Longrightarrow> fi_data F1 i = fi_data F i"
    if "path_for cr self h = Ok q" for h q i
    using tmp_not_stored [OF assms(3) that] made(3) [of q] by (auto simp: made(1,2))
  have seen: "view F1 q = view F q" if "path_for cr self h = Ok q" for h q
    using same [OF that] by (cases "fi_names F q") (auto simp: view_def)
  show ?thesis
    unfolding sound_entries_def
  proof (intro conjI allI impI)
    fix h q x assume "path_for cr self h = Ok q" "view F0 q = Some x"
    then show "view F1 q = Some x" using seen sound_entriesD(1) [OF assms(4)] by simp
  next
    fix h q i assume q: "path_for cr self h = Ok q" "view F0 q = None" "fi_names F1 q = Some i"
    then show "cr_sha256 cr (fi_data F1 i) = h \<or> B' q i"
      using same [OF q(1)] sound_entriesD(2) [OF assms(4) q(1,2)] assms(5) by auto
  qed
qed

section \<open>The open file is written\<close>

lemma staged_write:
  assumes "staged F B c q" and "fi_data F k \<in> {[], b}" and "\<And>q i. B q i \<Longrightarrow> (q, i) \<noteq> (p, k) \<Longrightarrow> B' q i"
    and "fi_names F (tmp_of q) = Some k \<Longrightarrow> c = b"
  shows "staged (write_all k b F) B' c q"
  using assms by (auto simp: staged_def write_all_def)

lemma on_course_write:
  assumes "on_course cr self F0 F B b (Opened p k)" and "on_course cr self F0 F B c st"
    and "cr_sha256 cr b = cr_sha256 cr c \<Longrightarrow> b = c" and "hex_law cr"
    and "\<And>q i. B q i \<Longrightarrow> (q, i) \<noteq> (p, k) \<Longrightarrow> B' q i" and "\<And>q. st = Opened q k \<Longrightarrow> q = p"
  shows "on_course cr self F0 (write_all k b F) B' c st"
proof -
  have w: "path_for cr self (cr_sha256 cr b) = Ok p" "fi_data F k \<in> {[], b}"
      "\<And>n. fi_names F n = Some k \<Longrightarrow> n \<in> {tmp_of p, p}"
    using assms(1) by (simp_all add: on_course_def)
  have eq: "q = p \<Longrightarrow> path_for cr self (cr_sha256 cr c) = Ok q \<Longrightarrow> c = b" for q
    using path_for_inj [OF assms(4) w(1)] assms(3) by metis
  have F: "fi_names (write_all k b F) = fi_names F" "fi_next (write_all k b F) = fi_next F"
    "fi_data (write_all k b F) = (fi_data F)(k := b)"
    using w(2) by (auto simp: write_all_def)
  have kept: "staged (write_all k b F) B' c q"
    if "path_for cr self (cr_sha256 cr c) = Ok q" and "staged F B c q" for q
  proof (rule staged_write [OF that(2) w(2) assms(5)])
    assume "fi_names F (tmp_of q) = Some k"
    then show "c = b" using w(3) [of "tmp_of q"] tmp_not_stored [OF that(1) w(1)] eq that(1) by (auto simp: tmp_of_inj)
  qed
  show ?thesis
  proof (cases st)
    case (Opened q i)
    then show ?thesis using assms(2,6) eq kept by (auto simp: on_course_def F)
  next
    case (Written q)
    then show ?thesis using assms(2) kept by (simp add: on_course_def)
  qed (use assms(2) in \<open>auto simp: on_course_def F\<close>)
qed

lemma sound_entries_write:
  assumes "on_course cr self F0 F B b (Opened p k)" and "sound_entries cr self F0 F B" and "hex_law cr"
    and "\<And>q i. B q i \<Longrightarrow> (q, i) \<noteq> (p, k) \<Longrightarrow> B' q i"
  shows "sound_entries cr self F0 (write_all k b F) B'"
proof -
  have w: "path_for cr self (cr_sha256 cr b) = Ok p" "fi_data F k \<in> {[], b}" "view F0 p = None"
      "\<And>n. fi_names F n = Some k \<Longrightarrow> n \<in> {tmp_of p, p}"
    using assms(1) by (simp_all add: on_course_def)
  have F: "fi_names (write_all k b F) = fi_names F" "fi_data (write_all k b F) = (fi_data F)(k := b)"
    using w(2) by (auto simp: write_all_def)
  have at: "q = p" if "path_for cr self h = Ok q" "fi_names F q = Some k" for h q
    using w(4) [OF that(2)] tmp_not_stored [OF w(1) that(1)] by auto
  show ?thesis
    unfolding sound_entries_def
  proof (intro conjI allI impI)
    fix h q x assume q: "path_for cr self h = Ok q" "view F0 q = Some x"
    then have "view F q = Some x" using assms(2) by (blast dest: sound_entriesD)
    moreover have "fi_names F q \<noteq> Some k" using at [OF q(1)] q(2) w(3) by auto
    ultimately show "view (write_all k b F) q = Some x" by (auto simp: view_def F)
  next
    fix h q i assume q: "path_for cr self h = Ok q" "view F0 q = None" "fi_names (write_all k b F) q = Some i"
    show "cr_sha256 cr (fi_data (write_all k b F) i) = h \<or> B' q i"
    proof (cases "i = k")
      case True
      then show ?thesis using at q path_for_inj [OF assms(3) w(1)] by (auto simp: F)
    next
      case False
      then show ?thesis using sound_entriesD(2) [OF assms(2) q(1,2)] q(3) assms(4) by (auto simp: F)
    qed
  qed
qed

section \<open>The temporary file is moved\<close>

definition moved :: "string \<Rightarrow> nat \<Rightarrow> FileSystem \<Rightarrow> FileSystem" where
  "moved p k F = F\<lparr>fi_names := (fi_names F)(tmp_of p := None, p \<mapsto> k)\<rparr>"

lemma moved_simps [simp]:
  "fi_data (moved p k F) = fi_data F" "fi_next (moved p k F) = fi_next F"
  "fi_names (moved p k F) = (fi_names F)(tmp_of p := None, p \<mapsto> k)"
  by (simp_all add: moved_def)

lemma sane_moved: "sane F \<Longrightarrow> fi_names F (tmp_of p) = Some k \<Longrightarrow> sane (moved p k F)"
  by (auto simp: sane_def split: if_splits)

lemma staged_move:
  assumes "staged F B c q" and "path_for cr self h = Ok p" and "path_for cr self h' = Ok q"
  shows "staged (moved p k F) B c q"
  using assms(1) tmp_not_stored [OF assms(2,3)] tmp_not_stored [OF assms(3,2)]
  by (simp add: staged_def tmp_of_inj)

lemma on_course_move:
  assumes "fi_names F (tmp_of p) = Some k" and "on_course cr self F0 F B c st"
    and "path_for cr self h = Ok p"
  shows "on_course cr self F0 (moved p k F) B c st"
proof (cases st)
  case (Opened q i)
  then have q: "path_for cr self (cr_sha256 cr c) = Ok q" using assms(2) by (simp add: on_course_def)
  have at: "n \<in> {tmp_of q, q}" if "fi_names F n = Some i" for n
    using assms(2) Opened that by (simp add: on_course_def)
  have "k = i \<Longrightarrow> p = q" using at [of "tmp_of p"] assms(1) tmp_not_stored [OF assms(3) q] by (simp add: tmp_of_inj)
  then have "n \<in> {tmp_of q, q}" if "fi_names (moved p k F) n = Some i" for n
    using at [of n] that by (simp split: if_splits)
  then show ?thesis
    using assms(2) Opened staged_move [OF _ assms(3) q] by (simp add: on_course_def)
next
  case (Written q)
  then have q: "path_for cr self (cr_sha256 cr c) = Ok q" using assms(2) by (simp add: on_course_def)
  then show ?thesis using assms(2) Written staged_move [OF _ assms(3) q] by (simp add: on_course_def)
next
  case (Returned r)
  then obtain q where "path_for cr self (cr_sha256 cr c) = Ok q" "fi_names F q \<noteq> None"
    using assms(2) by (auto simp: on_course_def)
  then show ?thesis using assms(2) Returned tmp_not_stored [OF assms(3)] by (auto simp: on_course_def)
qed (use assms(2) in \<open>simp_all add: on_course_def\<close>)

lemma sound_entries_move:
  assumes "on_course cr self F0 F B b (Written p)" and "fi_names F (tmp_of p) = Some k"
    and "sound_entries cr self F0 F B" and "hex_law cr"
  shows "sound_entries cr self F0 (moved p k F) B"
proof -
  have w: "path_for cr self (cr_sha256 cr b) = Ok p" "view F0 p = None" "fi_data F k = b \<or> B p k"
    using assms(1,2) by (simp_all add: on_course_def staged_def)
  have "q \<noteq> tmp_of p" "q = p \<Longrightarrow> h = cr_sha256 cr b" if "path_for cr self h = Ok q" for h q
    using tmp_not_stored [OF w(1) that] path_for_inj [OF assms(4) that] w(1) by auto
  then show ?thesis using assms(3) w(2,3) by (auto simp: sound_entries_def view_def)
qed

section \<open>The course of a run\<close>

lemma busy_upd_idle:
  assumes "\<And>p k. procs i \<noteq> Opened p k" and "\<And>p k. st \<noteq> Opened p k"
  shows "busy (procs(i := st)) = busy procs"
  using assms by (fastforce simp: busy_def fun_eq_iff)

lemma busy_upd_opened:
  assumes "\<And>p k. procs i \<noteq> Opened p k"
  shows "busy (procs(i := Opened p k)) q m \<longleftrightarrow> busy procs q m \<or> (q = p \<and> m = k)"
proof
  assume "busy procs q m \<or> (q = p \<and> m = k)"
  then show "busy (procs(i := Opened p k)) q m"
  proof
    assume "busy procs q m"
    then obtain j where "procs j = Opened q m" by (auto simp: busy_def)
    moreover from this have "j \<noteq> i" using assms [of q m] by blast
    ultimately show ?thesis unfolding busy_def by (intro exI [of _ j]) simp
  next
    assume "q = p \<and> m = k"
    then show ?thesis unfolding busy_def by (intro exI [of _ i]) simp
  qed
next
  assume "busy (procs(i := Opened p k)) q m"
  then obtain j where "(procs(i := Opened p k)) j = Opened q m" unfolding busy_def by blast
  then show "busy procs q m \<or> (q = p \<and> m = k)" unfolding busy_def by (cases "j = i") auto
qed

lemma busy_upd_written:
  assumes "procs i = Opened p k"
  shows "busy (procs(i := Written p)) q m \<Longrightarrow> busy procs q m"
    and "busy procs q m \<Longrightarrow> (q, m) \<noteq> (p, k) \<Longrightarrow> busy (procs(i := Written p)) q m"
proof -
  assume "busy (procs(i := Written p)) q m"
  then obtain j where "(procs(i := Written p)) j = Opened q m" unfolding busy_def by blast
  then show "busy procs q m" unfolding busy_def by (cases "j = i") auto
next
  assume "busy procs q m" and other: "(q, m) \<noteq> (p, k)"
  then obtain j where j: "procs j = Opened q m" unfolding busy_def by blast
  then have "j \<noteq> i" using assms other by auto
  then show "busy (procs(i := Written p)) q m" using j unfolding busy_def by (intro exI [of _ j]) simp
qed

lemma orderly_idle:
  assumes "orderly cr self blobs F0 (procs, F)" and "\<And>p k. procs i \<noteq> Opened p k" and "\<And>p k. st \<noteq> Opened p k"
    and "on_course cr self F0 F (busy procs) (blobs i) st"
  shows "orderly cr self blobs F0 (procs(i := st), F)"
proof -
  have "busy (procs(i := st)) = busy procs" by (rule busy_upd_idle) (use assms(2,3) in simp_all)
  then show ?thesis using assms(1,4) by (auto simp: orderly_def exclusive_def)
qed

lemma orderly_create:
  assumes "orderly cr self blobs F0 (procs, F)" and "procs i = Absent p" and "fs_create (tmp_of p) F = (k, F1)"
  shows "orderly cr self blobs F0 (procs(i := Opened p k), F1)"
proof -
  let ?B = "busy (procs(i := Opened p k))"
  have idle: "\<And>q m. procs i \<noteq> Opened q m" using assms(2) by simp
  note upd = busy_upd_opened [of procs i p k, OF idle]
  have inv: "sane F" "exclusive procs" "sound_entries cr self F0 F (busy procs)"
      "\<And>j. on_course cr self F0 F (busy procs) (blobs j) (procs j)"
    using assms(1) by (simp_all add: orderly_def)
  note made = fs_create_file [OF inv(1) assms(3)]
  have p: "path_for cr self (cr_sha256 cr (blobs i)) = Ok p" "view F0 p = None"
    using inv(4) [of i] assms(2) by (simp_all add: on_course_def)
  have "q = p" if busy: "busy procs q k" for q
  proof -
    obtain j where "procs j = Opened q k" using busy by (auto simp: busy_def)
    then have q: "path_for cr self (cr_sha256 cr (blobs j)) = Ok q" "k < fi_next F"
        "\<And>n. fi_names F n = Some k \<Longrightarrow> n \<in> {tmp_of q, q}"
      using inv(4) [of j] by (simp_all add: on_course_def)
    then have "tmp_of p \<in> {tmp_of q, q}" using made(6) by auto
    then show ?thesis using tmp_not_stored [OF p(1) q(1)] by (simp add: tmp_of_inj)
  qed
  then have "exclusive (procs(i := Opened p k))" using inv(2) by (auto simp: exclusive_def upd)
  moreover have "on_course cr self F0 F1 ?B (blobs j) ((procs(i := Opened p k)) j)" for j
  proof (cases "j = i")
    case True
    have "n = tmp_of p" if "fi_names F1 n = Some k" for n
      using that made(1) made(3) [of n] by (simp split: if_splits)
    moreover have "staged F1 ?B (blobs i) p" using made(1) by (simp add: staged_def upd)
    ultimately have "on_course cr self F0 F1 ?B (blobs i) (Opened p k)"
      using p made(2,5) by (simp add: on_course_def)
    then show ?thesis using True by simp
  next
    case False
    then show ?thesis using on_course_create [OF inv(1) assms(3) inv(4), of ?B j] by (simp add: upd)
  qed
  moreover have "sound_entries cr self F0 F1 ?B"
    by (rule sound_entries_create [OF inv(1) assms(3) p(1) inv(3)]) (simp add: upd)
  ultimately show ?thesis using made(7) by (simp add: orderly_def)
qed

lemma orderly_write:
  assumes "orderly cr self blobs F0 (procs, F)" and "procs i = Opened p k" and "hex_law cr"
    and "\<And>i j. cr_sha256 cr (blobs i) = cr_sha256 cr (blobs j) \<Longrightarrow> blobs i = blobs j"
  shows "orderly cr self blobs F0 (procs(i := Written p), write_all k (blobs i) F)"
proof -
  let ?B = "busy (procs(i := Written p))"
  note upd = busy_upd_written [of procs i p k, OF assms(2)]
  have inv: "sane F" "exclusive procs" "sound_entries cr self F0 F (busy procs)"
      "\<And>j. on_course cr self F0 F (busy procs) (blobs j) (procs j)"
    using assms(1) by (simp_all add: orderly_def)
  note at = inv(4) [of i, unfolded assms(2)]
  have "on_course cr self F0 (write_all k (blobs i) F) ?B (blobs j) (procs j)" for j
  proof (rule on_course_write [OF at inv(4) assms(4) assms(3)])
    show "q = p" if "procs j = Opened q k" for q
      using that assms(2) inv(2) by (auto simp: exclusive_def busy_def)
  qed (use upd in simp_all)
  moreover have "on_course cr self F0 (write_all k (blobs i) F) ?B (blobs i) (Written p)"
  proof -
    have "staged (write_all k (blobs i) F) ?B (blobs i) p"
      by (rule staged_write [of F "busy procs" _ _ _ _ p]) (use at upd in \<open>simp_all add: on_course_def\<close>)
    then show ?thesis using at by (simp add: on_course_def)
  qed
  moreover have "sound_entries cr self F0 (write_all k (blobs i) F) ?B"
    by (rule sound_entries_write [OF at inv(3) assms(3)]) (use upd in simp)
  moreover have "exclusive (procs(i := Written p))"
    using inv(2) upd(1) unfolding exclusive_def by blast
  moreover have "sane (write_all k (blobs i) F)" using inv(1) by (simp add: sane_def write_all_def)
  ultimately show ?thesis by (simp add: orderly_def)
qed

lemma orderly_move:
  assumes "orderly cr self blobs F0 (procs, F)" and "procs i = Written p" and "fi_names F (tmp_of p) = Some k"
    and "hex_law cr"
  shows "orderly cr self blobs F0 (procs(i := Returned (Ok (cr_sha256 cr (blobs i)))), moved p k F)"
proof (rule orderly_idle)
  have inv: "sane F" "exclusive procs" "sound_entries cr self F0 F (busy procs)"
      "\<And>j. on_course cr self F0 F (busy procs) (blobs j) (procs j)"
    using assms(1) by (simp_all add: orderly_def)
  note at = inv(4) [of i, unfolded assms(2)]
  then have p: "path_for cr self (cr_sha256 cr (blobs i)) = Ok p" by (simp add: on_course_def)
  show "orderly cr self blobs F0 (procs, moved p k F)"
    using inv sane_moved [OF inv(1) assms(3)] sound_entries_move [OF at assms(3) inv(3) assms(4)]
      on_course_move [OF assms(3) inv(4) p]
    by (simp add: orderly_def)
  show "on_course cr self F0 (moved p k F) (busy procs) (blobs i) (Returned (Ok (cr_sha256 cr (blobs i))))"
    using p by (simp add: on_course_def)
qed (use assms(2) in simp_all)

lemma race_orderly:
  assumes "race cr self blobs F0 s" and "hex_law cr" and "sane F0"
    and "\<And>i j. cr_sha256 cr (blobs i) = cr_sha256 cr (blobs j) \<Longrightarrow> blobs i = blobs j"
  shows "orderly cr self blobs F0 s"
  using assms(1)
proof induction
  case start
  show ?case
    using assms(3) by (auto simp: orderly_def sound_entries_def on_course_def exclusive_def busy_def view_def)
next
  case (operation procs F i st F')
  obtain p where p: "path_for cr self (cr_sha256 cr (blobs i)) = Ok p" using path_for_hex [OF assms(2)] by blast
  have at: "on_course cr self F0 F (busy procs) (blobs i) (procs i)"
    and sound: "sound_entries cr self F0 F (busy procs)"
    using operation.IH by (simp_all add: orderly_def)
  show ?case
  proof (cases "procs i")
    case Entered
    then have st: "F' = F" "st = (if fi_names F p = None then Absent p else Returned (Ok (cr_sha256 cr (blobs i))))"
      using operation.hyps(2) p by (auto simp: put_step_def Let_def)
    have "fi_names F p = None \<Longrightarrow> view F0 p = None"
      using sound_entriesD(1) [OF sound p] by (cases "view F0 p") (auto simp: view_def)
    then have "on_course cr self F0 F (busy procs) (blobs i) st" using p st(2) by (auto simp: on_course_def)
    then show ?thesis unfolding st(1) by (rule orderly_idle [OF operation.IH, rotated 2]) (use Entered st(2) in auto)
  next
    case (Absent q)
    obtain k where k: "fs_create (tmp_of q) F = (k, F')" "st = Opened q k"
      using operation.hyps(2) Absent by (auto simp: put_step_def Let_def split: prod.splits)
    show ?thesis unfolding k(2) by (rule orderly_create [OF operation.IH Absent k(1)])
  next
    case (Opened q k)
    then have "st = Written q" "F' = write_all k (blobs i) F"
      using operation.hyps(2) by (simp_all add: put_step_def Let_def)
    then show ?thesis using orderly_write [OF operation.IH Opened assms(2,4)] by simp
  next
    case (Written q)
    show ?thesis
    proof (cases "fi_names F (tmp_of q)")
      case None
      then have st: "st = Returned (Err (Io ''not found''))" "F' = F" "fi_names F q \<noteq> None"
        using operation.hyps(2) Written at by (auto simp: put_step_def fs_move_def on_course_def staged_def)
      then have "on_course cr self F0 F (busy procs) (blobs i) st"
        using at Written by (auto simp: on_course_def)
      then show ?thesis unfolding st(2) by (rule orderly_idle [OF operation.IH, rotated 2]) (use Written st(1) in auto)
    next
      case (Some k)
      then have "st = Returned (Ok (cr_sha256 cr (blobs i)))" "F' = moved q k F"
        using operation.hyps(2) Written by (auto simp: put_step_def fs_move_def moved_def Let_def)
      then show ?thesis using orderly_move [OF operation.IH Written Some assms(2)] by simp
    qed
  next
    case (Returned r)
    then show ?thesis using operation by (simp add: put_step_def Let_def fun_upd_idem)
  qed
qed

text \<open>A new entry has been moved to its path by a put that has returned.\<close>

definition entries_moved :: "Crates \<Rightarrow> BlobStore \<Rightarrow> FileSystem \<Rightarrow> racers \<Rightarrow> bool" where
  "entries_moved cr self F0 = (\<lambda>(procs, F). \<forall>h p. path_for cr self h = Ok p \<longrightarrow> view F0 p = None \<longrightarrow>
     fi_names F p \<noteq> None \<longrightarrow> (\<exists>i. procs i = Returned (Ok h)))"

lemma entries_movedI:
  assumes "entries_moved cr self F0 (procs, F)" and "\<And>r. procs i = Returned r \<Longrightarrow> st = Returned r"
    and "\<And>h p. path_for cr self h = Ok p \<Longrightarrow> fi_names F' p \<noteq> None \<Longrightarrow> fi_names F p = None \<Longrightarrow> st = Returned (Ok h)"
  shows "entries_moved cr self F0 (procs(i := st), F')"
  unfolding entries_moved_def
proof (clarify)
  fix h p j
  assume p: "path_for cr self h = Ok p" "view F0 p = None" "fi_names F' p = Some j"
  show "\<exists>m. (procs(i := st)) m = Returned (Ok h)"
  proof (cases "fi_names F p")
    case None
    then show ?thesis using assms(3) [OF p(1)] p(3) by (intro exI [of _ i]) simp
  next
    case (Some _)
    then obtain m where "procs m = Returned (Ok h)" using assms(1) p(1,2) by (auto simp: entries_moved_def)
    then show ?thesis using assms(2) by (intro exI [of _ m]) auto
  qed
qed

lemma race_moved:
  assumes "race cr self blobs F0 s" and "hex_law cr" and "sane F0"
    and "\<And>i j. cr_sha256 cr (blobs i) = cr_sha256 cr (blobs j) \<Longrightarrow> blobs i = blobs j"
  shows "entries_moved cr self F0 s"
  using assms(1)
proof induction
  case start
  show ?case by (auto simp: entries_moved_def view_def)
next
  case (operation procs F i st F')
  have at: "on_course cr self F0 F (busy procs) (blobs i) (procs i)" and sane: "sane F"
    using race_orderly [OF operation.hyps(1) assms(2-4)] by (simp_all add: orderly_def)
  show ?case
  proof (rule entries_movedI [OF operation.IH])
    fix h p assume p: "path_for cr self h = Ok p" "fi_names F' p \<noteq> None" "fi_names F p = None"
    show "st = Returned (Ok h)"
    proof (cases "procs i")
      case (Absent q)
      then obtain k where "fs_create (tmp_of q) F = (k, F')" "path_for cr self (cr_sha256 cr (blobs i)) = Ok q"
        using operation.hyps(2) at by (auto simp: put_step_def on_course_def Let_def split: prod.splits)
      then show ?thesis using p fs_create_file(1) [OF sane] tmp_not_stored by (metis fun_upd_apply)
    next
      case (Written q)
      then have q: "path_for cr self (cr_sha256 cr (blobs i)) = Ok q" using at by (simp add: on_course_def)
      from Written p(2,3) operation.hyps(2) have "p = q" "st = Returned (Ok (cr_sha256 cr (blobs i)))"
        by (auto simp: put_step_def fs_move_def Let_def split: option.splits if_splits)
      then show ?thesis using path_for_inj [OF assms(2) p(1)] q by simp
    qed (use operation.hyps(2) p(2,3) in
      \<open>auto simp: put_step_def write_all_def Let_def split: sum.splits if_splits\<close>)
  qed (use operation.hyps(2) in \<open>simp add: put_step_def Let_def\<close>)
qed

section \<open>Properties\<close>

text \<open>
  C39: what puts that run at the same time do to the store. However the operations of any number
  of puts interleave, and wherever some of them stop, what could be read at the start can still
  be read; an entry is damaged only if it was at the start, or if one put of its hash has returned
  while another has opened the shared temporary file and not yet written it; and a put that has
  returned, with its hash or with the error that its temporary file is gone, has left a sound
  entry under its hash but for these two cases. So a single put of a hash shows no damaged entry
  at any moment. Two blobs of one hash are excluded.
\<close>

theorem concurrent_puts_store:
  assumes "race cr self blobs F0 (procs, F)" and "hex_law cr" and "sane F0"
    and "\<And>i j. cr_sha256 cr (blobs i) = cr_sha256 cr (blobs j) \<Longrightarrow> blobs i = blobs j"
  shows "(\<forall>h x. stored cr self (flat F0) h = Some x \<longrightarrow> stored cr self (flat F) h = Some x) \<and>
    (\<forall>h. corrupted cr self (flat F) h \<longrightarrow> corrupted cr self (flat F0) h \<or>
       (\<exists>i j p k. procs i = Returned (Ok h) \<and> procs j = Opened p k \<and> cr_sha256 cr (blobs j) = h)) \<and>
    (\<forall>i r. procs i = Returned r \<longrightarrow> (r = Ok (cr_sha256 cr (blobs i)) \<or> r = Err (Io ''not found'')) \<and>
       (stored cr self (flat F) (cr_sha256 cr (blobs i)) \<noteq> None \<or>
        corrupted cr self (flat F0) (cr_sha256 cr (blobs i)) \<or>
        (\<exists>j p k. procs j = Opened p k \<and> cr_sha256 cr (blobs j) = cr_sha256 cr (blobs i))))"
proof -
  have moved: "entries_moved cr self F0 (procs, F)" using race_moved [OF assms] .
  have sound: "sound_entries cr self F0 F (busy procs)"
    and at: "\<And>i. on_course cr self F0 F (busy procs) (blobs i) (procs i)"
    using race_orderly [OF assms] by (auto simp: orderly_def)
  have damaged: "corrupted cr self (flat F0) h \<or>
      (\<exists>i j p k. procs i = Returned (Ok h) \<and> procs j = Opened p k \<and> cr_sha256 cr (blobs j) = h)"
    if broken: "corrupted cr self (flat F) h" for h
  proof -
    obtain p i where p: "path_for cr self h = Ok p" "fi_names F p = Some i" "cr_sha256 cr (fi_data F i) \<noteq> h"
      using broken by (auto simp: corrupted_def view_def)
    show ?thesis
    proof (cases "view F0 p")
      case None
      then obtain j where j: "procs j = Opened p i"
        using sound_entriesD(2) [OF sound p(1) _ p(2)] p(3) by (auto simp: busy_def)
      then have "path_for cr self (cr_sha256 cr (blobs j)) = Ok p" using at [of j] by (simp add: on_course_def)
      moreover obtain m where "procs m = Returned (Ok h)"
        using moved p(1,2) None by (auto simp: entries_moved_def)
      ultimately show ?thesis using j path_for_inj [OF assms(2) p(1)] by blast
    next
      case (Some x)
      then have "x = fi_data F i" using sound_entriesD(1) [OF sound p(1)] p(2) by (auto simp: view_def)
      then show ?thesis using Some p(1,3) by (auto simp: corrupted_def)
    qed
  qed
  moreover have "stored cr self (flat F0) h = Some x \<Longrightarrow> stored cr self (flat F) h = Some x" for h x
    using sound_entriesD(1) [OF sound] by (auto simp: stored_Some)
  moreover have "(r = Ok (cr_sha256 cr (blobs i)) \<or> r = Err (Io ''not found'')) \<and>
      (stored cr self (flat F) (cr_sha256 cr (blobs i)) \<noteq> None \<or> corrupted cr self (flat F) (cr_sha256 cr (blobs i)))"
    if "procs i = Returned r" for i r
    using at [of i] that by (auto simp: on_course_def corrupted_def stored_Some view_def)
  ultimately show ?thesis by blast
qed

section \<open>Two puts of one blob\<close>

definition no_files :: FileSystem where
  "no_files = \<lparr>fi_names = Map.empty, fi_data = (\<lambda>_. []), fi_next = 0\<rparr>"

definition lab_path :: string where
  "lab_path = ''blobs/'' @ hex_text (replicate 32 1)"

lemma lab_path_for: "path_for lab_crates lab_store (cr_sha256 lab_crates lab_blob) = Ok lab_path"
  by (simp add: path_for_hex lab_hex_law) (simp add: lab_crates_def lab_store_def lab_path_def)

text \<open>A run given by the order in which the processes take their operations.\<close>

fun schedule :: "Crates \<Rightarrow> BlobStore \<Rightarrow> (nat \<Rightarrow> u8 list) \<Rightarrow> nat list \<Rightarrow> racers \<Rightarrow> racers" where
  "schedule cr self blobs [] s = s"
| "schedule cr self blobs (i # is) (procs, F) =
     (case put_step cr self (blobs i) (procs i) F of (st, F') \<Rightarrow> schedule cr self blobs is (procs(i := st), F'))"

lemma schedule_race:
  assumes "race cr self blobs F0 s"
  shows "race cr self blobs F0 (schedule cr self blobs is s)"
  using assms
proof (induction "is" arbitrary: s)
  case (Cons i "is")
  then show ?case by (cases s) (auto split: prod.splits intro!: Cons.IH race.operation)
qed simp

abbreviation lab_race :: "nat list \<Rightarrow> racers" where
  "lab_race is \<equiv> schedule lab_crates lab_store (\<lambda>_. lab_blob) is (\<lambda>_. Entered, no_files)"

lemma lab_steps:
  "put_step lab_crates lab_store lab_blob Entered F
     = (if fi_names F lab_path = None then Absent lab_path else Returned (Ok (cr_sha256 lab_crates lab_blob)), F)"
  "put_step lab_crates lab_store lab_blob (Absent p) F
     = (Opened p (fst (fs_create (tmp_of p) F)), snd (fs_create (tmp_of p) F))"
  "put_step lab_crates lab_store lab_blob (Opened p k) F = (Written p, write_all k lab_blob F)"
  "put_step lab_crates lab_store lab_blob (Written p) F = (case fs_move (tmp_of p) p F of
     (Err e, F') \<Rightarrow> (Returned (Err e), F') | (Ok _, F') \<Rightarrow> (Returned (Ok (cr_sha256 lab_crates lab_blob)), F'))"
  using lab_path_for by (simp_all add: put_step_def Let_def split: prod.split)

text \<open>The slower of two puts that both went past the test and both wrote finds its temporary file
  gone: it returns an error although the blob is stored.\<close>

lemma race_loses_rename:
  assumes "lab_race [0, 1, 0, 1, 0, 1, 0, 1] = (procs, F)"
  shows "procs 0 = Returned (Ok (cr_sha256 lab_crates lab_blob))" "procs 1 = Returned (Err (Io ''not found''))"
  using assms by (auto simp: lab_steps no_files_def fs_create_def write_all_def fs_move_def tmp_of_def)

text \<open>If the second put has opened the shared file when the first one moves it, the first returns
  the hash of a blob over an empty entry; if the second then dies, the entry stays so.\<close>

lemma race_damages:
  assumes "lab_race [0, 1, 0, 0, 1, 0] = (procs, F)"
  shows "procs 0 = Returned (Ok (cr_sha256 lab_crates lab_blob))"
    "view F lab_path = Some []" "corrupted lab_crates lab_store (flat F) (cr_sha256 lab_crates lab_blob)"
proof -
  show "procs 0 = Returned (Ok (cr_sha256 lab_crates lab_blob))" and empty: "view F lab_path = Some []"
    using assms by (auto simp: lab_steps no_files_def fs_create_def write_all_def fs_move_def tmp_of_def view_def)
  have "cr_sha256 lab_crates [] \<noteq> cr_sha256 lab_crates lab_blob" by (simp add: lab_crates_def lab_blob_def)
  then show "corrupted lab_crates lab_store (flat F) (cr_sha256 lab_crates lab_blob)"
    using lab_path_for empty by (auto simp: corrupted_def)
qed

theorem concurrent_puts_store_witness:
  "stored lab_crates lab_store (flat (snd (lab_race [0, 1, 0, 1, 0, 1, 0, 1]))) (cr_sha256 lab_crates lab_blob) \<noteq> None"
proof -
  obtain procs F where run: "lab_race [0, 1, 0, 1, 0, 1, 0, 1] = (procs, F)" by fastforce
  have "race lab_crates lab_store (\<lambda>_. lab_blob) no_files (procs, F)"
    using schedule_race [OF race.start] run by metis
  moreover have "sane no_files" by (simp add: sane_def no_files_def)
  ultimately have "\<forall>i r. procs i = Returned r \<longrightarrow> (r = Ok (cr_sha256 lab_crates lab_blob) \<or> r = Err (Io ''not found'')) \<and>
       (stored lab_crates lab_store (flat F) (cr_sha256 lab_crates lab_blob) \<noteq> None \<or>
        corrupted lab_crates lab_store (flat no_files) (cr_sha256 lab_crates lab_blob) \<or>
        (\<exists>j p k. procs j = Opened p k \<and> cr_sha256 lab_crates lab_blob = cr_sha256 lab_crates lab_blob))"
    using concurrent_puts_store [OF _ lab_hex_law, of lab_store "\<lambda>_. lab_blob" no_files procs F] by blast
  moreover have "\<not> corrupted lab_crates lab_store (flat no_files) h" for h
    by (simp add: corrupted_def view_def no_files_def)
  moreover have "procs j \<noteq> Opened p k" for j p k
    using run by (auto simp: lab_steps no_files_def fs_create_def write_all_def fs_move_def tmp_of_def split: if_splits)
  ultimately show ?thesis using race_loses_rename(1) [OF run] run by auto
qed

end
