(* ===== verification/Spec2Isabelle.thy ===== *)
theory Spec2Isabelle
  imports Bootstrap Recovery KeySeparation Replay Reports Addresses BlobRace
begin

text \<open>
  A model of the confidential token lab: a Solana program that keeps encrypted balances, the worker
  that evaluates a policy on them under fully homomorphic encryption, and the client that ties the
  two together. This theory imports the whole development.

  \<^bold>\<open>The program and its parts.\<close> An account of the coordinator holds the hashes of an encrypted
  balance and an encrypted limit. Its owner submits a request with the hash of an encrypted amount;
  the program locks the account, gives the request the next nonce, and stores a digest of
  everything that determines the answer (the request binding). Off chain the worker loads the
  three ciphertexts from a content-addressed store, evaluates "amount at most balance and at most
  limit", stores the encrypted answer, and signs the result binding with the operator's key. The
  finalization stands in a transaction right after a native Ed25519 verification of that signature:
  the program reads the verified message from the instructions sysvar, compares it with the result
  it computes itself, and releases the account with a new state version. A request may also be
  cancelled by its owner or expire. The client reads the accounts back through an RPC node, checks
  them against each other, prepares finalizations, and delivers them itself or through a relayer.

  \<^bold>\<open>Theories and code.\<close> In the order of the imports:
  \<^item> \<open>Prelude\<close>, \<open>Bytes\<close>: results, checked addition, machine integers, byte arrays of fixed size and
    little-endian integers, with the locales \<open>fixed_width\<close> and \<open>fixed_codec\<close>.
  \<^item> \<open>Protocol\<close>: \<open>crates/protocol\<close>, the encodings of requests, results and stored blobs.
  \<^item> \<open>CoordinatorState\<close>, \<open>Ed25519\<close>, \<open>Coordinator\<close>, \<open>Instructions\<close>:
    \<open>programs/confidential-coordinator\<close>, files \<open>state.rs\<close> and \<open>error.rs\<close>, \<open>ed25519.rs\<close>, and of
    \<open>lib.rs\<close> the nine handlers and the account constraints. \<open>process_instruction\<close> composes them
    the way Anchor does: decode the call, check the accounts, run the handler, write back. The state
    is the \<open>ledger\<close>, a map from keys to accounts; an instruction that fails writes nothing.
  \<^item> \<open>Lifecycle\<close>, \<open>Transitions\<close>, \<open>Evolution\<close>, \<open>Invariant\<close>, \<open>Scenario\<close>, \<open>Safety\<close>, \<open>Addresses\<close>,
    \<open>Progress\<close>, \<open>Replay\<close>: what the handlers do, as equivalences; the abstract step relation \<open>transition\<close> that
    every successful instruction refines; how accounts evolve; the invariant of reachable ledgers; a
    concrete run; and the properties of the program.
  \<^item> \<open>BlobStore\<close>, \<open>BlobRace\<close>, \<open>Worker\<close>, \<open>WorkerFiles\<close>: \<open>crates/fhe-worker\<close>, the store over a disk
    whose operations may fail at any point, its puts cut into operations that interleave, keys and
    evaluation, the request and result files, and the command \<open>bin/fhe-worker.rs\<close>.
  \<^item> \<open>Client\<close>, \<open>Lab\<close>, \<open>Demo\<close>: \<open>crates/client/src/lib.rs\<close>, the instructions, the data directory,
    and the demo and measurements. \<open>LabMain\<close>: \<open>main.rs\<close>.
  \<^item> \<open>Decode\<close>, \<open>Rpc\<close>, \<open>Finalizer\<close> with \<open>Reports\<close>, \<open>Commands\<close>: \<open>crates/client/src/devnet\<close>, files
    \<open>args.rs\<close> and \<open>decode.rs\<close>, \<open>rpc.rs\<close>, \<open>finalize.rs\<close> and \<open>state.rs\<close>, \<open>commands.rs\<close>. \<open>Reads\<close>: what
    a fetch of three accounts sees while the chain goes on.
  \<^item> \<open>Polling\<close>, \<open>Relayer\<close>: \<open>crates/client/src/relayer\<close>.
  \<^item> \<open>ClientScenario\<close>, \<open>Settlement\<close>, \<open>EndToEnd\<close>, \<open>CommandScenario\<close>, \<open>Submission\<close>, \<open>LabStore\<close>,
    \<open>LabScenario\<close>, \<open>DemoRun\<close>, \<open>Session\<close>, \<open>DevnetSession\<close>, \<open>Bootstrap\<close>, \<open>Recovery\<close>,
    \<open>KeySeparation\<close>: the parts together, and concrete instances of all parameters in which every
    hypothesis of the properties holds.

  \<^bold>\<open>How the code is read.\<close> A struct is a record whose fields carry a prefix of their type, an enum
  a datatype; \<open>u16\<close>, \<open>u32\<close>, \<open>u64\<close> are words, with \<open>checked_add\<close> where the source checks and a
  wrapping sum where it does not. \<open>Result\<close> is a sum, \<open>?\<close> is \<open>and_then\<close>; computations over the disk
  or the network are functions of their state, sequenced by \<open>wbind\<close> and \<open>nbind\<close>. An error of the
  client is the constructor of the place that made it, with the texts that callers can tell apart.
  A panic (\<open>expect\<close>) is an error or \<open>None\<close>.

  \<^bold>\<open>Parameters.\<close> What lies outside the repository is an argument: \<open>Runtime\<close> (SHA-256, address
  derivation, the generated decoder), \<open>Crates\<close> (SHA-256, hex), \<open>Sdk\<close> (instruction data, addresses
  and their text, Borsh, signatures), \<open>Tfhe\<close>, \<open>Host\<close> and \<open>Keys\<close> (keypairs), \<open>Json\<close>, \<open>CliJson\<close>,
  \<open>Jsons\<close> and \<open>Parsers\<close> (JSON), \<open>Http\<close>, \<open>Node\<close>, \<open>World\<close> (network, clock, sleep), \<open>Txs\<close>, \<open>Svm\<close>
  (LiteSVM). The laws the properties use are named: \<open>hex_law\<close> (decoding inverts encoding),
  \<open>sdk_law\<close> (likewise for calls and addresses, and the layout of an Ed25519 instruction),
  \<open>signing_law\<close>, \<open>key_law\<close>, \<open>params_law\<close> and \<open>keypair_law\<close> (files read back as written), \<open>tfhe_law\<close> (comparisons decrypt to the comparison), \<open>serial_law\<close>, \<open>clock_law\<close> and
  \<open>node_clock\<close> (time does not run backwards), \<open>rpc_shows\<close> (a node that reports the ledger) and
  \<open>reads_over\<close> (one that is asked at three moments of a history), \<open>svm_law\<close> (a transaction that succeeds ran the
  program), \<open>program_world\<close> (so did one the network confirmed, at some moment while it was under way). That the hash does not collide is
  assumed only on the few values a statement is about.

  \<^bold>\<open>What the lemmas show.\<close> For the program: the accounts stay consistent, with at most one pending
  request per account, nonces that identify requests, finished requests that never change, and
  digests that are those of the stored fields; a finalization needs the current operator's signature
  on exactly the stored result, and what an operator has signed settles one request, once; every
  pending request can be released, and no counter overflows on
  the way; and an address holds only the account whose seeds it was derived from. The locale \<open>version_lock\<close> states the contract of the account's lock and \<open>account_lock\<close>
  interprets it on the program. For the encodings: they are injective, requests and results differ in
  the separator they start with (locale \<open>separated_messages\<close>, interpreted as \<open>messages\<close>), and the
  stored header parses exactly. For the store (locale \<open>content_store\<close>, interpreted as \<open>blob_store\<close>):
  what is put is read back, unless the entry was there before or is damaged, which put does not
  look at; whatever fails in between leaves the earlier entries readable; puts that run at the
  same time leave every entry sound but where one has opened the temporary file they share
  (\<open>race_damages\<close> shows this exception). For the worker: it
  computes the policy, refuses a foreign key, and always answers under a disk without faults. For
  the client: it accepts every request the program made unless that is closed while it reads, its
  checks before a submission are the program's and a submission built from a stale account never
  lands, what it prepared lands exactly when the program's conditions hold, it reports only what is
  finalized, and its waiting ends. Together: a request that the worker evaluated settles
  with a ciphertext that decrypts to the policy, a demo that ends well has done this, and the lab's
  commands, from the set-up to the decryption, print the policy, also when the account is created,
  the request submitted and its result finalized by the devnet commands on the chain. What the
  set-up made is what \<open>initialize\<close> publishes, and a lost request file is recovered from the chain
  as \<open>submit\<close> wrote it.
  The roles are separated: a command that commutes with replacing a file (\<open>commutes\<close>,
  \<open>with_file\<close>) does not depend on it, and so evaluating needs no client key and delivering a result
  no operator key.

  \<^bold>\<open>Bounds and fuel.\<close> The two loops that ask and sleep share \<open>poll_until\<close>, whose fuel counts rounds.
  The confirmation of a transaction has a deadline of 90 seconds and sleeps one second per round,
  so 91 rounds suffice (\<open>sending_ends\<close>); the wait for a relayer's job needs one round more than the
  timeout holds intervals (\<open>polling_ends\<close>). Nothing else in the model needs fuel.

  \<^bold>\<open>Not modelled.\<close> What commands print, apart from \<open>inspect\<close>, the report of a relayed finalization
  and the values the lab's commands answer with; lamports, rent and compute units on chain; the time
  and hardware lines of the measurements; characters beyond the first 256 code points in texts that
  are trimmed. The puts of a race do not fail, and a write to an open file happens at once. The
  layout of accounts and of instruction data is generated by Anchor: decoders and encoders are
  parameters. The tests are left out: they exercise the code modelled here.

  \<^bold>\<open>Open ends.\<close> The demo adds the slot to the lifetime without a check; the model wraps, a debug build
  would panic. The cached state file under commands that run at the same time would be the next step.
\<close>

end
